(* ===== verification/Prelude.thy ===== *)
theory Prelude
  imports Complex_Main "HOL-Library.Word" "HOL-Library.AList" "HOL-Library.Sublist"
    "HOL-Library.List_Lexorder" "HOL-Library.Char_ord"
begin

text \<open>
  Shared vocabulary of the development: the Go values, library calls and conventions that every
  component of the daemon uses.
  \<^item> \<open>go_error\<close> has one constructor per sentinel error variable of the group, privacy, messaging and session
    packages; \<open>ErrVar\<close> is a sentinel of another package, by its name; \<open>ErrText\<close> is an anonymous
    \<open>errors.New\<close>, \<open>ErrJoin\<close> is \<open>errors.Join\<close>.
  \<^item> A fallible Go function returns \<open>go_error + 'a\<close> (\<open>Inl\<close> is the error); \<open>bindE\<close> is the
    \<open>if err != nil { return err }\<close> idiom.
  \<^item> A Go map is an association list with distinct keys. The list order is the (arbitrary) iteration
    order of \<open>range\<close>; theorems about a map are stated for every such order. The nil map is the
    empty list.
  \<^item> A Go string is its sequence of bytes. \<open>TrimSpace\<close> removes the UTF-8 encodings of exactly the
    code points of \<open>unicode.IsSpace\<close>. \<open>ToLower\<close> maps the ASCII letters; bytes above 127 are kept.
  \<^item> \<open>time.Time\<close> is an instant counted in nanoseconds, with the zero time at 0; \<open>UTC()\<close> does
    not change the instant. \<open>time.Duration\<close> is a count of nanoseconds.
\<close>

named_theorems go_map_simps \<open>lookups and updates of Go maps\<close>
named_theorems result_simps \<open>inversion rules for results\<close>

type_synonym gotime = int
type_synonym duration = int
type_synonym bytes = "8 word list"
type_synonym ('k, 'v) gomap = "('k \<times> 'v) list"

datatype go_error =
    ErrInvalidGroupID | ErrInvalidGroupTitle | ErrInvalidGroupMemberID | ErrInvalidGroupMemberRole
  | ErrInvalidGroupMemberStatus | ErrInvalidGroupMemberStatusTransition
  | ErrGroupNotFound | ErrGroupMembershipNotFound | ErrGroupPermissionDenied | ErrGroupCannotInviteSelf
  | ErrGroupMemberBlocked | ErrGroupSenderBlocked | ErrInvalidGroupMemberState
  | ErrGroupRateLimitExceeded | ErrGroupMemberLimitExceeded | ErrGroupPendingInvitesLimitExceeded
  | ErrInvalidGroupMessageContent
  | ErrInvalidGroupEventID | ErrInvalidGroupEventType | ErrInvalidGroupEventVersion
  | ErrInvalidGroupEventActorID | ErrInvalidGroupEventPayload | ErrOutOfOrderGroupEvent
  | ErrInvalidIdentityID
  | ErrInvalidMessagePrivacyMode | ErrInvalidStorageProtectionMode | ErrInvalidContentRetentionMode
  | ErrInvalidTTLSeconds | ErrInvalidStoragePolicyScope | ErrInvalidStoragePolicyScopeID
  | ErrInfiniteTTLRequiresPinned
  | ErrInboundBlockedSender | ErrInboundUnknownContactsOnly | ErrInboundUnknownMessageReq
  | ErrInboundRejected
  | ErrMessageIDConflict | ErrUnsupportedStorageSchema
  | ErrMessageRequestNotFound
  | ErrOutboundSessionRequired | ErrInvalidGroupWirePayload
  | ErrInvalidPeerKey | ErrInvalidContact | ErrSessionNotFound | ErrReplayDetected | ErrInvalidChainIndex
  | ErrVar string
  | ErrText string
  | CategorizedError string go_error
  | ErrJoin go_error go_error

section \<open>Results\<close>

definition bindE :: "'e + 'a \<Rightarrow> ('a \<Rightarrow> 'e + 'b) \<Rightarrow> 'e + 'b" where
  "bindE r k = (case r of Inl e \<Rightarrow> Inl e | Inr x \<Rightarrow> k x)"

fun checkE :: "'e option \<Rightarrow> 'e + 'b \<Rightarrow> 'e + 'b" where
  "checkE None r = r"
| "checkE (Some e) r = Inl e"

lemma bindE_simps [simp]: "bindE (Inl e) k = Inl e" "bindE (Inr x) k = k x"
  by (simp_all add: bindE_def)

lemma bindE_eq_Inr [result_simps]: "bindE r k = Inr y \<longleftrightarrow> (\<exists>x. r = Inr x \<and> k x = Inr y)"
  by (cases r) simp_all

lemma bindE_eq_Inl [result_simps]: "bindE r k = Inl e \<longleftrightarrow> r = Inl e \<or> (\<exists>x. r = Inr x \<and> k x = Inl e)"
  by (cases r) auto

lemma checkE_eq_Inr [result_simps]: "checkE c r = Inr y \<longleftrightarrow> c = None \<and> r = Inr y"
  by (cases c) simp_all

lemma bindE_split: "P (bindE r k) \<longleftrightarrow> (\<forall>e. r = Inl e \<longrightarrow> P (Inl e)) \<and> (\<forall>x. r = Inr x \<longrightarrow> P (k x))"
  by (cases r) simp_all

lemma bindE_split_asm: "P (bindE r k) \<longleftrightarrow> \<not> ((\<exists>e. r = Inl e \<and> \<not> P (Inl e)) \<or> (\<exists>x. r = Inr x \<and> \<not> P (k x)))"
  by (cases r) simp_all

lemmas bindE_splits = bindE_split bindE_split_asm

text \<open>The same idiom in a function that also returns the state \<open>w\<close> after the call.\<close>

definition orFail :: "'e + 'a \<Rightarrow> 'w \<Rightarrow> ('a \<Rightarrow> ('e + 'b) \<times> 'w) \<Rightarrow> ('e + 'b) \<times> 'w" where
  "orFail r w k = (case r of Inl e \<Rightarrow> (Inl e, w) | Inr x \<Rightarrow> k x)"

lemma orFail_simps [simp]: "orFail (Inl e) w k = (Inl e, w)" "orFail (Inr x) w k = k x"
  by (simp_all add: orFail_def)

lemma orFail_split: "P (orFail r w k) \<longleftrightarrow> (\<forall>e. r = Inl e \<longrightarrow> P (Inl e, w)) \<and> (\<forall>x. r = Inr x \<longrightarrow> P (k x))"
  by (cases r) simp_all

lemma orFail_split_asm:
  "P (orFail r w k) \<longleftrightarrow> \<not> ((\<exists>e. r = Inl e \<and> \<not> P (Inl e, w)) \<or> (\<exists>x. r = Inr x \<and> \<not> P (k x)))"
  by (cases r) simp_all

lemmas orFail_splits = orFail_split orFail_split_asm

section \<open>Go maps\<close>

abbreviation lookup :: "('k, 'v) gomap \<Rightarrow> 'k \<Rightarrow> 'v option" where
  "lookup m k \<equiv> map_of m k"

abbreviation put :: "'k \<Rightarrow> 'v \<Rightarrow> ('k, 'v) gomap \<Rightarrow> ('k, 'v) gomap" where
  "put \<equiv> AList.update"

abbreviation del :: "'k \<Rightarrow> ('k, 'v) gomap \<Rightarrow> ('k, 'v) gomap" where
  "del \<equiv> AList.delete"

abbreviation keys_distinct :: "('k, 'v) gomap \<Rightarrow> bool" where
  "keys_distinct m \<equiv> distinct (map fst m)"

declare map_of_eq_Some_iff [simp del]

lemma lookup_put [simp, go_map_simps]: "lookup (put k v m) k' = (if k' = k then Some v else lookup m k')"
  by (simp add: update_conv')

lemma lookup_del [simp, go_map_simps]: "lookup (del k m) k' = (if k' = k then None else lookup m k')"
  by (simp add: delete_conv')

lemma keys_distinct_put [simp]: "keys_distinct m \<Longrightarrow> keys_distinct (put k v m)"
  by (rule distinct_update)

lemma keys_distinct_del [simp]: "keys_distinct m \<Longrightarrow> keys_distinct (del k m)"
  by (rule distinct_delete)

lemma put_same [simp]: "lookup m k = Some v \<Longrightarrow> put k v m = m"
  by (induction m) (auto split: if_splits)

lemma put_put [simp]: "put k v (put k w m) = put k v m"
  by (induction m) auto

lemma del_put_fresh [simp]: "lookup m k = None \<Longrightarrow> del k (put k v m) = m"
  by (induction m) (auto simp: AList.delete_eq split: if_splits)

lemma put_fresh: "lookup m k = None \<Longrightarrow> put k v m = m @ [(k, v)]"
  by (induction m) (auto split: if_splits)

lemma lookup_mem: "lookup m k = Some v \<Longrightarrow> (k, v) \<in> set m"
  by (rule map_of_SomeD)

lemma lookup_iff_mem: "keys_distinct m \<Longrightarrow> lookup m k = Some v \<longleftrightarrow> (k, v) \<in> set m"
  by (rule map_of_eq_Some_iff)

lemma set_put_subset: "set (put k v m) \<subseteq> insert (k, v) (set m)"
  by (induction m) auto

lemma set_put: "keys_distinct m \<Longrightarrow> set (put k v m) = insert (k, v) {e \<in> set m. fst e \<noteq> k}"
  by (induction m) (auto simp: image_iff)

lemma set_del: "set (del k m) = {e \<in> set m. fst e \<noteq> k}"
  by (auto simp: AList.delete_eq)

lemma lookup_filter:
  "keys_distinct m \<Longrightarrow> lookup (filter (\<lambda>(k, v). P v) m) k =
     (case lookup m k of Some v \<Rightarrow> if P v then Some v else None | None \<Rightarrow> None)"
  by (induction m) (auto simp: map_of_eq_None_iff image_iff split: option.splits dest: map_of_SomeD)

lemma lookup_filter_key: "lookup (filter (\<lambda>(k, v). P k) m) k = (if P k then lookup m k else None)"
  by (induction m) auto

section \<open>Strings\<close>

text \<open>
  \<open>strip_front ws s\<close> removes words of \<open>ws\<close> from the front of \<open>s\<close> as long as one is a prefix of what
  is left; \<open>strip_back\<close> does the same at the end.
\<close>

function strip_front :: "'a list list \<Rightarrow> 'a list \<Rightarrow> 'a list" where
  "strip_front ws s =
     (case find (\<lambda>w. w \<noteq> [] \<and> prefix w s) ws of
        None \<Rightarrow> s
      | Some w \<Rightarrow> strip_front ws (drop (length w) s))"
  by pat_completeness auto
termination
  by (relation "measure (\<lambda>(ws, s). length s)")
    (auto simp: find_Some_iff prefix_def)

declare strip_front.simps [simp del]

definition strip_back :: "'a list list \<Rightarrow> 'a list \<Rightarrow> 'a list" where
  "strip_back ws s = rev (strip_front (map rev ws) (rev s))"

text \<open>The UTF-8 encodings of the code points for which \<open>unicode.IsSpace\<close> holds.\<close>

definition go_spaces :: "string list" where
  "go_spaces =
    [[CHR 0x09], [CHR 0x0A], [CHR 0x0B], [CHR 0x0C], [CHR 0x0D], [CHR 0x20],
     [CHR 0xC2, CHR 0x85], [CHR 0xC2, CHR 0xA0],
     [CHR 0xE1, CHR 0x9A, CHR 0x80],
     [CHR 0xE2, CHR 0x80, CHR 0x80], [CHR 0xE2, CHR 0x80, CHR 0x81], [CHR 0xE2, CHR 0x80, CHR 0x82],
     [CHR 0xE2, CHR 0x80, CHR 0x83], [CHR 0xE2, CHR 0x80, CHR 0x84], [CHR 0xE2, CHR 0x80, CHR 0x85],
     [CHR 0xE2, CHR 0x80, CHR 0x86], [CHR 0xE2, CHR 0x80, CHR 0x87], [CHR 0xE2, CHR 0x80, CHR 0x88],
     [CHR 0xE2, CHR 0x80, CHR 0x89], [CHR 0xE2, CHR 0x80, CHR 0x8A],
     [CHR 0xE2, CHR 0x80, CHR 0xA8], [CHR 0xE2, CHR 0x80, CHR 0xA9], [CHR 0xE2, CHR 0x80, CHR 0xAF],
     [CHR 0xE2, CHR 0x81, CHR 0x9F], [CHR 0xE3, CHR 0x80, CHR 0x80]]"

definition TrimSpace :: "string \<Rightarrow> string" where
  "TrimSpace s = strip_back go_spaces (strip_front go_spaces s)"

definition lower_char :: "char \<Rightarrow> char" where
  "lower_char c = (if CHR ''A'' \<le> c \<and> c \<le> CHR ''Z'' then char_of (of_char c + (32 :: nat)) else c)"

definition ToLower :: "string \<Rightarrow> string" where
  "ToLower s = map lower_char s"

abbreviation HasPrefix :: "string \<Rightarrow> string \<Rightarrow> bool" where
  "HasPrefix s p \<equiv> prefix p s"

abbreviation blank :: "string \<Rightarrow> bool" where
  "blank s \<equiv> TrimSpace s = []"

abbreviation trimmed :: "string \<Rightarrow> bool" where
  "trimmed s \<equiv> TrimSpace s = s"

definition no_front :: "'a list list \<Rightarrow> 'a list \<Rightarrow> bool" where
  "no_front ws s \<longleftrightarrow> (\<forall>w \<in> set ws. w \<noteq> [] \<longrightarrow> \<not> prefix w s)"

lemma strip_front_id: "no_front ws s \<Longrightarrow> strip_front ws s = s"
  by (subst strip_front.simps) (auto simp: no_front_def find_Some_iff split: option.split)

lemma no_front_strip_front: "no_front ws (strip_front ws s)"
proof (induction ws s rule: strip_front.induct)
  case (1 ws s)
  show ?case
  proof (cases "find (\<lambda>w. w \<noteq> [] \<and> prefix w s) ws")
    case None
    then have "strip_front ws s = s" by (subst strip_front.simps) simp
    with None show ?thesis by (auto simp: find_None_iff no_front_def)
  next
    case (Some w)
    with 1 show ?thesis by (subst strip_front.simps) simp
  qed
qed

lemma suffix_strip_front: "suffix (strip_front ws s) s"
proof (induction ws s rule: strip_front.induct)
  case (1 ws s)
  show ?case
  proof (cases "find (\<lambda>w. w \<noteq> [] \<and> prefix w s) ws")
    case None
    then show ?thesis by (subst strip_front.simps) simp
  next
    case (Some w)
    from 1 [OF Some] have "suffix (strip_front ws (drop (length w) s)) (drop (length w) s)" .
    also have "suffix (drop (length w) s) s" by (rule suffix_drop)
    finally show ?thesis using Some by (subst strip_front.simps) simp
  qed
qed

lemma prefix_strip_back: "prefix (strip_back ws s) s"
  using suffix_strip_front [of "map rev ws" "rev s"]
  by (simp add: strip_back_def suffix_to_prefix)

lemma no_front_prefix: "no_front ws s \<Longrightarrow> prefix u s \<Longrightarrow> no_front ws u"
  by (auto simp: no_front_def dest: prefix_order.order_trans)

lemma strip_back_id: "no_front (map rev ws) (rev s) \<Longrightarrow> strip_back ws s = s"
  by (simp add: strip_back_def strip_front_id)

lemma TrimSpace_idem [simp]: "TrimSpace (TrimSpace s) = TrimSpace s"
proof -
  let ?t = "strip_front go_spaces s"
  let ?u = "strip_back go_spaces ?t"
  have "no_front go_spaces ?u"
    using no_front_strip_front prefix_strip_back by (rule no_front_prefix)
  then have "strip_front go_spaces ?u = ?u" by (rule strip_front_id)
  moreover have "strip_back go_spaces ?u = ?u"
    by (rule strip_back_id) (simp add: strip_back_def no_front_strip_front)
  ultimately show ?thesis by (simp add: TrimSpace_def)
qed

lemma TrimSpace_Nil [simp]: "TrimSpace [] = []"
  by (simp add: TrimSpace_def strip_back_def strip_front_id no_front_def)

lemma ToLower_idem [simp]: "ToLower (ToLower s) = ToLower s"
proof -
  have "lower_char (lower_char c) = lower_char c" for c
    by (auto simp: lower_char_def less_eq_char_def)
  then show ?thesis by (simp add: ToLower_def)
qed

lemma set_TrimSpace: "set (TrimSpace s) \<subseteq> set s"
  using set_mono_prefix [OF prefix_strip_back [of go_spaces "strip_front go_spaces s"]]
    set_mono_suffix [OF suffix_strip_front [of go_spaces s]]
  by (simp add: TrimSpace_def)

lemma ToLower_fixed: "ToLower s = s \<longleftrightarrow> (\<forall>c \<in> set s. lower_char c = c)"
  by (induction s) (auto simp: ToLower_def)

lemma ToLower_TrimSpace [simp]: "ToLower (TrimSpace (ToLower s)) = TrimSpace (ToLower s)"
  using set_TrimSpace [of "ToLower s"] ToLower_idem [of s] unfolding ToLower_fixed by blast

lemma ToLower_append: "ToLower (s @ t) = ToLower s @ ToLower t"
  by (simp add: ToLower_def)

lemma strip_front_keeps:
  "c \<in> set s \<Longrightarrow> \<forall>w \<in> set ws. c \<notin> set w \<Longrightarrow> c \<in> set (strip_front ws s)"
proof (induction ws s rule: strip_front.induct)
  case (1 ws s)
  show ?case
  proof (cases "find (\<lambda>w. w \<noteq> [] \<and> prefix w s) ws")
    case None
    with 1 show ?thesis by (subst strip_front.simps) simp
  next
    case (Some w)
    then have "w \<in> set ws" "prefix w s" by (auto simp: find_Some_iff)
    then have "c \<in> set (drop (length w) s)" using 1(2,3) by (auto simp: prefix_def)
    with 1(1) [OF Some] 1(3) Some show ?thesis by (subst strip_front.simps) simp
  qed
qed

lemma not_blankI: "c \<in> set s \<Longrightarrow> c \<notin> \<Union> (set ` set go_spaces) \<Longrightarrow> \<not> blank s"
  using strip_front_keeps [of c s go_spaces] strip_front_keeps [of c "rev (strip_front go_spaces s)" "map rev go_spaces"]
  by (auto simp: TrimSpace_def strip_back_def)

text \<open>
  A string whose first and last bytes occur in no encoding of a white-space code point is trimmed:
  this evaluates \<open>TrimSpace\<close> on the identifiers of the examples.
\<close>

definition space_heads :: "char list" where
  "space_heads = [CHR 0x09, CHR 0x0A, CHR 0x0B, CHR 0x0C, CHR 0x0D, CHR 0x20, CHR 0xC2, CHR 0xE1, CHR 0xE2, CHR 0xE3]"

definition space_lasts :: "char list" where
  "space_lasts = [CHR 0x09, CHR 0x0A, CHR 0x0B, CHR 0x0C, CHR 0x0D, CHR 0x20, CHR 0x80, CHR 0x81, CHR 0x82,
     CHR 0x83, CHR 0x84, CHR 0x85, CHR 0x86, CHR 0x87, CHR 0x88, CHR 0x89, CHR 0x8A, CHR 0x9F,
     CHR 0xA0, CHR 0xA8, CHR 0xA9, CHR 0xAF]"

lemma trimmedI:
  assumes "c \<notin> set space_heads" and "last (c # s) \<notin> set space_lasts"
  shows "TrimSpace (c # s) = c # s"
proof -
  have front: "no_front go_spaces (c # s)"
    using assms(1) by (auto simp: no_front_def go_spaces_def space_heads_def)
  obtain t d where d: "c # s = t @ [d]" by (metis append_butlast_last_id list.distinct(1))
  with assms(2) have "d \<notin> set space_lasts" by (metis last_snoc)
  then have "no_front (map rev go_spaces) (rev (c # s))"
    unfolding d by (auto simp: no_front_def go_spaces_def space_lasts_def)
  with front show ?thesis
    by (simp add: TrimSpace_def strip_front_id strip_back_id)
qed

section \<open>Numbers in strings\<close>

text \<open>
  \<open>strconv.Atoi\<close>: an optional sign and at least one decimal digit, with an error outside the range of
  \<open>int\<close> (64 bits).
\<close>

definition digit_value :: "char \<Rightarrow> int option" where
  "digit_value c =
     (if CHR ''0'' \<le> c \<and> c \<le> CHR ''9'' then Some (of_char c - 48) else None)"

fun digits_value :: "int \<Rightarrow> string \<Rightarrow> int option" where
  "digits_value acc [] = Some acc"
| "digits_value acc (c # cs) =
     (case digit_value c of None \<Rightarrow> None | Some d \<Rightarrow> digits_value (10 * acc + d) cs)"

definition Atoi :: "string \<Rightarrow> int option" where
  "Atoi s =
     (let sign = (if s \<noteq> [] \<and> hd s = CHR ''-'' then -1 else 1);
          body = (if s \<noteq> [] \<and> (hd s = CHR ''-'' \<or> hd s = CHR ''+'') then tl s else s)
      in if body = [] then None
         else (case digits_value 0 body of
                 None \<Rightarrow> None
               | Some v \<Rightarrow>
                   if - (2 ^ 63) \<le> sign * v \<and> sign * v < 2 ^ 63 then Some (sign * v) else None))"

section \<open>Formatting\<close>

definition bytes_of_string :: "string \<Rightarrow> bytes" where
  "bytes_of_string s = map of_char s"

definition hex_digit :: "nat \<Rightarrow> char" where
  "hex_digit n = ''0123456789abcdef'' ! n"

definition EncodeToString :: "bytes \<Rightarrow> string" where
  "EncodeToString bs = concat (map (\<lambda>b. [hex_digit (unat b div 16), hex_digit (unat b mod 16)]) bs)"

text \<open>\<open>fmt.Sprintf\<close> with \<open>%d\<close>, and \<open>UnixNano\<close>: the zero time is in the year 1.\<close>

definition digit_char :: "nat \<Rightarrow> char" where
  "digit_char d = char_of (48 + d)"

fun fmt_nat :: "nat \<Rightarrow> string" where
  "fmt_nat n = (if n < 10 then [digit_char n] else fmt_nat (n div 10) @ [digit_char (n mod 10)])"

declare fmt_nat.simps [simp del]

definition fmt_int :: "int \<Rightarrow> string" where
  "fmt_int i = (if i < 0 then ''-'' @ fmt_nat (nat (- i)) else fmt_nat (nat i))"

definition UnixNano :: "gotime \<Rightarrow> int" where
  "UnixNano t = t - 62135596800 * 1000000000"

lemma digits_value_append:
  "digits_value a (s @ t) = (case digits_value a s of None \<Rightarrow> None | Some v \<Rightarrow> digits_value v t)"
  by (induction s arbitrary: a) (auto split: option.split)

lemma digit_value_digit_char: "d < 10 \<Longrightarrow> digit_value (digit_char d) = Some (int d)"
  unfolding digit_value_def digit_char_def less_eq_char_def of_nat_of_char [symmetric, where 'a = int]
  by (simp add: of_char_of del: of_nat_of_char)

lemma digits_value_fmt_nat: "digits_value 0 (fmt_nat n) = Some (int n)"
proof (induction n rule: fmt_nat.induct)
  case (1 n)
  show ?case
  proof (cases "n < 10")
    case True
    then show ?thesis by (simp add: fmt_nat.simps digit_value_digit_char)
  next
    case False
    with 1 show ?thesis
      by (subst fmt_nat.simps) (simp add: digits_value_append digit_value_digit_char zdiv_int zmod_int)
  qed
qed

lemma fmt_nat_inject [simp]: "fmt_nat m = fmt_nat n \<longleftrightarrow> m = n"
  by (metis digits_value_fmt_nat of_nat_eq_iff option.inject)

lemma digits_fmt_nat: "c \<in> set (fmt_nat n) \<Longrightarrow> digit_value c \<noteq> None"
proof (induction n rule: fmt_nat.induct)
  case (1 n)
  then show ?case by (subst (asm) (2) fmt_nat.simps) (auto simp: digit_value_digit_char split: if_splits)
qed

text \<open>What follows the last separator can be read off.\<close>

lemma append_sep_inject:
  "c \<notin> set y \<Longrightarrow> c \<notin> set z \<Longrightarrow> a @ c # y = b @ c # z \<longleftrightarrow> a = b \<and> y = z"
proof
  assume *: "c \<notin> set y" "c \<notin> set z" "a @ c # y = b @ c # z"
  then have "rev y @ c # rev a = rev z @ c # rev b" by (metis append.assoc append_Cons rev.simps(2) rev_append rev_swap append_Nil)
  moreover have "takeWhile (\<lambda>x. x \<noteq> c) (rev y @ c # rev a) = rev y" "takeWhile (\<lambda>x. x \<noteq> c) (rev z @ c # rev b) = rev z"
    using *(1,2) by (auto simp: takeWhile_append)
  ultimately have "rev y = rev z" by metis
  with * show "a = b \<and> y = z" by simp
qed simp

end
