(* ===== verification/Replica.thy ===== *)
theory Replica
  imports Prelude
begin

text \<open>
  The contract of an event-sourced replica: a step function that applies an event, ignores one it has
  already applied, or rejects it. The locale \<open>replica\<close> states what the step promises; the delivery
  lemmas (any schedule of a log's events leaves a prefix of the log, and a schedule that contains
  the log in order leaves the whole log) are proved once here and used for the group aggregate.
\<close>

definition deliver :: "('s \<Rightarrow> 'e \<Rightarrow> ('err + bool) \<times> 's) \<Rightarrow> 's \<Rightarrow> 'e list \<Rightarrow> 's" where
  "deliver step s es = foldl (\<lambda>s e. snd (step s e)) s es"

fun applies_all :: "('s \<Rightarrow> 'e \<Rightarrow> ('err + bool) \<times> 's) \<Rightarrow> 's \<Rightarrow> 'e list \<Rightarrow> bool" where
  "applies_all step s [] = True"
| "applies_all step s (e # es) =
     ((case fst (step s e) of Inl _ \<Rightarrow> False | Inr applied \<Rightarrow> applied)
      \<and> applies_all step (snd (step s e)) es)"

lemma deliver_simps [simp]:
  "deliver step s [] = s"
  "deliver step s (e # es) = deliver step (snd (step s e)) es"
  by (simp_all add: deliver_def)

lemma deliver_append [simp]: "deliver step s (es @ fs) = deliver step (deliver step s es) fs"
  by (simp add: deliver_def)

lemma applies_all_Cons:
  "applies_all step s (e # es) \<longleftrightarrow> fst (step s e) = Inr True \<and> applies_all step (snd (step s e)) es"
  by (auto split: sum.splits)

declare applies_all.simps(2) [simp del]
declare applies_all_Cons [simp]

lemma applies_all_append [simp]:
  "applies_all step s (es @ fs) \<longleftrightarrow> applies_all step s es \<and> applies_all step (deliver step s es) fs"
  by (induction es arbitrary: s) auto

lemma applies_all_nth:
  assumes "applies_all step s evs" and "i < length evs"
  shows "fst (step (deliver step s (take i evs)) (evs ! i)) = Inr True"
    and "deliver step s (take (Suc i) evs) = snd (step (deliver step s (take i evs)) (evs ! i))"
proof -
  have evs: "evs = take i evs @ evs ! i # drop (Suc i) evs"
    using assms(2) by (rule id_take_nth_drop)
  from assms(1) have "applies_all step s (take i evs @ evs ! i # drop (Suc i) evs)"
    by (subst (asm) evs)
  then show "fst (step (deliver step s (take i evs)) (evs ! i)) = Inr True"
    by simp
  show "deliver step s (take (Suc i) evs) = snd (step (deliver step s (take i evs)) (evs ! i))"
    using assms(2) by (simp add: take_Suc_conv_app_nth)
qed

locale replica =
  fixes step :: "'s \<Rightarrow> 'e \<Rightarrow> ('err + bool) \<times> 's"
    and version :: "'s \<Rightarrow> 'v"
    and succ :: "'v \<Rightarrow> 'v"
    and ev_version :: "'e \<Rightarrow> 'v"
    and ev_id :: "'e \<Rightarrow> 'i"
    and seen :: "'s \<Rightarrow> 'i set"
  assumes rejected_same: "fst (step s e) = Inl err \<Longrightarrow> snd (step s e) = s"
    and ignored_same: "fst (step s e) = Inr False \<Longrightarrow> snd (step s e) = s"
    and applied_fresh: "fst (step s e) = Inr True \<Longrightarrow> ev_id e \<notin> seen s"
    and applied_next: "fst (step s e) = Inr True \<Longrightarrow> ev_version e = succ (version s)"
    and applied_version: "fst (step s e) = Inr True \<Longrightarrow> version (snd (step s e)) = ev_version e"
    and applied_seen: "fst (step s e) = Inr True \<Longrightarrow> seen (snd (step s e)) = insert (ev_id e) (seen s)"
begin

lemma not_applied_same: "fst (step s e) \<noteq> Inr True \<Longrightarrow> snd (step s e) = s"
  by (metis (full_types) ignored_same obj_sumE rejected_same)

lemma step_cases:
  obtains "fst (step s e) = Inr True" | "fst (step s e) \<noteq> Inr True" "snd (step s e) = s"
  using not_applied_same by blast

lemma applies_all_seen:
  "applies_all step s evs \<Longrightarrow> seen (deliver step s evs) = seen s \<union> ev_id ` set evs"
  by (induction evs arbitrary: s) (auto simp: applied_seen)

text \<open>At the state reached after \<open>k\<close> events of a evs, only event \<open>k\<close> of the evs can be applied.\<close>

lemma only_next_applies:
  assumes evs: "applies_all step s evs" "distinct (map ev_version evs)"
    and k: "k \<le> length evs" and i: "i < length evs"
    and app: "fst (step (deliver step s (take k evs)) (evs ! i)) = Inr True"
  shows "i = k"
proof -
  let ?sk = "deliver step s (take k evs)"
  have "applies_all step s (take k evs @ drop k evs)" using evs(1) by simp
  then have pre: "applies_all step s (take k evs)" by (simp only: applies_all_append)
  have "\<not> i < k"
  proof
    assume "i < k"
    then have "evs ! i \<in> set (take k evs)" using i k by (auto simp: in_set_conv_nth intro!: exI [of _ i])
    then have "ev_id (evs ! i) \<in> seen ?sk" by (simp add: applies_all_seen [OF pre])
    with applied_fresh [OF app] show False by simp
  qed
  with i have "k < length evs" by simp
  from applied_next [OF app] have "ev_version (evs ! i) = succ (version ?sk)" .
  also have "\<dots> = ev_version (evs ! k)"
    using applied_next [OF applies_all_nth(1) [OF evs(1) \<open>k < length evs\<close>]] by simp
  finally show "i = k"
    using evs(2) i \<open>k < length evs\<close> by (metis length_map nth_eq_iff_index_eq nth_map)
qed

theorem delivery_leaves_prefix:
  assumes evs: "applies_all step s evs" "distinct (map ev_version evs)" and "set ds \<subseteq> set evs"
  shows "\<exists>k \<le> length evs. deliver step s ds = deliver step s (take k evs)"
  using assms(3)
proof (induction ds rule: rev_induct)
  case Nil
  show ?case by (rule exI [of _ 0]) simp
next
  case (snoc e ds)
  then obtain k where k: "k \<le> length evs" "deliver step s ds = deliver step s (take k evs)" by auto
  from snoc.prems obtain i where i: "i < length evs" "e = evs ! i" by (auto simp: in_set_conv_nth)
  let ?sk = "deliver step s (take k evs)"
  show ?case
  proof (cases rule: step_cases [of ?sk e])
    case 1
    with only_next_applies [OF evs k(1) i(1)] i have "i = k" by simp
    with i applies_all_nth(2) [OF evs(1) i(1)] k have
      "deliver step s (ds @ [e]) = deliver step s (take (Suc k) evs)" by simp
    with i \<open>i = k\<close> show ?thesis by (intro exI [of _ "Suc k"]) simp
  next
    case 2
    with k have "deliver step s (ds @ [e]) = ?sk" by simp
    with k show ?thesis by blast
  qed
qed

lemma delivery_catches_up:
  assumes evs: "applies_all step s evs" "distinct (map ev_version evs)"
  shows "k \<le> length evs \<Longrightarrow> set ds \<subseteq> set evs \<Longrightarrow> subseq (drop k evs) ds \<Longrightarrow>
    deliver step (deliver step s (take k evs)) ds = deliver step s evs"
proof (induction ds arbitrary: k)
  case Nil
  then have "drop k evs = []" by (metis list_emb_Nil2)
  with Nil show ?case by simp
next
  case (Cons e ds)
  let ?sk = "deliver step s (take k evs)"
  from Cons.prems obtain i where i: "i < length evs" "e = evs ! i" by (auto simp: in_set_conv_nth)
  show ?case
  proof (cases rule: step_cases [of ?sk e])
    case 1
    with only_next_applies [OF evs Cons.prems(1) i(1)] i have ik: "i = k" by simp
    have next_state: "snd (step ?sk e) = deliver step s (take (Suc k) evs)"
      using applies_all_nth(2) [OF evs(1) i(1)] i ik by simp
    have "drop k evs = e # drop (Suc k) evs" using i ik by (simp add: Cons_nth_drop_Suc)
    with Cons.prems(3) have "subseq (drop (Suc k) evs) ds" by simp
    with Cons.IH [of "Suc k"] Cons.prems i ik next_state show ?thesis by simp
  next
    case 2
    have "subseq (drop k evs) ds"
    proof (cases "k < length evs")
      case True
      have "evs ! k \<noteq> e" using applies_all_nth(1) [OF evs(1) True] 2(1) by auto
      with Cons.prems(3) True show ?thesis by (simp add: Cons_nth_drop_Suc [symmetric])
    next
      case False
      then show ?thesis by simp
    qed
    with Cons.IH [of k] Cons.prems 2 show ?thesis by simp
  qed
qed

theorem delivery_complete:
  assumes "applies_all step s evs" "distinct (map ev_version evs)"
    and "set ds \<subseteq> set evs" "subseq evs ds"
  shows "deliver step s ds = deliver step s evs"
  using delivery_catches_up [OF assms(1,2), of 0 ds] assms(3,4) by simp

end

end
