(* ===== verification/Group_Model.thy ===== *)
theory Group_Model
  imports Replica
begin

text \<open>
  The group aggregate of \<open>internal/domains/group/model\<close>: identifiers, roles and member states
  (\<open>types.go\<close>, \<open>domain.go\<close>) and the event-sourced group state (\<open>event.go\<close>).
  A named string type of the source is a datatype with one constructor per declared constant and one
  \<open>Other\<close> constructor for every other string value; its conversion from a string is the Go conversion
  \<open>GroupMemberRole(s)\<close>. Versions and key versions are kept at their width (\<open>uint64\<close>, \<open>uint32\<close>), so
  \<open>Version + 1\<close> wraps as in the source.
\<close>

section \<open>Identifiers\<close>

definition NormalizeGroupID :: "string \<Rightarrow> go_error + string" where
  "NormalizeGroupID groupID =
     (let groupID = TrimSpace groupID in
      if groupID = [] then Inl ErrInvalidGroupID else Inr groupID)"

definition NormalizeGroupTitle :: "string \<Rightarrow> go_error + string" where
  "NormalizeGroupTitle title =
     (let title = TrimSpace title in
      if title = [] then Inl ErrInvalidGroupTitle else Inr title)"

definition NormalizeGroupMemberID :: "string \<Rightarrow> go_error + string" where
  "NormalizeGroupMemberID memberID =
     (let memberID = TrimSpace memberID in
      if memberID = [] then Inl ErrInvalidGroupMemberID else Inr memberID)"

section \<open>Roles and member states\<close>

datatype GroupMemberRole = RoleOwner | RoleAdmin | RoleUser | RoleOther string

datatype GroupMemberStatus =
  StatusInvited | StatusActive | StatusLeft | StatusRemoved | StatusOther string

definition role_of_string :: "string \<Rightarrow> GroupMemberRole" where
  "role_of_string s =
     (if s = ''owner'' then RoleOwner
      else if s = ''admin'' then RoleAdmin
      else if s = ''user'' then RoleUser
      else RoleOther s)"

fun string_of_role :: "GroupMemberRole \<Rightarrow> string" where
  "string_of_role RoleOwner = ''owner''"
| "string_of_role RoleAdmin = ''admin''"
| "string_of_role RoleUser = ''user''"
| "string_of_role (RoleOther s) = s"

definition status_of_string :: "string \<Rightarrow> GroupMemberStatus" where
  "status_of_string s =
     (if s = ''invited'' then StatusInvited
      else if s = ''active'' then StatusActive
      else if s = ''left'' then StatusLeft
      else if s = ''removed'' then StatusRemoved
      else StatusOther s)"

fun role_Valid :: "GroupMemberRole \<Rightarrow> bool" where
  "role_Valid RoleOwner = True"
| "role_Valid RoleAdmin = True"
| "role_Valid RoleUser = True"
| "role_Valid (RoleOther _) = False"

fun status_Valid :: "GroupMemberStatus \<Rightarrow> bool" where
  "status_Valid StatusInvited = True"
| "status_Valid StatusActive = True"
| "status_Valid StatusLeft = True"
| "status_Valid StatusRemoved = True"
| "status_Valid (StatusOther _) = False"

definition ParseGroupMemberRole :: "string \<Rightarrow> go_error + GroupMemberRole" where
  "ParseGroupMemberRole raw =
     (let role = role_of_string (TrimSpace raw) in
      if \<not> role_Valid role then Inl ErrInvalidGroupMemberRole else Inr role)"

definition ParseGroupMemberStatus :: "string \<Rightarrow> go_error + GroupMemberStatus" where
  "ParseGroupMemberStatus raw =
     (let status = status_of_string (TrimSpace raw) in
      if \<not> status_Valid status then Inl ErrInvalidGroupMemberStatus else Inr status)"

record Group =
  g_ID :: string
  g_Title :: string
  g_Description :: string
  g_Avatar :: string
  g_CreatedBy :: string
  g_CreatedAt :: gotime
  g_UpdatedAt :: gotime

record GroupMember =
  m_GroupID :: string
  m_MemberID :: string
  m_Role :: GroupMemberRole
  m_Status :: GroupMemberStatus
  m_InvitedAt :: gotime
  m_ActivatedAt :: gotime
  m_UpdatedAt :: gotime

definition IsOwner :: "GroupMember \<Rightarrow> bool" where
  "IsOwner m \<longleftrightarrow> m_Role m = RoleOwner"

definition CanManageMembers :: "GroupMember \<Rightarrow> bool" where
  "CanManageMembers m \<longleftrightarrow> m_Role m = RoleOwner \<or> m_Role m = RoleAdmin"

definition CanMutateRole :: "GroupMember \<Rightarrow> bool" where
  "CanMutateRole m \<longleftrightarrow> m_Status m = StatusActive \<or> m_Status m = StatusInvited"

definition ValidateGroupMember :: "GroupMember \<Rightarrow> go_error option" where
  "ValidateGroupMember member =
     (if blank (m_GroupID member) then Some ErrInvalidGroupID
      else if blank (m_MemberID member) then Some ErrInvalidGroupMemberID
      else if \<not> role_Valid (m_Role member) then Some ErrInvalidGroupMemberRole
      else if \<not> status_Valid (m_Status member) then Some ErrInvalidGroupMemberStatus
      else None)"

definition ValidateGroupMemberStatusTransition ::
    "GroupMemberStatus \<Rightarrow> GroupMemberStatus \<Rightarrow> go_error option" where
  "ValidateGroupMemberStatusTransition from to =
     (if \<not> status_Valid from \<or> \<not> status_Valid to then Some ErrInvalidGroupMemberStatus
      else if from = to then None
      else (case from of
          StatusInvited \<Rightarrow>
            if to = StatusActive \<or> to = StatusRemoved then None
            else Some ErrInvalidGroupMemberStatusTransition
        | StatusActive \<Rightarrow>
            if to = StatusLeft \<or> to = StatusRemoved then None
            else Some ErrInvalidGroupMemberStatusTransition
        | StatusLeft \<Rightarrow>
            if to = StatusActive \<or> to = StatusRemoved then None
            else Some ErrInvalidGroupMemberStatusTransition
        | _ \<Rightarrow> Some ErrInvalidGroupMemberStatusTransition))"

section \<open>Events and the group state\<close>

datatype GroupEventType =
    MemberAdd | MemberRemove | MemberLeave | TitleChange | ProfileChange | KeyRotate
  | EventTypeOther string

definition event_type_of_string :: "string \<Rightarrow> GroupEventType" where
  "event_type_of_string s =
     (if s = ''member_add'' then MemberAdd
      else if s = ''member_remove'' then MemberRemove
      else if s = ''member_leave'' then MemberLeave
      else if s = ''title_change'' then TitleChange
      else if s = ''profile_change'' then ProfileChange
      else if s = ''key_rotate'' then KeyRotate
      else EventTypeOther s)"

fun event_type_Valid :: "GroupEventType \<Rightarrow> bool" where
  "event_type_Valid (EventTypeOther _) = False"
| "event_type_Valid _ = True"

definition ParseGroupEventType :: "string \<Rightarrow> go_error + GroupEventType" where
  "ParseGroupEventType raw =
     (let typ = event_type_of_string (TrimSpace raw) in
      if \<not> event_type_Valid typ then Inl ErrInvalidGroupEventType else Inr typ)"

record GroupEvent =
  e_ID :: string
  e_GroupID :: string
  e_Version :: "64 word"
  e_Type :: GroupEventType
  e_ActorID :: string
  e_OccurredAt :: gotime
  e_MemberID :: string
  e_Role :: GroupMemberRole
  e_Title :: string
  e_Description :: string
  e_Avatar :: string
  e_KeyVersion :: "32 word"

record GroupState =
  s_Group :: Group
  s_Version :: "64 word"
  s_AppliedEventIDs :: "(string, unit) gomap"
  s_Members :: "(string, GroupMember) gomap"
  s_LastKeyVersion :: "32 word"

definition NewGroupState :: "Group \<Rightarrow> GroupState" where
  "NewGroupState grp =
     \<lparr>s_Group = grp, s_Version = 0, s_AppliedEventIDs = [], s_Members = [], s_LastKeyVersion = 0\<rparr>"

definition ValidateGroupEvent :: "GroupEvent \<Rightarrow> go_error option" where
  "ValidateGroupEvent event =
     (if blank (e_ID event) then Some ErrInvalidGroupEventID
      else if blank (e_GroupID event) then Some ErrInvalidGroupID
      else if e_Version event = 0 then Some ErrInvalidGroupEventVersion
      else if \<not> event_type_Valid (e_Type event) then Some ErrInvalidGroupEventType
      else if blank (e_ActorID event) then Some ErrInvalidGroupEventActorID
      else if e_OccurredAt event = 0 then Some ErrInvalidGroupEventPayload
      else (case e_Type event of
          MemberAdd \<Rightarrow>
            if blank (e_MemberID event) then Some ErrInvalidGroupEventPayload
            else if \<not> role_Valid (e_Role event) then Some ErrInvalidGroupEventPayload
            else None
        | MemberRemove \<Rightarrow>
            if blank (e_MemberID event) then Some ErrInvalidGroupEventPayload else None
        | MemberLeave \<Rightarrow>
            if blank (e_MemberID event) then Some ErrInvalidGroupEventPayload else None
        | TitleChange \<Rightarrow>
            if blank (e_Title event) then Some ErrInvalidGroupEventPayload else None
        | ProfileChange \<Rightarrow>
            if blank (e_Title event) then Some ErrInvalidGroupEventPayload else None
        | KeyRotate \<Rightarrow>
            if e_KeyVersion event = 0 then Some ErrInvalidGroupEventPayload else None
        | _ \<Rightarrow> None))"

text \<open>The member record a \<open>member_add\<close> event writes, for a new and for a known member.\<close>

definition member_added :: "GroupState \<Rightarrow> GroupEvent \<Rightarrow> GroupMember" where
  "member_added state event =
     (let memberID = TrimSpace (e_MemberID event) in
      case lookup (s_Members state) memberID of
        None \<Rightarrow>
          \<lparr>m_GroupID = g_ID (s_Group state), m_MemberID = memberID, m_Role = e_Role event,
           m_Status = StatusInvited, m_InvitedAt = e_OccurredAt event, m_ActivatedAt = 0,
           m_UpdatedAt = e_OccurredAt event\<rparr>
      | Some member \<Rightarrow>
          let member = member\<lparr>m_Role := e_Role event\<rparr>;
              member =
                (case m_Status member of
                   StatusInvited \<Rightarrow>
                     if TrimSpace (e_ActorID event) = memberID
                     then member\<lparr>m_Status := StatusActive, m_ActivatedAt := e_OccurredAt event\<rparr>
                     else member
                 | StatusLeft \<Rightarrow>
                     member\<lparr>m_Status := StatusInvited, m_InvitedAt := e_OccurredAt event, m_ActivatedAt := 0\<rparr>
                 | StatusRemoved \<Rightarrow>
                     member\<lparr>m_Status := StatusInvited, m_InvitedAt := e_OccurredAt event, m_ActivatedAt := 0\<rparr>
                 | _ \<Rightarrow> member)
          in member\<lparr>m_UpdatedAt := e_OccurredAt event\<rparr>)"

text \<open>The member record a \<open>member_remove\<close> or \<open>member_leave\<close> event writes.\<close>

definition member_gone :: "GroupMemberStatus \<Rightarrow> GroupState \<Rightarrow> GroupEvent \<Rightarrow> GroupMember" where
  "member_gone status state event =
     (let memberID = TrimSpace (e_MemberID event);
          member =
            (case lookup (s_Members state) memberID of
               Some member \<Rightarrow> member
             | None \<Rightarrow>
                 \<lparr>m_GroupID = g_ID (s_Group state), m_MemberID = memberID, m_Role = RoleUser,
                  m_Status = StatusOther [], m_InvitedAt = 0, m_ActivatedAt = 0, m_UpdatedAt = 0\<rparr>)
      in member\<lparr>m_Status := status, m_UpdatedAt := e_OccurredAt event\<rparr>)"

definition apply_event_effect :: "GroupState \<Rightarrow> GroupEvent \<Rightarrow> GroupState" where
  "apply_event_effect state event =
     (case e_Type event of
        MemberAdd \<Rightarrow>
          let member = member_added state event
          in state\<lparr>s_Members := put (m_MemberID member) member (s_Members state)\<rparr>
      | MemberRemove \<Rightarrow>
          state\<lparr>s_Members := put (TrimSpace (e_MemberID event)) (member_gone StatusRemoved state event) (s_Members state)\<rparr>
      | MemberLeave \<Rightarrow>
          state\<lparr>s_Members := put (TrimSpace (e_MemberID event)) (member_gone StatusLeft state event) (s_Members state)\<rparr>
      | TitleChange \<Rightarrow>
          state\<lparr>s_Group := (s_Group state)\<lparr>g_Title := TrimSpace (e_Title event), g_UpdatedAt := e_OccurredAt event\<rparr>\<rparr>
      | ProfileChange \<Rightarrow>
          state\<lparr>s_Group := (s_Group state)\<lparr>g_Title := TrimSpace (e_Title event),
             g_Description := TrimSpace (e_Description event), g_Avatar := TrimSpace (e_Avatar event),
             g_UpdatedAt := e_OccurredAt event\<rparr>\<rparr>
      | KeyRotate \<Rightarrow>
          state\<lparr>s_LastKeyVersion := e_KeyVersion event,
             s_Group := (s_Group state)\<lparr>g_UpdatedAt := e_OccurredAt event\<rparr>\<rparr>
      | _ \<Rightarrow> state)"

text \<open>
  \<open>ApplyGroupEvent\<close> returns Go's pair (applied, error) and the state behind the pointer after the
  call. (The nil-state guard of the source has no counterpart: the model's state is a value.)
\<close>

definition ApplyGroupEvent :: "GroupState \<Rightarrow> GroupEvent \<Rightarrow> (go_error + bool) \<times> GroupState" where
  "ApplyGroupEvent state event =
     (case ValidateGroupEvent event of
        Some err \<Rightarrow> (Inl err, state)
      | None \<Rightarrow>
          if blank (g_ID (s_Group state)) then (Inl ErrInvalidGroupID, state)
          else if e_GroupID event \<noteq> g_ID (s_Group state) then (Inl ErrInvalidGroupID, state)
          else if lookup (s_AppliedEventIDs state) (e_ID event) \<noteq> None then (Inr False, state)
          else if e_Version event \<noteq> s_Version state + 1 then (Inl ErrOutOfOrderGroupEvent, state)
          else
            (let next = apply_event_effect state event
             in (Inr True, next\<lparr>s_Version := e_Version event,
                            s_AppliedEventIDs := put (e_ID event) () (s_AppliedEventIDs next)\<rparr>)))"

section \<open>Laws of the model\<close>

lemma string_of_role_of_string [simp]: "string_of_role (role_of_string s) = s"
  by (simp add: role_of_string_def)

lemma NormalizeGroupID_Inr [result_simps]:
  "NormalizeGroupID s = Inr t \<longleftrightarrow> t = TrimSpace s \<and> t \<noteq> []"
  by (auto simp: NormalizeGroupID_def Let_def)

lemma NormalizeGroupTitle_Inr [result_simps]:
  "NormalizeGroupTitle s = Inr t \<longleftrightarrow> t = TrimSpace s \<and> t \<noteq> []"
  by (auto simp: NormalizeGroupTitle_def Let_def)

lemma NormalizeGroupMemberID_Inr [result_simps]:
  "NormalizeGroupMemberID s = Inr t \<longleftrightarrow> t = TrimSpace s \<and> t \<noteq> []"
  by (auto simp: NormalizeGroupMemberID_def Let_def)

lemma status_Valid_member_gone:
  "status_Valid st \<Longrightarrow> status_Valid (m_Status (member_gone st s e))"
  by (simp add: member_gone_def Let_def)

definition applicable :: "GroupState \<Rightarrow> GroupEvent \<Rightarrow> bool" where
  "applicable s e \<longleftrightarrow>
     ValidateGroupEvent e = None \<and> \<not> blank (g_ID (s_Group s)) \<and> e_GroupID e = g_ID (s_Group s) \<and>
     lookup (s_AppliedEventIDs s) (e_ID e) = None \<and> e_Version e = s_Version s + 1"

definition applied_state :: "GroupState \<Rightarrow> GroupEvent \<Rightarrow> GroupState" where
  "applied_state s e =
     (apply_event_effect s e)\<lparr>s_Version := e_Version e,
        s_AppliedEventIDs := put (e_ID e) () (s_AppliedEventIDs s)\<rparr>"

lemma effect_frame [simp]:
  "s_AppliedEventIDs (apply_event_effect s e) = s_AppliedEventIDs s"
  "s_Version (apply_event_effect s e) = s_Version s"
  "g_ID (s_Group (apply_event_effect s e)) = g_ID (s_Group s)"
  "g_CreatedBy (s_Group (apply_event_effect s e)) = g_CreatedBy (s_Group s)"
  "g_CreatedAt (s_Group (apply_event_effect s e)) = g_CreatedAt (s_Group s)"
  by (simp_all add: apply_event_effect_def Let_def split: GroupEventType.split)

lemma Apply_applicable: "applicable s e \<Longrightarrow> ApplyGroupEvent s e = (Inr True, applied_state s e)"
  by (simp add: applicable_def ApplyGroupEvent_def applied_state_def Let_def)

lemma Apply_not_applicable:
  "\<not> applicable s e \<Longrightarrow> fst (ApplyGroupEvent s e) \<noteq> Inr True \<and> snd (ApplyGroupEvent s e) = s"
  by (auto simp: applicable_def ApplyGroupEvent_def split: option.split)

lemma Apply_Inr_True: "fst (ApplyGroupEvent s e) = Inr True \<longleftrightarrow> applicable s e"
  using Apply_applicable Apply_not_applicable by force

lemma Apply_state: "snd (ApplyGroupEvent s e) = (if applicable s e then applied_state s e else s)"
  by (simp add: Apply_applicable Apply_not_applicable)

lemma Apply_Inr_False:
  "fst (ApplyGroupEvent s e) = Inr False \<Longrightarrow> lookup (s_AppliedEventIDs s) (e_ID e) \<noteq> None"
  by (auto simp: ApplyGroupEvent_def Let_def split: option.splits if_splits)

lemma applied_frame [simp]:
  "s_Version (applied_state s e) = e_Version e"
  "s_AppliedEventIDs (applied_state s e) = put (e_ID e) () (s_AppliedEventIDs s)"
  "g_ID (s_Group (applied_state s e)) = g_ID (s_Group s)"
  "s_Members (applied_state s e) = s_Members (apply_event_effect s e)"
  "s_LastKeyVersion (applied_state s e) = s_LastKeyVersion (apply_event_effect s e)"
  by (simp_all add: applied_state_def)

abbreviation applied_ids :: "GroupState \<Rightarrow> string set" where
  "applied_ids s \<equiv> fst ` set (s_AppliedEventIDs s)"

lemma Apply_same: "fst (ApplyGroupEvent s e) \<noteq> Inr True \<Longrightarrow> snd (ApplyGroupEvent s e) = s"
  by (simp add: Apply_state Apply_Inr_True)

interpretation group_replica: replica ApplyGroupEvent s_Version "\<lambda>v. v + 1" e_Version e_ID applied_ids
proof (unfold_locales, goal_cases)
  case (3 s e)
  then show ?case by (simp add: Apply_Inr_True applicable_def map_of_eq_None_iff)
qed (simp_all add: Apply_same Apply_Inr_True Apply_applicable dom_update, simp add: applicable_def)

lemma versions_of_applied_log:
  "applies_all ApplyGroupEvent s evs \<Longrightarrow> i < length evs \<Longrightarrow>
   e_Version (evs ! i) = s_Version s + of_nat (Suc i)"
proof (induction evs arbitrary: s i)
  case Nil
  then show ?case by simp
next
  case (Cons e evs)
  from Cons.prems have app: "applicable s e" and rest: "applies_all ApplyGroupEvent (applied_state s e) evs"
    by (auto simp: Apply_Inr_True Apply_applicable)
  show ?case
  proof (cases i)
    case 0
    with app show ?thesis by (simp add: applicable_def)
  next
    case (Suc j)
    with Cons.IH [OF rest, of j] Cons.prems app show ?thesis by (simp add: applicable_def)
  qed
qed

lemma applied_log_distinct_versions:
  assumes "applies_all ApplyGroupEvent s evs" and "length evs < 2 ^ 64"
  shows "distinct (map e_Version evs)"
proof -
  have "i = j" if "i < length evs" "j < length evs" "e_Version (evs ! i) = e_Version (evs ! j)" for i j
  proof -
    have "(of_nat (Suc i) :: 64 word) = of_nat (Suc j)"
      using that versions_of_applied_log [OF assms(1)] by simp
    then have "unat (of_nat (Suc i) :: 64 word) = unat (of_nat (Suc j) :: 64 word)" by (rule arg_cong)
    then show ?thesis using that assms(2) by (simp add: unat_of_nat take_bit_eq_mod del: of_nat_Suc)
  qed
  then show ?thesis by (auto simp: distinct_conv_nth)
qed

end
