(* ===== verification/Rate_Limiter.thy ===== *)
theory Rate_Limiter
  imports Prelude
begin

text \<open>
  The keyed rate limiter of \<open>internal/platform/ratelimiter/map_limiter.go\<close>. One token bucket per key
  is a value of the third-party package \<open>golang.org/x/time/rate\<close>: its constructor and \<open>AllowN\<close> are
  the fields of a parameter record \<open>rate_lib\<close>, over an arbitrary type of buckets. The nil limiter is
  \<open>None\<close>. The mutex makes each call atomic; the map after the call is returned.
\<close>

record 'l rate_lib =
  rl_NewLimiter :: "real \<Rightarrow> int \<Rightarrow> 'l"
  rl_AllowN :: "'l \<Rightarrow> gotime \<Rightarrow> int \<Rightarrow> bool \<times> 'l"

record 'l entry =
  en_limiter :: 'l
  en_lastSeen :: gotime

record 'l MapLimiter =
  ml_limit :: real
  ml_burst :: int
  ml_byKey :: "(string, 'l entry) gomap"
  ml_hits :: "64 word"
  ml_idleTTL :: duration

abbreviation minute :: duration where
  "minute \<equiv> 60 * 1000000000"

definition New :: "real \<Rightarrow> int \<Rightarrow> duration \<Rightarrow> 'l MapLimiter option" where
  "New rps burst idleTTL =
     (if rps \<le> 0 \<or> burst \<le> 0 then None
      else
        let idleTTL = (if idleTTL \<le> 0 then 10 * minute else idleTTL)
        in Some \<lparr>ml_limit = rps, ml_burst = burst, ml_byKey = [], ml_hits = 0, ml_idleTTL = idleTTL\<rparr>)"

definition evict_idle :: "gotime \<Rightarrow> (string, 'l entry) gomap \<Rightarrow> (string, 'l entry) gomap" where
  "evict_idle cutoff m = filter (\<lambda>(k, v). \<not> en_lastSeen v < cutoff) m"

definition Allow :: "'l rate_lib \<Rightarrow> 'l MapLimiter option \<Rightarrow> string \<Rightarrow> gotime \<Rightarrow> bool \<times> 'l MapLimiter option" where
  "Allow lib lo key now =
     (case lo of
        None \<Rightarrow> (True, None)
      | Some l \<Rightarrow>
          (let key = TrimSpace key in
           if key = [] then (True, Some l)
           else
             let e = (case lookup (ml_byKey l) key of
                        Some e \<Rightarrow> e
                      | None \<Rightarrow> \<lparr>en_limiter = rl_NewLimiter lib (ml_limit l) (ml_burst l), en_lastSeen = now\<rparr>);
                 e = e\<lparr>en_lastSeen := now\<rparr>;
                 (allowed, b) = rl_AllowN lib (en_limiter e) now 1;
                 byKey = put key (e\<lparr>en_limiter := b\<rparr>) (ml_byKey l);
                 hits = ml_hits l + 1;
                 byKey = (if hits mod 512 = 0 then evict_idle (now - ml_idleTTL l) byKey else byKey)
             in (allowed, Some (l\<lparr>ml_byKey := byKey, ml_hits := hits\<rparr>))))"

text \<open>The bucket a key is charged to: its own, or a fresh one when the key has none.\<close>

definition bucket_of :: "'l rate_lib \<Rightarrow> 'l MapLimiter \<Rightarrow> string \<Rightarrow> 'l" where
  "bucket_of lib l key =
     (case lookup (ml_byKey l) key of
        Some e \<Rightarrow> en_limiter e
      | None \<Rightarrow> rl_NewLimiter lib (ml_limit l) (ml_burst l))"

lemma lookup_evict_idle:
  "keys_distinct m \<Longrightarrow> lookup (evict_idle cutoff m) k =
     (case lookup m k of Some v \<Rightarrow> if en_lastSeen v < cutoff then None else Some v | None \<Rightarrow> None)"
  by (induction m) (auto simp: evict_idle_def map_of_eq_None_iff dest: map_of_SomeD split: option.splits)

lemma keys_distinct_evict_idle [simp]: "keys_distinct m \<Longrightarrow> keys_distinct (evict_idle cutoff m)"
  by (induction m) (auto simp: evict_idle_def)

lemma Allow_keys_distinct:
  "Allow lib (Some l) key now = (a, Some l') \<Longrightarrow> keys_distinct (ml_byKey l) \<Longrightarrow> keys_distinct (ml_byKey l')"
  by (auto simp: Allow_def Let_def split: option.splits prod.splits if_splits)

lemma entry_write [simp]: "e\<lparr>en_lastSeen := t, en_limiter := b\<rparr> = \<lparr>en_limiter = b, en_lastSeen = t\<rparr>"
  by (cases e) simp

lemma Allow_charges_own_bucket:
  assumes "TrimSpace key \<noteq> []" and "keys_distinct (ml_byKey l)" and "0 \<le> ml_idleTTL l"
    and "Allow lib (Some l) key now = (a, Some l')"
  shows "a = fst (rl_AllowN lib (bucket_of lib l (TrimSpace key)) now 1)"
    and "lookup (ml_byKey l') (TrimSpace key) =
       Some \<lparr>en_limiter = snd (rl_AllowN lib (bucket_of lib l (TrimSpace key)) now 1), en_lastSeen = now\<rparr>"
  using assms
  by (auto simp: Allow_def Let_def bucket_of_def lookup_evict_idle split: option.splits prod.splits if_splits)

lemma Allow_other_keys:
  assumes "keys_distinct (ml_byKey l)" and "Allow lib (Some l) key now = (a, Some l')"
    and "k \<noteq> TrimSpace key"
  shows "lookup (ml_byKey l') k = lookup (ml_byKey l) k \<or>
    (lookup (ml_byKey l') k = None \<and>
     (\<exists>e. lookup (ml_byKey l) k = Some e \<and> en_lastSeen e < now - ml_idleTTL l))"
  using assms
  by (auto simp: Allow_def Let_def lookup_evict_idle split: option.splits prod.splits if_splits)

text \<open>
  A call for one key is decided by that key's own bucket alone and charges it alone. The bucket of
  any other key is left as it was, or dropped by the periodic sweep when that key has not been seen
  for longer than the idle time.
\<close>

lemma limiter_isolates_keys:
  assumes "TrimSpace key \<noteq> []" and "keys_distinct (ml_byKey l)" and "0 \<le> ml_idleTTL l"
    and "Allow lib (Some l) key now = (a, Some l')"
  shows "a = fst (rl_AllowN lib (bucket_of lib l (TrimSpace key)) now 1) \<and>
    bucket_of lib l' (TrimSpace key) = snd (rl_AllowN lib (bucket_of lib l (TrimSpace key)) now 1) \<and>
    (\<forall>k. k \<noteq> TrimSpace key \<longrightarrow>
       lookup (ml_byKey l') k = lookup (ml_byKey l) k \<or>
       (lookup (ml_byKey l') k = None \<and>
        (\<exists>e. lookup (ml_byKey l) k = Some e \<and> en_lastSeen e < now - ml_idleTTL l)))"
  using Allow_charges_own_bucket [OF assms] Allow_other_keys [OF assms(2,4)]
  by (auto simp: bucket_of_def [of lib l'])

definition counting_lib :: "int rate_lib" where
  "counting_lib = \<lparr>rl_NewLimiter = (\<lambda>_ burst. burst), rl_AllowN = (\<lambda>b _ n. if n \<le> b then (True, b - n) else (False, b))\<rparr>"

definition sample_limiter :: "int MapLimiter" where
  "sample_limiter =
     \<lparr>ml_limit = 1, ml_burst = 2,
      ml_byKey = [(''bob'', \<lparr>en_limiter = 0, en_lastSeen = 1\<rparr>), (''eve'', \<lparr>en_limiter = 1, en_lastSeen = 0\<rparr>)],
      ml_hits = 511, ml_idleTTL = 9\<rparr>"

lemma limiter_isolates_keys_witness:
  "\<exists>l'. Allow counting_lib (Some sample_limiter) ''ann'' 10 = (True, Some l') \<and>
     bucket_of counting_lib l' ''ann'' = 1 \<and> lookup (ml_byKey l') ''bob'' = Some \<lparr>en_limiter = 0, en_lastSeen = 1\<rparr>"
proof -
  have trim: "TrimSpace ''ann'' = ''ann''" by code_simp
  obtain a l' where run: "Allow counting_lib (Some sample_limiter) ''ann'' 10 = (a, Some l')"
    by (simp add: Allow_def sample_limiter_def counting_lib_def trim)
  have "bucket_of counting_lib sample_limiter ''ann'' = 2"
    by (simp add: bucket_of_def sample_limiter_def counting_lib_def)
  moreover have "rl_AllowN counting_lib 2 10 1 = (True, 1)" by (simp add: counting_lib_def)
  moreover have "lookup (ml_byKey sample_limiter) ''bob'' = Some \<lparr>en_limiter = 0, en_lastSeen = 1\<rparr>" "ml_idleTTL sample_limiter = 9"
    by (simp_all add: sample_limiter_def)
  ultimately show ?thesis
    using limiter_isolates_keys [OF _ _ _ run] run
    by (auto simp: trim sample_limiter_def elim!: allE [of _ "''bob''"])
qed

end
