(* ===== verification/Group_Policy.thy ===== *)
theory Group_Policy
  imports Group_Model Rate_Limiter
begin

text \<open>
  The group policies of \<open>internal/domains/group/policy\<close>: quotas and rate limits
  (\<open>abuse_protection.go\<close>), the checks of an inbound message against the group state and the bootstrap
  of an unknown group (\<open>inbound_state_policy.go\<close>), and the replay helpers (\<open>runtime_helpers.go\<close>).
  \<open>os.Getenv\<close> is the parameter \<open>getenv\<close>; \<open>strconv.ParseFloat\<close> and the hash \<open>sha256\<close> (12 bytes,
  printed in hexadecimal) are parameters too. A nil \<open>*AbuseProtection\<close> is \<open>None\<close>.
\<close>

section \<open>Abuse protection\<close>

record abuseProtectionConfig =
  MaxMembers :: int
  MaxPendingInvites :: int
  InviteRateLimitRPS :: real
  InviteRateLimitBurst :: int
  SendRateLimitRPS :: real
  SendRateLimitBurst :: int
  MembershipRateLimitRPS :: real
  MembershipRateLimitBurst :: int

definition readPositiveIntEnv :: "(string \<Rightarrow> string) \<Rightarrow> string \<Rightarrow> int \<Rightarrow> int" where
  "readPositiveIntEnv getenv key fallback =
     (let raw = TrimSpace (getenv key) in
      if raw = [] then fallback
      else case Atoi raw of
             None \<Rightarrow> fallback
           | Some parsed \<Rightarrow> if parsed \<le> 0 then fallback else parsed)"

definition readPositiveFloatEnv ::
    "(string \<Rightarrow> real option) \<Rightarrow> (string \<Rightarrow> string) \<Rightarrow> string \<Rightarrow> real \<Rightarrow> real" where
  "readPositiveFloatEnv parseFloat getenv key fallback =
     (let raw = TrimSpace (getenv key) in
      if raw = [] then fallback
      else case parseFloat raw of
             None \<Rightarrow> fallback
           | Some parsed \<Rightarrow> if parsed \<le> 0 then fallback else parsed)"

definition loadAbuseProtectionConfigFromEnv ::
    "(string \<Rightarrow> real option) \<Rightarrow> (string \<Rightarrow> string) \<Rightarrow> abuseProtectionConfig" where
  "loadAbuseProtectionConfigFromEnv parseFloat getenv =
     (let cfg = \<lparr>
        MaxMembers = readPositiveIntEnv getenv ''AIM_GROUP_MAX_MEMBERS'' 128,
        MaxPendingInvites = readPositiveIntEnv getenv ''AIM_GROUP_MAX_PENDING_INVITES'' 64,
        InviteRateLimitRPS = readPositiveFloatEnv parseFloat getenv ''AIM_GROUP_INVITE_RATE_LIMIT_RPS'' 100,
        InviteRateLimitBurst = readPositiveIntEnv getenv ''AIM_GROUP_INVITE_RATE_LIMIT_BURST'' 200,
        SendRateLimitRPS = readPositiveFloatEnv parseFloat getenv ''AIM_GROUP_SEND_RATE_LIMIT_RPS'' 200,
        SendRateLimitBurst = readPositiveIntEnv getenv ''AIM_GROUP_SEND_RATE_LIMIT_BURST'' 400,
        MembershipRateLimitRPS = readPositiveFloatEnv parseFloat getenv ''AIM_GROUP_MEMBERSHIP_RATE_LIMIT_RPS'' 100,
        MembershipRateLimitBurst = readPositiveIntEnv getenv ''AIM_GROUP_MEMBERSHIP_RATE_LIMIT_BURST'' 200\<rparr>
      in if MaxPendingInvites cfg > MaxMembers cfg
         then cfg\<lparr>MaxPendingInvites := MaxMembers cfg\<rparr> else cfg)"

record 'l AbuseProtection =
  ap_cfg :: abuseProtectionConfig
  ap_inviteLimiter :: "'l MapLimiter option"
  ap_sendLimiter :: "'l MapLimiter option"
  ap_membershipLimiter :: "'l MapLimiter option"

definition newOperationRateLimiter :: "real \<Rightarrow> int \<Rightarrow> 'l MapLimiter option" where
  "newOperationRateLimiter rps burst = New rps burst (10 * minute)"

definition NewAbuseProtectionFromEnv ::
    "(string \<Rightarrow> real option) \<Rightarrow> (string \<Rightarrow> string) \<Rightarrow> 'l AbuseProtection" where
  "NewAbuseProtectionFromEnv parseFloat getenv =
     (let cfg = loadAbuseProtectionConfigFromEnv parseFloat getenv
      in \<lparr>ap_cfg = cfg,
          ap_inviteLimiter = newOperationRateLimiter (InviteRateLimitRPS cfg) (InviteRateLimitBurst cfg),
          ap_sendLimiter = newOperationRateLimiter (SendRateLimitRPS cfg) (SendRateLimitBurst cfg),
          ap_membershipLimiter =
            newOperationRateLimiter (MembershipRateLimitRPS cfg) (MembershipRateLimitBurst cfg)\<rparr>)"

text \<open>
  The callers guard each call with \<open>abuse != nil\<close>: the nil pointer allows every operation and has no
  limiter to charge. The result carries the limiter state after the call.
\<close>

definition AllowInvite :: "'l rate_lib \<Rightarrow> 'l AbuseProtection option \<Rightarrow> string \<Rightarrow> gotime \<Rightarrow> bool \<times> 'l AbuseProtection option" where
  "AllowInvite lib abuse actorID now =
     (case abuse of
        None \<Rightarrow> (True, None)
      | Some p \<Rightarrow>
          (let (allowed, l) = Allow lib (ap_inviteLimiter p) actorID now
           in (allowed, Some (p\<lparr>ap_inviteLimiter := l\<rparr>))))"

definition AllowSend :: "'l rate_lib \<Rightarrow> 'l AbuseProtection option \<Rightarrow> string \<Rightarrow> gotime \<Rightarrow> bool \<times> 'l AbuseProtection option" where
  "AllowSend lib abuse actorID now =
     (case abuse of
        None \<Rightarrow> (True, None)
      | Some p \<Rightarrow>
          (let (allowed, l) = Allow lib (ap_sendLimiter p) actorID now
           in (allowed, Some (p\<lparr>ap_sendLimiter := l\<rparr>))))"

definition AllowMembership :: "'l rate_lib \<Rightarrow> 'l AbuseProtection option \<Rightarrow> string \<Rightarrow> gotime \<Rightarrow> bool \<times> 'l AbuseProtection option" where
  "AllowMembership lib abuse actorID now =
     (case abuse of
        None \<Rightarrow> (True, None)
      | Some p \<Rightarrow>
          (let (allowed, l) = Allow lib (ap_membershipLimiter p) actorID now
           in (allowed, Some (p\<lparr>ap_membershipLimiter := l\<rparr>))))"

definition member_count :: "GroupState \<Rightarrow> nat" where
  "member_count state =
     length (filter (\<lambda>(k, m). m_Status m = StatusActive \<or> m_Status m = StatusInvited) (s_Members state))"

definition pending_invites :: "GroupState \<Rightarrow> nat" where
  "pending_invites state = length (filter (\<lambda>(k, m). m_Status m = StatusInvited) (s_Members state))"

definition EnforceInviteQuotas :: "'l AbuseProtection option \<Rightarrow> GroupState \<Rightarrow> go_error option" where
  "EnforceInviteQuotas abuse state =
     (case abuse of
        None \<Rightarrow> None
      | Some p \<Rightarrow>
          if int (member_count state) \<ge> MaxMembers (ap_cfg p) then Some ErrGroupMemberLimitExceeded
          else if int (pending_invites state) \<ge> MaxPendingInvites (ap_cfg p)
            then Some ErrGroupPendingInvitesLimitExceeded
          else None)"

section \<open>Inbound checks against the group state\<close>

datatype InboundGroupMessageRejectReason =
  ReasonNone | UnauthorizedSender | MembershipVersionMismatch | GroupKeyVersionMismatch

definition expected_key_version :: "GroupState \<Rightarrow> 32 word" where
  "expected_key_version state = (if s_LastKeyVersion state = 0 then 1 else s_LastKeyVersion state)"

definition ValidateInboundGroupMessageState ::
    "GroupState \<Rightarrow> string \<Rightarrow> 64 word \<Rightarrow> 32 word \<Rightarrow> InboundGroupMessageRejectReason \<times> go_error option" where
  "ValidateInboundGroupMessageState state senderID membershipVersion groupKeyVersion =
     (case lookup (s_Members state) senderID of
        None \<Rightarrow> (UnauthorizedSender, Some ErrGroupPermissionDenied)
      | Some member \<Rightarrow>
          if m_Status member \<noteq> StatusActive then (UnauthorizedSender, Some ErrGroupPermissionDenied)
          else if membershipVersion \<noteq> s_Version state
            then (MembershipVersionMismatch, Some ErrOutOfOrderGroupEvent)
          else if groupKeyVersion \<noteq> expected_key_version state
            then (GroupKeyVersionMismatch, Some ErrOutOfOrderGroupEvent)
          else (ReasonNone, None))"

definition EnsureInboundEventState ::
    "(string, GroupState) gomap \<Rightarrow> GroupEvent \<Rightarrow> string \<Rightarrow> go_error + GroupState" where
  "EnsureInboundEventState states event localIdentityID =
     (case lookup states (e_GroupID event) of
        Some state \<Rightarrow> Inr state
      | None \<Rightarrow>
          if e_Type event \<noteq> MemberAdd \<or> e_Version event \<noteq> 1 \<or> e_MemberID event \<noteq> TrimSpace localIdentityID
          then Inl ErrGroupNotFound
          else Inr (NewGroupState
            \<lparr>g_ID = e_GroupID event, g_Title = e_GroupID event, g_Description = [], g_Avatar = [],
             g_CreatedBy = e_ActorID event, g_CreatedAt = e_OccurredAt event,
             g_UpdatedAt = e_OccurredAt event\<rparr>))"

section \<open>Runtime helpers\<close>

abbreviation ReplayWindow :: duration where "ReplayWindow \<equiv> 30 * minute"
abbreviation ReplayFutureSkew :: duration where "ReplayFutureSkew \<equiv> 2 * minute"

definition DeriveRecipientMessageID :: "(string \<Rightarrow> string) \<Rightarrow> string \<Rightarrow> string \<Rightarrow> string" where
  "DeriveRecipientMessageID sha256_hex eventID recipientID =
     ''gmsg_'' @ sha256_hex (TrimSpace eventID @ ''|'' @ TrimSpace recipientID)"

definition CorrelationID :: "string \<Rightarrow> string \<Rightarrow> string" where
  "CorrelationID groupID eventID =
     (let groupID = TrimSpace groupID; eventID = TrimSpace eventID in
      if groupID = [] \<and> eventID = [] then ''group:unknown''
      else if eventID = [] then ''group:'' @ groupID
      else ''group:'' @ groupID @ '':event:'' @ eventID)"

definition BuildReplayGuardKey :: "string \<Rightarrow> string \<Rightarrow> string \<Rightarrow> string \<Rightarrow> go_error + string" where
  "BuildReplayGuardKey kind groupID senderDeviceID uniqueID =
     (let groupID = TrimSpace groupID; senderDeviceID = TrimSpace senderDeviceID;
          uniqueID = TrimSpace uniqueID; kind = TrimSpace kind in
      if groupID = [] \<or> senderDeviceID = [] \<or> uniqueID = [] \<or> kind = []
      then Inl ErrInvalidGroupEventPayload
      else Inr (kind @ ''|'' @ groupID @ ''|'' @ senderDeviceID @ ''|'' @ uniqueID))"

definition ValidateReplayOccurredAt :: "gotime \<Rightarrow> gotime \<Rightarrow> go_error option" where
  "ValidateReplayOccurredAt occurredAt now =
     (if occurredAt = 0 then None
      else
        let lowerBound = now - ReplayWindow; upperBound = now + ReplayFutureSkew in
        if occurredAt < lowerBound \<or> occurredAt > upperBound then Some ErrOutOfOrderGroupEvent
        else None)"

section \<open>Laws\<close>

lemma readPositiveIntEnv_pos: "0 < fallback \<Longrightarrow> 0 < readPositiveIntEnv getenv key fallback"
  by (auto simp: readPositiveIntEnv_def Let_def split: option.split)

lemma readPositiveFloatEnv_pos: "0 < fallback \<Longrightarrow> 0 < readPositiveFloatEnv pf getenv key fallback"
  by (auto simp: readPositiveFloatEnv_def Let_def split: option.split)

lemma newOperationRateLimiter_Some: "0 < rps \<Longrightarrow> 0 < burst \<Longrightarrow> \<exists>y. newOperationRateLimiter rps burst = Some y"
  by (simp add: newOperationRateLimiter_def New_def Let_def)

lemma loaded_config_positive:
  fixes parseFloat getenv
  defines "cfg \<equiv> loadAbuseProtectionConfigFromEnv parseFloat getenv"
  shows "0 < MaxMembers cfg" "0 < MaxPendingInvites cfg" "MaxPendingInvites cfg \<le> MaxMembers cfg"
    "0 < InviteRateLimitRPS cfg" "0 < InviteRateLimitBurst cfg"
    "0 < SendRateLimitRPS cfg" "0 < SendRateLimitBurst cfg"
    "0 < MembershipRateLimitRPS cfg" "0 < MembershipRateLimitBurst cfg"
  unfolding cfg_def loadAbuseProtectionConfigFromEnv_def Let_def
  by (simp_all add: readPositiveIntEnv_pos readPositiveFloatEnv_pos)

lemma Allow_cfg_frame:
  "AllowInvite lib abuse actorID now = (a, abuse') \<Longrightarrow> map_option ap_cfg abuse' = map_option ap_cfg abuse"
  "AllowMembership lib abuse actorID now = (a, abuse') \<Longrightarrow> map_option ap_cfg abuse' = map_option ap_cfg abuse"
  by (auto simp: AllowInvite_def AllowMembership_def split: option.splits prod.splits)

lemma ensure_unknown_no_members:
  "lookup states (e_GroupID event) = None \<Longrightarrow> EnsureInboundEventState states event me = Inr st \<Longrightarrow> s_Members st = []"
  by (auto simp: EnsureInboundEventState_def NewGroupState_def split: if_splits)

text \<open>
  Whatever the environment variables hold, the abuse-protection configuration is usable: both
  member quotas are positive, the invite quota never exceeds the member quota, and every rate and
  burst is positive, so all three limiters are really created.
\<close>

lemma abuse_config_usable:
  "let cfg = loadAbuseProtectionConfigFromEnv parseFloat getenv;
       p = (NewAbuseProtectionFromEnv parseFloat getenv :: 'l AbuseProtection)
   in 0 < MaxMembers cfg \<and> 0 < MaxPendingInvites cfg \<and> MaxPendingInvites cfg \<le> MaxMembers cfg \<and>
      ap_inviteLimiter p \<noteq> None \<and> ap_sendLimiter p \<noteq> None \<and> ap_membershipLimiter p \<noteq> None"
  using loaded_config_positive [of parseFloat getenv]
  by (simp add: NewAbuseProtectionFromEnv_def newOperationRateLimiter_Some Let_def)

end
