(* ===== verification/Group_Store.thy ===== *)
theory Group_Store
  imports Group_Policy
begin

text \<open>
  The snapshot validation of \<open>internal/domains/group/state_store.go\<close>. \<open>NormalizeGroupSnapshot\<close> runs on
  every \<open>Persist\<close> and on every \<open>Bootstrap\<close>; the loops over the maps run in iteration order and stop at
  the first error. File access and encryption (\<open>securestore\<close>, \<open>os\<close>, \<open>json\<close>) stay outside: a snapshot
  store is what \<open>Persist\<close> would write. The order of events of one version is that of a stable sort.
  The second half states the invariant of one group, \<open>group_ok\<close>, and that applying an event keeps it.
\<close>

section \<open>Snapshot validation\<close>

fun check_applied_ids :: "(string, unit) gomap \<Rightarrow> go_error option" where
  "check_applied_ids [] = None"
| "check_applied_ids ((eventID, _) # r) =
     (if blank eventID then Some ErrInvalidGroupEventID else check_applied_ids r)"

fun check_members :: "string \<Rightarrow> (string, GroupMember) gomap \<Rightarrow> go_error option" where
  "check_members gid [] = None"
| "check_members gid ((memberID, member) # r) =
     (if blank memberID then Some ErrInvalidGroupMemberID
      else if blank (m_MemberID member) \<or> m_MemberID member \<noteq> memberID then Some ErrInvalidGroupMemberID
      else if m_GroupID member \<noteq> gid then Some ErrInvalidGroupID
      else case ValidateGroupMember member of
             Some err \<Rightarrow> Some err
           | None \<Rightarrow> check_members gid r)"

definition normalizeGroupState :: "GroupState \<Rightarrow> go_error + GroupState" where
  "normalizeGroupState state =
     (if blank (g_ID (s_Group state)) then Inl ErrInvalidGroupID
      else case check_applied_ids (s_AppliedEventIDs state) of
             Some err \<Rightarrow> Inl err
           | None \<Rightarrow>
               (case check_members (g_ID (s_Group state)) (s_Members state) of
                  Some err \<Rightarrow> Inl err
                | None \<Rightarrow> Inr state))"

fun normalize_states ::
    "string list \<Rightarrow> (string, GroupState) gomap \<Rightarrow> go_error + (string, GroupState) gomap" where
  "normalize_states [] out = Inr out"
| "normalize_states (key # r) out =
     (case lookup out key of
        None \<Rightarrow> normalize_states r out
      | Some state \<Rightarrow>
          (let groupID = TrimSpace key in
           if groupID = [] then Inl ErrInvalidGroupID
           else if blank (g_ID (s_Group state)) \<or> g_ID (s_Group state) \<noteq> groupID then Inl ErrInvalidGroupID
           else bindE (normalizeGroupState state) (\<lambda>state. normalize_states r (put groupID state out))))"

fun check_events :: "string \<Rightarrow> GroupEvent list \<Rightarrow> go_error option" where
  "check_events gid [] = None"
| "check_events gid (e # es) =
     (case ValidateGroupEvent e of
        Some err \<Rightarrow> Some err
      | None \<Rightarrow> if e_GroupID e \<noteq> gid then Some ErrInvalidGroupID else check_events gid es)"

text \<open>The comparison function of \<open>sort.Slice\<close>: by version, then by time.\<close>

definition event_before :: "GroupEvent \<Rightarrow> GroupEvent \<Rightarrow> bool" where
  "event_before a b =
     (if e_Version a = e_Version b then e_OccurredAt a < e_OccurredAt b else e_Version a < e_Version b)"

fun insert_event :: "GroupEvent \<Rightarrow> GroupEvent list \<Rightarrow> GroupEvent list" where
  "insert_event e [] = [e]"
| "insert_event e (x # xs) = (if event_before x e then x # insert_event e xs else e # x # xs)"

definition sort_events :: "GroupEvent list \<Rightarrow> GroupEvent list" where
  "sort_events es = foldr insert_event es []"

text \<open>\<open>sort.Slice\<close> sorts in place, so the slice under the original key is sorted as well.\<close>

fun normalize_events ::
    "string list \<Rightarrow> (string, GroupEvent list) gomap \<Rightarrow> go_error + (string, GroupEvent list) gomap" where
  "normalize_events [] out = Inr out"
| "normalize_events (key # r) out =
     (case lookup out key of
        None \<Rightarrow> normalize_events r out
      | Some events \<Rightarrow>
          (let groupID = TrimSpace key in
           if groupID = [] then Inl ErrInvalidGroupID
           else case check_events groupID events of
                  Some err \<Rightarrow> Inl err
                | None \<Rightarrow>
                    normalize_events r (put groupID (sort_events events) (put key (sort_events events) out))))"

definition NormalizeGroupSnapshot ::
    "(string, GroupState) gomap \<Rightarrow> (string, GroupEvent list) gomap \<Rightarrow>
     go_error + ((string, GroupState) gomap \<times> (string, GroupEvent list) gomap)" where
  "NormalizeGroupSnapshot states eventLog =
     bindE (normalize_states (map fst states) states) (\<lambda>states.
     bindE (normalize_events (map fst eventLog) eventLog) (\<lambda>eventLog. Inr (states, eventLog)))"

section \<open>The snapshot file\<close>

record persistedGroupState =
  p_Version :: int
  p_States :: "(string, GroupState) gomap"
  p_EventLog :: "(string, GroupEvent list) gomap"

text \<open>
  The file behind a configured store is \<open>None\<close> when it does not exist. \<open>ioErr\<close> is the error that
  reading (other than \<open>fs.ErrNotExist\<close>), decoding or writing the file reports; the file holds
  what was last written to it without an error. The functions return the file after the call.
\<close>

definition Persist ::
    "bool \<Rightarrow> go_error option \<Rightarrow> persistedGroupState option \<Rightarrow>
     (string, GroupState) gomap \<Rightarrow> (string, GroupEvent list) gomap \<Rightarrow>
     go_error option \<times> persistedGroupState option" where
  "Persist configured writeErr file states eventLog =
     (if \<not> configured then (None, file)
      else case NormalizeGroupSnapshot states eventLog of
             Inl err \<Rightarrow> (Some err, file)
           | Inr (normalizedStates, normalizedEvents) \<Rightarrow>
               (case writeErr of
                  Some err \<Rightarrow> (Some err, file)
                | None \<Rightarrow>
                    (None, Some \<lparr>p_Version = 1, p_States = normalizedStates, p_EventLog = normalizedEvents\<rparr>)))"

definition Bootstrap ::
    "bool \<Rightarrow> go_error option \<Rightarrow> go_error option \<Rightarrow> persistedGroupState option \<Rightarrow>
     (go_error + ((string, GroupState) gomap \<times> (string, GroupEvent list) gomap)) \<times> persistedGroupState option" where
  "Bootstrap configured readErr writeErr file =
     (if \<not> configured then (Inr ([], []), file)
      else case file of
             None \<Rightarrow>
               (case Persist configured writeErr file [] [] of
                  (Some err, file) \<Rightarrow> (Inl err, file)
                | (None, file) \<Rightarrow> (Inr ([], []), file))
           | Some state \<Rightarrow>
               (case readErr of
                  Some err \<Rightarrow> (Inl err, file)
                | None \<Rightarrow>
                    if p_Version state \<noteq> 1
                    then (Inl (ErrText ''group state persistence payload is invalid''), file)
                    else (NormalizeGroupSnapshot (p_States state) (p_EventLog state), file)))"

definition Wipe :: "string \<Rightarrow> go_error option \<Rightarrow> persistedGroupState option \<Rightarrow> go_error option \<times> persistedGroupState option" where
  "Wipe path removeErr file =
     (if path = [] then (None, file)
      else case removeErr of Some err \<Rightarrow> (Some err, file) | None \<Rightarrow> (None, None))"

section \<open>The invariant of one group\<close>

definition member_ok :: "string \<Rightarrow> string \<Rightarrow> GroupMember \<Rightarrow> bool" where
  "member_ok gid k m \<longleftrightarrow> \<not> blank k \<and> m_MemberID m = k \<and> m_GroupID m = gid \<and> ValidateGroupMember m = None"

definition state_ok :: "GroupState \<Rightarrow> bool" where
  "state_ok s \<longleftrightarrow>
     \<not> blank (g_ID (s_Group s)) \<and> keys_distinct (s_Members s) \<and>
     (\<forall>k m. lookup (s_Members s) k = Some m \<longrightarrow> member_ok (g_ID (s_Group s)) k m) \<and>
     (\<forall>k \<in> applied_ids s. \<not> blank k)"

text \<open>
  \<open>group_ok gid s evs\<close>: the state and the event log that the daemon keeps for group \<open>gid\<close> belong
  together: the log holds valid events of that group with versions 1, 2, ..., the state's version is
  the length of the log, and the applied identifiers are those of the log.
\<close>

definition group_ok :: "string \<Rightarrow> GroupState \<Rightarrow> GroupEvent list \<Rightarrow> bool" where
  "group_ok gid s evs \<longleftrightarrow>
     trimmed gid \<and> gid \<noteq> [] \<and> g_ID (s_Group s) = gid \<and> state_ok s \<and>
     check_events gid evs = None \<and> length evs < 2 ^ 64 \<and>
     s_Version s = of_nat (length evs) \<and>
     (\<forall>i < length evs. e_Version (evs ! i) = of_nat (Suc i)) \<and>
     applied_ids s = e_ID ` set evs"

lemma check_applied_ids_None: "check_applied_ids m = None \<longleftrightarrow> (\<forall>k \<in> fst ` set m. \<not> blank k)"
  by (induction m rule: check_applied_ids.induct) auto

lemma check_members_None:
  "check_members gid m = None \<longleftrightarrow> (\<forall>(k, v) \<in> set m. member_ok gid k v)"
  by (induction gid m rule: check_members.induct) (auto simp: member_ok_def split: option.split)

lemma check_events_None:
  "check_events gid es = None \<longleftrightarrow> (\<forall>e \<in> set es. ValidateGroupEvent e = None \<and> e_GroupID e = gid)"
  by (induction es) (auto split: option.split)

lemma normalizeGroupState_Inr:
  "normalizeGroupState s = Inr t \<longleftrightarrow>
   t = s \<and> \<not> blank (g_ID (s_Group s)) \<and> (\<forall>k \<in> applied_ids s. \<not> blank k) \<and>
   (\<forall>(k, m) \<in> set (s_Members s). member_ok (g_ID (s_Group s)) k m)"
  unfolding check_applied_ids_None [symmetric] check_members_None [symmetric]
  by (auto simp: normalizeGroupState_def split: option.split)

lemma normalizes_iff_state_ok:
  "keys_distinct (s_Members s) \<Longrightarrow> normalizeGroupState s = Inr s \<longleftrightarrow> state_ok s"
  by (auto simp: normalizeGroupState_Inr state_ok_def lookup_iff_mem)

text \<open>A log in version order without repeated versions is left as it is by the sort.\<close>

lemma sort_events_sorted: "sorted_wrt event_before es \<Longrightarrow> sort_events es = es"
proof (induction es)
  case (Cons e es)
  then have "\<not> event_before x e" if "x \<in> set es" for x
    using that by (fastforce simp: event_before_def split: if_splits)
  with Cons show ?case
    by (cases es) (simp_all add: sort_events_def)
qed (simp add: sort_events_def)

lemma set_insert_event [simp]: "set (insert_event e es) = insert e (set es)"
  by (induction es) auto

lemma set_sort_events [simp]: "set (sort_events es) = set es"
  by (induction es) (simp_all add: sort_events_def)

section \<open>Applying an event keeps the invariant\<close>

lemma member_added_fields:
  "m_Role (member_added s e) = e_Role e"
  "lookup (s_Members s) (TrimSpace (e_MemberID e)) = None \<Longrightarrow> m_Status (member_added s e) = StatusInvited"
  "lookup (s_Members s) (TrimSpace (e_MemberID e)) = None \<Longrightarrow> m_GroupID (member_added s e) = g_ID (s_Group s)"
  "lookup (s_Members s) (TrimSpace (e_MemberID e)) = None \<Longrightarrow> m_MemberID (member_added s e) = TrimSpace (e_MemberID e)"
  "lookup (s_Members s) (TrimSpace (e_MemberID e)) = Some m \<Longrightarrow> m_GroupID (member_added s e) = m_GroupID m"
  "lookup (s_Members s) (TrimSpace (e_MemberID e)) = Some m \<Longrightarrow> m_MemberID (member_added s e) = m_MemberID m"
  by (simp_all add: member_added_def Let_def split: option.split GroupMemberStatus.split)

lemma member_added_status:
  "lookup (s_Members s) (TrimSpace (e_MemberID e)) = Some m \<Longrightarrow>
   m_Status (member_added s e) =
     (case m_Status m of
        StatusInvited \<Rightarrow> if TrimSpace (e_ActorID e) = TrimSpace (e_MemberID e) then StatusActive else StatusInvited
      | StatusActive \<Rightarrow> StatusActive
      | StatusLeft \<Rightarrow> StatusInvited
      | StatusRemoved \<Rightarrow> StatusInvited
      | StatusOther t \<Rightarrow> StatusOther t)"
  by (simp add: member_added_def Let_def split: GroupMemberStatus.split)

lemma member_okD:
  assumes "state_ok s" "lookup (s_Members s) k = Some m"
  shows "\<not> blank k" "m_MemberID m = k" "m_GroupID m = g_ID (s_Group s)" "role_Valid (m_Role m)" "status_Valid (m_Status m)"
  using assms by (auto simp: state_ok_def member_ok_def ValidateGroupMember_def split: if_splits)

lemma member_added_ok:
  assumes ok: "state_ok s" and valid: "ValidateGroupEvent e = None" and is_add: "e_Type e = MemberAdd"
  shows "member_ok (g_ID (s_Group s)) (TrimSpace (e_MemberID e)) (member_added s e)"
proof -
  have e: "\<not> blank (e_MemberID e)" "role_Valid (e_Role e)"
    using valid is_add by (auto simp: ValidateGroupEvent_def split: if_splits)
  have g: "\<not> blank (g_ID (s_Group s))" using ok by (simp add: state_ok_def)
  show ?thesis
  proof (cases "lookup (s_Members s) (TrimSpace (e_MemberID e))")
    case None
    with e g show ?thesis by (simp add: member_ok_def ValidateGroupMember_def member_added_fields)
  next
    case (Some m)
    with e g member_okD [OF ok Some] show ?thesis
      by (cases "m_Status m")
        (simp_all add: member_ok_def ValidateGroupMember_def member_added_fields member_added_status)
  qed
qed

lemma member_gone_ok:
  assumes "state_ok s" "\<not> blank (e_MemberID e)" "status_Valid st"
  shows "member_ok (g_ID (s_Group s)) (TrimSpace (e_MemberID e)) (member_gone st s e)"
  using assms
  by (auto simp: state_ok_def member_ok_def member_gone_def ValidateGroupMember_def Let_def
      split: option.splits if_splits)

lemma member_added_key:
  "state_ok s \<Longrightarrow> m_MemberID (member_added s e) = TrimSpace (e_MemberID e)"
  by (cases "lookup (s_Members s) (TrimSpace (e_MemberID e))") (simp_all add: member_added_fields member_okD)

text \<open>The member entries after an event: only the event's own member can change.\<close>

definition event_member :: "GroupState \<Rightarrow> GroupEvent \<Rightarrow> GroupMember option" where
  "event_member s e =
     (case e_Type e of
        MemberAdd \<Rightarrow> Some (member_added s e)
      | MemberRemove \<Rightarrow> Some (member_gone StatusRemoved s e)
      | MemberLeave \<Rightarrow> Some (member_gone StatusLeft s e)
      | _ \<Rightarrow> None)"

lemma effect_members:
  "state_ok s \<Longrightarrow> s_Members (apply_event_effect s e) =
     (case event_member s e of
        None \<Rightarrow> s_Members s
      | Some m \<Rightarrow> put (TrimSpace (e_MemberID e)) m (s_Members s))"
  by (simp add: apply_event_effect_def event_member_def member_added_key Let_def split: GroupEventType.split)

lemma event_member_ok:
  assumes "state_ok s" "ValidateGroupEvent e = None" "event_member s e = Some m"
  shows "member_ok (g_ID (s_Group s)) (TrimSpace (e_MemberID e)) m"
proof (cases "e_Type e")
  case MemberAdd
  with assms member_added_ok [OF assms(1,2)] show ?thesis by (auto simp: event_member_def)
qed (use assms in \<open>auto simp: event_member_def ValidateGroupEvent_def split: if_splits intro!: member_gone_ok\<close>)

lemma state_ok_applied:
  assumes "state_ok s" "ValidateGroupEvent e = None"
  shows "state_ok (applied_state s e)"
proof -
  have "\<not> blank (e_ID e)" using assms(2) by (auto simp: ValidateGroupEvent_def split: if_splits)
  with assms event_member_ok [OF assms] show ?thesis
    by (auto simp: state_ok_def effect_members dom_update split: option.splits)
qed

lemma group_ok_new: "trimmed gid \<Longrightarrow> gid \<noteq> [] \<Longrightarrow> g_ID grp = gid \<Longrightarrow> group_ok gid (NewGroupState grp) []"
  by (simp add: group_ok_def state_ok_def NewGroupState_def)

text \<open>
  A valid event never has version 0, so the version of a group stops at \<open>2 ^ 64 - 1\<close> and does not wrap.
\<close>

lemma applicable_room:
  assumes ok: "group_ok gid s evs" and app: "applicable s e"
  shows "Suc (length evs) < 2 ^ 64"
proof -
  have "e_Version e \<noteq> 0" using app by (auto simp: applicable_def ValidateGroupEvent_def split: if_splits)
  moreover have "e_Version e = of_nat (Suc (length evs))"
    using ok app by (simp add: group_ok_def applicable_def add.commute)
  moreover have "(of_nat (2 ^ 64) :: 64 word) = 0" by simp
  ultimately have "Suc (length evs) \<noteq> 2 ^ 64" by metis
  moreover have "length evs < 2 ^ 64" using ok by (simp add: group_ok_def)
  ultimately show ?thesis by linarith
qed

lemma group_ok_applied:
  assumes ok: "group_ok gid s evs" and app: "applicable s e"
  shows "group_ok gid (applied_state s e) (evs @ [e])"
proof -
  have "state_ok (applied_state s e)"
    using ok app by (simp add: group_ok_def applicable_def state_ok_applied)
  with assms applicable_room [OF assms] show ?thesis
    by (auto simp: group_ok_def applicable_def check_events_None nth_append less_Suc_eq dom_update)
qed

lemma group_okD:
  assumes "group_ok gid s evs"
  shows "trimmed gid" "gid \<noteq> []" "g_ID (s_Group s) = gid" "state_ok s" "check_events gid evs = None"
    "applied_ids s = e_ID ` set evs"
  using assms by (auto simp: group_ok_def)

text \<open>Whole stores: one log per group, each belonging to its state.\<close>

definition events_of :: "(string, GroupEvent list) gomap \<Rightarrow> string \<Rightarrow> GroupEvent list" where
  "events_of eventLog gid = (case lookup eventLog gid of None \<Rightarrow> [] | Some es \<Rightarrow> es)"

lemma events_of_put [simp]: "events_of (put gid es l) = (events_of l)(gid := es)"
  by (rule ext) (simp add: events_of_def)

lemma events_of_del [simp]: "events_of (del gid l) = (events_of l)(gid := [])"
  by (rule ext) (simp add: events_of_def)

lemma events_of_Some [simp]: "lookup l gid = Some es \<Longrightarrow> events_of l gid = es"
  by (simp add: events_of_def)

lemma events_of_None: "lookup l gid = None \<Longrightarrow> events_of l gid = []"
  by (simp add: events_of_def)

definition store_ok :: "(string, GroupState) gomap \<Rightarrow> (string, GroupEvent list) gomap \<Rightarrow> bool" where
  "store_ok states eventLog \<longleftrightarrow>
     keys_distinct states \<and> keys_distinct eventLog \<and>
     (\<forall>gid s. lookup states gid = Some s \<longrightarrow> group_ok gid s (events_of eventLog gid)) \<and>
     (\<forall>gid es. lookup eventLog gid = Some es \<longrightarrow> lookup states gid = None \<longrightarrow> es = [] \<and> trimmed gid \<and> gid \<noteq> [])"

lemma group_ok_sorted_log: "group_ok gid s evs \<Longrightarrow> sort_events evs = evs"
proof (rule sort_events_sorted, unfold sorted_wrt_iff_nth_less, intro allI impI)
  fix i j
  assume ok: "group_ok gid s evs" and ij: "i < j" "j < length evs"
  have "(of_nat (Suc i) :: 64 word) < of_nat (Suc j)"
    using ok ij by (simp add: group_ok_def word_less_nat_alt unat_of_nat take_bit_eq_mod del: of_nat_Suc)
  moreover have "e_Version (evs ! i) = of_nat (Suc i)" "e_Version (evs ! j) = of_nat (Suc j)"
    using ok ij by (simp_all add: group_ok_def)
  ultimately show "event_before (evs ! i) (evs ! j)"
    by (simp add: event_before_def less_imp_neq del: of_nat_Suc)
qed

lemma normalize_states_id:
  assumes "\<And>k s. k \<in> set ks \<Longrightarrow> lookup out k = Some s \<Longrightarrow>
             trimmed k \<and> k \<noteq> [] \<and> g_ID (s_Group s) = k \<and> state_ok s"
  shows "normalize_states ks out = Inr out"
  using assms
proof (induction ks)
  case (Cons k ks)
  have "normalizeGroupState s = Inr s" if "lookup out k = Some s" for s
    using Cons.prems [of k s] that normalizes_iff_state_ok [of s] by (auto simp: state_ok_def)
  moreover have "trimmed k \<and> k \<noteq> [] \<and> g_ID (s_Group s) = k" if "lookup out k = Some s" for s
    using Cons.prems [of k s] that by simp
  moreover have "normalize_states ks out = Inr out"
    by (rule Cons.IH, rule Cons.prems) simp_all
  ultimately show ?case by (simp split: option.split)
qed simp

lemma normalize_events_id:
  assumes "\<And>k es. k \<in> set ks \<Longrightarrow> lookup out k = Some es \<Longrightarrow>
             trimmed k \<and> k \<noteq> [] \<and> check_events k es = None \<and> sort_events es = es"
  shows "normalize_events ks out = Inr out"
  using assms
proof (induction ks)
  case (Cons k ks)
  have "trimmed k \<and> k \<noteq> [] \<and> check_events k es = None \<and> sort_events es = es" if "lookup out k = Some es" for es
    using Cons.prems [of k es] that by simp
  moreover have "normalize_events ks out = Inr out"
    by (rule Cons.IH, rule Cons.prems) simp_all
  ultimately show ?case by (simp split: option.split)
qed simp

lemma store_ok_group: "store_ok states eventLog \<Longrightarrow> lookup states gid = Some s \<Longrightarrow> group_ok gid s (events_of eventLog gid)"
  by (simp add: store_ok_def)

lemma store_ok_log:
  assumes ok: "store_ok states eventLog" and es: "lookup eventLog gid = Some es"
  shows "trimmed gid \<and> gid \<noteq> [] \<and> check_events gid es = None \<and> sort_events es = es"
proof (cases "lookup states gid")
  case None
  with ok es have "es = []" "trimmed gid" "gid \<noteq> []" by (auto simp: store_ok_def)
  then show ?thesis by (simp add: sort_events_def)
next
  case (Some s)
  from store_ok_group [OF ok this] es have "group_ok gid s es" by simp
  with group_ok_sorted_log [of gid s es] show ?thesis by (simp add: group_okD)
qed

lemma NormalizeGroupSnapshot_id:
  assumes ok: "store_ok states eventLog"
  shows "NormalizeGroupSnapshot states eventLog = Inr (states, eventLog)"
proof -
  have states: "normalize_states (map fst states) states = Inr states"
    by (rule normalize_states_id, drule store_ok_group [OF ok]) (simp add: group_okD)
  have "normalize_events (map fst eventLog) eventLog = Inr eventLog"
    by (rule normalize_events_id, rule store_ok_log [OF ok])
  with states show ?thesis by (simp add: NormalizeGroupSnapshot_def)
qed

text \<open>Changing one group of a store.\<close>

lemma store_ok_put:
  assumes ok: "store_ok states eventLog" and g: "group_ok gid s evs"
  shows "store_ok (put gid s states) (put gid evs eventLog)"
  using assms by (auto simp: store_ok_def)

lemma store_ok_del: "store_ok states eventLog \<Longrightarrow> store_ok (del gid states) (del gid eventLog)"
  by (auto simp: store_ok_def)

lemma store_ok_empty [simp]: "store_ok [] []"
  by (simp add: store_ok_def)

end
