(* ===== verification/Group_Membership.thy ===== *)
theory Group_Membership
  imports Group_Store
begin

text \<open>
  The local membership operations of \<open>internal/domains/group/usecase/membership_service.go\<close> and the
  transactional event application of \<open>state_mutation.go\<close>.
  \<^item> A service value holds the two maps and the injected functions. \<open>Persist\<close> is an arbitrary
    function of the two maps, or nil (\<open>None\<close>). The n-th call of \<open>GenerateEventID\<close> is
    \<open>gen n\<close>; \<open>ms_ids\<close> counts the calls. Calls of \<open>Notify\<close> are recorded in \<open>ms_Notified\<close>.
  \<^item> An operation returns its result (\<open>Inl\<close> is the error) together with the service and the abuse
    protection after the call. The zero event (\<open>GroupEvent{}\<close>) marks a call that changed nothing.
  \<^item> \<open>GroupState\<close> is copied by value, but its two maps are shared with the entry of \<open>States\<close> that it
    was loaded from. \<open>leak_shared\<close> writes what \<open>ApplyGroupEvent\<close> did to them into that entry when
    a later event of the same batch fails.
\<close>

section \<open>Zero values\<close>

definition zero_group :: Group where
  "zero_group = \<lparr>g_ID = [], g_Title = [], g_Description = [], g_Avatar = [], g_CreatedBy = [], g_CreatedAt = 0, g_UpdatedAt = 0\<rparr>"

definition zero_member :: GroupMember where
  "zero_member =
     \<lparr>m_GroupID = [], m_MemberID = [], m_Role = RoleOther [], m_Status = StatusOther [],
      m_InvitedAt = 0, m_ActivatedAt = 0, m_UpdatedAt = 0\<rparr>"

definition zero_event :: GroupEvent where
  "zero_event =
     \<lparr>e_ID = [], e_GroupID = [], e_Version = 0, e_Type = EventTypeOther [], e_ActorID = [], e_OccurredAt = 0,
      e_MemberID = [], e_Role = RoleOther [], e_Title = [], e_Description = [], e_Avatar = [], e_KeyVersion = 0\<rparr>"

abbreviation member_at :: "GroupState \<Rightarrow> string \<Rightarrow> GroupMember" where
  "member_at state k \<equiv> (case lookup (s_Members state) k of Some m \<Rightarrow> m | None \<Rightarrow> zero_member)"

section \<open>Applying events with rollback\<close>

type_synonym group_states = "(string, GroupState) gomap"
type_synonym event_log = "(string, GroupEvent list) gomap"
type_synonym persist = "group_states \<Rightarrow> event_log \<Rightarrow> go_error option"

definition LoadStateForActor :: "group_states \<Rightarrow> string \<Rightarrow> string \<Rightarrow> bool \<Rightarrow> go_error + GroupState" where
  "LoadStateForActor states groupID actorID requireActiveActor =
     (case lookup states groupID of
        None \<Rightarrow> Inl ErrGroupNotFound
      | Some state \<Rightarrow>
          bindE (NormalizeGroupMemberID actorID) (\<lambda>normalizedActorID.
          case lookup (s_Members state) normalizedActorID of
            None \<Rightarrow> Inl ErrGroupMembershipNotFound
          | Some actor \<Rightarrow>
              if requireActiveActor \<and> m_Status actor \<noteq> StatusActive then Inl ErrGroupPermissionDenied
              else Inr state))"

fun apply_loop :: "GroupState \<Rightarrow> GroupEvent list \<Rightarrow> GroupEvent list \<Rightarrow> (go_error + GroupEvent list) \<times> GroupState" where
  "apply_loop state [] appliedEvents = (Inr appliedEvents, state)"
| "apply_loop state (event # events) appliedEvents =
     (case ApplyGroupEvent state event of
        (Inl err, state) \<Rightarrow> (Inl err, state)
      | (Inr applied, state) \<Rightarrow>
          apply_loop state events (if applied then appliedEvents @ [event] else appliedEvents))"

definition leak_shared :: "string \<Rightarrow> GroupState \<Rightarrow> group_states \<Rightarrow> group_states" where
  "leak_shared gid state states =
     (case lookup states gid of
        None \<Rightarrow> states
      | Some entry \<Rightarrow>
          put gid (entry\<lparr>s_AppliedEventIDs := s_AppliedEventIDs state, s_Members := s_Members state\<rparr>) states)"

definition ApplyEventsWithRollback ::
    "GroupState \<Rightarrow> group_states \<Rightarrow> event_log \<Rightarrow> persist option \<Rightarrow> GroupEvent list \<Rightarrow>
     (go_error + (GroupState \<times> GroupEvent list)) \<times> group_states \<times> event_log" where
  "ApplyEventsWithRollback state states eventLog persist events =
     (if events = [] then (Inr (state, []), states, eventLog)
      else
        let gid = g_ID (s_Group state);
            previousState = state;
            hadState = (lookup states gid \<noteq> None);
            previousLog = events_of eventLog gid
        in case apply_loop state events [] of
             (Inl err, state) \<Rightarrow> (Inl err, leak_shared gid state states, eventLog)
           | (Inr appliedEvents, state) \<Rightarrow>
               if appliedEvents = [] then (Inr (state, []), states, eventLog)
               else
                 let states = put gid state states;
                     eventLog = put gid (events_of eventLog gid @ appliedEvents) eventLog
                 in case (case persist of None \<Rightarrow> None | Some f \<Rightarrow> f states eventLog) of
                      Some err \<Rightarrow>
                        (Inl err,
                         if hadState then put gid previousState states else del gid states,
                         put gid previousLog eventLog)
                    | None \<Rightarrow> (Inr (state, appliedEvents), states, eventLog))"

section \<open>The membership service\<close>

record MembershipService =
  ms_States :: group_states
  ms_EventLog :: event_log
  ms_Persist :: "persist option"
  ms_GenerateEventID :: "(nat \<Rightarrow> string) option"
  ms_ids :: nat
  ms_Notify :: bool
  ms_Notified :: "GroupEvent list"

definition notify :: "GroupEvent list \<Rightarrow> MembershipService \<Rightarrow> MembershipService" where
  "notify events s = (if ms_Notify s then s\<lparr>ms_Notified := ms_Notified s @ events\<rparr> else s)"

definition generateEventID :: "MembershipService \<Rightarrow> string \<times> MembershipService" where
  "generateEventID s =
     (case ms_GenerateEventID s of
        None \<Rightarrow> (''gevt_fallback'', s)
      | Some gen \<Rightarrow> (gen (ms_ids s), s\<lparr>ms_ids := ms_ids s + 1\<rparr>))"

definition applyEvents :: "MembershipService \<Rightarrow> GroupState \<Rightarrow> GroupEvent list \<Rightarrow> (go_error + GroupState) \<times> MembershipService" where
  "applyEvents s state events =
     (case ApplyEventsWithRollback state (ms_States s) (ms_EventLog s) (ms_Persist s) events of
        (r, states, eventLog) \<Rightarrow>
          let s = s\<lparr>ms_States := states, ms_EventLog := eventLog\<rparr>
          in case r of
               Inl err \<Rightarrow> (Inl err, s)
             | Inr (next, applied) \<Rightarrow> (Inr next, notify applied s))"

definition applyEvent :: "MembershipService \<Rightarrow> GroupState \<Rightarrow> GroupEvent \<Rightarrow> (go_error + GroupState) \<times> MembershipService" where
  "applyEvent s state event = applyEvents s state [event]"

definition applyMembershipChangeWithKeyRotation ::
    "MembershipService \<Rightarrow> GroupState \<Rightarrow> GroupEvent \<Rightarrow> (go_error + GroupState) \<times> MembershipService" where
  "applyMembershipChangeWithKeyRotation s state change =
     (let nextKeyVersion = (if s_LastKeyVersion state = 0 then 1 else s_LastKeyVersion state + 1);
          (rotateID, s) = generateEventID s;
          rotate = zero_event\<lparr>e_ID := rotateID, e_GroupID := e_GroupID change, e_Version := e_Version change + 1,
                     e_Type := KeyRotate, e_ActorID := e_ActorID change, e_OccurredAt := e_OccurredAt change,
                     e_KeyVersion := nextKeyVersion\<rparr>
      in applyEvents s state [change, rotate])"

text \<open>
  \<open>generateID\<close> is the injected identifier source of \<open>CreateGroup\<close>: a function of the prefix and of
  the number of calls made so far. The loop makes at most three attempts and stops at the first
  candidate that is not taken; the empty string is "none found".
\<close>

fun alloc_group_id ::
    "(string \<Rightarrow> nat \<Rightarrow> go_error + string) \<Rightarrow> group_states \<Rightarrow> nat \<Rightarrow> nat \<Rightarrow> go_error + (string \<times> nat)" where
  "alloc_group_id generateID states calls 0 = Inr ([], calls)"
| "alloc_group_id generateID states calls (Suc left) =
     (case generateID ''group'' calls of
        Inl genErr \<Rightarrow> Inl genErr
      | Inr candidate \<Rightarrow>
          if lookup states candidate = None then Inr (candidate, Suc calls)
          else alloc_group_id generateID states (Suc calls) left)"

definition created_group :: "string \<Rightarrow> string \<Rightarrow> string \<Rightarrow> gotime \<Rightarrow> Group" where
  "created_group groupID title identityID now =
     zero_group\<lparr>g_ID := groupID, g_Title := title, g_CreatedBy := identityID, g_CreatedAt := now, g_UpdatedAt := now\<rparr>"

definition created_event :: "string \<Rightarrow> string \<Rightarrow> string \<Rightarrow> gotime \<Rightarrow> GroupEvent" where
  "created_event groupID eventID identityID now =
     zero_event\<lparr>e_ID := eventID, e_GroupID := groupID, e_Version := 1, e_Type := MemberAdd,
       e_ActorID := identityID, e_OccurredAt := now, e_MemberID := identityID, e_Role := RoleOwner\<rparr>"

text \<open>The state after the owner's event, before and after the owner is made active.\<close>

definition activate_owner :: "string \<Rightarrow> gotime \<Rightarrow> GroupState \<Rightarrow> GroupState" where
  "activate_owner identityID now state =
     (let owner = (member_at state identityID)\<lparr>m_Status := StatusActive, m_ActivatedAt := now, m_UpdatedAt := now\<rparr>
      in state\<lparr>s_Members := put identityID owner (s_Members state),
               s_Group := (s_Group state)\<lparr>g_UpdatedAt := now\<rparr>, s_LastKeyVersion := 1\<rparr>)"

definition CreateGroup ::
    "string \<Rightarrow> string \<Rightarrow> gotime \<Rightarrow> (string \<Rightarrow> nat \<Rightarrow> go_error + string) option \<Rightarrow> MembershipService \<Rightarrow>
     (go_error + (Group \<times> GroupEvent)) \<times> MembershipService" where
  "CreateGroup title identityID now generateID s =
     orFail (NormalizeGroupTitle title) s (\<lambda>title.
     orFail (NormalizeGroupMemberID identityID) s (\<lambda>identityID.
     case generateID of
       None \<Rightarrow> (Inl (ErrText ''id generator is required''), s)
     | Some generateID \<Rightarrow>
         orFail (alloc_group_id generateID (ms_States s) 0 3) s (\<lambda>(groupID, calls).
         if groupID = [] then (Inl (ErrText ''failed to allocate unique group id''), s)
         else
           orFail (generateID ''gevt'' calls) s (\<lambda>eventID.
           let grp = created_group groupID title identityID now;
               event = created_event groupID eventID identityID now
           in case ApplyGroupEvent (NewGroupState grp) event of
                (Inl err, _) \<Rightarrow> (Inl err, s)
              | (Inr _, state) \<Rightarrow>
                  let state = activate_owner identityID now state;
                      states = put groupID state (ms_States s);
                      eventLog = put groupID [event] (ms_EventLog s)
                  in case (case ms_Persist s of None \<Rightarrow> None | Some f \<Rightarrow> f states eventLog) of
                       Some err \<Rightarrow>
                         (Inl err, s\<lparr>ms_States := del groupID states, ms_EventLog := del groupID eventLog\<rparr>)
                     | None \<Rightarrow>
                         (Inr (s_Group state, event),
                          notify [event] (s\<lparr>ms_States := states, ms_EventLog := eventLog\<rparr>))))))"

definition InviteToGroup ::
    "'l rate_lib \<Rightarrow> (string \<Rightarrow> bool) option \<Rightarrow> string \<Rightarrow> string \<Rightarrow> string \<Rightarrow> gotime \<Rightarrow>
     MembershipService \<times> 'l AbuseProtection option \<Rightarrow>
     (go_error + (GroupMember \<times> GroupEvent)) \<times> MembershipService \<times> 'l AbuseProtection option" where
  "InviteToGroup lib isBlockedSender groupID actorID memberID now w = (case w of (s, abuse) \<Rightarrow>
     orFail (NormalizeGroupID groupID) w (\<lambda>groupID.
     orFail (NormalizeGroupMemberID actorID) w (\<lambda>actorID.
     orFail (NormalizeGroupMemberID memberID) w (\<lambda>memberID.
     if memberID = actorID then (Inl ErrGroupCannotInviteSelf, w)
     else if (case isBlockedSender of None \<Rightarrow> False | Some blocked \<Rightarrow> blocked memberID)
     then (Inl ErrGroupMemberBlocked, w)
     else case AllowInvite lib abuse actorID now of (allowed, abuse) \<Rightarrow>
       if \<not> allowed then (Inl ErrGroupRateLimitExceeded, s, abuse)
       else
         orFail (LoadStateForActor (ms_States s) groupID actorID True) (s, abuse) (\<lambda>state.
         if \<not> CanManageMembers (member_at state actorID) then (Inl ErrGroupPermissionDenied, s, abuse)
         else
           let proceed =
             (case EnforceInviteQuotas abuse state of
                Some err \<Rightarrow> (Inl err, s, abuse)
              | None \<Rightarrow>
                  let (eventID, s) = generateEventID s;
                      event = zero_event\<lparr>e_ID := eventID, e_GroupID := groupID, e_Version := s_Version state + 1,
                                e_Type := MemberAdd, e_ActorID := actorID, e_OccurredAt := now,
                                e_MemberID := memberID, e_Role := RoleUser\<rparr>;
                      (r, s) = applyEvent s state event
                  in orFail r (s, abuse) (\<lambda>next.
                     case lookup (s_Members next) memberID of
                       None \<Rightarrow> (Inl ErrGroupMembershipNotFound, s, abuse)
                     | Some member \<Rightarrow> (Inr (member, event), s, abuse)))
           in case lookup (s_Members state) memberID of
                Some existing \<Rightarrow>
                  if m_Status existing = StatusInvited \<or> m_Status existing = StatusActive
                  then (Inr (existing, zero_event), s, abuse)
                  else proceed
              | None \<Rightarrow> proceed)))))"

definition LeaveGroup ::
    "'l rate_lib \<Rightarrow> string \<Rightarrow> string \<Rightarrow> gotime \<Rightarrow> MembershipService \<times> 'l AbuseProtection option \<Rightarrow>
     (go_error + (bool \<times> GroupEvent)) \<times> MembershipService \<times> 'l AbuseProtection option" where
  "LeaveGroup lib groupID actorID now w = (case w of (s, abuse) \<Rightarrow>
     orFail (NormalizeGroupID groupID) w (\<lambda>groupID.
     orFail (NormalizeGroupMemberID actorID) w (\<lambda>actorID.
     case AllowMembership lib abuse actorID now of (allowed, abuse) \<Rightarrow>
       if \<not> allowed then (Inl ErrGroupRateLimitExceeded, s, abuse)
       else case lookup (ms_States s) groupID of
              None \<Rightarrow> (Inl ErrGroupNotFound, s, abuse)
            | Some state \<Rightarrow>
                (case lookup (s_Members state) actorID of
                   None \<Rightarrow> (Inl ErrGroupMembershipNotFound, s, abuse)
                 | Some member \<Rightarrow>
                     if m_Status member = StatusLeft \<or> m_Status member = StatusRemoved
                     then (Inr (True, zero_event), s, abuse)
                     else
                       let (eventID, s) = generateEventID s;
                           event = zero_event\<lparr>e_ID := eventID, e_GroupID := groupID,
                                     e_Version := s_Version state + 1, e_Type := MemberLeave,
                                     e_ActorID := actorID, e_OccurredAt := now, e_MemberID := actorID\<rparr>;
                           (r, s) = applyMembershipChangeWithKeyRotation s state event
                       in orFail r (s, abuse) (\<lambda>_. (Inr (True, event), s, abuse))))))"

definition UpdateGroupProfile ::
    "'l rate_lib \<Rightarrow> string \<Rightarrow> string \<Rightarrow> string \<Rightarrow> string \<Rightarrow> string \<Rightarrow> gotime \<Rightarrow>
     MembershipService \<times> 'l AbuseProtection option \<Rightarrow>
     (go_error + (Group \<times> GroupEvent)) \<times> MembershipService \<times> 'l AbuseProtection option" where
  "UpdateGroupProfile lib groupID actorID title description avatar now w = (case w of (s, abuse) \<Rightarrow>
     orFail (NormalizeGroupID groupID) w (\<lambda>groupID.
     orFail (NormalizeGroupMemberID actorID) w (\<lambda>actorID.
     orFail (NormalizeGroupTitle title) w (\<lambda>title.
     let description = TrimSpace description; avatar = TrimSpace avatar in
     case AllowMembership lib abuse actorID now of (allowed, abuse) \<Rightarrow>
       if \<not> allowed then (Inl ErrGroupRateLimitExceeded, s, abuse)
       else
         orFail (LoadStateForActor (ms_States s) groupID actorID True) (s, abuse) (\<lambda>state.
         if \<not> CanManageMembers (member_at state actorID) then (Inl ErrGroupPermissionDenied, s, abuse)
         else if g_Title (s_Group state) = title \<and> g_Description (s_Group state) = description \<and>
                 g_Avatar (s_Group state) = avatar
         then (Inr (s_Group state, zero_event), s, abuse)
         else
           let (eventID, s) = generateEventID s;
               event = zero_event\<lparr>e_ID := eventID, e_GroupID := groupID, e_Version := s_Version state + 1,
                         e_Type := ProfileChange, e_ActorID := actorID, e_OccurredAt := now,
                         e_Title := title, e_Description := description, e_Avatar := avatar\<rparr>;
               (r, s) = applyEvent s state event
           in orFail r (s, abuse) (\<lambda>next. (Inr (s_Group next, event), s, abuse)))))))"

definition UpdateGroupTitle ::
    "'l rate_lib \<Rightarrow> string \<Rightarrow> string \<Rightarrow> string \<Rightarrow> gotime \<Rightarrow>
     MembershipService \<times> 'l AbuseProtection option \<Rightarrow>
     (go_error + (Group \<times> GroupEvent)) \<times> MembershipService \<times> 'l AbuseProtection option" where
  "UpdateGroupTitle lib groupID actorID title now w = (case w of (s, abuse) \<Rightarrow>
     orFail (NormalizeGroupID groupID) w (\<lambda>groupID.
     orFail (NormalizeGroupMemberID actorID) w (\<lambda>actorID.
     case AllowMembership lib abuse actorID now of (allowed, abuse) \<Rightarrow>
       if \<not> allowed then (Inl ErrGroupRateLimitExceeded, s, abuse)
       else
         orFail (LoadStateForActor (ms_States s) groupID actorID True) (s, abuse) (\<lambda>state.
         case UpdateGroupProfile lib groupID actorID title (g_Description (s_Group state))
                (g_Avatar (s_Group state)) now (s, None) of
           (r, s, _) \<Rightarrow> (r, s, abuse)))))"

definition DeleteGroup ::
    "'l rate_lib \<Rightarrow> string \<Rightarrow> string \<Rightarrow> gotime \<Rightarrow> MembershipService \<times> 'l AbuseProtection option \<Rightarrow>
     (go_error + bool) \<times> MembershipService \<times> 'l AbuseProtection option" where
  "DeleteGroup lib groupID actorID now w = (case w of (s, abuse) \<Rightarrow>
     orFail (NormalizeGroupID groupID) w (\<lambda>groupID.
     orFail (NormalizeGroupMemberID actorID) w (\<lambda>actorID.
     case AllowMembership lib abuse actorID now of (allowed, abuse) \<Rightarrow>
       if \<not> allowed then (Inl ErrGroupRateLimitExceeded, s, abuse)
       else
         orFail (LoadStateForActor (ms_States s) groupID actorID True) (s, abuse) (\<lambda>state.
         if \<not> IsOwner (member_at state actorID) then (Inl ErrGroupPermissionDenied, s, abuse)
         else
           let previousState = lookup (ms_States s) groupID;
               previousLog = lookup (ms_EventLog s) groupID;
               states = del groupID (ms_States s);
               eventLog = del groupID (ms_EventLog s)
           in case (case ms_Persist s of None \<Rightarrow> None | Some f \<Rightarrow> f states eventLog) of
                Some err \<Rightarrow>
                  (Inl err,
                   s\<lparr>ms_States := (case previousState of Some st \<Rightarrow> put groupID st states | None \<Rightarrow> states),
                     ms_EventLog := (case previousLog of Some l \<Rightarrow> put groupID l eventLog | None \<Rightarrow> eventLog)\<rparr>,
                   abuse)
              | None \<Rightarrow> (Inr True, s\<lparr>ms_States := states, ms_EventLog := eventLog\<rparr>, abuse)))))"

definition loadActorMembershipState ::
    "'l rate_lib \<Rightarrow> string \<Rightarrow> string \<Rightarrow> gotime \<Rightarrow> MembershipService \<times> 'l AbuseProtection option \<Rightarrow>
     (go_error + (string \<times> string \<times> GroupState \<times> GroupMember option)) \<times> MembershipService \<times> 'l AbuseProtection option" where
  "loadActorMembershipState lib groupID actorID now w = (case w of (s, abuse) \<Rightarrow>
     orFail (NormalizeGroupID groupID) w (\<lambda>groupID.
     orFail (NormalizeGroupMemberID actorID) w (\<lambda>actorID.
     case AllowMembership lib abuse actorID now of (allowed, abuse) \<Rightarrow>
       if \<not> allowed then (Inl ErrGroupRateLimitExceeded, s, abuse)
       else
         orFail (LoadStateForActor (ms_States s) groupID actorID False) (s, abuse) (\<lambda>state.
         (Inr (groupID, actorID, state, lookup (s_Members state) actorID), s, abuse)))))"

definition applySelfMembershipChange ::
    "MembershipService \<Rightarrow> GroupState \<Rightarrow> string \<Rightarrow> string \<Rightarrow> gotime \<Rightarrow> GroupEventType \<Rightarrow> GroupMemberRole \<Rightarrow>
     (go_error + GroupEvent) \<times> MembershipService" where
  "applySelfMembershipChange s state groupID actorID now eventType role =
     (let (eventID, s) = generateEventID s;
          event = zero_event\<lparr>e_ID := eventID, e_GroupID := groupID, e_Version := s_Version state + 1,
                    e_Type := eventType, e_ActorID := actorID, e_OccurredAt := now, e_MemberID := actorID\<rparr>;
          event = (if eventType = MemberAdd then event\<lparr>e_Role := role\<rparr> else event);
          (r, s) = applyMembershipChangeWithKeyRotation s state event
      in orFail r s (\<lambda>_. (Inr event, s)))"

definition AcceptGroupInvite ::
    "'l rate_lib \<Rightarrow> string \<Rightarrow> string \<Rightarrow> gotime \<Rightarrow> MembershipService \<times> 'l AbuseProtection option \<Rightarrow>
     (go_error + (bool \<times> GroupEvent)) \<times> MembershipService \<times> 'l AbuseProtection option" where
  "AcceptGroupInvite lib groupID actorID now w =
     (case loadActorMembershipState lib groupID actorID now w of
        (Inl err, w) \<Rightarrow> (Inl err, w)
      | (Inr (groupID, actorID, state, None), w) \<Rightarrow> (Inl ErrGroupMembershipNotFound, w)
      | (Inr (groupID, actorID, state, Some member), s, abuse) \<Rightarrow>
          if m_Status member = StatusActive then (Inr (True, zero_event), s, abuse)
          else if m_Status member \<noteq> StatusInvited then (Inl ErrInvalidGroupMemberState, s, abuse)
          else
            let (r, s) = applySelfMembershipChange s state groupID actorID now MemberAdd (m_Role member)
            in orFail r (s, abuse) (\<lambda>event. (Inr (True, event), s, abuse)))"

definition DeclineGroupInvite ::
    "'l rate_lib \<Rightarrow> string \<Rightarrow> string \<Rightarrow> gotime \<Rightarrow> MembershipService \<times> 'l AbuseProtection option \<Rightarrow>
     (go_error + (bool \<times> GroupEvent)) \<times> MembershipService \<times> 'l AbuseProtection option" where
  "DeclineGroupInvite lib groupID actorID now w =
     (case loadActorMembershipState lib groupID actorID now w of
        (Inl err, w) \<Rightarrow> (Inl err, w)
      | (Inr (groupID, actorID, state, None), w) \<Rightarrow> (Inr (True, zero_event), w)
      | (Inr (groupID, actorID, state, Some member), s, abuse) \<Rightarrow>
          if m_Status member = StatusRemoved then (Inr (True, zero_event), s, abuse)
          else if m_Status member \<noteq> StatusInvited then (Inl ErrInvalidGroupMemberState, s, abuse)
          else
            let (r, s) = applySelfMembershipChange s state groupID actorID now MemberRemove (RoleOther [])
            in orFail r (s, abuse) (\<lambda>event. (Inr (True, event), s, abuse)))"

definition RemoveGroupMember ::
    "'l rate_lib \<Rightarrow> string \<Rightarrow> string \<Rightarrow> string \<Rightarrow> gotime \<Rightarrow> MembershipService \<times> 'l AbuseProtection option \<Rightarrow>
     (go_error + (bool \<times> GroupEvent)) \<times> MembershipService \<times> 'l AbuseProtection option" where
  "RemoveGroupMember lib groupID actorID memberID now w = (case w of (s, abuse) \<Rightarrow>
     orFail (NormalizeGroupID groupID) w (\<lambda>groupID.
     orFail (NormalizeGroupMemberID actorID) w (\<lambda>actorID.
     orFail (NormalizeGroupMemberID memberID) w (\<lambda>memberID.
     case AllowMembership lib abuse actorID now of (allowed, abuse) \<Rightarrow>
       if \<not> allowed then (Inl ErrGroupRateLimitExceeded, s, abuse)
       else
         orFail (LoadStateForActor (ms_States s) groupID actorID True) (s, abuse) (\<lambda>state.
         if \<not> CanManageMembers (member_at state actorID) then (Inl ErrGroupPermissionDenied, s, abuse)
         else case lookup (s_Members state) memberID of
                None \<Rightarrow> (Inl ErrGroupMembershipNotFound, s, abuse)
              | Some target \<Rightarrow>
                  if IsOwner target then (Inl ErrGroupPermissionDenied, s, abuse)
                  else if m_Status target = StatusRemoved then (Inr (True, zero_event), s, abuse)
                  else
                    let (eventID, s) = generateEventID s;
                        event = zero_event\<lparr>e_ID := eventID, e_GroupID := groupID,
                                  e_Version := s_Version state + 1, e_Type := MemberRemove,
                                  e_ActorID := actorID, e_OccurredAt := now, e_MemberID := memberID\<rparr>;
                        (r, s) = applyMembershipChangeWithKeyRotation s state event
                    in orFail r (s, abuse) (\<lambda>_. (Inr (True, event), s, abuse)))))))"

definition ChangeGroupMemberRole ::
    "'l rate_lib \<Rightarrow> string \<Rightarrow> string \<Rightarrow> string \<Rightarrow> GroupMemberRole \<Rightarrow> gotime \<Rightarrow>
     MembershipService \<times> 'l AbuseProtection option \<Rightarrow>
     (go_error + (GroupMember \<times> GroupEvent)) \<times> MembershipService \<times> 'l AbuseProtection option" where
  "ChangeGroupMemberRole lib groupID actorID memberID role now w = (case w of (s, abuse) \<Rightarrow>
     orFail (NormalizeGroupID groupID) w (\<lambda>groupID.
     orFail (NormalizeGroupMemberID actorID) w (\<lambda>actorID.
     orFail (NormalizeGroupMemberID memberID) w (\<lambda>memberID.
     case AllowMembership lib abuse actorID now of (allowed, abuse) \<Rightarrow>
       if \<not> allowed then (Inl ErrGroupRateLimitExceeded, s, abuse)
       else
         orFail (LoadStateForActor (ms_States s) groupID actorID True) (s, abuse) (\<lambda>state.
         if \<not> IsOwner (member_at state actorID) then (Inl ErrGroupPermissionDenied, s, abuse)
         else case lookup (s_Members state) memberID of
                None \<Rightarrow> (Inl ErrGroupMembershipNotFound, s, abuse)
              | Some target \<Rightarrow>
                  if IsOwner target then (Inl ErrGroupPermissionDenied, s, abuse)
                  else if \<not> CanMutateRole target then (Inl ErrInvalidGroupMemberState, s, abuse)
                  else if m_Role target = role then (Inr (target, zero_event), s, abuse)
                  else
                    let (eventID, s) = generateEventID s;
                        event = zero_event\<lparr>e_ID := eventID, e_GroupID := groupID,
                                  e_Version := s_Version state + 1, e_Type := MemberAdd,
                                  e_ActorID := actorID, e_OccurredAt := now, e_MemberID := memberID,
                                  e_Role := role\<rparr>;
                        (r, s) = applyEvent s state event
                    in orFail r (s, abuse) (\<lambda>next.
                       case lookup (s_Members next) memberID of
                         None \<Rightarrow> (Inl ErrGroupMembershipNotFound, s, abuse)
                       | Some member \<Rightarrow> (Inr (member, event), s, abuse)))))))"

end
