(* ===== verification/Group_Steps.thy ===== *)
theory Group_Steps
  imports Group_Membership
begin

text \<open>
  What the local membership operations promise, as a step relation on an abstract store: for every
  group identifier its state, if any, and its event log. \<open>group_step a\<close> is one operation of the user
  \<open>a\<close> that commits the given events: it creates a group, applies one permitted event, applies a permitted event together with a key
  rotation, deletes a group, or leaves everything as it is. \<open>local_permits\<close> is the permission table.
  The invariant of the store and the protection of owners are proved here for the relation;
  \<open>Group_Service\<close> shows that the operations of the code refine it.
\<close>

type_synonym group_store = "(string \<rightharpoonup> GroupState) \<times> (string \<Rightarrow> GroupEvent list)"

definition local_permits :: "GroupState \<Rightarrow> string \<Rightarrow> GroupEvent \<Rightarrow> bool" where
  "local_permits s a e \<longleftrightarrow>
     (case lookup (s_Members s) a of
        None \<Rightarrow> False
      | Some actor \<Rightarrow>
          (let target = lookup (s_Members s) (e_MemberID e) in
           case e_Type e of
             MemberAdd \<Rightarrow>
               if e_MemberID e = a then m_Status actor = StatusInvited \<and> e_Role e = m_Role actor
               else if target = None \<or> (\<exists>t. target = Some t \<and> m_Status t \<noteq> StatusInvited \<and> m_Status t \<noteq> StatusActive)
               then m_Status actor = StatusActive \<and> CanManageMembers actor \<and> e_Role e = RoleUser
               else m_Status actor = StatusActive \<and> IsOwner actor \<and> (\<exists>t. target = Some t \<and> \<not> IsOwner t)
           | MemberRemove \<Rightarrow>
               if e_MemberID e = a \<and> m_Status actor = StatusInvited then True
               else m_Status actor = StatusActive \<and> CanManageMembers actor \<and> (\<exists>t. target = Some t \<and> \<not> IsOwner t)
           | MemberLeave \<Rightarrow> e_MemberID e = a \<and> m_Status actor \<noteq> StatusLeft \<and> m_Status actor \<noteq> StatusRemoved
           | ProfileChange \<Rightarrow> m_Status actor = StatusActive \<and> CanManageMembers actor
           | _ \<Rightarrow> False))"

definition authored :: "string \<Rightarrow> GroupEvent \<Rightarrow> bool" where
  "authored a e \<longleftrightarrow> e_ActorID e = a \<and> trimmed a \<and> trimmed (e_MemberID e)"

definition next_key_version :: "GroupState \<Rightarrow> 32 word" where
  "next_key_version s = (if s_LastKeyVersion s = 0 then 1 else s_LastKeyVersion s + 1)"

inductive group_step :: "string \<Rightarrow> group_store \<Rightarrow> GroupEvent list \<Rightarrow> group_store \<Rightarrow> bool" for a :: string where
  idle: "group_step a \<sigma> [] \<sigma>"
| create: "S gid = None \<Longrightarrow> trimmed gid \<Longrightarrow> gid \<noteq> [] \<Longrightarrow> g_ID grp = gid \<Longrightarrow> g_CreatedBy grp = a \<Longrightarrow>
    trimmed a \<Longrightarrow> e = created_event gid eid a now \<Longrightarrow> applicable (NewGroupState grp) e \<Longrightarrow>
    group_step a (S, L) [e] (S(gid \<mapsto> activate_owner a now (applied_state (NewGroupState grp) e)), L(gid := [e]))"
| change: "S gid = Some s \<Longrightarrow> local_permits s a e \<Longrightarrow> authored a e \<Longrightarrow> applicable s e \<Longrightarrow>
    group_step a (S, L) [e] (S(gid \<mapsto> applied_state s e), L(gid := L gid @ [e]))"
| change_rotate: "S gid = Some s \<Longrightarrow> local_permits s a e \<Longrightarrow> authored a e \<Longrightarrow> applicable s e \<Longrightarrow>
    e_Type r = KeyRotate \<Longrightarrow> e_ActorID r = a \<Longrightarrow> e_KeyVersion r = next_key_version s \<Longrightarrow>
    applicable (applied_state s e) r \<Longrightarrow>
    group_step a (S, L) [e, r] (S(gid \<mapsto> applied_state (applied_state s e) r), L(gid := L gid @ [e, r]))"
| delete: "S gid = Some s \<Longrightarrow> lookup (s_Members s) a = Some m \<Longrightarrow> m_Status m = StatusActive \<Longrightarrow> IsOwner m \<Longrightarrow>
    group_step a (S, L) [] (S(gid := None), L(gid := []))"

definition astore_ok :: "group_store \<Rightarrow> bool" where
  "astore_ok \<sigma> \<longleftrightarrow>
     (\<forall>gid s. fst \<sigma> gid = Some s \<longrightarrow> group_ok gid s (snd \<sigma> gid)) \<and>
     (\<forall>gid. fst \<sigma> gid = None \<longrightarrow> snd \<sigma> gid = [])"

section \<open>The invariant\<close>

lemma activate_owner_ok:
  assumes ok: "group_ok gid s evs" and m: "lookup (s_Members s) a = Some m"
  shows "group_ok gid (activate_owner a now s) evs"
proof -
  have s: "state_ok s" using ok by (rule group_okD)
  have "member_ok (g_ID (s_Group s)) a m" using s m by (simp add: state_ok_def)
  then have "member_ok (g_ID (s_Group s)) a (m\<lparr>m_Status := StatusActive, m_ActivatedAt := now, m_UpdatedAt := now\<rparr>)"
    by (auto simp: member_ok_def ValidateGroupMember_def split: if_splits)
  with s m have "state_ok (activate_owner a now s)"
    by (simp add: state_ok_def activate_owner_def Let_def)
  with ok show ?thesis
    by (simp add: group_ok_def activate_owner_def Let_def)
qed

lemma created_member:
  assumes "trimmed a" "applicable (NewGroupState grp) (created_event gid eid a now)"
  shows "lookup (s_Members (applied_state (NewGroupState grp) (created_event gid eid a now))) a \<noteq> None"
  using assms by (simp add: apply_event_effect_def created_event_def member_added_def NewGroupState_def Let_def)

lemma astore_ok_upd:
  "astore_ok (S, L) \<Longrightarrow> group_ok gid s evs \<Longrightarrow> astore_ok (S(gid \<mapsto> s), L(gid := evs))"
  by (simp add: astore_ok_def)

lemma group_step_keeps_ok:
  "group_step a \<sigma> evs \<sigma>' \<Longrightarrow> astore_ok \<sigma> \<Longrightarrow> astore_ok \<sigma>'"
proof (induction rule: group_step.induct)
  case (create S gid grp e eid now L)
  have "group_ok gid (applied_state (NewGroupState grp) e) ([] @ [e])"
    by (rule group_ok_applied [OF group_ok_new]) (use create in simp_all)
  moreover obtain m where "lookup (s_Members (applied_state (NewGroupState grp) e)) a = Some m"
    using created_member [of a grp gid eid now] create by blast
  ultimately have "group_ok gid (activate_owner a now (applied_state (NewGroupState grp) e)) [e]"
    using activate_owner_ok by simp
  then show ?case using create.prems by (rule astore_ok_upd [rotated])
next
  case (change S gid s e L)
  then have "group_ok gid s (L gid)" by (simp add: astore_ok_def)
  then have "group_ok gid (applied_state s e) (L gid @ [e])"
    by (rule group_ok_applied) (use change in simp)
  with change.prems show ?case by (rule astore_ok_upd)
next
  case (change_rotate S gid s e r L)
  then have "group_ok gid s (L gid)" by (simp add: astore_ok_def)
  then have "group_ok gid (applied_state s e) (L gid @ [e])"
    by (rule group_ok_applied) (use change_rotate in simp)
  then have "group_ok gid (applied_state (applied_state s e) r) ((L gid @ [e]) @ [r])"
    by (rule group_ok_applied) (use change_rotate in simp)
  with change_rotate.prems show ?case by (simp add: astore_ok_upd)
qed (auto simp: astore_ok_def)

section \<open>Who may change whose membership\<close>

lemma effect_lookup:
  "state_ok s \<Longrightarrow> lookup (s_Members (apply_event_effect s e)) k =
     (if k = TrimSpace (e_MemberID e) \<and> event_member s e \<noteq> None then event_member s e else lookup (s_Members s) k)"
  by (auto simp: effect_members split: option.split)

lemma rotate_members:
  "state_ok s \<Longrightarrow> e_Type r = KeyRotate \<Longrightarrow> s_Members (apply_event_effect s r) = s_Members s"
  by (simp add: effect_members event_member_def)

text \<open>The store after a step, seen from one group that is there before and after.\<close>

lemma group_step_members:
  assumes "group_step a (S, L) evs (S', L')" "astore_ok (S, L)" "S gid = Some s" "S' gid = Some s'"
    "s_Members s' \<noteq> s_Members s"
  shows "\<exists>e. local_permits s a e \<and> authored a e \<and> s_Members s' = s_Members (apply_event_effect s e)"
  using assms(1)
proof (cases rule: group_step.cases)
  case (change gid' s0 e)
  with assms show ?thesis by (auto split: if_splits)
next
  case (change_rotate gid' s0 e r)
  with assms have g: "gid' = gid" "s0 = s" by (auto split: if_splits)
  have "state_ok s" using assms by (auto simp: astore_ok_def dest: group_okD)
  then have "state_ok (applied_state s e)"
    using change_rotate g by (intro state_ok_applied) (auto simp: applicable_def)
  from rotate_members [OF this, of r] show ?thesis
    using change_rotate g assms by auto
qed (use assms in \<open>auto split: if_splits\<close>)

lemma group_step_owner_safe:
  assumes "group_step a (S, L) evs (S', L')" "astore_ok (S, L)" "S gid = Some s" "S' gid = Some s'"
    and t: "lookup (s_Members s) k = Some t" "IsOwner t" "m_Status t = StatusActive \<or> m_Status t = StatusInvited"
    and "k \<noteq> a"
  shows "lookup (s_Members s') k = Some t"
proof (cases "s_Members s' = s_Members s")
  case False
  then obtain e where e: "local_permits s a e" "authored a e" "s_Members s' = s_Members (apply_event_effect s e)"
    using group_step_members [OF assms(1-4)] by blast
  have ok: "state_ok s" using assms by (auto simp: astore_ok_def dest: group_okD)
  have "event_member s e = None" if "k = e_MemberID e"
    using e that t \<open>k \<noteq> a\<close>
    by (auto simp: local_permits_def event_member_def Let_def split: option.splits GroupEventType.splits if_splits)
  with e t ok show ?thesis by (auto simp: effect_lookup authored_def)
qed (use t in simp)

lemma group_step_needs_manager:
  assumes "group_step a (S, L) evs (S', L')" "astore_ok (S, L)" "S gid = Some s" "S' gid = Some s'"
    and "lookup (s_Members s') k \<noteq> lookup (s_Members s) k" and "k \<noteq> a"
  shows "\<exists>m. lookup (s_Members s) a = Some m \<and> m_Status m = StatusActive \<and> CanManageMembers m"
proof -
  have "s_Members s' \<noteq> s_Members s" using assms by auto
  then obtain e where e: "local_permits s a e" "authored a e" "s_Members s' = s_Members (apply_event_effect s e)"
    using group_step_members [OF assms(1-4)] by blast
  have "state_ok s" using assms by (auto simp: astore_ok_def dest: group_okD)
  with e have "k = e_MemberID e \<and> event_member s e \<noteq> None"
    using assms(5) by (auto simp: effect_lookup authored_def split: if_splits)
  with e \<open>k \<noteq> a\<close> show ?thesis
    by (auto simp: local_permits_def event_member_def CanManageMembers_def IsOwner_def Let_def
        split: option.splits GroupEventType.splits if_splits)
qed

section \<open>Versions grow slowly\<close>

text \<open>\<open>bounded n\<close>: key versions and log lengths that \<open>n\<close> steps can have reached.\<close>

definition bounded :: "nat \<Rightarrow> group_store \<Rightarrow> bool" where
  "bounded n \<sigma> \<longleftrightarrow>
     (\<forall>gid s. fst \<sigma> gid = Some s \<longrightarrow> unat (s_LastKeyVersion s) \<le> Suc n \<and> length (snd \<sigma> gid) \<le> Suc (2 * n))"

lemma next_key_version_le: "unat (next_key_version s) \<le> Suc (unat (s_LastKeyVersion s))"
  by (simp add: next_key_version_def unat_word_ariths(1))

lemma permitted_keeps_key: "local_permits s a e \<Longrightarrow> s_LastKeyVersion (apply_event_effect s e) = s_LastKeyVersion s"
  by (auto simp: local_permits_def apply_event_effect_def Let_def split: option.splits GroupEventType.splits)

lemma rotate_key: "e_Type r = KeyRotate \<Longrightarrow> s_LastKeyVersion (apply_event_effect s r) = e_KeyVersion r"
  by (simp add: apply_event_effect_def)

lemma group_step_bounded: "group_step a \<sigma> evs \<sigma>' \<Longrightarrow> bounded n \<sigma> \<Longrightarrow> bounded (Suc n) \<sigma>'"
proof (induction rule: group_step.induct)
  case (create S gid grp e eid now L)
  then show ?case by (fastforce simp: bounded_def activate_owner_def Let_def)
next
  case (change S gid s e L)
  then show ?case by (fastforce simp: bounded_def permitted_keeps_key)
next
  case (change_rotate S gid s e r L)
  then have "unat (e_KeyVersion r) \<le> Suc (Suc n)"
    using next_key_version_le [of s] by (fastforce simp: bounded_def)
  with change_rotate show ?case by (fastforce simp: bounded_def rotate_key)
qed (fastforce simp: bounded_def)+

end
