(* ===== verification/Group_Refinement.thy ===== *)
theory Group_Refinement
  imports Group_Steps
begin

text \<open>
  The operations of \<open>Group_Membership\<close> refine the step relation of \<open>Group_Steps\<close>. \<open>step_ok a s r s'\<close> is
  the contract of one call by user \<open>a\<close>: the store makes one permitted step, an error leaves it as it was,
  and the events of the step are what the subscriber is told. It holds in every \<open>ready\<close> service: the
  stored groups are well-formed, event identifiers are not blank, and neither the key version nor
  the group version of a stored group is about to wrap.
\<close>

abbreviation astore :: "MembershipService \<Rightarrow> group_store" where
  "astore s \<equiv> (map_of (ms_States s), events_of (ms_EventLog s))"

definition rotation_room :: "GroupState \<Rightarrow> bool" where
  "rotation_room st \<longleftrightarrow> s_LastKeyVersion st + 1 \<noteq> 0 \<and> s_Version st + 2 \<noteq> 0"

definition ready :: "MembershipService \<Rightarrow> bool" where
  "ready s \<longleftrightarrow>
     store_ok (ms_States s) (ms_EventLog s) \<and>
     (\<forall>gen n. ms_GenerateEventID s = Some gen \<longrightarrow> \<not> blank (gen n)) \<and>
     (\<forall>gid st. lookup (ms_States s) gid = Some st \<longrightarrow> rotation_room st)"

definition same_config :: "MembershipService \<Rightarrow> MembershipService \<Rightarrow> bool" where
  "same_config s s' \<longleftrightarrow>
     ms_Persist s' = ms_Persist s \<and> ms_GenerateEventID s' = ms_GenerateEventID s \<and> ms_Notify s' = ms_Notify s"

definition step_ok :: "string \<Rightarrow> MembershipService \<Rightarrow> go_error + 'r \<Rightarrow> MembershipService \<Rightarrow> bool" where
  "step_ok a s r s' \<longleftrightarrow>
     (\<exists>evs. group_step a (astore s) evs (astore s') \<and>
        ms_Notified s' = ms_Notified s @ (if ms_Notify s then evs else [])) \<and>
     store_ok (ms_States s') (ms_EventLog s') \<and>
     (isl r \<longrightarrow> astore s' = astore s) \<and> same_config s s'"

section \<open>Applying a batch\<close>

definition store_wf :: "group_states \<Rightarrow> event_log \<Rightarrow> bool" where
  "store_wf states eventLog \<longleftrightarrow>
     keys_distinct states \<and> keys_distinct eventLog \<and> (\<forall>gid \<in> fst ` set eventLog. trimmed gid \<and> gid \<noteq> [])"

lemma store_ok_abs:
  "store_ok states eventLog \<longleftrightarrow>
   store_wf states eventLog \<and> astore_ok (map_of states, events_of eventLog)" (is "?l \<longleftrightarrow> ?r")
proof
  assume ok: ?l
  have "trimmed gid \<and> gid \<noteq> []" if "gid \<in> fst ` set eventLog" for gid
  proof -
    obtain es where "lookup eventLog gid = Some es" using \<open>gid \<in> _\<close> by (metis map_of_eq_None_iff option.exhaust)
    then show ?thesis using store_ok_log [OF ok] by blast
  qed
  moreover have "events_of eventLog gid = []" if "lookup states gid = None" for gid
    using ok that by (cases "lookup eventLog gid") (auto simp: store_ok_def events_of_None)
  ultimately show ?r using ok by (auto simp: store_ok_def store_wf_def astore_ok_def)
next
  assume r: ?r
  have "es = [] \<and> trimmed gid \<and> gid \<noteq> []" if "lookup eventLog gid = Some es" "lookup states gid = None" for gid es
  proof -
    have "gid \<in> fst ` set eventLog" using that by (metis map_of_eq_None_iff option.distinct(1))
    with r have "trimmed gid \<and> gid \<noteq> []" unfolding store_wf_def by blast
    moreover have "\<forall>gid. lookup states gid = None \<longrightarrow> events_of eventLog gid = []" using r by (simp add: astore_ok_def)
    ultimately have "trimmed gid \<and> gid \<noteq> []" "events_of eventLog gid = []" using that(2) by blast+
    with that(1) show ?thesis by simp
  qed
  with r show ?l by (simp add: store_ok_def store_wf_def astore_ok_def)
qed

lemma store_wf_put [simp]:
  "store_wf states eventLog \<Longrightarrow> trimmed gid \<Longrightarrow> gid \<noteq> [] \<Longrightarrow> store_wf (put gid s states) (put gid es eventLog)"
  "store_wf states eventLog \<Longrightarrow> trimmed gid \<Longrightarrow> gid \<noteq> [] \<Longrightarrow> store_wf states (put gid es eventLog)"
  by (auto simp: store_wf_def dom_update)

lemma step_okI:
  assumes "group_step a (astore s) evs (astore s')" "store_ok (ms_States s) (ms_EventLog s)"
    and "store_wf (ms_States s') (ms_EventLog s')"
    and "ms_Notified s' = ms_Notified s @ (if ms_Notify s then evs else [])"
    and "isl r \<Longrightarrow> astore s' = astore s" "same_config s s'"
  shows "step_ok a s r s'"
  using assms group_step_keeps_ok [OF assms(1)] by (auto simp: step_ok_def store_ok_abs)

lemma step_ok_idle:
  assumes "store_ok (ms_States s) (ms_EventLog s)" "astore s' = astore s"
    and "store_wf (ms_States s') (ms_EventLog s')" "ms_Notified s' = ms_Notified s" "same_config s s'"
  shows "step_ok a s r s'"
  using assms idle [of a "astore s"] by (intro step_okI [of _ _ "[]"]) auto

lemma same_config_simps [simp]:
  "same_config s s" "same_config s (s\<lparr>ms_States := S, ms_EventLog := L\<rparr>)" "same_config s (s\<lparr>ms_EventLog := L\<rparr>)"
  by (simp_all add: same_config_def)

lemma step_ok_same: "store_ok (ms_States s) (ms_EventLog s) \<Longrightarrow> step_ok a s r s"
  by (rule step_ok_idle) (auto simp: store_ok_abs)

text \<open>
  How a batch ends that is not torn in the middle: it fails and everything is as before, or exactly
  the applicable events among those given are in the state and at the end of the log.
\<close>

definition batch_end ::
    "GroupState \<Rightarrow> group_states \<Rightarrow> event_log \<Rightarrow> GroupEvent list \<Rightarrow>
     go_error + (GroupState \<times> GroupEvent list) \<Rightarrow> group_states \<Rightarrow> event_log \<Rightarrow> bool" where
  "batch_end st S L evs r S' L' \<longleftrightarrow>
     (let gid = g_ID (s_Group st); st' = deliver ApplyGroupEvent st evs in
      applies_all ApplyGroupEvent st evs \<and>
      (if isl r then evs = [] \<and> S' = S \<and> (L' = L \<or> L' = put gid (events_of L gid) L)
       else r = Inr (st', evs) \<and>
         (if evs = [] then S' = S \<and> L' = L else S' = put gid st' S \<and> L' = put gid (events_of L gid @ evs) L)))"

definition untorn :: "GroupState \<Rightarrow> GroupEvent list \<Rightarrow> bool" where
  "untorn st events \<longleftrightarrow> (case apply_loop st events [] of (Inl _, st') \<Rightarrow> st' = st | _ \<Rightarrow> True)"

lemma apply_loop_Inr:
  "apply_loop st events acc = (Inr acc', st') \<Longrightarrow>
   \<exists>new. acc' = acc @ new \<and> subseq new events \<and> applies_all ApplyGroupEvent st new \<and> deliver ApplyGroupEvent st new = st'"
proof (induction st events acc rule: apply_loop.induct)
  case (2 st e events acc)
  from "2.prems" obtain b where b: "fst (ApplyGroupEvent st e) = Inr b"
    and loop: "apply_loop (snd (ApplyGroupEvent st e)) events (if b then acc @ [e] else acc) = (Inr acc', st')"
    by (auto split: prod.splits sum.splits)
  then obtain new where new: "acc' = (if b then acc @ [e] else acc) @ new" "subseq new events"
    "applies_all ApplyGroupEvent (snd (ApplyGroupEvent st e)) new"
    "deliver ApplyGroupEvent (snd (ApplyGroupEvent st e)) new = st'"
    using "2.IH" [of "Inr b" "snd (ApplyGroupEvent st e)" b] by (metis prod.collapse)
  show ?case
  proof (cases b)
    case True
    with new b show ?thesis by (intro exI [of _ "e # new"]) simp
  next
    case False
    with b have "snd (ApplyGroupEvent st e) = st" by (simp add: Apply_same)
    with new False show ?thesis by (intro exI [of _ new]) (simp add: list_emb_Cons)
  qed
qed simp

lemma deliver_g_ID [simp]: "g_ID (s_Group (deliver ApplyGroupEvent st evs)) = g_ID (s_Group st)"
  by (induction evs arbitrary: st) (simp_all add: Apply_state)

lemma Rollback_batch_end:
  assumes st: "lookup S (g_ID (s_Group st)) = Some st" and "untorn st events"
    and run: "ApplyEventsWithRollback st S L persist events = (r, S', L')"
  shows "\<exists>evs. subseq evs events \<and> batch_end st S L evs r S' L'"
proof (cases "apply_loop st events []")
  case (Pair l st')
  show ?thesis
  proof (cases l)
    case (Inl err)
    with Pair assms have "S' = S \<and> L' = L \<and> isl r \<or> events = [] \<and> r = Inr (st, []) \<and> S' = S \<and> L' = L"
      by (auto simp: ApplyEventsWithRollback_def untorn_def leak_shared_def Let_def split: if_splits)
    then show ?thesis by (auto simp: batch_end_def intro!: exI [of _ "[]"])
  next
    case (Inr evs)
    with Pair apply_loop_Inr [of st events "[]" evs st'] have
      evs: "subseq evs events" "applies_all ApplyGroupEvent st evs" "st' = deliver ApplyGroupEvent st evs"
      by auto
    have "batch_end st S L [] r S' L' \<or> batch_end st S L evs r S' L'"
      using evs run Inr Pair st
      by (auto simp: ApplyEventsWithRollback_def batch_end_def Let_def split: if_splits option.splits)
    with evs show ?thesis by auto
  qed
qed

section \<open>The shared tail of the operations\<close>

lemma fallback_id_trimmed [simp]: "TrimSpace ''gevt_fallback'' = ''gevt_fallback''"
  by code_simp

lemma generateEventID_frame:
  "generateEventID s = (i, s') \<Longrightarrow> ms_States s' = ms_States s"
  "generateEventID s = (i, s') \<Longrightarrow> ms_EventLog s' = ms_EventLog s"
  "generateEventID s = (i, s') \<Longrightarrow> ms_Notified s' = ms_Notified s"
  "generateEventID s = (i, s') \<Longrightarrow> ms_Notify s' = ms_Notify s"
  "generateEventID s = (i, s') \<Longrightarrow> same_config s s'"
  "generateEventID s = (i, s') \<Longrightarrow> ready s \<Longrightarrow> ready s'"
  "generateEventID s = (i, s') \<Longrightarrow> ready s \<Longrightarrow> \<not> blank i"
  by (auto simp: generateEventID_def ready_def same_config_def split: option.splits)

lemma notify_frame [simp]:
  "ms_States (notify evs s) = ms_States s" "ms_EventLog (notify evs s) = ms_EventLog s"
  "ms_Notified (notify evs s) = ms_Notified s @ (if ms_Notify s then evs else [])"
  "same_config s0 (notify evs s) = same_config s0 s"
  by (simp_all add: notify_def same_config_def)

text \<open>\<open>may_commit\<close>: every part of the batch that can be applied is a permitted step.\<close>

definition may_commit :: "string \<Rightarrow> MembershipService \<Rightarrow> GroupState \<Rightarrow> GroupEvent list \<Rightarrow> bool" where
  "may_commit a s st events \<longleftrightarrow>
     untorn st events \<and>
     (\<forall>evs. subseq evs events \<longrightarrow> applies_all ApplyGroupEvent st evs \<longrightarrow> evs \<noteq> [] \<longrightarrow>
        group_step a (astore s) evs
          ((fst (astore s))(g_ID (s_Group st) \<mapsto> deliver ApplyGroupEvent st evs),
           (snd (astore s))(g_ID (s_Group st) := snd (astore s) (g_ID (s_Group st)) @ evs)))"

definition outcome :: "MembershipService \<Rightarrow> GroupState \<Rightarrow> GroupEvent list \<Rightarrow> go_error + GroupState \<Rightarrow> MembershipService \<Rightarrow> bool" where
  "outcome s st events r s' \<longleftrightarrow>
     (\<forall>next. r = Inr next \<longrightarrow>
        (\<exists>evs. subseq evs events \<and> applies_all ApplyGroupEvent st evs \<and> next = deliver ApplyGroupEvent st evs \<and>
           (evs = [] \<longrightarrow> astore s' = astore s)))"

lemma map_of_put [simp]: "map_of (put k v m) = (map_of m)(k \<mapsto> v)"
  by (rule ext) simp

lemma applyEvents_ok:
  assumes ok: "store_ok (ms_States s) (ms_EventLog s)" and st: "lookup (ms_States s) gid = Some st"
    and may: "may_commit a s st events" and run: "applyEvents s st events = (r, s')"
  shows "step_ok a s r s' \<and> outcome s st events r s'"
proof -
  have gid: "g_ID (s_Group st) = gid" "trimmed gid" "gid \<noteq> []"
    using store_ok_group [OF ok st] by (auto dest: group_okD)
  have wf: "store_wf (ms_States s) (ms_EventLog s)" using ok by (simp add: store_ok_abs)
  obtain r0 S' L' where rb: "ApplyEventsWithRollback st (ms_States s) (ms_EventLog s) (ms_Persist s) events = (r0, S', L')"
    by (metis prod_cases3)
  then obtain evs where evs: "subseq evs events" "batch_end st (ms_States s) (ms_EventLog s) evs r0 S' L'"
    using Rollback_batch_end [OF _ _ rb] st gid may unfolding may_commit_def by blast
  let ?s = "s\<lparr>ms_States := S', ms_EventLog := L'\<rparr>"
  show ?thesis
  proof (cases "isl r0")
    case True
    then have "r = Inl (projl r0)" "s' = ?s" using run rb by (auto simp: applyEvents_def Let_def split: sum.splits prod.splits)
    moreover from True evs gid wf have "astore ?s = astore s" "store_wf S' L'"
      by (auto simp: batch_end_def Let_def)
    ultimately show ?thesis using ok by (auto simp: outcome_def intro!: step_ok_idle)
  next
    case False
    with evs have r0: "r0 = Inr (deliver ApplyGroupEvent st evs, evs)" by (simp add: batch_end_def Let_def)
    then have r: "r = Inr (deliver ApplyGroupEvent st evs)" "s' = notify evs ?s"
      using run rb by (auto simp: applyEvents_def Let_def)
    show ?thesis
    proof (cases "evs = []")
      case True
      with r evs wf r0 have "astore s' = astore s" "store_wf (ms_States s') (ms_EventLog s')" "ms_Notified s' = ms_Notified s"
        by (auto simp: batch_end_def Let_def)
      with ok r evs True show ?thesis by (auto simp: outcome_def intro!: step_ok_idle exI [of _ "[]"])
    next
      case False
      with evs r0 gid have S': "S' = put gid (deliver ApplyGroupEvent st evs) (ms_States s)"
        "L' = put gid (events_of (ms_EventLog s) gid @ evs) (ms_EventLog s)" "applies_all ApplyGroupEvent st evs"
        by (auto simp: batch_end_def Let_def)
      have "group_step a (astore s) evs (astore s')"
        using may evs False S' r gid by (auto simp: may_commit_def)
      then have "step_ok a s r s'"
        using ok wf S' r gid by (intro step_okI [of _ _ evs]) auto
      with r evs S' False show ?thesis by (auto simp: outcome_def)
    qed
  qed
qed

lemma subseq_single: "subseq evs [e] \<longleftrightarrow> evs = [] \<or> evs = [e]"
  by (cases evs) (auto simp: subseq_singleton_left split: if_splits)

lemma subseq_pair: "subseq evs [e, q] \<longleftrightarrow> evs = [] \<or> evs = [e] \<or> evs = [q] \<or> evs = [e, q]"
  by (cases evs) (auto simp: subseq_single split: if_splits)

lemma apply_loop_refused: "\<not> applicable st e \<Longrightarrow> \<exists>r. ApplyGroupEvent st e = (r, st) \<and> r \<noteq> Inr True"
  using Apply_not_applicable [of st e] by (metis prod.collapse)

lemma may_commit_one:
  assumes "lookup (ms_States s) gid = Some st" "g_ID (s_Group st) = gid" "local_permits st a e" "authored a e"
  shows "may_commit a s st [e]"
proof -
  have "untorn st [e]"
    using apply_loop_refused [of st e] Apply_applicable [of st e]
    by (cases "applicable st e") (auto simp: untorn_def split: sum.splits)
  then show ?thesis
    using assms by (auto simp: may_commit_def subseq_single Apply_Inr_True Apply_applicable intro!: group_step.change)
qed

lemma rotate_not_refused:
  assumes app: "applicable st e" and room: "rotation_room st"
    and q: "\<not> blank (e_ID q)" "e_GroupID q = e_GroupID e" "e_Version q = e_Version e + 1" "e_Type q = KeyRotate"
      "e_ActorID q = e_ActorID e" "e_OccurredAt q = e_OccurredAt e" "e_KeyVersion q \<noteq> 0"
  shows "\<not> isl (fst (ApplyGroupEvent (applied_state st e) q))"
proof -
  have "e_Version q \<noteq> 0" using app room q by (simp add: applicable_def rotation_room_def add.assoc)
  then have "ValidateGroupEvent q = None"
    using app q by (auto simp: applicable_def ValidateGroupEvent_def split: if_splits)
  with app q show ?thesis
    by (simp add: ApplyGroupEvent_def applicable_def Let_def)
qed

lemma may_commit_pair:
  assumes st: "lookup (ms_States s) gid = Some st" "g_ID (s_Group st) = gid"
    and e: "local_permits st a e" "authored a e" "e_Version e = s_Version st + 1"
    and q: "e_Version q = e_Version e + 1" "e_Type q = KeyRotate" "e_ActorID q = a" "e_KeyVersion q = next_key_version st"
    and kept: "applicable st e \<Longrightarrow> \<not> isl (fst (ApplyGroupEvent (applied_state st e) q))"
  shows "may_commit a s st [e, q]"
proof -
  have nq: "\<not> applicable st q" using e q by (simp add: applicable_def)
  have "untorn st [e, q]"
  proof (cases "applicable st e")
    case True
    then show ?thesis using kept
      by (auto simp: untorn_def Apply_applicable split: sum.splits prod.splits)
  next
    case False
    then show ?thesis
      using apply_loop_refused [OF False] apply_loop_refused [OF nq] by (auto simp: untorn_def split: sum.splits)
  qed
  then show ?thesis
    using st e q nq
    by (auto simp: may_commit_def subseq_pair Apply_Inr_True Apply_applicable
        intro!: group_step.change group_step.change_rotate)
qed

lemma step_ok_frame:
  assumes "step_ok a s1 r s'" "ms_States s1 = ms_States s" "ms_EventLog s1 = ms_EventLog s"
    "ms_Notified s1 = ms_Notified s" "same_config s s1"
  shows "step_ok a s r s'"
  using assms by (simp add: step_ok_def same_config_def)

lemma step_ok_result: "step_ok a s r s' \<Longrightarrow> (isl r' \<Longrightarrow> isl r \<or> astore s' = astore s) \<Longrightarrow> step_ok a s r' s'"
  by (auto simp: step_ok_def)

lemma ready_stored:
  assumes "ready s" "lookup (ms_States s) gid = Some st"
  shows "store_ok (ms_States s) (ms_EventLog s)" "g_ID (s_Group st) = gid" "state_ok st" "rotation_room st"
  using assms store_ok_group [of "ms_States s" "ms_EventLog s" gid st] by (auto simp: ready_def dest: group_okD)

lemma applyEvent_ok:
  assumes "ready s" "lookup (ms_States s) gid = Some st" "local_permits st a e" "authored a e"
    and "applyEvent s st e = (r, s')"
  shows "step_ok a s r s' \<and> outcome s st [e] r s'"
  using assms ready_stored [OF assms(1,2)]
  by (intro applyEvents_ok may_commit_one) (auto simp: applyEvent_def)

lemma rotation_ok:
  assumes ready: "ready s" and st: "lookup (ms_States s) gid = Some st"
    and e: "local_permits st a e" "authored a e" "e_Version e = s_Version st + 1"
    and run: "applyMembershipChangeWithKeyRotation s st e = (r, s')"
  shows "step_ok a s r s'"
proof -
  obtain i s1 where g: "generateEventID s = (i, s1)" by fastforce
  define q where "q = zero_event\<lparr>e_ID := i, e_GroupID := e_GroupID e, e_Version := e_Version e + 1,
      e_Type := KeyRotate, e_ActorID := e_ActorID e, e_OccurredAt := e_OccurredAt e,
      e_KeyVersion := next_key_version st\<rparr>"
  note stored = ready_stored [OF ready st]
  have kept: "\<not> isl (fst (ApplyGroupEvent (applied_state st e) q))" if "applicable st e"
    using that stored generateEventID_frame [OF g] ready
    by (intro rotate_not_refused) (auto simp: q_def rotation_room_def next_key_version_def)
  have "step_ok a s1 r s' \<and> outcome s1 st [e, q] r s'"
  proof (rule applyEvents_ok)
    show "may_commit a s1 st [e, q]"
      by (rule may_commit_pair [of _ gid])
        (use kept st stored e generateEventID_frame [OF g] in \<open>auto simp: q_def authored_def\<close>)
    show "applyEvents s1 st [e, q] = (r, s')"
      using run g by (simp add: applyMembershipChangeWithKeyRotation_def q_def next_key_version_def Let_def)
  qed (use st stored generateEventID_frame [OF g] in simp_all)
  then show ?thesis using generateEventID_frame [OF g] by (auto intro: step_ok_frame)
qed

section \<open>Every operation keeps the contract\<close>

lemma LoadStateForActor_Inr:
  "LoadStateForActor states gid a active = Inr st \<longleftrightarrow>
     lookup states gid = Some st \<and> \<not> blank a \<and>
     (\<exists>m. lookup (s_Members st) (TrimSpace a) = Some m \<and> (active \<longrightarrow> m_Status m = StatusActive))"
  by (auto simp: LoadStateForActor_def result_simps split: option.splits)

lemma ready_same: "ready s \<Longrightarrow> step_ok a s r s"
  by (rule step_ok_same) (simp add: ready_def)

lemma event_outcome:
  assumes "outcome s st [e] (Inr next) s'" "state_ok st" "e_Type e = MemberAdd" "trimmed (e_MemberID e)"
  shows "lookup (s_Members next) (e_MemberID e) = None \<Longrightarrow> astore s' = astore s"
  using assms
  by (auto simp: outcome_def subseq_single Apply_Inr_True Apply_applicable effect_lookup event_member_def)

lemma guarded_event_ok:
  assumes ready: "ready s" and st: "lookup (ms_States s) gid = Some st"
    and g: "generateEventID s = (i, s1)" and run: "applyEvent s1 st e = (r, s')"
    and e: "local_permits st a e" "authored a e"
  shows "step_ok a s r s'" and "e_Type e = MemberAdd \<Longrightarrow> r = Inr next \<Longrightarrow> lookup (s_Members next) (e_MemberID e) = None \<Longrightarrow>
    astore s' = astore s"
proof -
  note fr = generateEventID_frame [OF g]
  have ok: "step_ok a s1 r s' \<and> outcome s1 st [e] r s'"
    by (rule applyEvent_ok) (use ready st run e fr in simp_all)
  then show "step_ok a s r s'" using fr by (auto intro: step_ok_frame)
  assume "e_Type e = MemberAdd" "r = Inr next" "lookup (s_Members next) (e_MemberID e) = None"
  with ok e event_outcome [of s1 st e "next" s'] ready_stored [OF ready st] fr
  show "astore s' = astore s" by (auto simp: authored_def)
qed

lemma guarded_rotation_ok:
  assumes ready: "ready s" and st: "lookup (ms_States s) gid = Some st"
    and g: "generateEventID s = (i, s1)" and run: "applyMembershipChangeWithKeyRotation s1 st e = (r, s')"
    and e: "local_permits st a e" "authored a e" "e_Version e = s_Version st + 1"
    and r': "isl r' \<Longrightarrow> isl r"
  shows "step_ok a s r' s'"
proof -
  note fr = generateEventID_frame [OF g]
  have "step_ok a s1 r s'"
    by (rule rotation_ok) (use ready st run e fr in simp_all)
  then have "step_ok a s r s'" using fr by (auto intro: step_ok_frame)
  then show ?thesis using r' by (auto intro: step_ok_result)
qed

lemmas step_events = local_permits_def authored_def zero_event_def

lemmas handler_splits = orFail_splits prod.splits if_splits option.splits

lemma LeaveGroup_ok:
  assumes "ready s" "LeaveGroup lib groupID actorID now (s, abuse) = (r, s', abuse')"
  shows "step_ok (TrimSpace actorID) s r s'"
  using assms
  by (auto simp: LeaveGroup_def Let_def ready_same result_simps split: handler_splits)
    (rule guarded_rotation_ok, assumption, assumption, assumption, assumption; simp add: step_events)+

lemma RemoveGroupMember_ok:
  assumes "ready s" "RemoveGroupMember lib groupID actorID memberID now (s, abuse) = (r, s', abuse')"
  shows "step_ok (TrimSpace actorID) s r s'"
  using assms
  by (auto simp: RemoveGroupMember_def Let_def ready_same result_simps LoadStateForActor_Inr split: handler_splits)
    (rule guarded_rotation_ok, assumption, assumption, assumption, assumption; simp add: step_events)+

lemma self_change_ok:
  assumes "ready s" "lookup (ms_States s) gid = Some st" "lookup (s_Members st) a = Some m"
    and "applySelfMembershipChange s st gid a now eventType role = (r, s')" and "trimmed a"
    and "m_Status m = StatusInvited" and "eventType = MemberAdd \<and> role = m_Role m \<or> eventType = MemberRemove"
    and "isl r' \<Longrightarrow> isl r"
  shows "step_ok a s r' s'"
  using assms
  by (auto simp: applySelfMembershipChange_def Let_def split: handler_splits)
    (rule guarded_rotation_ok, assumption, assumption, assumption, assumption; auto simp: step_events)+

lemma loadActor_Inr:
  assumes "loadActorMembershipState lib groupID actorID now (s, abuse) = (Inr (gid, a, st, mo), s', abuse')"
  shows "s' = s \<and> a = TrimSpace actorID \<and> lookup (ms_States s) gid = Some st \<and> lookup (s_Members st) a = mo"
  using assms
  by (auto simp: loadActorMembershipState_def result_simps LoadStateForActor_Inr split: handler_splits)

lemma loadActor_Inl:
  "loadActorMembershipState lib groupID actorID now (s, abuse) = (Inl err, s', abuse') \<Longrightarrow> s' = s"
  by (auto simp: loadActorMembershipState_def split: handler_splits)

lemma AcceptGroupInvite_ok:
  assumes "ready s" "AcceptGroupInvite lib groupID actorID now (s, abuse) = (r, s', abuse')"
  shows "step_ok (TrimSpace actorID) s r s'"
  using assms
  by (auto simp: AcceptGroupInvite_def Let_def ready_same dest!: loadActor_Inr loadActor_Inl
      split: handler_splits sum.splits)
    (rule self_change_ok, assumption, assumption, assumption, assumption; simp)+

lemma DeclineGroupInvite_ok:
  assumes "ready s" "DeclineGroupInvite lib groupID actorID now (s, abuse) = (r, s', abuse')"
  shows "step_ok (TrimSpace actorID) s r s'"
  using assms
  by (auto simp: DeclineGroupInvite_def Let_def ready_same dest!: loadActor_Inr loadActor_Inl
      split: handler_splits sum.splits)
    (rule self_change_ok, assumption, assumption, assumption, assumption; simp)+

lemma guarded_add_ok:
  assumes ready: "ready s" and st: "lookup (ms_States s) gid = Some st"
    and g: "generateEventID s = (i, s1)" and run: "applyEvent s1 st e = (r, s')"
    and e: "local_permits st a e" "authored a e"
    and r': "isl r' \<Longrightarrow> isl r \<or> (\<exists>next. r = Inr next \<and> e_Type e = MemberAdd \<and> lookup (s_Members next) (e_MemberID e) = None)"
  shows "step_ok a s r' s'"
proof -
  note ok = guarded_event_ok [OF ready st g run e]
  have "isl r \<or> astore s' = astore s" if "isl r'"
    using r' [OF that] ok(2) by blast
  then show ?thesis using ok(1) by (auto intro: step_ok_result)
qed

lemma InviteToGroup_ok:
  assumes "ready s" "InviteToGroup lib blocked groupID actorID memberID now (s, abuse) = (r, s', abuse')"
  shows "step_ok (TrimSpace actorID) s r s'"
  using assms
  by (auto simp: InviteToGroup_def Let_def ready_same result_simps LoadStateForActor_Inr split: handler_splits)
    (rule guarded_add_ok, assumption, assumption, assumption, assumption; simp add: step_events)+

lemma ChangeGroupMemberRole_ok:
  assumes "ready s" "ChangeGroupMemberRole lib groupID actorID memberID role now (s, abuse) = (r, s', abuse')"
  shows "step_ok (TrimSpace actorID) s r s'"
  using assms
  by (auto simp: ChangeGroupMemberRole_def Let_def ready_same result_simps LoadStateForActor_Inr split: handler_splits)
    (rule guarded_add_ok, assumption, assumption, assumption, assumption; auto simp: step_events CanMutateRole_def IsOwner_def)+

lemma UpdateGroupProfile_ok:
  assumes "ready s" "UpdateGroupProfile lib groupID actorID title description avatar now (s, abuse) = (r, s', abuse')"
  shows "step_ok (TrimSpace actorID) s r s'"
  using assms
  by (auto simp: UpdateGroupProfile_def Let_def ready_same result_simps LoadStateForActor_Inr split: handler_splits)
    (rule guarded_add_ok, assumption, assumption, assumption, assumption; simp add: step_events)+

lemma UpdateGroupTitle_ok:
  assumes "ready s" "UpdateGroupTitle lib groupID actorID title now (s, abuse) = (r, s', abuse')"
  shows "step_ok (TrimSpace actorID) s r s'"
  using assms
  by (auto simp: UpdateGroupTitle_def ready_same result_simps split: handler_splits dest!: UpdateGroupProfile_ok)

lemma store_wf_del [simp]: "store_wf states eventLog \<Longrightarrow> store_wf (del gid states) (del gid eventLog)"
  by (auto simp: store_wf_def set_del)

lemma map_of_del [simp]: "map_of (del k m) = (map_of m)(k := None)"
  by (rule ext) simp

lemma store_wf_restore:
  "store_wf states eventLog \<Longrightarrow> trimmed gid \<Longrightarrow> gid \<noteq> [] \<Longrightarrow>
   store_wf (put gid st (del gid states)) (case lookup eventLog gid of Some l \<Rightarrow> put gid l (del gid eventLog) | None \<Rightarrow> del gid eventLog)"
  by (auto simp: store_wf_def set_del split: option.split dest!: set_put_subset [THEN subsetD])

lemma events_of_restore:
  "events_of (case lookup l gid of Some es \<Rightarrow> put gid es (del gid l) | None \<Rightarrow> del gid l) = events_of l"
  by (rule ext) (simp add: events_of_def split: option.split)

lemma DeleteGroup_ok:
  assumes ready: "ready s" and run: "DeleteGroup lib groupID actorID now (s, abuse) = (r, s', abuse')"
  shows "step_ok (TrimSpace actorID) s r s'"
proof -
  let ?gid = "TrimSpace groupID" and ?a = "TrimSpace actorID"
  have ok: "store_ok (ms_States s) (ms_EventLog s)" using ready by (simp add: ready_def)
  then have wf: "store_wf (ms_States s) (ms_EventLog s)" by (simp add: store_ok_abs)
  consider "s' = s"
    | st m where "lookup (ms_States s) ?gid = Some st" "lookup (s_Members st) ?a = Some m" "?gid \<noteq> []"
        "m_Status m = StatusActive" "IsOwner m"
        "r = Inr True \<and> s' = s\<lparr>ms_States := del ?gid (ms_States s), ms_EventLog := del ?gid (ms_EventLog s)\<rparr> \<or>
         isl r \<and> s' = s\<lparr>ms_States := put ?gid st (del ?gid (ms_States s)),
           ms_EventLog := (case lookup (ms_EventLog s) ?gid of Some l \<Rightarrow> put ?gid l (del ?gid (ms_EventLog s))
             | None \<Rightarrow> del ?gid (ms_EventLog s))\<rparr>"
    using run
    by (auto simp: DeleteGroup_def Let_def result_simps LoadStateForActor_Inr split: orFail_splits prod.splits if_splits
        option.splits [where option = "ms_Persist s"] option.splits [where option = "f S L" for f S L])
  then show ?thesis
  proof cases
    case 1
    with ready show ?thesis by (simp add: ready_same)
  next
    case 2
    have d: "group_step ?a (astore s) [] ((map_of (ms_States s))(?gid := None), (events_of (ms_EventLog s))(?gid := []))"
      by (rule group_step.delete) (use 2 in simp_all)
    from 2(6) show ?thesis
    proof
      assume "r = Inr True \<and> s' = s\<lparr>ms_States := del ?gid (ms_States s), ms_EventLog := del ?gid (ms_EventLog s)\<rparr>"
      with d ok wf show ?thesis by (intro step_okI [of _ _ "[]"]) auto
    qed (use 2 ok wf in \<open>auto intro!: step_ok_idle simp: store_wf_restore events_of_restore\<close>)
  qed
qed

section \<open>Creating a group\<close>

lemma alloc_group_id_free:
  "alloc_group_id gen states n k = Inr (gid, c) \<Longrightarrow>
   gid = [] \<or> lookup states gid = None \<and> (\<exists>i. gen ''group'' i = Inr gid)"
  by (induction gen states n k rule: alloc_group_id.induct) (auto split: sum.splits if_splits)

lemma Apply_new:
  "ApplyGroupEvent (NewGroupState grp) e = (Inr b, st) \<Longrightarrow> applicable (NewGroupState grp) e \<and> st = applied_state (NewGroupState grp) e"
  using Apply_not_applicable [of "NewGroupState grp" e] Apply_applicable [of "NewGroupState grp" e]
    Apply_Inr_False [of "NewGroupState grp" e]
  by (cases "applicable (NewGroupState grp) e"; cases b) (auto simp: NewGroupState_def)

definition created_state :: "string \<Rightarrow> string \<Rightarrow> string \<Rightarrow> string \<Rightarrow> gotime \<Rightarrow> GroupState" where
  "created_state gid eid title a now =
     activate_owner a now (applied_state (NewGroupState (created_group gid title a now)) (created_event gid eid a now))"

definition created ::
    "MembershipService \<Rightarrow> string \<Rightarrow> string \<Rightarrow> gotime \<Rightarrow> string \<Rightarrow> string \<Rightarrow> go_error + (Group \<times> GroupEvent) \<Rightarrow> MembershipService \<Rightarrow> bool" where
  "created s title a now gid eid r s' \<longleftrightarrow>
     (let e = created_event gid eid a now; st = created_state gid eid title a now;
          states = put gid st (ms_States s); eventLog = put gid [e] (ms_EventLog s)
      in applicable (NewGroupState (created_group gid title a now)) e \<and>
         (r = Inr (s_Group st, e) \<and> s' = notify [e] (s\<lparr>ms_States := states, ms_EventLog := eventLog\<rparr>) \<or>
          isl r \<and> s' = s\<lparr>ms_States := del gid states, ms_EventLog := del gid eventLog\<rparr>))"

lemma CreateGroup_cases:
  assumes run: "CreateGroup title identityID now (Some gen) s = (r, s')"
  shows "s' = s \<and> isl r \<or>
    (\<exists>gid eid. lookup (ms_States s) gid = None \<and> gid \<noteq> [] \<and> (\<exists>i. gen ''group'' i = Inr gid) \<and> (\<exists>i. gen ''gevt'' i = Inr eid) \<and>
       created s (TrimSpace title) (TrimSpace identityID) now gid eid r s')"
proof (cases "s' = s \<and> isl r")
  case False
  then obtain gid c eid where g: "alloc_group_id gen (ms_States s) 0 3 = Inr (gid, c)" "gid \<noteq> []" "gen ''gevt'' c = Inr eid"
      "TrimSpace title \<noteq> []" "TrimSpace identityID \<noteq> []"
    using run by (auto simp: CreateGroup_def result_simps split: orFail_splits if_splits)
  let ?e = "created_event gid eid (TrimSpace identityID) now"
  let ?new = "NewGroupState (created_group gid (TrimSpace title) (TrimSpace identityID) now)"
  obtain b st where "ApplyGroupEvent ?new ?e = (Inr b, st)"
    using run g False
    by (auto simp: CreateGroup_def NormalizeGroupTitle_def NormalizeGroupMemberID_def Let_def split: prod.splits sum.splits)
  then have app: "applicable ?new ?e" "ApplyGroupEvent ?new ?e = (Inr b, applied_state ?new ?e)"
    by (auto dest: Apply_new)
  then have "created s (TrimSpace title) (TrimSpace identityID) now gid eid r s'"
    using run g
    by (auto simp: created_def created_state_def CreateGroup_def NormalizeGroupTitle_def NormalizeGroupMemberID_def Let_def
        split: option.splits)
  then show ?thesis using alloc_group_id_free [OF g(1)] g(2,3) by blast
qed simp

lemma CreateGroup_ok:
  assumes ready: "ready s" and gen: "\<And>p n x. gen p n = Inr x \<Longrightarrow> trimmed x"
    and run: "CreateGroup title identityID now (Some gen) s = (r, s')"
  shows "step_ok (TrimSpace identityID) s r s'"
  using CreateGroup_cases [OF run]
proof
  assume "s' = s \<and> isl r"
  with ready show ?thesis by (simp add: ready_same)
next
  let ?a = "TrimSpace identityID"
  assume "\<exists>gid eid. lookup (ms_States s) gid = None \<and> gid \<noteq> [] \<and> (\<exists>i. gen ''group'' i = Inr gid) \<and> (\<exists>i. gen ''gevt'' i = Inr eid) \<and>
    created s (TrimSpace title) ?a now gid eid r s'"
  then obtain gid eid where c: "lookup (ms_States s) gid = None" "gid \<noteq> []" "trimmed gid"
      "created s (TrimSpace title) ?a now gid eid r s'" using gen by blast
  define e where "e = created_event gid eid ?a now"
  define st where "st = created_state gid eid (TrimSpace title) ?a now"
  have ok: "store_ok (ms_States s) (ms_EventLog s)" using ready by (simp add: ready_def)
  then have wf: "store_wf (ms_States s) (ms_EventLog s)" and none: "events_of (ms_EventLog s) gid = []"
    using c by (auto simp: store_ok_abs astore_ok_def)
  have step: "group_step ?a (astore s) [e] ((map_of (ms_States s))(gid \<mapsto> st), (events_of (ms_EventLog s))(gid := [e]))"
    unfolding st_def created_state_def e_def
    by (rule group_step.create) (use c in \<open>simp_all add: created_group_def created_def Let_def\<close>)
  from c(4) have "(\<not> isl r \<and> s' = notify [e] (s\<lparr>ms_States := put gid st (ms_States s), ms_EventLog := put gid [e] (ms_EventLog s)\<rparr>)) \<or>
      (isl r \<and> s' = s\<lparr>ms_States := del gid (put gid st (ms_States s)), ms_EventLog := del gid (put gid [e] (ms_EventLog s))\<rparr>)"
    by (auto simp: created_def e_def st_def Let_def)
  then show ?thesis
  proof
    assume "\<not> isl r \<and> s' = notify [e] (s\<lparr>ms_States := put gid st (ms_States s), ms_EventLog := put gid [e] (ms_EventLog s)\<rparr>)"
    with step ok wf c show ?thesis by (intro step_okI [of _ _ "[e]"]) auto
  next
    assume f: "isl r \<and> s' = s\<lparr>ms_States := del gid (put gid st (ms_States s)), ms_EventLog := del gid (put gid [e] (ms_EventLog s))\<rparr>"
    have "store_wf (del gid (put gid st (ms_States s))) (del gid (put gid [e] (ms_EventLog s)))"
      using wf c by (intro store_wf_del store_wf_put)
    with f c none show ?thesis
      by (intro step_ok_idle [OF ok]) (simp_all add: fun_upd_idem)
  qed
qed

end
