(* ===== verification/Blocklist.thy ===== *)
theory Blocklist
  imports Prelude
begin

text \<open>
  Identity identifiers and the blocklist of \<open>internal/domains/privacy/model/blocklist.go\<close>, with the
  store of \<open>internal/domains/privacy/blocklist_store.go\<close>. The entries are the keys of a Go map; \<open>List\<close>
  sorts them. The locale \<open>identity_set\<close> is what the users of the list rely on: it answers membership
  for the normalised identifiers that were added and not removed since. The encrypted file is the
  list of identifiers it holds (\<open>None\<close> when there is no file).
\<close>

section \<open>Identity identifiers\<close>

definition NormalizeIdentityID :: "string \<Rightarrow> go_error + string" where
  "NormalizeIdentityID identityID =
     (let identityID = TrimSpace identityID in
      if \<not> prefix ''aim1'' identityID \<or> length identityID < 12 then Inl ErrInvalidIdentityID
      else Inr identityID)"

lemma NormalizeIdentityID_Inr:
  "NormalizeIdentityID x = Inr y \<longleftrightarrow> y = TrimSpace x \<and> prefix ''aim1'' y \<and> 12 \<le> length y"
  by (auto simp: NormalizeIdentityID_def Let_def)

lemma NormalizeIdentityID_idem: "NormalizeIdentityID x = Inr y \<Longrightarrow> NormalizeIdentityID y = Inr y"
  by (auto simp: NormalizeIdentityID_Inr)

section \<open>The blocklist\<close>

type_synonym Blocklist = "(string, unit) gomap"

fun NewBlocklist_loop :: "string list \<Rightarrow> Blocklist \<Rightarrow> go_error + Blocklist" where
  "NewBlocklist_loop [] b = Inr b"
| "NewBlocklist_loop (raw # ids) b =
     bindE (NormalizeIdentityID raw) (\<lambda>ident. NewBlocklist_loop ids (put ident () b))"

definition NewBlocklist :: "string list \<Rightarrow> go_error + Blocklist" where
  "NewBlocklist ids = NewBlocklist_loop ids []"

definition Add :: "string \<Rightarrow> Blocklist \<Rightarrow> go_error + Blocklist" where
  "Add identityID b = bindE (NormalizeIdentityID identityID) (\<lambda>ident. Inr (put ident () b))"

definition Remove :: "string \<Rightarrow> Blocklist \<Rightarrow> go_error + Blocklist" where
  "Remove identityID b = bindE (NormalizeIdentityID identityID) (\<lambda>ident. Inr (del ident b))"

definition Contains :: "Blocklist \<Rightarrow> string \<Rightarrow> bool" where
  "Contains b identityID =
     (case NormalizeIdentityID identityID of
        Inl _ \<Rightarrow> False
      | Inr ident \<Rightarrow> lookup b ident \<noteq> None)"

definition List :: "Blocklist \<Rightarrow> string list" where
  "List b = sort (map fst b)"

definition blocklist_ok :: "Blocklist \<Rightarrow> bool" where
  "blocklist_ok b \<longleftrightarrow> keys_distinct b \<and> (\<forall>ident \<in> fst ` set b. NormalizeIdentityID ident = Inr ident)"

locale identity_set =
  fixes insert_id :: "string \<Rightarrow> 'b \<Rightarrow> go_error + 'b"
    and remove_id :: "string \<Rightarrow> 'b \<Rightarrow> go_error + 'b"
    and has :: "'b \<Rightarrow> string \<Rightarrow> bool"
  assumes insert_rejects: "insert_id x b = Inl err \<longleftrightarrow> NormalizeIdentityID x = Inl err"
    and remove_rejects: "remove_id x b = Inl err \<longleftrightarrow> NormalizeIdentityID x = Inl err"
    and has_insert: "insert_id x b = Inr b' \<Longrightarrow> has b' y \<longleftrightarrow> (NormalizeIdentityID y = NormalizeIdentityID x \<or> has b y)"
    and has_remove: "remove_id x b = Inr b' \<Longrightarrow> has b' y \<longleftrightarrow> (NormalizeIdentityID y \<noteq> NormalizeIdentityID x \<and> has b y)"
    and has_normal: "NormalizeIdentityID x = NormalizeIdentityID y \<Longrightarrow> has b x \<longleftrightarrow> has b y"
begin

lemma insert_succeeds: "NormalizeIdentityID x = Inr ident \<Longrightarrow> \<exists>b'. insert_id x b = Inr b'"
  using insert_rejects [of x b] by (cases "insert_id x b") auto

lemma insert_then_has: "insert_id x b = Inr b' \<Longrightarrow> has b' x"
  by (simp add: has_insert)

lemma remove_then_not: "remove_id x b = Inr b' \<Longrightarrow> \<not> has b' x"
  by (simp add: has_remove)

lemma remove_after_insert:
  "insert_id x b = Inr b1 \<Longrightarrow> remove_id x b1 = Inr b2 \<Longrightarrow> \<not> has b x \<Longrightarrow> has b2 y \<longleftrightarrow> has b y"
  using has_normal [of y x b] by (auto simp: has_insert has_remove)

end

interpretation blocked: identity_set Add Remove Contains
proof (unfold_locales, goal_cases)
  case (3 x b b' y)
  then show ?case by (auto simp: Add_def Contains_def result_simps split: sum.splits if_splits)
next
  case (4 x b b' y)
  then show ?case by (auto simp: Remove_def Contains_def result_simps split: sum.splits if_splits)
qed (auto simp: Add_def Remove_def Contains_def result_simps split: sum.splits if_splits)

lemma blocklist_ok_Nil [simp]: "blocklist_ok []"
  by (simp add: blocklist_ok_def)

lemma blocklist_ok_put [simp]: "blocklist_ok b \<Longrightarrow> NormalizeIdentityID ident = Inr ident \<Longrightarrow> blocklist_ok (put ident () b)"
  unfolding blocklist_ok_def by (simp add: dom_update)

lemma NewBlocklist_loop_Inr:
  "NewBlocklist_loop ids b = Inr b' \<Longrightarrow> blocklist_ok b \<Longrightarrow>
   blocklist_ok b' \<and> fst ` set b' = TrimSpace ` set ids \<union> fst ` set b"
proof (induction ids b rule: NewBlocklist_loop.induct)
  case (2 raw ids b)
  then obtain ident where i: "NormalizeIdentityID raw = Inr ident" "NewBlocklist_loop ids (put ident () b) = Inr b'"
    by (auto simp: bindE_eq_Inr)
  then have "ident = TrimSpace raw" by (simp add: NormalizeIdentityID_Inr)
  with 2 i NormalizeIdentityID_idem [OF i(1)] show ?case by (simp add: dom_update)
qed simp

lemma NewBlocklist_loop_ok:
  "\<forall>x \<in> set ids. NormalizeIdentityID x = Inr x \<Longrightarrow> \<exists>b'. NewBlocklist_loop ids b = Inr b'"
  by (induction ids arbitrary: b) auto

lemma NewBlocklist_ok: "NewBlocklist ids = Inr b \<Longrightarrow> blocklist_ok b \<and> fst ` set b = TrimSpace ` set ids"
  using NewBlocklist_loop_Inr [of ids "[]" b] by (simp add: NewBlocklist_def)

lemma List_ok: "blocklist_ok b \<Longrightarrow> \<forall>x \<in> set (List b). NormalizeIdentityID x = Inr x"
  by (simp add: List_def blocklist_ok_def)

lemma Contains_keys: "Contains b y \<longleftrightarrow> (\<exists>ident \<in> fst ` set b. NormalizeIdentityID y = Inr ident)"
  by (auto simp: Contains_def map_of_eq_None_iff split: sum.splits)

text \<open>Rebuilding a list from what \<open>List\<close> prints gives the same set, so the same answers.\<close>

lemma NewBlocklist_List:
  assumes ok: "blocklist_ok b"
  shows "\<exists>b'. NewBlocklist (List b) = Inr b' \<and> blocklist_ok b' \<and> fst ` set b' = fst ` set b \<and> List b' = List b"
proof -
  obtain b' where b': "NewBlocklist (List b) = Inr b'"
    using NewBlocklist_loop_ok [OF List_ok [OF ok]] by (auto simp: NewBlocklist_def)
  have "TrimSpace ` set (List b) = set (List b)"
    using List_ok [OF ok] by (force simp: NormalizeIdentityID_Inr)
  with NewBlocklist_ok [OF b'] have keys: "blocklist_ok b'" "fst ` set b' = fst ` set b"
    by (auto simp: List_def)
  have "List b' = List b"
    using ok keys by (simp add: List_def blocklist_ok_def sorted_distinct_set_unique flip: set_map)
  with b' keys show ?thesis by blast
qed

end
