(* ===== verification/Group_Service.thy ===== *)
theory Group_Service
  imports Group_Refinement Blocklist
begin

text \<open>
  The group service that the daemon exposes, \<open>internal/domains/group/usecase/service.go\<close>: each method calls
  one membership operation for the local identity, under the group lock (\<open>withGroupMembership\<close> of
  \<open>internal/composition/daemonservice/group_runtime_support.go\<close>), and counts it. Identifiers come from
  \<open>GeneratePrefixedID\<close> (\<open>internal/platform/runtime/runtime.go\<close>) and \<open>mustGenerateEventID\<close>. The
  state-changing methods are collected in \<open>handle_group\<close>; the locale \<open>store_machine\<close> is what a
  caller of such a machine may rely on, and is interpreted on \<open>handle_group\<close>.
\<close>

section \<open>Identifiers\<close>

text \<open>\<open>random\<close> is the outcome of reading 12 bytes from \<open>crypto/rand\<close>.\<close>

definition GeneratePrefixedID :: "string \<Rightarrow> go_error + bytes \<Rightarrow> go_error + string" where
  "GeneratePrefixedID prfx random = bindE random (\<lambda>buf. Inr (prfx @ ''_'' @ EncodeToString buf))"

definition mustGenerateEventID :: "go_error + bytes \<Rightarrow> string \<Rightarrow> string" where
  "mustGenerateEventID random timestamp =
     (case GeneratePrefixedID ''gevt'' random of
        Inl _ \<Rightarrow> ''gevt_fallback_'' @ timestamp
      | Inr eventID \<Rightarrow> eventID)"

lemma hex_digit_safe: "n < 16 \<Longrightarrow> hex_digit n \<notin> set space_lasts"
proof -
  assume "n < 16"
  then have "hex_digit n \<in> set ''0123456789abcdef''"
    unfolding hex_digit_def by (intro nth_mem) simp
  moreover have "set ''0123456789abcdef'' \<inter> set space_lasts = {}" by (simp add: space_lasts_def)
  ultimately show ?thesis by blast
qed

lemma EncodeToString_last: "bs \<noteq> [] \<Longrightarrow> EncodeToString bs \<noteq> [] \<and> last (EncodeToString bs) \<notin> set space_lasts"
  by (induction bs rule: rev_induct) (simp_all add: EncodeToString_def hex_digit_safe)

lemma GeneratePrefixedID_trimmed:
  assumes "GeneratePrefixedID (c # p) random = Inr x" and "c \<notin> set space_heads"
  shows "trimmed x"
proof -
  obtain buf where x: "x = c # (p @ ''_'' @ EncodeToString buf)"
    using assms(1) by (auto simp: GeneratePrefixedID_def bindE_eq_Inr)
  have "last x \<notin> set space_lasts"
    using EncodeToString_last [of buf] by (cases "buf = []") (simp_all add: x EncodeToString_def space_lasts_def)
  with assms(2) show ?thesis unfolding x by (intro trimmedI)
qed

lemma mustGenerateEventID_not_blank: "\<not> blank (mustGenerateEventID random timestamp)"
  by (rule not_blankI [of "CHR ''g''"])
    (auto simp: mustGenerateEventID_def GeneratePrefixedID_def bindE_eq_Inr go_spaces_def split: sum.split)

section \<open>The service\<close>

record 'l GroupService =
  gs_ms :: MembershipService
  gs_Abuse :: "'l AbuseProtection option"
  gs_IdentityID :: "string option"
  gs_now :: gotime
  gs_GenerateID :: "(string \<Rightarrow> nat \<Rightarrow> go_error + string) option"
  gs_IsBlockedSender :: "(string \<Rightarrow> bool) option"
  gs_aggregates :: "string list"
  gs_deleted :: "(string \<times> string) list"

definition actorID :: "'l GroupService \<Rightarrow> string" where
  "actorID s = (case gs_IdentityID s of None \<Rightarrow> [] | Some i \<Rightarrow> TrimSpace i)"

definition recordAggregate :: "string \<Rightarrow> 'l GroupService \<Rightarrow> 'l GroupService" where
  "recordAggregate name s = s\<lparr>gs_aggregates := gs_aggregates s @ [name]\<rparr>"

text \<open>
  \<open>withMembership\<close> runs one operation on the locked state; \<open>counted\<close> adds the aggregate when the
  operation really produced an event.
\<close>

definition withMembership ::
    "(MembershipService \<times> 'l AbuseProtection option \<Rightarrow> (go_error + 'r) \<times> MembershipService \<times> 'l AbuseProtection option) \<Rightarrow>
     'l GroupService \<Rightarrow> (go_error + 'r) \<times> 'l GroupService" where
  "withMembership fn s =
     (case fn (gs_ms s, gs_Abuse s) of (r, ms, abuse) \<Rightarrow> (r, s\<lparr>gs_ms := ms, gs_Abuse := abuse\<rparr>))"

definition counted :: "string \<Rightarrow> (go_error + ('r \<times> GroupEvent)) \<times> 'l GroupService \<Rightarrow> (go_error + 'r) \<times> 'l GroupService" where
  "counted name rs =
     (case rs of
        (Inl err, s) \<Rightarrow> (Inl err, s)
      | (Inr (x, event), s) \<Rightarrow> (Inr x, if \<not> blank (e_ID event) then recordAggregate name s else s))"

definition svc_CreateGroup :: "string \<Rightarrow> 'l GroupService \<Rightarrow> (go_error + Group) \<times> 'l GroupService" where
  "svc_CreateGroup title s =
     (case withMembership (\<lambda>(ms, abuse). case CreateGroup title (actorID s) (gs_now s) (gs_GenerateID s) ms of
             (r, ms) \<Rightarrow> (r, ms, abuse)) s of
        (Inl err, s) \<Rightarrow> (Inl err, s)
      | (Inr (grp, event), s) \<Rightarrow> (Inr grp, recordAggregate ''create'' s))"

definition svc_LeaveGroup :: "'l rate_lib \<Rightarrow> string \<Rightarrow> 'l GroupService \<Rightarrow> (go_error + bool) \<times> 'l GroupService" where
  "svc_LeaveGroup lib groupID s =
     apfst (map_sum (\<lambda>e. e) fst) (withMembership (LeaveGroup lib groupID (actorID s) (gs_now s)) s)"

definition svc_UpdateGroupTitle :: "'l rate_lib \<Rightarrow> string \<Rightarrow> string \<Rightarrow> 'l GroupService \<Rightarrow> (go_error + Group) \<times> 'l GroupService" where
  "svc_UpdateGroupTitle lib groupID title s =
     counted ''rename'' (withMembership (UpdateGroupTitle lib groupID (actorID s) title (gs_now s)) s)"

definition svc_UpdateGroupProfile ::
    "'l rate_lib \<Rightarrow> string \<Rightarrow> string \<Rightarrow> string \<Rightarrow> string \<Rightarrow> 'l GroupService \<Rightarrow> (go_error + Group) \<times> 'l GroupService" where
  "svc_UpdateGroupProfile lib groupID title description avatar s =
     counted ''profile_update''
       (withMembership (UpdateGroupProfile lib groupID (actorID s) title description avatar (gs_now s)) s)"

definition svc_DeleteGroup :: "'l rate_lib \<Rightarrow> string \<Rightarrow> 'l GroupService \<Rightarrow> (go_error + bool) \<times> 'l GroupService" where
  "svc_DeleteGroup lib groupID s =
     (case withMembership (DeleteGroup lib groupID (actorID s) (gs_now s)) s of
        (Inl err, s) \<Rightarrow> (Inl err, s)
      | (Inr deleted, s) \<Rightarrow>
          (Inr deleted,
           if deleted then (recordAggregate ''delete'' s)\<lparr>gs_deleted := gs_deleted s @ [(groupID, actorID s)]\<rparr> else s))"

definition svc_InviteToGroup :: "'l rate_lib \<Rightarrow> string \<Rightarrow> string \<Rightarrow> 'l GroupService \<Rightarrow> (go_error + GroupMember) \<times> 'l GroupService" where
  "svc_InviteToGroup lib groupID memberID s =
     orFail (NormalizeIdentityID memberID) s (\<lambda>normalizedMemberID.
     counted ''invite''
       (withMembership (InviteToGroup lib (gs_IsBlockedSender s) groupID (actorID s) normalizedMemberID (gs_now s)) s))"

definition svc_AcceptGroupInvite :: "'l rate_lib \<Rightarrow> string \<Rightarrow> 'l GroupService \<Rightarrow> (go_error + bool) \<times> 'l GroupService" where
  "svc_AcceptGroupInvite lib groupID s =
     counted ''accept'' (withMembership (AcceptGroupInvite lib groupID (actorID s) (gs_now s)) s)"

definition svc_DeclineGroupInvite :: "'l rate_lib \<Rightarrow> string \<Rightarrow> 'l GroupService \<Rightarrow> (go_error + bool) \<times> 'l GroupService" where
  "svc_DeclineGroupInvite lib groupID s =
     apfst (map_sum (\<lambda>e. e) fst) (withMembership (DeclineGroupInvite lib groupID (actorID s) (gs_now s)) s)"

definition svc_RemoveGroupMember :: "'l rate_lib \<Rightarrow> string \<Rightarrow> string \<Rightarrow> 'l GroupService \<Rightarrow> (go_error + bool) \<times> 'l GroupService" where
  "svc_RemoveGroupMember lib groupID memberID s =
     orFail (NormalizeIdentityID memberID) s (\<lambda>normalizedMemberID.
     counted ''remove''
       (withMembership (RemoveGroupMember lib groupID (actorID s) normalizedMemberID (gs_now s)) s))"

definition svc_changeGroupMemberRole ::
    "'l rate_lib \<Rightarrow> string \<Rightarrow> string \<Rightarrow> GroupMemberRole \<Rightarrow> 'l GroupService \<Rightarrow> (go_error + GroupMember) \<times> 'l GroupService" where
  "svc_changeGroupMemberRole lib groupID memberID role s =
     orFail (NormalizeIdentityID memberID) s (\<lambda>normalizedMemberID.
     apfst (map_sum (\<lambda>e. e) fst)
       (withMembership (ChangeGroupMemberRole lib groupID (actorID s) normalizedMemberID role (gs_now s)) s))"

definition svc_PromoteGroupMember :: "'l rate_lib \<Rightarrow> string \<Rightarrow> string \<Rightarrow> 'l GroupService \<Rightarrow> (go_error + GroupMember) \<times> 'l GroupService" where
  "svc_PromoteGroupMember lib groupID memberID s = svc_changeGroupMemberRole lib groupID memberID RoleAdmin s"

definition svc_DemoteGroupMember :: "'l rate_lib \<Rightarrow> string \<Rightarrow> string \<Rightarrow> 'l GroupService \<Rightarrow> (go_error + GroupMember) \<times> 'l GroupService" where
  "svc_DemoteGroupMember lib groupID memberID s = svc_changeGroupMemberRole lib groupID memberID RoleUser s"

section \<open>All requests\<close>

datatype group_request =
    ReqCreate string
  | ReqLeave string
  | ReqTitle string string
  | ReqProfile string string string string
  | ReqDelete string
  | ReqInvite string string
  | ReqAccept string
  | ReqDecline string
  | ReqRemove string string
  | ReqPromote string string
  | ReqDemote string string

definition failure :: "(go_error + 'r) \<times> 's \<Rightarrow> go_error option \<times> 's" where
  "failure rs = apfst (\<lambda>r. case r of Inl err \<Rightarrow> Some err | Inr _ \<Rightarrow> None) rs"

fun handle_group :: "'l rate_lib \<Rightarrow> group_request \<Rightarrow> 'l GroupService \<Rightarrow> go_error option \<times> 'l GroupService" where
  "handle_group lib (ReqCreate title) s = failure (svc_CreateGroup title s)"
| "handle_group lib (ReqLeave gid) s = failure (svc_LeaveGroup lib gid s)"
| "handle_group lib (ReqTitle gid title) s = failure (svc_UpdateGroupTitle lib gid title s)"
| "handle_group lib (ReqProfile gid title descr avatar) s = failure (svc_UpdateGroupProfile lib gid title descr avatar s)"
| "handle_group lib (ReqDelete gid) s = failure (svc_DeleteGroup lib gid s)"
| "handle_group lib (ReqInvite gid m) s = failure (svc_InviteToGroup lib gid m s)"
| "handle_group lib (ReqAccept gid) s = failure (svc_AcceptGroupInvite lib gid s)"
| "handle_group lib (ReqDecline gid) s = failure (svc_DeclineGroupInvite lib gid s)"
| "handle_group lib (ReqRemove gid m) s = failure (svc_RemoveGroupMember lib gid m s)"
| "handle_group lib (ReqPromote gid m) s = failure (svc_PromoteGroupMember lib gid m s)"
| "handle_group lib (ReqDemote gid m) s = failure (svc_DemoteGroupMember lib gid m s)"

section \<open>What a caller may rely on\<close>

locale store_machine =
  fixes exec :: "'req \<Rightarrow> 'w \<Rightarrow> go_error option \<times> 'w"
    and view :: "'w \<Rightarrow> group_store"
    and user :: "'w \<Rightarrow> string"
    and told :: "'w \<Rightarrow> GroupEvent list"
    and fit :: "'w \<Rightarrow> bool"
  assumes exec_step: "fit w \<Longrightarrow> \<exists>evs. group_step (user w) (view w) evs (view (snd (exec r w))) \<and> told (snd (exec r w)) = told w @ evs"
    and exec_failed: "fit w \<Longrightarrow> fst (exec r w) \<noteq> None \<Longrightarrow> view (snd (exec r w)) = view w"
    and fit_ok: "fit w \<Longrightarrow> astore_ok (view w)"
begin

lemma exec_keeps: "fit w \<Longrightarrow> astore_ok (view (snd (exec r w)))"
  using exec_step [of w r] fit_ok [of w] group_step_keeps_ok by blast

lemma exec_owner_safe:
  assumes "fit w" "fst (view w) gid = Some s" "fst (view (snd (exec r w))) gid = Some s'"
    and "lookup (s_Members s) k = Some t" "IsOwner t" "m_Status t = StatusActive \<or> m_Status t = StatusInvited" "k \<noteq> user w"
  shows "lookup (s_Members s') k = Some t"
  using exec_step [OF assms(1), of r] fit_ok [OF assms(1)] assms(2-)
    group_step_owner_safe [of "user w" "fst (view w)" "snd (view w)" _ "fst (view (snd (exec r w)))" "snd (view (snd (exec r w)))"]
  by fastforce

lemma exec_needs_manager:
  assumes "fit w" "fst (view w) gid = Some s" "fst (view (snd (exec r w))) gid = Some s'"
    and "lookup (s_Members s') k \<noteq> lookup (s_Members s) k" "k \<noteq> user w"
  shows "\<exists>m. lookup (s_Members s) (user w) = Some m \<and> m_Status m = StatusActive \<and> CanManageMembers m"
  using exec_step [OF assms(1), of r] fit_ok [OF assms(1)] assms(2-)
    group_step_needs_manager [of "user w" "fst (view w)" "snd (view w)" _ "fst (view (snd (exec r w)))" "snd (view (snd (exec r w)))"]
  by fastforce

lemma exec_told:
  assumes "fit w"
  obtains gid evs where "told (snd (exec r w)) = told w @ evs"
    "fst (view (snd (exec r w))) gid \<noteq> None \<Longrightarrow> snd (view (snd (exec r w))) gid = snd (view w) gid @ evs"
    "\<And>g. g \<noteq> gid \<Longrightarrow> fst (view (snd (exec r w))) g = fst (view w) g \<and> snd (view (snd (exec r w))) g = snd (view w) g"
proof -
  obtain evs where step: "group_step (user w) (view w) evs (view (snd (exec r w)))" and t: "told (snd (exec r w)) = told w @ evs"
    using exec_step [OF assms] by blast
  have ok: "astore_ok (view w)" using fit_ok [OF assms] .
  have "\<exists>gid. (fst (view (snd (exec r w))) gid \<noteq> None \<longrightarrow> snd (view (snd (exec r w))) gid = snd (view w) gid @ evs) \<and>
      (\<forall>g. g \<noteq> gid \<longrightarrow> fst (view (snd (exec r w))) g = fst (view w) g \<and> snd (view (snd (exec r w))) g = snd (view w) g)"
    using step ok
    by (cases rule: group_step.cases) (auto simp: astore_ok_def intro: exI [where P = "\<lambda>g. _ g \<and> _ g", OF conjI])
  then show thesis using t that by blast
qed

end

definition group_fit :: "'l GroupService \<Rightarrow> bool" where
  "group_fit s \<longleftrightarrow>
     ready (gs_ms s) \<and> ms_Notify (gs_ms s) \<and>
     (\<forall>gen p n x. gs_GenerateID s = Some gen \<longrightarrow> gen p n = Inr x \<longrightarrow> trimmed x)"

lemma withMembership_eq:
  "withMembership fn s = (r, s') \<longleftrightarrow>
     (\<exists>ms abuse. fn (gs_ms s, gs_Abuse s) = (r, ms, abuse) \<and> s' = s\<lparr>gs_ms := ms, gs_Abuse := abuse\<rparr>)"
  by (auto simp: withMembership_def split: prod.splits)

definition call_ok :: "'l GroupService \<Rightarrow> (go_error + 'r) \<times> 'l GroupService \<Rightarrow> bool" where
  "call_ok s rs \<longleftrightarrow> step_ok (actorID s) (gs_ms s) (fst rs) (gs_ms (snd rs))"

lemma call_ok_withMembership:
  assumes "\<And>r ms abuse. fn (gs_ms s, gs_Abuse s) = (r, ms, abuse) \<Longrightarrow> step_ok (actorID s) (gs_ms s) r ms"
  shows "call_ok s (withMembership fn s)"
  using assms by (auto simp: call_ok_def withMembership_def split: prod.splits)

lemma step_ok_map: "step_ok a s r s' \<Longrightarrow> isl r' = isl r \<Longrightarrow> step_ok a s r' s'"
  by (auto simp: step_ok_def)

lemma call_ok_counted: "call_ok s rs \<Longrightarrow> call_ok s (counted name rs)"
  by (auto simp: call_ok_def counted_def recordAggregate_def split: prod.split sum.split elim!: step_ok_map)

lemma call_ok_apfst: "call_ok s rs \<Longrightarrow> call_ok s (apfst (map_sum (\<lambda>e. e) f) rs)"
  by (cases rs; cases "fst rs") (auto simp: call_ok_def elim!: step_ok_map)

lemma call_ok_orFail: "ready (gs_ms s) \<Longrightarrow> (\<And>x. r = Inr x \<Longrightarrow> call_ok s (k x)) \<Longrightarrow> call_ok s (orFail r s k)"
  by (cases r) (auto simp: call_ok_def ready_same)

lemma actorID_trimmed [simp]: "TrimSpace (actorID s) = actorID s"
  by (simp add: actorID_def split: option.split)

lemma call_ok_failure:
  "failure rs = (e, s') \<Longrightarrow> call_ok s rs \<Longrightarrow>
   step_ok (actorID s) (gs_ms s) (case e of None \<Rightarrow> Inr () | Some err \<Rightarrow> Inl err) (gs_ms s')"
  by (cases rs; cases "fst rs") (auto simp: call_ok_def failure_def elim!: step_ok_map)

section \<open>The requests refine the step relation\<close>

lemma CreateGroup_None: "CreateGroup title a now None s = (r, s') \<Longrightarrow> s' = s"
  by (auto simp: CreateGroup_def split: orFail_splits)

lemma svc_CreateGroup_ok:
  assumes "group_fit s"
  shows "call_ok s (svc_CreateGroup title s)"
proof -
  have "step_ok (actorID s) (gs_ms s) r ms" if "CreateGroup title (actorID s) (gs_now s) (gs_GenerateID s) (gs_ms s) = (r, ms)" for r ms
  proof (cases "gs_GenerateID s")
    case None
    with that have "ms = gs_ms s" by (simp add: CreateGroup_None)
    with assms show ?thesis by (simp add: group_fit_def ready_same)
  next
    case (Some gen)
    have "step_ok (TrimSpace (actorID s)) (gs_ms s) r ms"
      by (rule CreateGroup_ok [of _ gen]) (use that Some assms in \<open>auto simp: group_fit_def\<close>)
    then show ?thesis by simp
  qed
  then show ?thesis
    by (fastforce simp: svc_CreateGroup_def call_ok_def withMembership_def recordAggregate_def
        split: prod.splits sum.splits elim!: step_ok_map)
qed

lemmas operation_ok = InviteToGroup_ok LeaveGroup_ok UpdateGroupTitle_ok UpdateGroupProfile_ok DeleteGroup_ok
  AcceptGroupInvite_ok DeclineGroupInvite_ok RemoveGroupMember_ok ChangeGroupMemberRole_ok

lemma operations_call_ok:
  assumes "ready (gs_ms s)"
  shows "call_ok s (withMembership (LeaveGroup lib gid (actorID s) now) s)"
    "call_ok s (withMembership (UpdateGroupTitle lib gid (actorID s) title now) s)"
    "call_ok s (withMembership (UpdateGroupProfile lib gid (actorID s) title descr avatar now) s)"
    "call_ok s (withMembership (DeleteGroup lib gid (actorID s) now) s)"
    "call_ok s (withMembership (InviteToGroup lib blocked gid (actorID s) m now) s)"
    "call_ok s (withMembership (AcceptGroupInvite lib gid (actorID s) now) s)"
    "call_ok s (withMembership (DeclineGroupInvite lib gid (actorID s) now) s)"
    "call_ok s (withMembership (RemoveGroupMember lib gid (actorID s) m now) s)"
    "call_ok s (withMembership (ChangeGroupMemberRole lib gid (actorID s) m role now) s)"
  by (auto intro!: call_ok_withMembership dest!: operation_ok [OF assms])

lemma svc_DeleteGroup_ok: "ready (gs_ms s) \<Longrightarrow> call_ok s (svc_DeleteGroup lib gid s)"
  using operations_call_ok(4) [of s lib gid "gs_now s"]
  by (fastforce simp: svc_DeleteGroup_def call_ok_def recordAggregate_def split: prod.splits sum.splits elim!: step_ok_map)

lemma handle_group_ok:
  assumes "group_fit s" "handle_group lib req s = (e, s')"
  shows "step_ok (actorID s) (gs_ms s) (case e of None \<Rightarrow> Inr () | Some err \<Rightarrow> Inl err) (gs_ms s')"
proof -
  have r: "ready (gs_ms s)" using assms(1) by (simp add: group_fit_def)
  note calls = operations_call_ok [OF r] svc_DeleteGroup_ok [OF r] svc_CreateGroup_ok [OF assms(1)]
  from assms(2) show ?thesis
    by (cases req)
      (auto simp: svc_LeaveGroup_def svc_UpdateGroupTitle_def svc_UpdateGroupProfile_def svc_InviteToGroup_def
        svc_AcceptGroupInvite_def svc_DeclineGroupInvite_def svc_RemoveGroupMember_def svc_PromoteGroupMember_def
        svc_DemoteGroupMember_def svc_changeGroupMemberRole_def
        elim!: call_ok_failure intro!: calls call_ok_counted call_ok_apfst call_ok_orFail r)
qed

interpretation groups: store_machine "handle_group lib" "\<lambda>s. astore (gs_ms s)" actorID "\<lambda>s. ms_Notified (gs_ms s)" group_fit
proof (unfold_locales, goal_cases)
  case (1 w r)
  obtain e s' where h: "handle_group lib r w = (e, s')" by fastforce
  from handle_group_ok [OF 1 h] h 1 show ?case by (auto simp: step_ok_def group_fit_def)
next
  case (2 w r)
  obtain e s' where h: "handle_group lib r w = (e, s')" by fastforce
  from handle_group_ok [OF 2(1) h] h 2 show ?case by (auto simp: step_ok_def)
next
  case (3 w)
  then show ?case by (simp add: group_fit_def ready_def store_ok_abs)
qed

section \<open>Long runs\<close>

text \<open>
  A run of the daemon: before each request the clock and the outcome of the snapshot write are set from
  outside; the rest of the service is what the previous request left.
\<close>

type_synonym group_input = "gotime \<times> persist option \<times> group_request"

definition set_env :: "gotime \<Rightarrow> persist option \<Rightarrow> 'l GroupService \<Rightarrow> 'l GroupService" where
  "set_env now p s = s\<lparr>gs_now := now, gs_ms := (gs_ms s)\<lparr>ms_Persist := p\<rparr>\<rparr>"

definition run_group :: "'l rate_lib \<Rightarrow> group_input list \<Rightarrow> 'l GroupService \<Rightarrow> 'l GroupService" where
  "run_group lib inputs s = foldl (\<lambda>s (now, p, req). snd (handle_group lib req (set_env now p s))) s inputs"

definition fresh_service :: "'l GroupService \<Rightarrow> bool" where
  "fresh_service s \<longleftrightarrow>
     ms_States (gs_ms s) = [] \<and> ms_EventLog (gs_ms s) = [] \<and> ms_Notify (gs_ms s) \<and>
     (\<forall>gen n. ms_GenerateEventID (gs_ms s) = Some gen \<longrightarrow> \<not> blank (gen n)) \<and>
     (\<forall>gen p n x. gs_GenerateID s = Some gen \<longrightarrow> gen p n = Inr x \<longrightarrow> trimmed x)"

definition run_inv :: "nat \<Rightarrow> 'l GroupService \<Rightarrow> bool" where
  "run_inv n s \<longleftrightarrow>
     store_ok (ms_States (gs_ms s)) (ms_EventLog (gs_ms s)) \<and> bounded n (astore (gs_ms s)) \<and> ms_Notify (gs_ms s) \<and>
     (\<forall>gen n. ms_GenerateEventID (gs_ms s) = Some gen \<longrightarrow> \<not> blank (gen n)) \<and>
     (\<forall>gen p n x. gs_GenerateID s = Some gen \<longrightarrow> gen p n = Inr x \<longrightarrow> trimmed x)"

lemma handle_group_frame: "gs_GenerateID (snd (handle_group lib req s)) = gs_GenerateID s"
  by (cases req)
    (simp_all add: failure_def svc_CreateGroup_def svc_LeaveGroup_def svc_UpdateGroupTitle_def svc_UpdateGroupProfile_def
      svc_DeleteGroup_def svc_InviteToGroup_def svc_AcceptGroupInvite_def svc_DeclineGroupInvite_def
      svc_RemoveGroupMember_def svc_PromoteGroupMember_def svc_DemoteGroupMember_def svc_changeGroupMemberRole_def
      counted_def withMembership_def recordAggregate_def split: prod.split sum.split orFail_split)

lemma set_env_frame [simp]:
  "ms_States (gs_ms (set_env t p s)) = ms_States (gs_ms s)" "ms_EventLog (gs_ms (set_env t p s)) = ms_EventLog (gs_ms s)"
  "ms_Notify (gs_ms (set_env t p s)) = ms_Notify (gs_ms s)" "gs_GenerateID (set_env t p s) = gs_GenerateID s"
  "ms_GenerateEventID (gs_ms (set_env t p s)) = ms_GenerateEventID (gs_ms s)"
  by (simp_all add: set_env_def)

lemma run_inv_set_env [simp]: "run_inv n (set_env t p s) = run_inv n s"
  by (simp add: run_inv_def)

lemma unat_plus_not_zero:
  fixes w :: "'a :: len word"
  assumes "unat w + k < 2 ^ LENGTH('a)" "0 < k"
  shows "w + of_nat k \<noteq> 0"
proof
  assume "w + of_nat k = 0"
  then have "unat (of_nat (unat w + k) :: 'a word) = 0" by simp
  then have "(unat w + k) mod 2 ^ LENGTH('a) = 0" by (simp only: unat_of_nat take_bit_eq_mod)
  with assms show False by simp
qed

lemma run_inv_fit:
  assumes "run_inv n s" "n < 2 ^ 31"
  shows "group_fit s"
proof -
  have "rotation_room st" if "lookup (ms_States (gs_ms s)) gid = Some st" for gid st
  proof -
    have b: "unat (s_LastKeyVersion st) \<le> Suc n" "length (events_of (ms_EventLog (gs_ms s)) gid) \<le> Suc (2 * n)"
      using assms(1) that by (auto simp: run_inv_def bounded_def)
    have "group_ok gid st (events_of (ms_EventLog (gs_ms s)) gid)"
      using assms(1) that by (auto simp: run_inv_def store_ok_def)
    then have "unat (s_Version st) = length (events_of (ms_EventLog (gs_ms s)) gid)"
      by (simp add: group_ok_def unat_of_nat take_bit_eq_mod)
    then show ?thesis
      using b assms(2) unat_plus_not_zero [of "s_LastKeyVersion st" 1] unat_plus_not_zero [of "s_Version st" 2]
      by (simp add: rotation_room_def)
  qed
  with assms(1) show ?thesis by (auto simp: group_fit_def ready_def run_inv_def)
qed

lemma run_inv_step:
  assumes "run_inv n s" "n < 2 ^ 31"
  shows "run_inv (Suc n) (snd (handle_group lib req s))"
proof -
  obtain e s' where h: "handle_group lib req s = (e, s')" by fastforce
  from handle_group_ok [OF run_inv_fit [OF assms] h]
  have ok: "store_ok (ms_States (gs_ms s')) (ms_EventLog (gs_ms s'))" "same_config (gs_ms s) (gs_ms s')"
    and step: "\<exists>evs. group_step (actorID s) (astore (gs_ms s)) evs (astore (gs_ms s'))"
    by (auto simp: step_ok_def)
  moreover have "bounded (Suc n) (astore (gs_ms s'))"
    using step assms(1) group_step_bounded by (auto simp: run_inv_def)
  ultimately show ?thesis
    using assms(1) h handle_group_frame [of lib req s] by (auto simp: run_inv_def same_config_def)
qed

lemma run_group_inv:
  "run_inv n s \<Longrightarrow> n + length inputs \<le> 2 ^ 31 \<Longrightarrow> run_inv (n + length inputs) (run_group lib inputs s)"
proof (induction inputs arbitrary: n s)
  case (Cons x inputs)
  obtain t p req where x: "x = (t, p, req)" by (metis prod_cases3)
  have "run_inv (Suc n) (snd (handle_group lib req (set_env t p s)))"
    using Cons.prems by (intro run_inv_step) simp_all
  from Cons.IH [OF this] Cons.prems show ?case by (simp add: run_group_def x)
qed (simp add: run_group_def)

lemma fresh_run_inv: "fresh_service s \<Longrightarrow> run_inv 0 s"
  by (simp add: fresh_service_def run_inv_def bounded_def)

end
