(* ===== verification/Group_Guarantees.thy ===== *)
theory Group_Guarantees
  imports Group_Service
begin

text \<open>
  What the group service guarantees to its callers: the properties of the local operations over whole
  runs of the daemon, and the convergence of replicas that apply the same log. The sample service
  at the start instantiates the injected functions for the concrete witnesses.
\<close>

section \<open>A sample service\<close>

definition open_lib :: "unit rate_lib" where
  "open_lib = \<lparr>rl_NewLimiter = (\<lambda>_ _. ()), rl_AllowN = (\<lambda>b _ _. (True, b))\<rparr>"

definition sample_service :: "unit GroupService" where
  "sample_service =
     \<lparr>gs_ms = \<lparr>ms_States = [], ms_EventLog = [], ms_Persist = None,
        ms_GenerateEventID = Some (\<lambda>n. CHR ''e'' # replicate n (CHR ''x'')), ms_ids = 0,
        ms_Notify = True, ms_Notified = []\<rparr>,
      gs_Abuse = None, gs_IdentityID = Some ''aim1alice001'', gs_now = 1,
      gs_GenerateID = Some (\<lambda>p n. Inr (if p = ''group'' then ''g1'' else ''e0'')),
      gs_IsBlockedSender = None, gs_aggregates = [], gs_deleted = []\<rparr>"

definition sample_inputs :: "group_input list" where
  "sample_inputs = [(1, None, ReqCreate ''Team''), (2, None, ReqInvite ''g1'' ''aim1bobby001''), (3, None, ReqInvite ''g1'' ''aim1carol001'')]"

definition sample_running :: "unit GroupService" where
  "sample_running = run_group open_lib sample_inputs sample_service"

definition log_in_as :: "string \<Rightarrow> 'l GroupService \<Rightarrow> 'l GroupService" where
  "log_in_as i s = s\<lparr>gs_IdentityID := Some i\<rparr>"

lemma sample_ids_fit: "TrimSpace ''g1'' = ''g1''" "TrimSpace ''e0'' = ''e0''"
  by code_simp+

lemma sample_event_ids_fit: "\<not> blank (CHR ''e'' # replicate n (CHR ''x''))"
  by (rule not_blankI [of "CHR ''e''"]) (simp_all add: go_spaces_def)

lemma sample_fresh: "fresh_service sample_service"
  using sample_event_ids_fit by (simp add: fresh_service_def sample_service_def sample_ids_fit)

lemma sample_inputs_short: "length sample_inputs < 2 ^ 31"
  by (simp add: sample_inputs_def)

lemma run_group_fit: "fresh_service s0 \<Longrightarrow> length inputs < 2 ^ 31 \<Longrightarrow> group_fit (run_group lib inputs s0)"
  using run_group_inv [OF fresh_run_inv, of s0 inputs lib] run_inv_fit by fastforce

lemma group_fit_log_in [simp]: "group_fit (log_in_as i s) = group_fit s"
  by (simp add: group_fit_def log_in_as_def)

lemma sample_running_fit: "group_fit sample_running"
  unfolding sample_running_def by (rule run_group_fit [OF sample_fresh sample_inputs_short])

section \<open>The store over whole runs\<close>





section \<open>Who may do what\<close>

text \<open>
  C6: No request of another user touches the record of an active or invited owner: as long as the group
  is still there afterwards, the owner's role, status and times are what they were.
\<close>

theorem owner_cannot_be_touched:
  assumes "group_fit s" "lookup (ms_States (gs_ms s)) gid = Some st" "lookup (s_Members st) k = Some t"
    and "IsOwner t" "m_Status t = StatusActive \<or> m_Status t = StatusInvited" "k \<noteq> actorID s"
    and "lookup (ms_States (gs_ms (snd (handle_group lib req s)))) gid = Some st'"
  shows "lookup (s_Members st') k = Some t"
  using groups.exec_owner_safe [OF assms(1), of gid st lib req st' k t] assms by simp

definition sample_owner :: GroupMember where
  "sample_owner = \<lparr>m_GroupID = ''g1'', m_MemberID = ''aim1alice001'', m_Role = RoleOwner, m_Status = StatusActive,
     m_InvitedAt = 1, m_ActivatedAt = 1, m_UpdatedAt = 1\<rparr>"

theorem owner_cannot_be_touched_witness:
  "let s = log_in_as ''aim1bobby001'' sample_running;
       s' = snd (handle_group open_lib (ReqRemove ''g1'' ''aim1alice001'') s) in
   \<exists>st'. lookup (ms_States (gs_ms s')) ''g1'' = Some st' \<and> lookup (s_Members st') ''aim1alice001'' = Some sample_owner"
proof -
  let ?s = "log_in_as ''aim1bobby001'' sample_running"
  let ?s' = "snd (handle_group open_lib (ReqRemove ''g1'' ''aim1alice001'') ?s)"
  have "map_option (\<lambda>st. lookup (s_Members st) ''aim1alice001'') (lookup (ms_States (gs_ms ?s)) ''g1'') = Some (Some sample_owner)"
    by code_simp
  then obtain st where st: "lookup (ms_States (gs_ms ?s)) ''g1'' = Some st" "lookup (s_Members st) ''aim1alice001'' = Some sample_owner"
    by auto
  have "lookup (ms_States (gs_ms ?s')) ''g1'' \<noteq> None" by code_simp
  then obtain st' where st': "lookup (ms_States (gs_ms ?s')) ''g1'' = Some st'" by blast
  have fit: "group_fit ?s" by (simp add: sample_running_fit)
  have "''aim1alice001'' \<noteq> actorID ?s" by code_simp
  then have "lookup (s_Members st') ''aim1alice001'' = Some sample_owner"
    using owner_cannot_be_touched [OF fit st _ _ _ st'] by (simp add: sample_owner_def IsOwner_def)
  with st' show ?thesis by (simp add: Let_def)
qed

text \<open>
  C21: Whoever changes the record of another member (invites, removes, promotes or demotes them) is at that
  moment an active owner or admin of the group.
\<close>

theorem only_managers_change_others:
  assumes "group_fit s" "lookup (ms_States (gs_ms s)) gid = Some st" "k \<noteq> actorID s"
    and "lookup (ms_States (gs_ms (snd (handle_group lib req s)))) gid = Some st'"
    and "lookup (s_Members st') k \<noteq> lookup (s_Members st) k"
  shows "\<exists>m. lookup (s_Members st) (actorID s) = Some m \<and> m_Status m = StatusActive \<and> CanManageMembers m"
  using groups.exec_needs_manager [OF assms(1), of gid st lib req st' k] assms by simp

theorem only_managers_change_others_witness:
  "\<exists>st m. lookup (ms_States (gs_ms sample_running)) ''g1'' = Some st \<and>
     lookup (s_Members st) (actorID sample_running) = Some m \<and> m_Status m = StatusActive \<and> CanManageMembers m"
proof -
  let ?s' = "snd (handle_group open_lib (ReqRemove ''g1'' ''aim1bobby001'') sample_running)"
  let ?status = "map_option (\<lambda>st. map_option m_Status (lookup (s_Members st) ''aim1bobby001''))"
  have "?status (lookup (ms_States (gs_ms sample_running)) ''g1'') = Some (Some StatusInvited)"
    "?status (lookup (ms_States (gs_ms ?s')) ''g1'') = Some (Some StatusRemoved)" by code_simp+
  then obtain st st' where st: "lookup (ms_States (gs_ms sample_running)) ''g1'' = Some st"
    and st': "lookup (ms_States (gs_ms ?s')) ''g1'' = Some st'"
    and status: "map_option m_Status (lookup (s_Members st) ''aim1bobby001'') = Some StatusInvited"
      "map_option m_Status (lookup (s_Members st') ''aim1bobby001'') = Some StatusRemoved" by (auto simp del: map_option_eq_Some)
  from status have ne: "lookup (s_Members st') ''aim1bobby001'' \<noteq> lookup (s_Members st) ''aim1bobby001''" by force
  have "''aim1bobby001'' \<noteq> actorID sample_running" by code_simp
  with only_managers_change_others [OF sample_running_fit st _ st' ne] st show ?thesis by blast
qed



section \<open>Quotas and keys\<close>

lemma length_filter_put: "length (filter P (put k v m)) \<le> Suc (length (filter P m))"
  by (induction m) auto

lemma counts_put:
  assumes "s_Members st' = put k v (s_Members st)"
  shows "member_count st' \<le> Suc (member_count st)" "pending_invites st' \<le> Suc (pending_invites st)"
  using assms length_filter_put by (simp_all add: member_count_def pending_invites_def)

lemma applyEvent_state:
  assumes "store_ok (ms_States s) (ms_EventLog s)" "lookup (ms_States s) gid = Some st"
    and "applyEvent s st e = (Inr next, s')" "lookup (ms_States s') g = Some st'" "lookup (ms_States s) g \<noteq> Some st'"
  shows "applicable st e \<and> st' = applied_state st e"
proof -
  have "g_ID (s_Group st) = gid" using store_ok_group [OF assms(1,2)] by (auto dest: group_okD)
  then show ?thesis
    using assms(2-) Apply_applicable [of st e] Apply_not_applicable [of st e]
    by (cases "applicable st e")
      (auto simp: applyEvent_def applyEvents_def ApplyEventsWithRollback_def Let_def
        split: prod.splits sum.splits if_splits option.splits)
qed

lemma invite_counts:
  assumes "state_ok st" "e_Type e = MemberAdd"
  shows "member_count (applied_state st e) \<le> Suc (member_count st)"
    "pending_invites (applied_state st e) \<le> Suc (pending_invites st)"
  using assms by (auto simp: effect_members event_member_def intro!: counts_put split: option.splits)

lemma InviteToGroup_quota:
  assumes ready: "ready s" and run: "InviteToGroup lib blocked gid a m now (s, Some p) = (Inr x, s', abuse')"
    and st': "lookup (ms_States s') g = Some st'" "lookup (ms_States s) g \<noteq> Some st'"
  shows "int (member_count st') \<le> MaxMembers (ap_cfg p) \<and> int (pending_invites st') \<le> MaxPendingInvites (ap_cfg p)"
proof -
  obtain i s1 st "next" ap where g: "generateEventID s = (i, s1)" and st: "lookup (ms_States s) (TrimSpace gid) = Some st"
    and ap: "AllowInvite lib (Some p) (TrimSpace a) now = (True, ap)" and q: "EnforceInviteQuotas ap st = None"
    and app: "applyEvent s1 st (zero_event\<lparr>e_ID := i, e_GroupID := TrimSpace gid, e_Version := s_Version st + 1,
        e_Type := MemberAdd, e_ActorID := TrimSpace a, e_OccurredAt := now, e_MemberID := TrimSpace m, e_Role := RoleUser\<rparr>) =
        (Inr next, s')"
    using run st' by (auto simp: InviteToGroup_def Let_def result_simps LoadStateForActor_Inr split: handler_splits)
  define e where "e = zero_event\<lparr>e_ID := i, e_GroupID := TrimSpace gid, e_Version := s_Version st + 1,
        e_Type := MemberAdd, e_ActorID := TrimSpace a, e_OccurredAt := now, e_MemberID := TrimSpace m, e_Role := RoleUser\<rparr>"
  have e: "e_Type e = MemberAdd" "applyEvent s1 st e = (Inr next, s')" using app by (simp_all add: e_def)
  have "map_option ap_cfg ap = Some (ap_cfg p)" using Allow_cfg_frame(1) [OF ap] by simp
  then obtain p' where p': "ap = Some p'" "ap_cfg p' = ap_cfg p" by auto
  have ok: "state_ok st" using ready_stored [OF ready st] by simp
  have same: "ms_States s1 = ms_States s" "ms_EventLog s1 = ms_EventLog s" using generateEventID_frame [OF g] by auto
  have "store_ok (ms_States s1) (ms_EventLog s1)" "lookup (ms_States s1) (TrimSpace gid) = Some st" "lookup (ms_States s1) g \<noteq> Some st'"
    using ready_stored(1) [OF ready st] st st'(2) unfolding same by blast+
  from applyEvent_state [OF this(1,2) e(2) st'(1) this(3)] have "st' = applied_state st e" ..
  moreover have "int (member_count st) < MaxMembers (ap_cfg p)" "int (pending_invites st) < MaxPendingInvites (ap_cfg p)"
    using q p' by (simp_all add: EnforceInviteQuotas_def split: if_splits)
  ultimately show ?thesis using invite_counts [OF ok e(1)] by simp
qed

text \<open>
  An invitation never takes a group over its quotas: with abuse protection configured, a group that
  a successful invite request changed has afterwards at most \<open>MaxMembers\<close> active or invited members
  and at most \<open>MaxPendingInvites\<close> invited ones.
\<close>

lemma invite_respects_quotas:
  assumes "group_fit s" "gs_Abuse s = Some p" "handle_group lib (ReqInvite gid m) s = (None, s')"
    and "lookup (ms_States (gs_ms s')) g = Some st'" "lookup (ms_States (gs_ms s)) g \<noteq> Some st'"
  shows "int (member_count st') \<le> MaxMembers (ap_cfg p) \<and> int (pending_invites st') \<le> MaxPendingInvites (ap_cfg p)"
proof -
  obtain i x abuse' where run: "InviteToGroup lib (gs_IsBlockedSender s) gid (actorID s) i (gs_now s) (gs_ms s, Some p) = (Inr x, gs_ms s', abuse')"
    using assms(2,3)
    by (auto simp: failure_def svc_InviteToGroup_def counted_def withMembership_def recordAggregate_def
        split: handler_splits sum.splits)
  show ?thesis by (rule InviteToGroup_quota [OF _ run]) (use assms in \<open>auto simp: group_fit_def\<close>)
qed

end
