(* ===== verification/Group_Convergence.thy ===== *)
theory Group_Convergence
  imports Group_Model
begin

text \<open>
  Convergence of group replicas. The daemon of every member applies the events of a group with
  \<open>ApplyGroupEvent\<close>; the network may repeat, reorder or drop them. The lemmas of the locale \<open>replica\<close>,
  interpreted as \<open>group_replica\<close>, give: any two replicas of one log at the same version are equal, and
  a delivery that contains the log in order, with whatever else in between, is complete.
\<close>

lemma version_after_log:
  "applies_all ApplyGroupEvent s evs \<Longrightarrow> s_Version (deliver ApplyGroupEvent s evs) = s_Version s + of_nat (length evs)"
proof (induction evs arbitrary: s)
  case (Cons e evs)
  then have "applicable s e" "applies_all ApplyGroupEvent (applied_state s e) evs"
    by (auto simp: Apply_Inr_True Apply_applicable)
  with Cons.IH show ?case by (simp add: Apply_applicable applicable_def)
qed simp

lemma applies_all_take: "applies_all step s evs \<Longrightarrow> applies_all step s (take k evs)"
  using applies_all_append [of step s "take k evs" "drop k evs"] by simp

lemma version_of_prefix:
  assumes "applies_all ApplyGroupEvent s evs" "k \<le> length evs"
  shows "s_Version (deliver ApplyGroupEvent s (take k evs)) = s_Version s + of_nat k"
  using version_after_log [OF applies_all_take [OF assms(1)], of k] assms(2) by simp

text \<open>
  C8: Replicas of one group that have reached the same version have the same state. Let a log of fewer
  than 2 to the 64 events be one that applies in order. Whatever events of it two replicas were
  delivered, in whatever order and however often: if their versions are equal, so are their members,
  their title, their key version and the set of events they know.
\<close>

theorem replicas_at_same_version_agree:
  assumes "applies_all ApplyGroupEvent s evs" "length evs < 2 ^ 64" "set ds \<subseteq> set evs" "set ds' \<subseteq> set evs"
    and "s_Version (deliver ApplyGroupEvent s ds) = s_Version (deliver ApplyGroupEvent s ds')"
  shows "deliver ApplyGroupEvent s ds = deliver ApplyGroupEvent s ds'"
proof -
  note d = applied_log_distinct_versions [OF assms(1,2)]
  obtain k k' where k: "k \<le> length evs" "deliver ApplyGroupEvent s ds = deliver ApplyGroupEvent s (take k evs)"
    and k': "k' \<le> length evs" "deliver ApplyGroupEvent s ds' = deliver ApplyGroupEvent s (take k' evs)"
    using group_replica.delivery_leaves_prefix [OF assms(1) d assms(3)]
      group_replica.delivery_leaves_prefix [OF assms(1) d assms(4)] by blast
  have "(of_nat k :: 64 word) = of_nat k'"
    using assms(5) k k' version_of_prefix [OF assms(1)] by simp
  then have "unat (of_nat k :: 64 word) = unat (of_nat k' :: 64 word)" by (rule arg_cong)
  then have "k = k'" using k(1) k'(1) assms(2) by (simp add: unat_of_nat take_bit_eq_mod)
  with k k' show ?thesis by simp
qed

text \<open>
  A replica catches up as soon as it has seen the log in order: a delivery of events of the log that
  contains the whole log as a subsequence leaves the state that the log itself leaves, whatever
  duplicates and early or late copies come in between.
\<close>

lemma replica_catches_up:
  assumes "applies_all ApplyGroupEvent s evs" "length evs < 2 ^ 64" "set ds \<subseteq> set evs" "subseq evs ds"
  shows "deliver ApplyGroupEvent s ds = deliver ApplyGroupEvent s evs"
  using group_replica.delivery_complete [OF assms(1) applied_log_distinct_versions [OF assms(1,2)] assms(3,4)] .

section \<open>A concrete log\<close>

definition base_event :: GroupEvent where
  "base_event = \<lparr>e_ID = ''e1'', e_GroupID = ''g1'', e_Version = 1, e_Type = MemberAdd, e_ActorID = ''ann'', e_OccurredAt = 1,
     e_MemberID = ''ann'', e_Role = RoleOwner, e_Title = [], e_Description = [], e_Avatar = [], e_KeyVersion = 0\<rparr>"

definition sample_log :: "GroupEvent list" where
  "sample_log = [base_event, base_event\<lparr>e_ID := ''e2'', e_Version := 2, e_MemberID := ''bob'', e_Role := RoleUser\<rparr>,
     base_event\<lparr>e_ID := ''e3'', e_Version := 3, e_Type := KeyRotate, e_KeyVersion := 2\<rparr>]"

definition sample_start :: GroupState where
  "sample_start = NewGroupState \<lparr>g_ID = ''g1'', g_Title = ''Team'', g_Description = [], g_Avatar = [], g_CreatedBy = ''ann'',
     g_CreatedAt = 1, g_UpdatedAt = 1\<rparr>"

definition early_delivery :: "GroupEvent list" where
  "early_delivery = [sample_log ! 1, sample_log ! 0, sample_log ! 0, sample_log ! 1, sample_log ! 0]"

lemma sample_log_applies: "applies_all ApplyGroupEvent sample_start sample_log"
proof -
  have "fst (ApplyGroupEvent sample_start (sample_log ! 0)) = Inr True"
    "fst (ApplyGroupEvent (snd (ApplyGroupEvent sample_start (sample_log ! 0))) (sample_log ! 1)) = Inr True"
    "fst (ApplyGroupEvent (snd (ApplyGroupEvent (snd (ApplyGroupEvent sample_start (sample_log ! 0))) (sample_log ! 1))) (sample_log ! 2)) = Inr True"
    by code_simp+
  then show ?thesis by (simp add: sample_log_def)
qed

theorem replicas_at_same_version_agree_witness:
  "deliver ApplyGroupEvent sample_start early_delivery = deliver ApplyGroupEvent sample_start (take 2 sample_log)"
proof -
  have "s_Version (deliver ApplyGroupEvent sample_start early_delivery) = s_Version (deliver ApplyGroupEvent sample_start (take 2 sample_log))"
    by code_simp
  then show ?thesis
    using replicas_at_same_version_agree [OF sample_log_applies, of early_delivery "take 2 sample_log"]
    by (simp add: sample_log_def early_delivery_def)
qed

lemma replica_catches_up_witness:
  "deliver ApplyGroupEvent sample_start (early_delivery @ [sample_log ! 2]) = deliver ApplyGroupEvent sample_start sample_log \<and>
   s_Version (deliver ApplyGroupEvent sample_start (early_delivery @ [sample_log ! 2])) = 3"
proof -
  have "s_Version (deliver ApplyGroupEvent sample_start sample_log) = 3" by code_simp
  moreover have "subseq sample_log (early_delivery @ [sample_log ! 2])" by (simp add: sample_log_def early_delivery_def)
  ultimately show ?thesis
    using replica_catches_up [OF sample_log_applies, of "early_delivery @ [sample_log ! 2]"]
    by (simp add: sample_log_def early_delivery_def)
qed

end
