(* ===== verification/Privacy_Settings.thy ===== *)
theory Privacy_Settings
  imports Prelude
begin

text \<open>
  The privacy and storage settings of \<open>internal/domains/privacy/model/settings.go\<close>: the modes, the
  defaults, the normalisation that runs on every read and write, and the resolution of the storage
  policy of a scope. Named string types keep every other string in an \<open>Other\<close> constructor. Go's \<open>int\<close>
  is \<open>int\<close> (the code only compares and copies these values).
\<close>

section \<open>Modes\<close>

datatype MessagePrivacyMode = ContactsOnly | Requests | Everyone | PrivacyOther string

datatype StorageProtectionMode = Standard | Protected | ProtectionOther string

datatype ContentRetentionMode = Persistent | Ephemeral | ZeroRetention | RetentionOther string

datatype StoragePolicyScope = ScopeGlobal | ScopeGroup | ScopeChannel | ScopeChat | ScopeOther string

definition privacy_mode_of_string :: "string \<Rightarrow> MessagePrivacyMode" where
  "privacy_mode_of_string s =
     (if s = ''contacts_only'' then ContactsOnly
      else if s = ''requests'' then Requests
      else if s = ''everyone'' then Everyone
      else PrivacyOther s)"

definition protection_of_string :: "string \<Rightarrow> StorageProtectionMode" where
  "protection_of_string s =
     (if s = ''standard'' then Standard
      else if s = ''protected'' then Protected
      else ProtectionOther s)"

definition retention_of_string :: "string \<Rightarrow> ContentRetentionMode" where
  "retention_of_string s =
     (if s = ''persistent'' then Persistent
      else if s = ''ephemeral'' then Ephemeral
      else if s = ''zero_retention'' then ZeroRetention
      else RetentionOther s)"

definition scope_of_string :: "string \<Rightarrow> StoragePolicyScope" where
  "scope_of_string s =
     (if s = ''global'' then ScopeGlobal
      else if s = ''group'' then ScopeGroup
      else if s = ''channel'' then ScopeChannel
      else if s = ''chat'' then ScopeChat
      else ScopeOther s)"

fun string_of_scope :: "StoragePolicyScope \<Rightarrow> string" where
  "string_of_scope ScopeGlobal = ''global''"
| "string_of_scope ScopeGroup = ''group''"
| "string_of_scope ScopeChannel = ''channel''"
| "string_of_scope ScopeChat = ''chat''"
| "string_of_scope (ScopeOther s) = s"

fun privacy_mode_Valid :: "MessagePrivacyMode \<Rightarrow> bool" where
  "privacy_mode_Valid (PrivacyOther _) = False"
| "privacy_mode_Valid _ = True"

fun protection_Valid :: "StorageProtectionMode \<Rightarrow> bool" where
  "protection_Valid (ProtectionOther _) = False"
| "protection_Valid _ = True"

fun retention_Valid :: "ContentRetentionMode \<Rightarrow> bool" where
  "retention_Valid (RetentionOther _) = False"
| "retention_Valid _ = True"

fun scope_Valid :: "StoragePolicyScope \<Rightarrow> bool" where
  "scope_Valid (ScopeOther _) = False"
| "scope_Valid _ = True"

definition ParseMessagePrivacyMode :: "string \<Rightarrow> go_error + MessagePrivacyMode" where
  "ParseMessagePrivacyMode raw =
     (let mode = privacy_mode_of_string (TrimSpace raw) in
      if \<not> privacy_mode_Valid mode then Inl ErrInvalidMessagePrivacyMode else Inr mode)"

definition ParseStorageProtectionMode :: "string \<Rightarrow> go_error + StorageProtectionMode" where
  "ParseStorageProtectionMode raw =
     (let mode = protection_of_string (TrimSpace raw) in
      if \<not> protection_Valid mode then Inl ErrInvalidStorageProtectionMode else Inr mode)"

definition ParseContentRetentionMode :: "string \<Rightarrow> go_error + ContentRetentionMode" where
  "ParseContentRetentionMode raw =
     (let mode = retention_of_string (TrimSpace raw) in
      if \<not> retention_Valid mode then Inl ErrInvalidContentRetentionMode else Inr mode)"

section \<open>Settings and policies\<close>

record NodePersonalPolicy =
  npp_StoreEnabled :: bool
  npp_TTLDays :: int
  npp_QuotaMB :: int
  npp_PinEnabled :: bool

record NodePublicPolicy =
  pub_RelayEnabled :: bool
  pub_DiscoveryEnabled :: bool
  pub_ServingEnabled :: bool
  pub_StoreEnabled :: bool
  pub_TTLDays :: int
  pub_QuotaMB :: int

record NodePolicies =
  np_ProfileSchemaVersion :: int
  np_Personal :: NodePersonalPolicy
  np_Public :: NodePublicPolicy

record StoragePolicy =
  sp_StorageProtection :: StorageProtectionMode
  sp_ContentRetentionMode :: ContentRetentionMode
  sp_MessageTTLSeconds :: int
  sp_ImageTTLSeconds :: int
  sp_FileTTLSeconds :: int
  sp_ImageQuotaMB :: int
  sp_FileQuotaMB :: int
  sp_ImageMaxItemSizeMB :: int
  sp_FileMaxItemSizeMB :: int

text \<open>An override has the fields of a policy and two more; a record extension.\<close>

record StoragePolicyOverride = StoragePolicy +
  so_InfiniteTTL :: bool
  so_PinRequiredForInfinite :: bool

record PrivacySettings =
  ps_ProfileSchemaVersion :: int
  ps_MessagePrivacyMode :: MessagePrivacyMode
  ps_StorageProtection :: StorageProtectionMode
  ps_ContentRetentionMode :: ContentRetentionMode
  ps_MessageTTLSeconds :: int
  ps_ImageTTLSeconds :: int
  ps_FileTTLSeconds :: int
  ps_ImageQuotaMB :: int
  ps_FileQuotaMB :: int
  ps_ImageMaxItemSizeMB :: int
  ps_FileMaxItemSizeMB :: int
  ps_StorageScopeOverrides :: "(string, StoragePolicyOverride) gomap"
  ps_NodePolicies :: "NodePolicies option"

abbreviation (input) DefaultMessagePrivacyMode :: MessagePrivacyMode where "DefaultMessagePrivacyMode \<equiv> Everyone"
abbreviation (input) DefaultStorageProtectionMode :: StorageProtectionMode where "DefaultStorageProtectionMode \<equiv> Standard"
abbreviation (input) DefaultContentRetentionMode :: ContentRetentionMode where "DefaultContentRetentionMode \<equiv> Persistent"
abbreviation (input) DefaultEphemeralMessageTTLSeconds :: int where "DefaultEphemeralMessageTTLSeconds \<equiv> 86400"
abbreviation (input) DefaultEphemeralFileTTLSeconds :: int where "DefaultEphemeralFileTTLSeconds \<equiv> 0"
abbreviation (input) CurrentProfileSchemaVersion :: int where "CurrentProfileSchemaVersion \<equiv> 2"

definition DefaultNodePolicies :: NodePolicies where
  "DefaultNodePolicies =
     \<lparr>np_ProfileSchemaVersion = CurrentProfileSchemaVersion,
      np_Personal = \<lparr>npp_StoreEnabled = True, npp_TTLDays = 0, npp_QuotaMB = 10 * 1024, npp_PinEnabled = True\<rparr>,
      np_Public = \<lparr>pub_RelayEnabled = True, pub_DiscoveryEnabled = True, pub_ServingEnabled = True,
        pub_StoreEnabled = False, pub_TTLDays = 0, pub_QuotaMB = 0\<rparr>\<rparr>"

definition zero_settings :: PrivacySettings where
  "zero_settings =
     \<lparr>ps_ProfileSchemaVersion = 0, ps_MessagePrivacyMode = PrivacyOther [], ps_StorageProtection = ProtectionOther [],
      ps_ContentRetentionMode = RetentionOther [], ps_MessageTTLSeconds = 0, ps_ImageTTLSeconds = 0,
      ps_FileTTLSeconds = 0, ps_ImageQuotaMB = 0, ps_FileQuotaMB = 0, ps_ImageMaxItemSizeMB = 0,
      ps_FileMaxItemSizeMB = 0, ps_StorageScopeOverrides = [], ps_NodePolicies = None\<rparr>"

definition DefaultPrivacySettings :: PrivacySettings where
  "DefaultPrivacySettings =
     zero_settings\<lparr>ps_ProfileSchemaVersion := CurrentProfileSchemaVersion,
       ps_MessagePrivacyMode := DefaultMessagePrivacyMode, ps_StorageProtection := DefaultStorageProtectionMode,
       ps_ContentRetentionMode := DefaultContentRetentionMode, ps_NodePolicies := Some DefaultNodePolicies\<rparr>"

section \<open>Normalisation\<close>

definition normalizeProfileSchemaVersion :: "int \<Rightarrow> int" where
  "normalizeProfileSchemaVersion v =
     (if v \<le> 0 then CurrentProfileSchemaVersion
      else if v > CurrentProfileSchemaVersion then CurrentProfileSchemaVersion
      else v)"

definition normalizeTTLSeconds :: "int \<Rightarrow> int" where
  "normalizeTTLSeconds v = (if v < 0 then 0 else v)"

definition normalizeLimitValue :: "int \<Rightarrow> int" where
  "normalizeLimitValue v = (if v < 0 then 0 else v)"

definition normalizeNodePolicies :: "NodePolicies option \<Rightarrow> NodePolicies" where
  "normalizeNodePolicies policies =
     (case policies of
        None \<Rightarrow> DefaultNodePolicies
      | Some p \<Rightarrow>
          \<lparr>np_ProfileSchemaVersion = normalizeProfileSchemaVersion (np_ProfileSchemaVersion p),
           np_Personal =
             \<lparr>npp_StoreEnabled = npp_StoreEnabled (np_Personal p),
              npp_TTLDays = normalizeLimitValue (npp_TTLDays (np_Personal p)),
              npp_QuotaMB = normalizeLimitValue (npp_QuotaMB (np_Personal p)),
              npp_PinEnabled = npp_PinEnabled (np_Personal p)\<rparr>,
           np_Public =
             \<lparr>pub_RelayEnabled = pub_RelayEnabled (np_Public p),
              pub_DiscoveryEnabled = pub_DiscoveryEnabled (np_Public p),
              pub_ServingEnabled = pub_ServingEnabled (np_Public p),
              pub_StoreEnabled = pub_StoreEnabled (np_Public p),
              pub_TTLDays = normalizeLimitValue (pub_TTLDays (np_Public p)),
              pub_QuotaMB = normalizeLimitValue (pub_QuotaMB (np_Public p))\<rparr>\<rparr>)"

text \<open>
  \<open>NormalizePrivacySettings\<close> normalises each override with \<open>NormalizeStoragePolicy\<close>, which calls
  \<open>NormalizePrivacySettings\<close> on settings without overrides. \<open>normalize_with\<close> is the common body, with
  the normalised overrides as its first argument.
\<close>

definition normalize_with :: "(string, StoragePolicyOverride) gomap \<Rightarrow> PrivacySettings \<Rightarrow> PrivacySettings" where
  "normalize_with overrides s =
     (let retention = (if retention_Valid (ps_ContentRetentionMode s) then ps_ContentRetentionMode s
                       else DefaultContentRetentionMode);
          message = normalizeTTLSeconds (ps_MessageTTLSeconds s);
          image = normalizeTTLSeconds (ps_ImageTTLSeconds s);
          file = normalizeTTLSeconds (ps_FileTTLSeconds s)
      in \<lparr>ps_ProfileSchemaVersion = normalizeProfileSchemaVersion (ps_ProfileSchemaVersion s),
          ps_MessagePrivacyMode =
            (if privacy_mode_Valid (ps_MessagePrivacyMode s) then ps_MessagePrivacyMode s else DefaultMessagePrivacyMode),
          ps_StorageProtection =
            (if protection_Valid (ps_StorageProtection s) then ps_StorageProtection s else DefaultStorageProtectionMode),
          ps_ContentRetentionMode = retention,
          ps_MessageTTLSeconds =
            (if retention \<noteq> Ephemeral then 0
             else if message = 0 then DefaultEphemeralMessageTTLSeconds else message),
          ps_ImageTTLSeconds = (if retention \<noteq> Ephemeral then 0 else image),
          ps_FileTTLSeconds =
            (if retention \<noteq> Ephemeral then 0
             else if file = 0 then DefaultEphemeralFileTTLSeconds else file),
          ps_ImageQuotaMB = normalizeLimitValue (ps_ImageQuotaMB s),
          ps_FileQuotaMB = normalizeLimitValue (ps_FileQuotaMB s),
          ps_ImageMaxItemSizeMB = normalizeLimitValue (ps_ImageMaxItemSizeMB s),
          ps_FileMaxItemSizeMB = normalizeLimitValue (ps_FileMaxItemSizeMB s),
          ps_StorageScopeOverrides = overrides,
          ps_NodePolicies = Some (normalizeNodePolicies (ps_NodePolicies s))\<rparr>)"

definition settings_of_policy :: "'z StoragePolicy_scheme \<Rightarrow> PrivacySettings" where
  "settings_of_policy p =
     zero_settings\<lparr>ps_MessagePrivacyMode := DefaultMessagePrivacyMode,
       ps_StorageProtection := sp_StorageProtection p, ps_ContentRetentionMode := sp_ContentRetentionMode p,
       ps_MessageTTLSeconds := sp_MessageTTLSeconds p, ps_ImageTTLSeconds := sp_ImageTTLSeconds p,
       ps_FileTTLSeconds := sp_FileTTLSeconds p, ps_ImageQuotaMB := sp_ImageQuotaMB p,
       ps_FileQuotaMB := sp_FileQuotaMB p, ps_ImageMaxItemSizeMB := sp_ImageMaxItemSizeMB p,
       ps_FileMaxItemSizeMB := sp_FileMaxItemSizeMB p\<rparr>"

definition policy_fields :: "PrivacySettings \<Rightarrow> StoragePolicy" where
  "policy_fields s =
     \<lparr>sp_StorageProtection = ps_StorageProtection s, sp_ContentRetentionMode = ps_ContentRetentionMode s,
      sp_MessageTTLSeconds = ps_MessageTTLSeconds s, sp_ImageTTLSeconds = ps_ImageTTLSeconds s,
      sp_FileTTLSeconds = ps_FileTTLSeconds s, sp_ImageQuotaMB = ps_ImageQuotaMB s,
      sp_FileQuotaMB = ps_FileQuotaMB s, sp_ImageMaxItemSizeMB = ps_ImageMaxItemSizeMB s,
      sp_FileMaxItemSizeMB = ps_FileMaxItemSizeMB s\<rparr>"

definition NormalizeStoragePolicy :: "'z StoragePolicy_scheme \<Rightarrow> StoragePolicy" where
  "NormalizeStoragePolicy p = policy_fields (normalize_with [] (settings_of_policy p))"

definition NormalizeStoragePolicyOverride :: "StoragePolicyOverride \<Rightarrow> StoragePolicyOverride" where
  "NormalizeStoragePolicyOverride override =
     (let base = NormalizeStoragePolicy override;
          out = \<lparr>sp_StorageProtection = sp_StorageProtection base,
                 sp_ContentRetentionMode = sp_ContentRetentionMode base,
                 sp_MessageTTLSeconds = sp_MessageTTLSeconds base, sp_ImageTTLSeconds = sp_ImageTTLSeconds base,
                 sp_FileTTLSeconds = sp_FileTTLSeconds base, sp_ImageQuotaMB = sp_ImageQuotaMB base,
                 sp_FileQuotaMB = sp_FileQuotaMB base, sp_ImageMaxItemSizeMB = sp_ImageMaxItemSizeMB base,
                 sp_FileMaxItemSizeMB = sp_FileMaxItemSizeMB base,
                 so_InfiniteTTL = so_InfiniteTTL override,
                 so_PinRequiredForInfinite = so_PinRequiredForInfinite override\<rparr>
      in if so_InfiniteTTL out
         then out\<lparr>sp_ContentRetentionMode := Persistent, sp_MessageTTLSeconds := 0, sp_ImageTTLSeconds := 0,
                  sp_FileTTLSeconds := 0\<rparr>
         else out)"

fun normalize_overrides_loop ::
    "(string, StoragePolicyOverride) gomap \<Rightarrow> (string, StoragePolicyOverride) gomap \<Rightarrow> (string, StoragePolicyOverride) gomap" where
  "normalize_overrides_loop [] out = out"
| "normalize_overrides_loop ((key, override) # r) out =
     (let key = TrimSpace (ToLower key) in
      if key = [] then normalize_overrides_loop r out
      else normalize_overrides_loop r (put key (NormalizeStoragePolicyOverride override) out))"

definition normalizeStorageScopeOverrides ::
    "(string, StoragePolicyOverride) gomap \<Rightarrow> (string, StoragePolicyOverride) gomap" where
  "normalizeStorageScopeOverrides overrides = normalize_overrides_loop overrides []"

definition NormalizePrivacySettings :: "PrivacySettings \<Rightarrow> PrivacySettings" where
  "NormalizePrivacySettings s =
     normalize_with (normalizeStorageScopeOverrides (ps_StorageScopeOverrides s)) s"

definition ParseStoragePolicy ::
    "string \<Rightarrow> string \<Rightarrow> int \<Rightarrow> int \<Rightarrow> int \<Rightarrow> int \<Rightarrow> int \<Rightarrow> int \<Rightarrow> int \<Rightarrow> go_error + StoragePolicy" where
  "ParseStoragePolicy storageProtection retention messageTTLSeconds imageTTLSeconds fileTTLSeconds
       imageQuotaMB fileQuotaMB imageMaxItemSizeMB fileMaxItemSizeMB =
     bindE (ParseStorageProtectionMode storageProtection) (\<lambda>protectionMode.
     bindE (ParseContentRetentionMode retention) (\<lambda>retentionMode.
     if messageTTLSeconds < 0 \<or> imageTTLSeconds < 0 \<or> fileTTLSeconds < 0 then Inl ErrInvalidTTLSeconds
     else if imageQuotaMB < 0 \<or> fileQuotaMB < 0 \<or> imageMaxItemSizeMB < 0 \<or> fileMaxItemSizeMB < 0
     then Inl ErrInvalidTTLSeconds
     else Inr (NormalizeStoragePolicy
       \<lparr>sp_StorageProtection = protectionMode, sp_ContentRetentionMode = retentionMode,
        sp_MessageTTLSeconds = messageTTLSeconds, sp_ImageTTLSeconds = imageTTLSeconds,
        sp_FileTTLSeconds = fileTTLSeconds, sp_ImageQuotaMB = imageQuotaMB, sp_FileQuotaMB = fileQuotaMB,
        sp_ImageMaxItemSizeMB = imageMaxItemSizeMB, sp_FileMaxItemSizeMB = fileMaxItemSizeMB\<rparr>)))"

definition StoragePolicyFromSettings :: "PrivacySettings \<Rightarrow> StoragePolicy" where
  "StoragePolicyFromSettings settings = policy_fields (NormalizePrivacySettings settings)"

definition Resolve :: "StoragePolicyOverride \<Rightarrow> bool \<Rightarrow> go_error + StoragePolicy" where
  "Resolve override isPinned =
     (let normalized = NormalizeStoragePolicyOverride override in
      if so_InfiniteTTL normalized \<and> so_PinRequiredForInfinite normalized \<and> \<not> isPinned
      then Inl ErrInfiniteTTLRequiresPinned
      else Inr (NormalizeStoragePolicy normalized))"

section \<open>Scopes\<close>

definition normalizeScope :: "string \<Rightarrow> string \<Rightarrow> go_error + (StoragePolicyScope \<times> string)" where
  "normalizeScope scopeRaw scopeIDRaw =
     (let scope = scope_of_string (ToLower (TrimSpace scopeRaw)) in
      if \<not> scope_Valid scope then Inl ErrInvalidStoragePolicyScope
      else
        let scopeID = TrimSpace scopeIDRaw in
        if scope = ScopeGlobal then Inr (scope, [])
        else if scopeID = [] then Inl ErrInvalidStoragePolicyScopeID
        else Inr (scope, scopeID))"

definition ScopeOverrideKey :: "string \<Rightarrow> string \<Rightarrow> go_error + string" where
  "ScopeOverrideKey scopeRaw scopeIDRaw =
     bindE (normalizeScope scopeRaw scopeIDRaw) (\<lambda>(scope, scopeID).
     if scope = ScopeGlobal then Inr (string_of_scope scope)
     else Inr (string_of_scope scope @ '':'' @ scopeID))"

definition ResolveStoragePolicyForScope :: "PrivacySettings \<Rightarrow> string \<Rightarrow> string \<Rightarrow> bool \<Rightarrow> go_error + StoragePolicy" where
  "ResolveStoragePolicyForScope settings scopeRaw scopeIDRaw isPinned =
     (let settings = NormalizePrivacySettings settings in
      bindE (ScopeOverrideKey scopeRaw scopeIDRaw) (\<lambda>key.
      case lookup (ps_StorageScopeOverrides settings) key of
        Some override \<Rightarrow> Resolve override isPinned
      | None \<Rightarrow>
          (let userDefault = StoragePolicyFromSettings settings in
           if protection_Valid (sp_StorageProtection userDefault) \<and> retention_Valid (sp_ContentRetentionMode userDefault)
           then Inr userDefault
           else Inr (NormalizeStoragePolicy (policy_fields (zero_settings
             \<lparr>ps_StorageProtection := DefaultStorageProtectionMode,
              ps_ContentRetentionMode := DefaultContentRetentionMode\<rparr>))))))"

section \<open>What normalisation guarantees\<close>

text \<open>The source's call of \<open>NormalizePrivacySettings\<close> inside \<open>NormalizeStoragePolicy\<close>.\<close>

lemma NormalizeStoragePolicy_unfold:
  "NormalizeStoragePolicy p = policy_fields (NormalizePrivacySettings (settings_of_policy p))"
  by (simp add: NormalizeStoragePolicy_def NormalizePrivacySettings_def settings_of_policy_def zero_settings_def
      normalizeStorageScopeOverrides_def)

definition policy_ok :: "'z StoragePolicy_scheme \<Rightarrow> bool" where
  "policy_ok p \<longleftrightarrow>
     protection_Valid (sp_StorageProtection p) \<and> retention_Valid (sp_ContentRetentionMode p) \<and>
     0 \<le> sp_MessageTTLSeconds p \<and> 0 \<le> sp_ImageTTLSeconds p \<and> 0 \<le> sp_FileTTLSeconds p \<and>
     0 \<le> sp_ImageQuotaMB p \<and> 0 \<le> sp_FileQuotaMB p \<and> 0 \<le> sp_ImageMaxItemSizeMB p \<and> 0 \<le> sp_FileMaxItemSizeMB p \<and>
     (sp_ContentRetentionMode p = Ephemeral \<longleftrightarrow> sp_MessageTTLSeconds p \<noteq> 0) \<and>
     (sp_ContentRetentionMode p \<noteq> Ephemeral \<longrightarrow> sp_ImageTTLSeconds p = 0 \<and> sp_FileTTLSeconds p = 0)"

definition settings_ok :: "PrivacySettings \<Rightarrow> bool" where
  "settings_ok s \<longleftrightarrow>
     policy_ok (policy_fields s) \<and> privacy_mode_Valid (ps_MessagePrivacyMode s) \<and>
     ps_ProfileSchemaVersion s \<in> {1, 2} \<and>
     keys_distinct (ps_StorageScopeOverrides s) \<and>
     (\<forall>(k, v) \<in> set (ps_StorageScopeOverrides s).
        k \<noteq> [] \<and> trimmed k \<and> ToLower k = k \<and> policy_ok v \<and>
        (so_InfiniteTTL v \<longrightarrow> sp_ContentRetentionMode v = Persistent)) \<and>
     (\<exists>p. ps_NodePolicies s = Some p \<and> normalizeNodePolicies (Some p) = p)"

lemmas limit_defs = normalizeTTLSeconds_def normalizeLimitValue_def normalizeProfileSchemaVersion_def

lemma normalizeNodePolicies_idem: "normalizeNodePolicies (Some (normalizeNodePolicies p)) = normalizeNodePolicies p"
  by (simp add: normalizeNodePolicies_def DefaultNodePolicies_def limit_defs split: option.split)

lemma policy_ok_normalize_with: "policy_ok (policy_fields (normalize_with ov s))"
  by (auto simp: policy_ok_def policy_fields_def normalize_with_def limit_defs Let_def)

lemma policy_ok_NormalizeStoragePolicy [simp]: "policy_ok (NormalizeStoragePolicy p)"
  by (simp add: NormalizeStoragePolicy_def policy_ok_normalize_with)

lemma NormalizeStoragePolicy_ok: "policy_ok p \<Longrightarrow> NormalizeStoragePolicy p = StoragePolicy.truncate p"
  by (auto simp: policy_ok_def NormalizeStoragePolicy_def settings_of_policy_def policy_fields_def zero_settings_def
      normalize_with_def limit_defs Let_def StoragePolicy.truncate_def)

lemma override_ok:
  "policy_ok (NormalizeStoragePolicyOverride ov)"
  "so_InfiniteTTL (NormalizeStoragePolicyOverride ov) \<Longrightarrow>
   sp_ContentRetentionMode (NormalizeStoragePolicyOverride ov) = Persistent"
  using policy_ok_NormalizeStoragePolicy [of ov]
  by (auto simp: NormalizeStoragePolicyOverride_def policy_ok_def Let_def)

lemma override_idem:
  assumes "policy_ok ov" "so_InfiniteTTL ov \<longrightarrow> sp_ContentRetentionMode ov = Persistent"
  shows "NormalizeStoragePolicyOverride ov = ov"
proof -
  have "NormalizeStoragePolicy ov = StoragePolicy.truncate ov" using assms(1) by (rule NormalizeStoragePolicy_ok)
  with assms show ?thesis
    by (cases ov) (auto simp: NormalizeStoragePolicyOverride_def StoragePolicy.truncate_def policy_ok_def Let_def)
qed

text \<open>A map of overrides that is already normalised.\<close>

definition override_entry_ok :: "string \<times> StoragePolicyOverride \<Rightarrow> bool" where
  "override_entry_ok e \<longleftrightarrow>
     fst e \<noteq> [] \<and> TrimSpace (ToLower (fst e)) = fst e \<and> NormalizeStoragePolicyOverride (snd e) = snd e"

lemma NormalizeStoragePolicyOverride_idem [simp]:
  "NormalizeStoragePolicyOverride (NormalizeStoragePolicyOverride ov) = NormalizeStoragePolicyOverride ov"
  by (rule override_idem) (simp_all add: override_ok)

lemma overrides_loop_ok:
  "(\<forall>e \<in> set out. override_entry_ok e) \<Longrightarrow> keys_distinct out \<Longrightarrow>
   (\<forall>e \<in> set (normalize_overrides_loop m out). override_entry_ok e) \<and> keys_distinct (normalize_overrides_loop m out)"
proof (induction m out rule: normalize_overrides_loop.induct)
  case (2 key ov r out)
  let ?k = "TrimSpace (ToLower key)"
  have "\<forall>e \<in> set (put ?k (NormalizeStoragePolicyOverride ov) out). override_entry_ok e" if "?k \<noteq> []"
    using that 2(3) set_put_subset [of ?k "NormalizeStoragePolicyOverride ov" out] by (auto simp: override_entry_ok_def)
  with 2 show ?case by (simp add: Let_def)
qed simp

lemma overrides_loop_id:
  "\<forall>e \<in> set m. override_entry_ok e \<Longrightarrow> keys_distinct (out @ m) \<Longrightarrow> normalize_overrides_loop m out = out @ m"
proof (induction m out rule: normalize_overrides_loop.induct)
  case (2 key ov r out)
  then have k: "TrimSpace (ToLower key) = key" "key \<noteq> []" "NormalizeStoragePolicyOverride ov = ov" "lookup out key = None"
    by (auto simp: override_entry_ok_def map_of_eq_None_iff)
  then have "put key ov out = out @ [(key, ov)]" by (simp add: put_fresh)
  with 2 k show ?case by (simp add: Let_def)
qed simp

lemma normalized_overrides:
  "keys_distinct (normalizeStorageScopeOverrides m)"
  "\<forall>e \<in> set (normalizeStorageScopeOverrides m). override_entry_ok e"
  using overrides_loop_ok [of "[]" m] by (simp_all add: normalizeStorageScopeOverrides_def)

lemma normalizeStorageScopeOverrides_idem:
  "normalizeStorageScopeOverrides (normalizeStorageScopeOverrides m) = normalizeStorageScopeOverrides m"
  using overrides_loop_id [of "normalizeStorageScopeOverrides m" "[]"] normalized_overrides [of m]
  by (simp add: normalizeStorageScopeOverrides_def)

lemma override_entryD:
  assumes "override_entry_ok (k, v)"
  shows "k \<noteq> []" "trimmed k" "ToLower k = k" "policy_ok v" "so_InfiniteTTL v \<Longrightarrow> sp_ContentRetentionMode v = Persistent"
  using assms override_ok [of v] ToLower_TrimSpace [of k] TrimSpace_idem [of "ToLower k"] by (auto simp: override_entry_ok_def)

lemma normalize_with_idem: "normalize_with ov (normalize_with ov' s) = normalize_with ov s"
  by (auto simp: normalize_with_def limit_defs Let_def normalizeNodePolicies_idem)

lemma normalized_fields:
  "ps_StorageScopeOverrides (NormalizePrivacySettings s) = normalizeStorageScopeOverrides (ps_StorageScopeOverrides s)"
  "ps_NodePolicies (NormalizePrivacySettings s) = Some (normalizeNodePolicies (ps_NodePolicies s))"
  "privacy_mode_Valid (ps_MessagePrivacyMode (NormalizePrivacySettings s))"
  "ps_ProfileSchemaVersion (NormalizePrivacySettings s) \<in> {1, 2}"
  by (auto simp: NormalizePrivacySettings_def normalize_with_def limit_defs Let_def)

lemma normalized_settings_ok: "settings_ok (NormalizePrivacySettings s)"
proof -
  have "k \<noteq> [] \<and> trimmed k \<and> ToLower k = k \<and> policy_ok v \<and> (so_InfiniteTTL v \<longrightarrow> sp_ContentRetentionMode v = Persistent)"
    if "(k, v) \<in> set (normalizeStorageScopeOverrides (ps_StorageScopeOverrides s))" for k v
  proof -
    have "override_entry_ok (k, v)" using normalized_overrides(2) that by blast
    from override_entryD [OF this] show ?thesis by blast
  qed
  then have "\<forall>(k, v) \<in> set (normalizeStorageScopeOverrides (ps_StorageScopeOverrides s)).
      k \<noteq> [] \<and> trimmed k \<and> ToLower k = k \<and> policy_ok v \<and> (so_InfiniteTTL v \<longrightarrow> sp_ContentRetentionMode v = Persistent)"
    by blast
  moreover have "policy_ok (policy_fields (NormalizePrivacySettings s))"
    by (simp add: NormalizePrivacySettings_def policy_ok_normalize_with)
  ultimately show ?thesis
    using normalized_overrides(1) [of "ps_StorageScopeOverrides s"] normalized_fields(3,4) [of s]
    unfolding settings_ok_def normalized_fields(1,2) by (simp add: normalizeNodePolicies_idem)
qed

lemma NormalizePrivacySettings_idem [simp]:
  "NormalizePrivacySettings (NormalizePrivacySettings s) = NormalizePrivacySettings s"
  using normalized_fields(1) [of s]
  by (simp add: NormalizePrivacySettings_def normalize_with_idem normalizeStorageScopeOverrides_idem)

text \<open>
  Normalisation reaches a well-formed fixed point in one pass. Whatever was stored, afterwards every
  mode is one of the declared ones, no limit is negative, a message TTL is set exactly in the ephemeral
  mode and no TTL outside it, override keys are non-empty, trimmed and in lower case, and each override
  is itself normalised; normalising again changes nothing.
\<close>

lemma settings_normalised:
  "settings_ok (NormalizePrivacySettings s) \<and>
   NormalizePrivacySettings (NormalizePrivacySettings s) = NormalizePrivacySettings s"
  by (simp add: normalized_settings_ok)

lemma Resolve_normalized:
  assumes "override_entry_ok (k, ov)"
  shows "Resolve ov isPinned =
    (if so_InfiniteTTL ov \<and> so_PinRequiredForInfinite ov \<and> \<not> isPinned then Inl ErrInfiniteTTLRequiresPinned
     else Inr (StoragePolicy.truncate ov))"
  using override_entryD [OF assms] assms by (simp add: Resolve_def override_entry_ok_def NormalizeStoragePolicy_ok)

lemma user_default_valid:
  "protection_Valid (sp_StorageProtection (StoragePolicyFromSettings s))"
  "retention_Valid (sp_ContentRetentionMode (StoragePolicyFromSettings s))"
  using normalized_settings_ok [of s] by (simp_all add: settings_ok_def policy_ok_def StoragePolicyFromSettings_def)

text \<open>
  The storage policy of a scope is the override stored for it, taken as stored, and the user's own
  policy when there is none. The only refusals are an invalid scope and an infinite override that
  needs a pin the item does not have; the built-in fallback of the code is never reached.
\<close>

lemma scope_policy_precedence:
  "ResolveStoragePolicyForScope s scope scopeID isPinned =
     (case ScopeOverrideKey scope scopeID of
        Inl err \<Rightarrow> Inl err
      | Inr key \<Rightarrow>
          (case lookup (ps_StorageScopeOverrides (NormalizePrivacySettings s)) key of
             None \<Rightarrow> Inr (StoragePolicyFromSettings s)
           | Some ov \<Rightarrow>
               if so_InfiniteTTL ov \<and> so_PinRequiredForInfinite ov \<and> \<not> isPinned
               then Inl ErrInfiniteTTLRequiresPinned
               else Inr (StoragePolicy.truncate ov)))"
proof -
  have "Resolve ov isPinned =
      (if so_InfiniteTTL ov \<and> so_PinRequiredForInfinite ov \<and> \<not> isPinned then Inl ErrInfiniteTTLRequiresPinned
       else Inr (StoragePolicy.truncate ov))"
    if "lookup (ps_StorageScopeOverrides (NormalizePrivacySettings s)) k = Some ov" for k ov
    by (rule Resolve_normalized [of k])
      (use normalized_overrides(2) [of "ps_StorageScopeOverrides s"] map_of_SomeD [OF that] in
        \<open>simp add: normalized_fields(1)\<close>)
  moreover have "StoragePolicyFromSettings (NormalizePrivacySettings s) = StoragePolicyFromSettings s"
    by (simp add: StoragePolicyFromSettings_def)
  ultimately show ?thesis
    by (auto simp: ResolveStoragePolicyForScope_def Let_def user_default_valid
        split: sum.split option.split)
qed

end
