(* ===== verification/Inbound_Policy.thy ===== *)
theory Inbound_Policy
  imports Privacy_Settings
begin

text \<open>
  The routing of inbound messages and group invites, \<open>internal/domains/privacy/policy\<close>: the decision
  (\<open>inbound_message_policy.go\<close>, \<open>inbound_group_invite_policy.go\<close>) and the two relaxations for
  unknown senders in the mode that accepts everyone.
\<close>

abbreviation (input) ConversationTypeDirect :: string where "ConversationTypeDirect \<equiv> ''direct''"
abbreviation (input) ConversationTypeGroup :: string where "ConversationTypeGroup \<equiv> ''group''"

datatype InboundMessagePolicyAction = MessageReject | MessageAcceptChat | MessageQueueRequest

datatype InboundMessagePolicyReason =
  TrustedContact | BlockedSender | UnknownContactsOnly | UnknownMessageReq | UnknownEveryoneMode

record InboundMessagePolicyInput =
  in_IsKnownContact :: bool
  in_IsBlocked :: bool
  in_PrivacyMode :: MessagePrivacyMode

record InboundMessagePolicyDecision =
  de_Action :: InboundMessagePolicyAction
  de_Reason :: InboundMessagePolicyReason

definition EvaluateInboundMessagePolicy :: "InboundMessagePolicyInput \<Rightarrow> InboundMessagePolicyDecision" where
  "EvaluateInboundMessagePolicy input =
     (if in_IsBlocked input then \<lparr>de_Action = MessageReject, de_Reason = BlockedSender\<rparr>
      else if in_IsKnownContact input then \<lparr>de_Action = MessageAcceptChat, de_Reason = TrustedContact\<rparr>
      else
        (case ps_MessagePrivacyMode
                (NormalizePrivacySettings (zero_settings\<lparr>ps_MessagePrivacyMode := in_PrivacyMode input\<rparr>)) of
           Requests \<Rightarrow> \<lparr>de_Action = MessageQueueRequest, de_Reason = UnknownMessageReq\<rparr>
         | Everyone \<Rightarrow> \<lparr>de_Action = MessageAcceptChat, de_Reason = UnknownEveryoneMode\<rparr>
         | _ \<Rightarrow> \<lparr>de_Action = MessageReject, de_Reason = UnknownContactsOnly\<rparr>))"

definition ShouldAutoAddUnknownSenderContact :: "InboundMessagePolicyDecision \<Rightarrow> string \<Rightarrow> bool \<Rightarrow> bool \<Rightarrow> bool" where
  "ShouldAutoAddUnknownSenderContact decision conversationType isVerifiedContact hasCard =
     (if TrimSpace conversationType = ConversationTypeGroup then False
      else if de_Reason decision \<noteq> UnknownEveryoneMode then False
      else if isVerifiedContact then False
      else \<not> hasCard)"

definition ShouldBypassInboundDeviceAuth :: "InboundMessagePolicyDecision \<Rightarrow> string \<Rightarrow> bool \<Rightarrow> bool \<Rightarrow> bool" where
  "ShouldBypassInboundDeviceAuth decision conversationType isVerifiedContact hasCard =
     (if TrimSpace conversationType = ConversationTypeGroup then False
      else if de_Reason decision \<noteq> UnknownEveryoneMode then False
      else if isVerifiedContact then False
      else \<not> hasCard)"

fun InboundPolicyError :: "InboundMessagePolicyReason \<Rightarrow> go_error" where
  "InboundPolicyError BlockedSender = ErrInboundBlockedSender"
| "InboundPolicyError UnknownContactsOnly = ErrInboundUnknownContactsOnly"
| "InboundPolicyError UnknownMessageReq = ErrInboundUnknownMessageReq"
| "InboundPolicyError _ = ErrInboundRejected"

section \<open>Group invites\<close>

datatype InboundGroupInvitePolicyAction = InviteReject | InviteAccept | InviteQueueRequest

datatype InboundGroupInvitePolicyReason =
    InviteTrustedContact | InviteBlockedSender | InviteUnknownContactsOnly | InviteUnknownMessageReq
  | InviteUnknownEveryoneMode

record InboundGroupInvitePolicyDecision =
  gi_Action :: InboundGroupInvitePolicyAction
  gi_Reason :: InboundGroupInvitePolicyReason

definition EvaluateInboundGroupInvitePolicy :: "InboundMessagePolicyInput \<Rightarrow> InboundGroupInvitePolicyDecision" where
  "EvaluateInboundGroupInvitePolicy input =
     (let base = EvaluateInboundMessagePolicy input in
      case de_Action base of
        MessageReject \<Rightarrow>
          if de_Reason base = BlockedSender
          then \<lparr>gi_Action = InviteReject, gi_Reason = InviteBlockedSender\<rparr>
          else \<lparr>gi_Action = InviteReject, gi_Reason = InviteUnknownContactsOnly\<rparr>
      | MessageQueueRequest \<Rightarrow> \<lparr>gi_Action = InviteQueueRequest, gi_Reason = InviteUnknownMessageReq\<rparr>
      | MessageAcceptChat \<Rightarrow>
          if de_Reason base = TrustedContact
          then \<lparr>gi_Action = InviteAccept, gi_Reason = InviteTrustedContact\<rparr>
          else \<lparr>gi_Action = InviteAccept, gi_Reason = InviteUnknownEveryoneMode\<rparr>)"

section \<open>Properties\<close>

lemma normalized_mode:
  "ps_MessagePrivacyMode (NormalizePrivacySettings (zero_settings\<lparr>ps_MessagePrivacyMode := m\<rparr>)) =
     (if privacy_mode_Valid m then m else Everyone)"
  by (simp add: NormalizePrivacySettings_def normalize_with_def Let_def)

text \<open>Invites are routed exactly like messages of the same sender.\<close>

fun invite_action :: "InboundMessagePolicyAction \<Rightarrow> InboundGroupInvitePolicyAction" where
  "invite_action MessageReject = InviteReject"
| "invite_action MessageAcceptChat = InviteAccept"
| "invite_action MessageQueueRequest = InviteQueueRequest"

fun invite_reason :: "InboundMessagePolicyReason \<Rightarrow> InboundGroupInvitePolicyReason" where
  "invite_reason TrustedContact = InviteTrustedContact"
| "invite_reason BlockedSender = InviteBlockedSender"
| "invite_reason UnknownContactsOnly = InviteUnknownContactsOnly"
| "invite_reason UnknownMessageReq = InviteUnknownMessageReq"
| "invite_reason UnknownEveryoneMode = InviteUnknownEveryoneMode"

lemma message_decision:
  "EvaluateInboundMessagePolicy i =
     (if in_IsBlocked i then \<lparr>de_Action = MessageReject, de_Reason = BlockedSender\<rparr>
      else if in_IsKnownContact i then \<lparr>de_Action = MessageAcceptChat, de_Reason = TrustedContact\<rparr>
      else if in_PrivacyMode i = Requests then \<lparr>de_Action = MessageQueueRequest, de_Reason = UnknownMessageReq\<rparr>
      else if in_PrivacyMode i = ContactsOnly then \<lparr>de_Action = MessageReject, de_Reason = UnknownContactsOnly\<rparr>
      else \<lparr>de_Action = MessageAcceptChat, de_Reason = UnknownEveryoneMode\<rparr>)"
  by (cases "in_PrivacyMode i") (simp_all add: EvaluateInboundMessagePolicy_def normalized_mode)

text \<open>
  A group invite is routed exactly like a message of the same sender: same action, same reason.
  A blocked sender is rejected whatever the contact list and the mode say, and an unknown sender in the
  contacts-only mode is rejected too; nothing else is.
\<close>

lemma invite_routed_like_message:
  "gi_Action (EvaluateInboundGroupInvitePolicy i) = invite_action (de_Action (EvaluateInboundMessagePolicy i)) \<and>
   gi_Reason (EvaluateInboundGroupInvitePolicy i) = invite_reason (de_Reason (EvaluateInboundMessagePolicy i)) \<and>
   (gi_Action (EvaluateInboundGroupInvitePolicy i) = InviteReject \<longleftrightarrow>
      (if in_IsBlocked i then True else if in_IsKnownContact i then False else in_PrivacyMode i = ContactsOnly))"
  by (simp add: EvaluateInboundGroupInvitePolicy_def message_decision)

text \<open>
  The device check is skipped, and the sender added as a contact, for the same messages: direct
  messages without a contact card, of a sender who is neither blocked, nor a contact, nor a verified
  contact, in the mode that accepts everyone.
\<close>

lemma device_auth_bypass:
  "(ShouldBypassInboundDeviceAuth (EvaluateInboundMessagePolicy i) convType verified hasCard \<longleftrightarrow>
     TrimSpace convType \<noteq> ConversationTypeGroup \<and> \<not> in_IsBlocked i \<and> \<not> in_IsKnownContact i \<and>
     in_PrivacyMode i \<noteq> Requests \<and> in_PrivacyMode i \<noteq> ContactsOnly \<and> \<not> verified \<and> \<not> hasCard) \<and>
   (ShouldAutoAddUnknownSenderContact (EvaluateInboundMessagePolicy i) convType verified hasCard =
     ShouldBypassInboundDeviceAuth (EvaluateInboundMessagePolicy i) convType verified hasCard)"
  by (simp add: ShouldBypassInboundDeviceAuth_def ShouldAutoAddUnknownSenderContact_def message_decision)

end
