(* ===== verification/Message_Store.thy ===== *)
theory Message_Store
  imports Inbound_Policy "HOL-Library.Multiset"
begin

text \<open>
  Messages (\<open>pkg/models\<close>) and the message store of \<open>internal/storage/message_store.go\<close>: the map of
  messages and the map of pending deliveries. Every operation builds the next maps, writes the snapshot,
  and installs the maps only when the write succeeded. The write (directory, JSON, encryption,
  \<open>os.WriteFile\<close>) is a function of the two maps that returns its error. The mutex makes each
  operation atomic. \<open>sort.Slice\<close> by time is a sort that may order equal times either way; the model
  takes the map's iteration order for them.
\<close>

section \<open>Messages\<close>

record Message =
  msg_ID :: string
  msg_ContactID :: string
  msg_ConversationID :: string
  msg_ConversationType :: string
  msg_ThreadID :: string
  msg_Content :: bytes
  msg_Timestamp :: gotime
  msg_Direction :: string
  msg_Status :: string
  msg_ContentType :: string
  msg_Edited :: bool

definition NormalizeConversationType :: "string \<Rightarrow> string" where
  "NormalizeConversationType raw =
     (if TrimSpace raw = ConversationTypeGroup then ConversationTypeGroup else ConversationTypeDirect)"

definition NormalizeMessageConversation :: "Message \<Rightarrow> Message" where
  "NormalizeMessageConversation msg =
     (let msg = msg\<lparr>msg_ContactID := TrimSpace (msg_ContactID msg),
                    msg_ConversationID := TrimSpace (msg_ConversationID msg),
                    msg_ConversationType := NormalizeConversationType (msg_ConversationType msg),
                    msg_ThreadID := TrimSpace (msg_ThreadID msg)\<rparr>
      in if msg_ConversationType msg = ConversationTypeDirect \<and> msg_ConversationID msg = []
         then msg\<lparr>msg_ConversationID := msg_ContactID msg\<rparr>
         else msg)"

record PendingMessage =
  pm_Message :: Message
  pm_RetryCount :: int
  pm_NextRetry :: gotime
  pm_LastError :: string

section \<open>The store\<close>

type_synonym messages = "(string, Message) gomap"
type_synonym pendings = "(string, PendingMessage) gomap"

record MessageStore =
  st_messages :: messages
  st_pending :: pendings
  st_path :: string
  st_persist :: bool

type_synonym snapshot_write = "messages \<Rightarrow> pendings \<Rightarrow> go_error option"

definition NewMessageStore :: MessageStore where
  "NewMessageStore = \<lparr>st_messages = [], st_pending = [], st_path = [], st_persist = True\<rparr>"

definition persistSnapshotLocked :: "snapshot_write \<Rightarrow> MessageStore \<Rightarrow> messages \<Rightarrow> pendings \<Rightarrow> go_error option" where
  "persistSnapshotLocked write s messages pending =
     (if st_path s = [] \<or> \<not> st_persist s then None else write messages pending)"

definition messagesEqual :: "Message \<Rightarrow> Message \<Rightarrow> bool" where
  "messagesEqual a b =
     (let a = NormalizeMessageConversation a; b = NormalizeMessageConversation b in
      msg_ID a = msg_ID b \<and> msg_ContactID a = msg_ContactID b \<and> msg_ConversationID a = msg_ConversationID b \<and>
      msg_ConversationType a = msg_ConversationType b \<and> msg_Content a = msg_Content b \<and>
      msg_Timestamp a = msg_Timestamp b \<and> msg_Direction a = msg_Direction b \<and> msg_Status a = msg_Status b \<and>
      msg_ContentType a = msg_ContentType b \<and> msg_Edited a = msg_Edited b)"

definition statusOrder :: "string \<Rightarrow> nat" where
  "statusOrder status =
     (if status = ''pending'' then 1
      else if status = ''sent'' then 2
      else if status = ''delivered'' then 3
      else if status = ''read'' then 4
      else if status = ''failed'' then 1
      else 0)"

definition mergeMessageStatus :: "string \<Rightarrow> string \<Rightarrow> string" where
  "mergeMessageStatus current candidate =
     (if candidate = ''failed''
      then (if current = [] \<or> current = ''pending'' then ''failed'' else current)
      else if statusOrder candidate \<ge> statusOrder current then candidate
      else current)"

definition SaveMessage :: "snapshot_write \<Rightarrow> Message \<Rightarrow> MessageStore \<Rightarrow> go_error option \<times> MessageStore" where
  "SaveMessage write msg s =
     (let msg = NormalizeMessageConversation msg in
      case lookup (st_messages s) (msg_ID msg) of
        Some existing \<Rightarrow> if messagesEqual existing msg then (None, s) else (Some ErrMessageIDConflict, s)
      | None \<Rightarrow>
          (let nextMessages = put (msg_ID msg) msg (st_messages s) in
           case persistSnapshotLocked write s nextMessages (st_pending s) of
             Some err \<Rightarrow> (Some err, s)
           | None \<Rightarrow> (None, s\<lparr>st_messages := nextMessages\<rparr>)))"

definition UpdateMessageStatus ::
    "snapshot_write \<Rightarrow> string \<Rightarrow> string \<Rightarrow> MessageStore \<Rightarrow> (go_error + bool) \<times> MessageStore" where
  "UpdateMessageStatus write messageID status s =
     (case lookup (st_messages s) messageID of
        None \<Rightarrow> (Inr False, s)
      | Some msg \<Rightarrow>
          (let msg = msg\<lparr>msg_Status := mergeMessageStatus (msg_Status msg) status\<rparr>;
               nextMessages = put messageID msg (st_messages s)
           in case persistSnapshotLocked write s nextMessages (st_pending s) of
                Some err \<Rightarrow> (Inl err, s)
              | None \<Rightarrow> (Inr True, s\<lparr>st_messages := nextMessages\<rparr>)))"

definition UpdateMessageContent ::
    "snapshot_write \<Rightarrow> gotime \<Rightarrow> string \<Rightarrow> bytes \<Rightarrow> string \<Rightarrow> MessageStore \<Rightarrow>
     (go_error + Message option) \<times> MessageStore" where
  "UpdateMessageContent write now messageID content contentType s =
     (case lookup (st_messages s) messageID of
        None \<Rightarrow> (Inr None, s)
      | Some msg \<Rightarrow>
          (let msg = msg\<lparr>msg_Content := content, msg_ContentType := contentType, msg_Edited := True, msg_Timestamp := now\<rparr>;
               nextMessages = put messageID msg (st_messages s)
           in case persistSnapshotLocked write s nextMessages (st_pending s) of
                Some err \<Rightarrow> (Inl err, s)
              | None \<Rightarrow> (Inr (Some msg), s\<lparr>st_messages := nextMessages\<rparr>)))"

definition DeleteMessage ::
    "snapshot_write \<Rightarrow> string \<Rightarrow> string \<Rightarrow> MessageStore \<Rightarrow> (go_error + bool) \<times> MessageStore" where
  "DeleteMessage write contactID messageID s =
     (case lookup (st_messages s) messageID of
        None \<Rightarrow> (Inr False, s)
      | Some msg \<Rightarrow>
          if msg_ContactID msg \<noteq> contactID then (Inr False, s)
          else
            let nextMessages = del messageID (st_messages s);
                nextPending = del messageID (st_pending s)
            in case persistSnapshotLocked write s nextMessages nextPending of
                 Some err \<Rightarrow> (Inl err, s)
               | None \<Rightarrow> (Inr True, s\<lparr>st_messages := nextMessages, st_pending := nextPending\<rparr>))"

text \<open>
  \<open>split_messages\<close> is the shared loop of \<open>ClearMessages\<close> and \<open>PurgeOlderThan\<close>: the kept messages and
  the identifiers of the others.
\<close>

definition split_messages :: "(Message \<Rightarrow> bool) \<Rightarrow> messages \<Rightarrow> messages \<times> string list" where
  "split_messages gone ms = (filter (\<lambda>(k, m). \<not> gone m) ms, map fst (filter (\<lambda>(k, m). gone m) ms))"

definition ClearMessages :: "snapshot_write \<Rightarrow> string \<Rightarrow> MessageStore \<Rightarrow> (go_error + nat) \<times> MessageStore" where
  "ClearMessages write contactID s =
     (let (nextMessages, deletedIDs) = split_messages (\<lambda>m. msg_ContactID m = contactID) (st_messages s) in
      if deletedIDs = [] then (Inr 0, s)
      else
        let nextPending = filter (\<lambda>(k, p). k \<notin> set deletedIDs \<and> msg_ContactID (pm_Message p) \<noteq> contactID) (st_pending s)
        in case persistSnapshotLocked write s nextMessages nextPending of
             Some err \<Rightarrow> (Inl err, s)
           | None \<Rightarrow> (Inr (length deletedIDs), s\<lparr>st_messages := nextMessages, st_pending := nextPending\<rparr>))"

definition PurgeOlderThan :: "snapshot_write \<Rightarrow> gotime \<Rightarrow> MessageStore \<Rightarrow> (go_error + nat) \<times> MessageStore" where
  "PurgeOlderThan write cutoff s =
     (let (nextMessages, deletedIDs) = split_messages (\<lambda>m. \<not> msg_Timestamp m > cutoff) (st_messages s) in
      if deletedIDs = [] then (Inr 0, s)
      else
        let nextPending = filter (\<lambda>(k, p). k \<notin> set deletedIDs) (st_pending s)
        in case persistSnapshotLocked write s nextMessages nextPending of
             Some err \<Rightarrow> (Inl err, s)
           | None \<Rightarrow> (Inr (length deletedIDs), s\<lparr>st_messages := nextMessages, st_pending := nextPending\<rparr>))"

definition GetMessage :: "MessageStore \<Rightarrow> string \<Rightarrow> Message option" where
  "GetMessage s messageID = lookup (st_messages s) messageID"

definition AddOrUpdatePending ::
    "snapshot_write \<Rightarrow> Message \<Rightarrow> int \<Rightarrow> gotime \<Rightarrow> string \<Rightarrow> MessageStore \<Rightarrow> go_error option \<times> MessageStore" where
  "AddOrUpdatePending write message retryCount nextRetry lastErr s =
     (let nextPending = put (msg_ID message)
            \<lparr>pm_Message = message, pm_RetryCount = retryCount, pm_NextRetry = nextRetry, pm_LastError = lastErr\<rparr> (st_pending s)
      in case persistSnapshotLocked write s (st_messages s) nextPending of
           Some err \<Rightarrow> (Some err, s)
         | None \<Rightarrow> (None, s\<lparr>st_pending := nextPending\<rparr>))"

definition RemovePending :: "snapshot_write \<Rightarrow> string \<Rightarrow> MessageStore \<Rightarrow> go_error option \<times> MessageStore" where
  "RemovePending write messageID s =
     (let nextPending = del messageID (st_pending s) in
      case persistSnapshotLocked write s (st_messages s) nextPending of
        Some err \<Rightarrow> (Some err, s)
      | None \<Rightarrow> (None, s\<lparr>st_pending := nextPending\<rparr>))"

definition DuePending :: "gotime \<Rightarrow> MessageStore \<Rightarrow> PendingMessage list" where
  "DuePending now s = map snd (filter (\<lambda>(k, p). \<not> pm_NextRetry p > now) (st_pending s))"

definition PendingCount :: "MessageStore \<Rightarrow> nat" where
  "PendingCount s = length (st_pending s)"

definition WipeStore :: "go_error option \<Rightarrow> MessageStore \<Rightarrow> go_error option \<times> MessageStore" where
  "WipeStore removeErr s =
     (let s = s\<lparr>st_messages := [], st_pending := []\<rparr> in
      if blank (st_path s) then (None, s) else (removeErr, s))"

definition SetPersistenceEnabled :: "bool \<Rightarrow> MessageStore \<Rightarrow> MessageStore" where
  "SetPersistenceEnabled enabled s = s\<lparr>st_persist := enabled\<rparr>"

section \<open>Listing\<close>

definition paginateMessages :: "Message list \<Rightarrow> int \<Rightarrow> int \<Rightarrow> Message list" where
  "paginateMessages filtered limit offset =
     (let offset = (if offset < 0 then 0 else offset) in
      if offset \<ge> int (length filtered) then []
      else
        let filtered = drop (nat offset) filtered in
        if limit > 0 \<and> limit < int (length filtered) then take (nat limit) filtered
        else filtered)"

definition listMessagesFiltered :: "int \<Rightarrow> int \<Rightarrow> (Message \<Rightarrow> Message option) \<Rightarrow> MessageStore \<Rightarrow> Message list" where
  "listMessagesFiltered limit offset incl s =
     paginateMessages (sort_key msg_Timestamp (List.map_filter (\<lambda>(k, m). incl m) (st_messages s))) limit offset"

definition ListMessages :: "string \<Rightarrow> int \<Rightarrow> int \<Rightarrow> MessageStore \<Rightarrow> Message list" where
  "ListMessages contactID limit offset s =
     listMessagesFiltered limit offset (\<lambda>msg. if msg_ContactID msg \<noteq> contactID then None else Some msg) s"

definition ListMessagesByConversation :: "string \<Rightarrow> string \<Rightarrow> int \<Rightarrow> int \<Rightarrow> MessageStore \<Rightarrow> Message list" where
  "ListMessagesByConversation conversationID conversationType limit offset s =
     (let conversationID = TrimSpace conversationID; conversationType = NormalizeConversationType conversationType in
      listMessagesFiltered limit offset (\<lambda>msg.
        let normalized = NormalizeMessageConversation msg in
        if msg_ConversationID normalized \<noteq> conversationID \<or> msg_ConversationType normalized \<noteq> conversationType then None
        else Some normalized) s)"

definition ListMessagesByConversationThread ::
    "string \<Rightarrow> string \<Rightarrow> string \<Rightarrow> int \<Rightarrow> int \<Rightarrow> MessageStore \<Rightarrow> Message list" where
  "ListMessagesByConversationThread conversationID conversationType threadID limit offset s =
     (let conversationID = TrimSpace conversationID; conversationType = NormalizeConversationType conversationType;
          threadID = TrimSpace threadID in
      listMessagesFiltered limit offset (\<lambda>msg.
        let normalized = NormalizeMessageConversation msg in
        if msg_ConversationID normalized \<noteq> conversationID \<or> msg_ConversationType normalized \<noteq> conversationType then None
        else if TrimSpace (msg_ThreadID normalized) \<noteq> threadID then None
        else Some normalized) s)"

section \<open>Loading\<close>

record store_snapshot =
  sn_SchemaVersion :: int
  sn_Messages :: messages
  sn_Pending :: pendings

text \<open>
  \<open>load\<close> on the decoded contents of the file: \<open>Inr None\<close> is a missing or empty file, \<open>Inl\<close> an error of
  reading, decrypting or decoding it.
\<close>

definition load :: "snapshot_write \<Rightarrow> go_error + store_snapshot option \<Rightarrow> MessageStore \<Rightarrow> go_error option \<times> MessageStore" where
  "load write decoded s =
     (if st_path s = [] then (None, s)
      else case decoded of
             Inl err \<Rightarrow> (Some err, s)
           | Inr None \<Rightarrow> (None, s)
           | Inr (Some snapshot) \<Rightarrow>
               if sn_SchemaVersion snapshot \<noteq> 0 \<and> sn_SchemaVersion snapshot > 2 then (Some ErrUnsupportedStorageSchema, s)
               else
                 let schemaMigrated = (sn_SchemaVersion snapshot = 0 \<or> sn_SchemaVersion snapshot < 2);
                     s = s\<lparr>st_messages := map (\<lambda>(k, m). (k, NormalizeMessageConversation m)) (sn_Messages snapshot),
                           st_pending := map (\<lambda>(k, p). (k, p\<lparr>pm_Message := NormalizeMessageConversation (pm_Message p)\<rparr>))
                             (sn_Pending snapshot)\<rparr>
                 in if schemaMigrated
                    then (case persistSnapshotLocked write s (st_messages s) (st_pending s) of
                            Some err \<Rightarrow> (Some err, s)
                          | None \<Rightarrow> (None, s))
                    else (None, s))"

section \<open>The invariant\<close>

definition message_normal :: "Message \<Rightarrow> bool" where
  "message_normal m \<longleftrightarrow> NormalizeMessageConversation m = m"

definition msgs_ok :: "MessageStore \<Rightarrow> bool" where
  "msgs_ok s \<longleftrightarrow>
     keys_distinct (st_messages s) \<and> keys_distinct (st_pending s) \<and>
     (\<forall>(k, m) \<in> set (st_messages s). msg_ID m = k \<and> message_normal m) \<and>
     (\<forall>(k, p) \<in> set (st_pending s). msg_ID (pm_Message p) = k)"

lemma NormalizeConversationType_idem [simp]:
  "NormalizeConversationType (NormalizeConversationType t) = NormalizeConversationType t"
proof -
  have "TrimSpace ''group'' = ''group''" "TrimSpace ''direct'' = ''direct''" by code_simp+
  then show ?thesis by (simp add: NormalizeConversationType_def)
qed

lemma conversation_types [simp]:
  "NormalizeConversationType ''direct'' = ''direct''" "NormalizeConversationType ''group'' = ''group''"
  by code_simp+

lemma message_normal_Normalize [simp]: "message_normal (NormalizeMessageConversation m)"
  by (cases m) (auto simp: message_normal_def NormalizeMessageConversation_def Let_def)

lemma Normalize_ID [simp]: "msg_ID (NormalizeMessageConversation m) = msg_ID m"
  by (simp add: NormalizeMessageConversation_def Let_def)

lemma message_normal_update [simp]:
  "message_normal m \<Longrightarrow> message_normal (m\<lparr>msg_Status := st\<rparr>)"
  "message_normal m \<Longrightarrow> message_normal (m\<lparr>msg_Content := c, msg_ContentType := t, msg_Edited := e, msg_Timestamp := ts\<rparr>)"
  by (cases m; auto simp: message_normal_def NormalizeMessageConversation_def Let_def split: if_splits)+

lemma msgs_ok_lookup: "msgs_ok s \<Longrightarrow> lookup (st_messages s) k = Some m \<Longrightarrow> msg_ID m = k \<and> message_normal m"
  by (auto simp: msgs_ok_def dest: map_of_SomeD)

lemma set_put_dest: "e \<in> set (put k v m) \<Longrightarrow> e = (k, v) \<or> e \<in> set m"
  using set_put_subset by fastforce

lemma msgs_ok_put_message:
  "msgs_ok s \<Longrightarrow> msg_ID m = k \<Longrightarrow> message_normal m \<Longrightarrow> msgs_ok (s\<lparr>st_messages := put k m (st_messages s)\<rparr>)"
  by (auto simp: msgs_ok_def dest!: set_put_dest)

lemma msgs_ok_sub:
  assumes "msgs_ok s" "keys_distinct ms" "keys_distinct ps" "set ms \<subseteq> set (st_messages s)" "set ps \<subseteq> set (st_pending s)"
  shows "msgs_ok (s\<lparr>st_messages := ms, st_pending := ps\<rparr>)"
  using assms by (auto simp: msgs_ok_def)

lemma keys_distinct_filter [simp]: "keys_distinct m \<Longrightarrow> keys_distinct (filter P m)"
  by (simp add: distinct_map_filter)

section \<open>Requests\<close>

datatype store_request =
    Save Message
  | SetStatus string string
  | SetContent gotime string bytes string
  | Delete string string
  | Clear string
  | Purge gotime
  | SetPending Message int gotime string
  | DropPending string

definition store_failure :: "(go_error + 'r) \<times> 's \<Rightarrow> go_error option \<times> 's" where
  "store_failure rs = apfst (\<lambda>r. case r of Inl err \<Rightarrow> Some err | Inr _ \<Rightarrow> None) rs"

fun handle_store :: "snapshot_write \<Rightarrow> store_request \<Rightarrow> MessageStore \<Rightarrow> go_error option \<times> MessageStore" where
  "handle_store write (Save m) s = SaveMessage write m s"
| "handle_store write (SetStatus i st) s = store_failure (UpdateMessageStatus write i st s)"
| "handle_store write (SetContent now i c t) s = store_failure (UpdateMessageContent write now i c t s)"
| "handle_store write (Delete c i) s = store_failure (DeleteMessage write c i s)"
| "handle_store write (Clear c) s = store_failure (ClearMessages write c s)"
| "handle_store write (Purge t) s = store_failure (PurgeOlderThan write t s)"
| "handle_store write (SetPending m n t e) s = AddOrUpdatePending write m n t e s"
| "handle_store write (DropPending i) s = RemovePending write i s"

lemmas store_ops = SaveMessage_def UpdateMessageStatus_def UpdateMessageContent_def DeleteMessage_def ClearMessages_def
  PurgeOlderThan_def AddOrUpdatePending_def RemovePending_def store_failure_def

lemma handle_store_failed: "fst (handle_store write req s) \<noteq> None \<Longrightarrow> snd (handle_store write req s) = s"
  by (cases req) (auto simp: store_ops Let_def split: option.splits prod.splits if_splits)

lemma msgs_ok_pending:
  "msgs_ok s \<Longrightarrow> msg_ID (pm_Message p) = k \<Longrightarrow> msgs_ok (s\<lparr>st_pending := put k p (st_pending s)\<rparr>)"
  "msgs_ok s \<Longrightarrow> msgs_ok (s\<lparr>st_pending := del k (st_pending s)\<rparr>)"
  by (auto simp: msgs_ok_def set_del dest!: set_put_dest)

lemma handle_store_ok:
  assumes ok: "msgs_ok s"
  shows "msgs_ok (snd (handle_store write req s))"
proof (cases req)
  case (Save m)
  with ok show ?thesis
    by (auto simp: store_ops Let_def intro!: msgs_ok_put_message split: option.split)
next
  case (SetStatus i st)
  with ok msgs_ok_lookup [OF ok, of i] show ?thesis
    by (auto simp: store_ops Let_def intro!: msgs_ok_put_message split: option.split)
next
  case (SetContent now i c t)
  with ok msgs_ok_lookup [OF ok, of i] show ?thesis
    by (auto simp: store_ops Let_def intro!: msgs_ok_put_message split: option.split)
next
  case (Delete c i)
  with ok show ?thesis
    by (auto simp: store_ops Let_def msgs_ok_def set_del split: option.split)
next
  case (Clear c)
  with ok show ?thesis
    by (auto simp: store_ops split_messages_def Let_def msgs_ok_def split: option.split)
next
  case (Purge t)
  with ok show ?thesis
    by (auto simp: store_ops split_messages_def Let_def msgs_ok_def split: option.split)
next
  case (SetPending m n t e)
  with ok show ?thesis by (auto simp: store_ops Let_def intro!: msgs_ok_pending split: option.split)
next
  case (DropPending i)
  with ok show ?thesis by (auto simp: store_ops Let_def intro!: msgs_ok_pending split: option.split)
qed

text \<open>A run: each request comes with the outcome that its snapshot write would have.\<close>

definition run_store :: "(snapshot_write \<times> store_request) list \<Rightarrow> MessageStore \<Rightarrow> MessageStore" where
  "run_store reqs s = foldl (\<lambda>s (write, req). snd (handle_store write req s)) s reqs"

lemma run_store_ok: "msgs_ok s \<Longrightarrow> msgs_ok (run_store reqs s)"
  unfolding run_store_def by (induction reqs arbitrary: s) (auto simp: handle_store_ok)

section \<open>Message status\<close>

lemma merge_status_order: "statusOrder current \<le> statusOrder (mergeMessageStatus current candidate)"
  by (simp add: mergeMessageStatus_def statusOrder_def)

lemma merge_status_sent:
  "2 \<le> statusOrder current \<Longrightarrow> mergeMessageStatus current candidate \<noteq> ''failed'' \<and> 2 \<le> statusOrder (mergeMessageStatus current candidate)"
  by (auto simp: mergeMessageStatus_def statusOrder_def split: if_splits)

definition status_of :: "MessageStore \<Rightarrow> string \<Rightarrow> string" where
  "status_of s i = (case GetMessage s i of Some m \<Rightarrow> msg_Status m | None \<Rightarrow> [])"

text \<open>Requests that neither remove the message nor store a new one under its identifier.\<close>

fun keeps_message :: "string \<Rightarrow> store_request \<Rightarrow> bool" where
  "keeps_message i (Delete c j) = (i \<noteq> j)"
| "keeps_message i (Clear c) = False"
| "keeps_message i (Purge t) = False"
| "keeps_message i _ = True"

lemma handle_store_status:
  assumes "keeps_message i req" and m: "GetMessage s i = Some m"
  shows "\<exists>m'. GetMessage (snd (handle_store write req s)) i = Some m' \<and>
    (msg_Status m' = msg_Status m \<or> (\<exists>c. msg_Status m' = mergeMessageStatus (msg_Status m) c))"
  using assms by (cases req) (auto simp: store_ops GetMessage_def Let_def split: option.split)

lemma run_store_status:
  assumes "\<forall>x \<in> set reqs. keeps_message i (snd x)" and "GetMessage s i = Some m"
  shows "\<exists>m'. GetMessage (run_store reqs s) i = Some m' \<and> statusOrder (msg_Status m) \<le> statusOrder (msg_Status m') \<and>
    (2 \<le> statusOrder (msg_Status m) \<longrightarrow> msg_Status m' \<noteq> ''failed'')"
  using assms
proof (induction reqs arbitrary: s m)
  case Nil
  then show ?case by (auto simp: run_store_def statusOrder_def)
next
  case (Cons x reqs)
  obtain w req where x: "x = (w, req)" by fastforce
  obtain m1 where m1: "GetMessage (snd (handle_store w req s)) i = Some m1"
    "msg_Status m1 = msg_Status m \<or> (\<exists>c. msg_Status m1 = mergeMessageStatus (msg_Status m) c)"
    using handle_store_status [of i req s m w] Cons.prems x by auto
  then have o1: "statusOrder (msg_Status m) \<le> statusOrder (msg_Status m1)" using merge_status_order by auto
  obtain m' where m': "GetMessage (run_store reqs (snd (handle_store w req s))) i = Some m'"
      "statusOrder (msg_Status m1) \<le> statusOrder (msg_Status m')"
      "2 \<le> statusOrder (msg_Status m1) \<longrightarrow> msg_Status m' \<noteq> ''failed''"
    using Cons.IH [OF _ m1(1)] Cons.prems(1) by auto
  moreover have "run_store (x # reqs) s = run_store reqs (snd (handle_store w req s))"
    by (simp add: run_store_def x)
  ultimately show ?case using o1 by (intro exI [of _ m']) auto
qed

section \<open>Listing and paging\<close>

lemma paginate_page:
  assumes "0 < limit"
  shows "paginateMessages xs limit (int p * limit) = take (nat limit) (drop (p * nat limit) xs)"
proof -
  have "nat (int p * limit) = p * nat limit" using assms by (simp add: nat_mult_distrib)
  moreover have "\<not> int p * limit < 0" using assms by (simp add: zero_le_mult_iff not_less)
  ultimately show ?thesis
    using assms by (auto simp: paginateMessages_def Let_def nat_le_iff less_imp_le le_nat_iff not_le)
qed

lemma concat_pages: "0 < k \<Longrightarrow> length xs \<le> n * k \<Longrightarrow> concat (map (\<lambda>p. take k (drop (p * k) xs)) [0..<n]) = xs"
proof (induction n arbitrary: xs)
  case (Suc n)
  have "concat (map (\<lambda>p. take k (drop (p * k) xs)) [0..<Suc n]) =
      take k xs @ concat (map (\<lambda>p. take k (drop (p * k) (drop k xs))) [0..<n])"
    by (simp add: upt_conv_Cons map_Suc_upt [symmetric] comp_def add.commute del: upt_Suc)
  also have "\<dots> = take k xs @ drop k xs" using Suc.IH [of "drop k xs"] Suc.prems by simp
  finally show ?case by simp
qed simp

lemma paginate_all: "paginateMessages xs 0 0 = xs"
  by (simp add: paginateMessages_def)

lemma ListMessages_all:
  "ListMessages c 0 0 s = sort_key msg_Timestamp (filter (\<lambda>m. msg_ContactID m = c) (map snd (st_messages s)))"
proof -
  have "List.map_filter (\<lambda>(k, m). if msg_ContactID m \<noteq> c then None else Some m) ms =
      filter (\<lambda>m. msg_ContactID m = c) (map snd ms)" for ms :: messages
    by (induction ms) (auto simp: List.map_filter_simps)
  then show ?thesis by (simp add: ListMessages_def listMessagesFiltered_def paginate_all)
qed

section \<open>Properties\<close>

text \<open>
  After any sequence of store operations, with any outcome of their disk writes, the store is
  well-formed: every message is stored once, under its own identifier, with its conversation fields
  normalised, and pending entries are stored under the identifier of their message. An operation that
  reports an error leaves the store exactly as it was.
\<close>

lemma message_store_atomic:
  "let s = run_store reqs (NewMessageStore\<lparr>st_path := path\<rparr>); (r, s') = handle_store write req s
   in msgs_ok s \<and> msgs_ok s' \<and> (if r = None then True else s' = s)"
proof -
  have "msgs_ok (NewMessageStore\<lparr>st_path := path\<rparr>)" by (simp add: NewMessageStore_def msgs_ok_def)
  then have "msgs_ok (run_store reqs (NewMessageStore\<lparr>st_path := path\<rparr>))" by (rule run_store_ok)
  with handle_store_ok [OF this, of "write" req]
    handle_store_failed [of "write" req "run_store reqs (NewMessageStore\<lparr>st_path := path\<rparr>)"]
  show ?thesis by (auto simp: Let_def split: prod.split)
qed


definition sample_message :: Message where
  "sample_message =
     \<lparr>msg_ID = ''m1'', msg_ContactID = ''aim1bob00001'', msg_ConversationID = ''aim1bob00001'', msg_ConversationType = ''direct'',
      msg_ThreadID = [], msg_Content = [1, 2], msg_Timestamp = 7, msg_Direction = ''out'', msg_Status = ''sent'',
      msg_ContentType = ''text'', msg_Edited = False\<rparr>"

definition sample_store :: MessageStore where
  "sample_store = \<lparr>st_messages = [(''m1'', sample_message)], st_pending = [], st_path = [], st_persist = True\<rparr>"


text \<open>
  Failure is not terminal: a failed message goes back to pending when a pending status arrives,
  while the comment of the code calls the failure terminal.
\<close>

lemma failed_is_not_terminal:
  "mergeMessageStatus ''pending'' ''failed'' = ''failed'' \<and> mergeMessageStatus ''failed'' ''pending'' = ''pending''"
  by (simp add: mergeMessageStatus_def statusOrder_def)

text \<open>
  A message that was saved can be read back, as equal to the one given; no other message is affected;
  and saving the same message once more succeeds and changes nothing, so deliveries may be repeated.
\<close>

lemma saved_message_read_back:
  assumes "SaveMessage write msg s = (None, s')"
  shows "(\<exists>m. GetMessage s' (msg_ID msg) = Some m \<and> messagesEqual m msg) \<and>
    (\<forall>i. i \<noteq> msg_ID msg \<longrightarrow> GetMessage s' i = GetMessage s i) \<and>
    SaveMessage write' msg s' = (None, s')"
proof -
  have nn: "NormalizeMessageConversation (NormalizeMessageConversation m) = NormalizeMessageConversation m" for m
    using message_normal_Normalize [of m] by (simp add: message_normal_def)
  then have eq: "messagesEqual m (NormalizeMessageConversation msg) = messagesEqual m msg"
    "messagesEqual (NormalizeMessageConversation msg) msg" for m
    by (simp_all add: messagesEqual_def)
  from assms show ?thesis
    by (auto simp: SaveMessage_def GetMessage_def Let_def eq split: option.splits if_splits)
qed

lemma saved_message_read_back_witness:
  "let s' = snd (SaveMessage (\<lambda>_ _. None) sample_message NewMessageStore)
   in (\<exists>m. GetMessage s' ''m1'' = Some m \<and> messagesEqual m sample_message) \<and>
      SaveMessage (\<lambda>_ _. None) sample_message s' = (None, s')"
proof -
  have "fst (SaveMessage (\<lambda>_ _. None) sample_message NewMessageStore) = None" "msg_ID sample_message = ''m1''"
    by (simp_all add: SaveMessage_def NewMessageStore_def persistSnapshotLocked_def sample_message_def Let_def)
  then show ?thesis
    using saved_message_read_back [of "\<lambda>_ _. None" sample_message NewMessageStore _ "\<lambda>_ _. None"]
    by (metis prod.collapse)
qed

text \<open>
  Reading a conversation page by page gives every message of the contact exactly once, in time order:
  the pages of any positive size, one after another, are the list without a limit, which is the
  sorted list of exactly the contact's messages.
\<close>

lemma pages_cover_conversation:
  assumes "0 < limit" and "length (ListMessages c 0 0 s) \<le> n * nat limit"
  shows "concat (map (\<lambda>p. ListMessages c limit (int p * limit) s) [0..<n]) = ListMessages c 0 0 s \<and>
    sorted (map msg_Timestamp (ListMessages c 0 0 s)) \<and>
    mset (ListMessages c 0 0 s) = filter_mset (\<lambda>m. msg_ContactID m = c) (mset (map snd (st_messages s)))"
proof -
  let ?xs = "ListMessages c 0 0 s"
  have "ListMessages c limit off s = paginateMessages ?xs limit off" for off
    by (simp add: ListMessages_def listMessagesFiltered_def paginate_all)
  then have "concat (map (\<lambda>p. ListMessages c limit (int p * limit) s) [0..<n]) =
      concat (map (\<lambda>p. take (nat limit) (drop (p * nat limit) ?xs)) [0..<n])"
    using assms(1) by (simp add: paginate_page)
  also have "\<dots> = ?xs" using assms by (intro concat_pages) simp_all
  finally show ?thesis by (simp add: ListMessages_all)
qed

lemma pages_cover_conversation_witness:
  "concat (map (\<lambda>p. ListMessages ''aim1bob00001'' 2 (int p * 2) sample_store) [0..<1]) = ListMessages ''aim1bob00001'' 0 0 sample_store"
proof -
  have "length (ListMessages ''aim1bob00001'' 0 0 sample_store) \<le> 1 * nat 2"
    by (simp add: ListMessages_all sample_store_def)
  with pages_cover_conversation [of 2 "''aim1bob00001''" sample_store 1] show ?thesis by simp
qed

text \<open>
  A purge that succeeds removes exactly the messages that are not newer than the cutoff, together with
  their pending entries, and returns how many messages it removed.
\<close>

lemma purge_removes_exactly_old:
  assumes "msgs_ok s" and "PurgeOlderThan write cutoff s = (Inr n, s')"
  shows "(\<forall>i. GetMessage s' i = (case GetMessage s i of Some m \<Rightarrow> if cutoff < msg_Timestamp m then Some m else None | None \<Rightarrow> None)) \<and>
    (\<forall>i. lookup (st_pending s') i = (case GetMessage s i of
        Some m \<Rightarrow> if cutoff < msg_Timestamp m then lookup (st_pending s) i else None
      | None \<Rightarrow> lookup (st_pending s) i)) \<and>
    n = card {i. \<exists>m. GetMessage s i = Some m \<and> msg_Timestamp m \<le> cutoff}"
proof -
  have d: "keys_distinct (st_messages s)" "keys_distinct (st_pending s)" using assms(1) by (simp_all add: msgs_ok_def)
  let ?ids = "map fst (filter (\<lambda>(k, m). \<not> cutoff < msg_Timestamp m) (st_messages s))"
  have ids: "set ?ids = {i. \<exists>m. GetMessage s i = Some m \<and> msg_Timestamp m \<le> cutoff}"
    using d(1) by (auto simp: GetMessage_def lookup_iff_mem not_less image_iff intro!: bexI)
  have "distinct ?ids" using d(1) by (simp add: distinct_map_filter)
  then have "card (set ?ids) = length ?ids" by (rule distinct_card)
  then have card: "card {i. \<exists>m. GetMessage s i = Some m \<and> msg_Timestamp m \<le> cutoff} = length ?ids"
    unfolding ids .
  have run: "st_messages s' = filter (\<lambda>(k, m). cutoff < msg_Timestamp m) (st_messages s)"
    "st_pending s' = filter (\<lambda>(k, p). k \<notin> set ?ids) (st_pending s)" "n = length ?ids"
    using assms(2)
    by (auto simp: PurgeOlderThan_def split_messages_def Let_def filter_empty_conv split: option.splits if_splits
        intro!: filter_True [symmetric])
  have "GetMessage s' i = (case GetMessage s i of Some m \<Rightarrow> if cutoff < msg_Timestamp m then Some m else None | None \<Rightarrow> None)" for i
    unfolding GetMessage_def run(1) using d(1) by (rule lookup_filter)
  moreover have "lookup (st_pending s') i = (case GetMessage s i of
      Some m \<Rightarrow> if cutoff < msg_Timestamp m then lookup (st_pending s) i else None
    | None \<Rightarrow> lookup (st_pending s) i)" for i
    unfolding run(2) lookup_filter_key ids by (auto split: option.split)
  ultimately show ?thesis unfolding run(3) card by (intro conjI allI refl)
qed

lemma purge_removes_exactly_old_witness:
  "GetMessage (snd (PurgeOlderThan (\<lambda>_ _. None) 7 sample_store)) ''m1'' = None"
proof -
  have ok: "msgs_ok sample_store"
    by (simp add: msgs_ok_def sample_store_def sample_message_def message_normal_def) code_simp
  have run: "PurgeOlderThan (\<lambda>_ _. None) 7 sample_store =
      (Inr 1, sample_store\<lparr>st_messages := [], st_pending := []\<rparr>)"
    by (simp add: PurgeOlderThan_def split_messages_def sample_store_def sample_message_def persistSnapshotLocked_def)
  from purge_removes_exactly_old [OF ok run] run show ?thesis
    by (simp add: GetMessage_def sample_store_def sample_message_def)
qed

end
