(* ===== verification/Messaging_Wire.thy ===== *)
theory Messaging_Wire
  imports Message_Store Group_Model
begin

text \<open>
  What travels between daemons: the wire payload (\<open>internal/domains/contracts/infra_ports.go\<close>) with the
  contact card, device, receipt and revocation of \<open>pkg/models\<close>, its validation
  (\<open>messaging/policy/wire_validation.go\<close>), the data that a device signs (\<open>BuildWireAuthPayload\<close>), and
  the rules on messages (\<open>messaging/policy/message_rules.go\<close>). Pointers are options. The JSON form of a
  payload (\<open>encoding/json\<close>) is a parameter of the functions that use it.
\<close>

section \<open>Errors with a category\<close>

definition normalizeErrorCategory :: "string \<Rightarrow> string" where
  "normalizeErrorCategory category =
     (let c = ToLower (TrimSpace category) in
      if c = ''crypto'' then ''crypto''
      else if c = ''storage'' then ''storage''
      else if c = ''network'' then ''network''
      else ''api'')"

text \<open>\<open>errors.As\<close> for \<open>*CategorizedError\<close>: the first one in the tree of wrapped errors.\<close>

fun as_categorized :: "go_error \<Rightarrow> (string \<times> go_error) option" where
  "as_categorized (CategorizedError category err) = Some (category, err)"
| "as_categorized (ErrJoin a b) =
     (case as_categorized a of Some x \<Rightarrow> Some x | None \<Rightarrow> as_categorized b)"
| "as_categorized _ = None"

definition WrapCategorizedError :: "string \<Rightarrow> go_error \<Rightarrow> go_error" where
  "WrapCategorizedError category err =
     (case as_categorized err of
        Some (c, e) \<Rightarrow> CategorizedError (normalizeErrorCategory c) e
      | None \<Rightarrow> CategorizedError (normalizeErrorCategory category) err)"

definition ErrorCategory :: "go_error \<Rightarrow> string" where
  "ErrorCategory err =
     (case as_categorized err of Some (c, _) \<Rightarrow> normalizeErrorCategory c | None \<Rightarrow> ''api'')"

section \<open>The wire payload\<close>

record ContactCard =
  cc_IdentityID :: string
  cc_DisplayName :: string
  cc_PublicKey :: bytes
  cc_Signature :: bytes

record Device =
  dv_ID :: string
  dv_Name :: string
  dv_PublicKey :: bytes
  dv_CertSig :: bytes
  dv_CreatedAt :: gotime
  dv_IsRevoked :: bool
  dv_RevokedAt :: gotime

record DeviceRevocation =
  rv_IdentityID :: string
  rv_DeviceID :: string
  rv_Timestamp :: gotime
  rv_Signature :: bytes

record MessageReceipt =
  rc_MessageID :: string
  rc_Status :: string
  rc_Timestamp :: gotime

record MessageEnvelope =
  en_Version :: "8 word"
  en_SessionID :: string
  en_MessageID :: string
  en_RatchetPubKey :: bytes
  en_ChainIndex :: "64 word"
  en_PreviousCount :: "64 word"
  en_Nonce :: bytes
  en_Ciphertext :: bytes
  en_SentAt :: gotime

record WirePayload =
  wp_Kind :: string
  wp_Envelope :: MessageEnvelope
  wp_Plain :: bytes
  wp_Padding :: string
  wp_ConversationID :: string
  wp_ConversationType :: string
  wp_ThreadID :: string
  wp_EventID :: string
  wp_EventType :: string
  wp_MembershipVersion :: "64 word"
  wp_GroupKeyVersion :: "32 word"
  wp_SenderDeviceID :: string
  wp_Card :: "ContactCard option"
  wp_Receipt :: "MessageReceipt option"
  wp_Device :: "Device option"
  wp_DeviceSig :: bytes
  wp_Revocation :: "DeviceRevocation option"

definition zero_envelope :: MessageEnvelope where
  "zero_envelope = \<lparr>en_Version = 0, en_SessionID = [], en_MessageID = [], en_RatchetPubKey = [], en_ChainIndex = 0,
     en_PreviousCount = 0, en_Nonce = [], en_Ciphertext = [], en_SentAt = 0\<rparr>"

definition zero_wire :: WirePayload where
  "zero_wire = \<lparr>wp_Kind = [], wp_Envelope = zero_envelope, wp_Plain = [], wp_Padding = [], wp_ConversationID = [],
     wp_ConversationType = [], wp_ThreadID = [], wp_EventID = [], wp_EventType = [], wp_MembershipVersion = 0,
     wp_GroupKeyVersion = 0, wp_SenderDeviceID = [], wp_Card = None, wp_Receipt = None, wp_Device = None,
     wp_DeviceSig = [], wp_Revocation = None\<rparr>"

record InboundPrivateMessage =
  im_ID :: string
  im_SenderID :: string
  im_Recipient :: string
  im_Payload :: bytes

abbreviation GroupWireEventTypeMessage :: string where
  "GroupWireEventTypeMessage \<equiv> ''message''"

definition has_group_metadata :: "WirePayload \<Rightarrow> bool" where
  "has_group_metadata wire \<longleftrightarrow>
     \<not> blank (wp_EventID wire) \<or> \<not> blank (wp_EventType wire) \<or> wp_MembershipVersion wire > 0 \<or>
     wp_GroupKeyVersion wire > 0 \<or> \<not> blank (wp_SenderDeviceID wire)"

definition ValidateWirePayload :: "WirePayload \<Rightarrow> go_error option" where
  "ValidateWirePayload wire =
     (let conversationType = TrimSpace (wp_ConversationType wire) in
      if conversationType \<noteq> [] \<and> conversationType \<noteq> ConversationTypeDirect \<and> conversationType \<noteq> ConversationTypeGroup
      then Some ErrInvalidGroupWirePayload
      else
        let isGroup = (conversationType = ConversationTypeGroup \<or> has_group_metadata wire) in
        if \<not> isGroup then None
        else if conversationType \<noteq> ConversationTypeGroup then Some ErrInvalidGroupWirePayload
        else if blank (wp_ConversationID wire) then Some ErrInvalidGroupWirePayload
        else if blank (wp_EventID wire) then Some ErrInvalidGroupWirePayload
        else if blank (wp_SenderDeviceID wire) then Some ErrInvalidGroupWirePayload
        else if wp_MembershipVersion wire = 0 then Some ErrInvalidGroupWirePayload
        else
          let eventType = TrimSpace (wp_EventType wire) in
          if eventType = GroupWireEventTypeMessage
          then (if wp_GroupKeyVersion wire = 0 then Some ErrInvalidGroupWirePayload else None)
          else (case ParseGroupEventType eventType of Inl _ \<Rightarrow> Some ErrInvalidGroupWirePayload | Inr _ \<Rightarrow> None))"

text \<open>
  The anonymous struct that \<open>BuildWireAuthPayload\<close> marshals; \<open>marshal\<close> is its JSON form. A struct of
  strings, integers, bytes and such structs always marshals.
\<close>

record wire_auth =
  wa_MessageID :: string
  wa_SenderID :: string
  wa_Recipient :: string
  wa_Kind :: string
  wa_ConversationID :: string
  wa_ConversationType :: string
  wa_ThreadID :: string
  wa_EventID :: string
  wa_EventType :: string
  wa_MembershipVersion :: "64 word"
  wa_GroupKeyVersion :: "32 word"
  wa_SenderDeviceID :: string
  wa_Envelope :: MessageEnvelope
  wa_Plain :: bytes
  wa_Card :: "ContactCard option"
  wa_Receipt :: "MessageReceipt option"
  wa_Revocation :: "DeviceRevocation option"

definition BuildWireAuthPayload ::
    "(wire_auth \<Rightarrow> bytes) \<Rightarrow> string \<Rightarrow> string \<Rightarrow> string \<Rightarrow> WirePayload \<Rightarrow> go_error + bytes" where
  "BuildWireAuthPayload marshal messageID senderID recipient wire =
     (case ValidateWirePayload wire of
        Some err \<Rightarrow> Inl err
      | None \<Rightarrow> Inr (marshal
          \<lparr>wa_MessageID = messageID, wa_SenderID = senderID, wa_Recipient = recipient, wa_Kind = wp_Kind wire,
           wa_ConversationID = TrimSpace (wp_ConversationID wire),
           wa_ConversationType = TrimSpace (wp_ConversationType wire),
           wa_ThreadID = TrimSpace (wp_ThreadID wire), wa_EventID = TrimSpace (wp_EventID wire),
           wa_EventType = TrimSpace (wp_EventType wire), wa_MembershipVersion = wp_MembershipVersion wire,
           wa_GroupKeyVersion = wp_GroupKeyVersion wire, wa_SenderDeviceID = TrimSpace (wp_SenderDeviceID wire),
           wa_Envelope = wp_Envelope wire, wa_Plain = wp_Plain wire, wa_Card = wp_Card wire,
           wa_Receipt = wp_Receipt wire, wa_Revocation = wp_Revocation wire\<rparr>))"

definition NewPlainWire :: "bytes \<Rightarrow> WirePayload" where
  "NewPlainWire content = zero_wire\<lparr>wp_Kind := ''plain'', wp_Plain := content\<rparr>"

definition NewReceiptWire :: "string \<Rightarrow> string \<Rightarrow> gotime \<Rightarrow> WirePayload" where
  "NewReceiptWire messageID status now =
     zero_wire\<lparr>wp_Kind := ''receipt'', wp_Receipt := Some \<lparr>rc_MessageID = messageID, rc_Status = status, rc_Timestamp = now\<rparr>\<rparr>"

section \<open>Rules on messages\<close>

definition ValidateEditMessageInput :: "string \<Rightarrow> string \<Rightarrow> string \<Rightarrow> go_error + (string \<times> string \<times> string)" where
  "ValidateEditMessageInput contactID messageID content =
     (let contactID = TrimSpace contactID; messageID = TrimSpace messageID; content = TrimSpace content in
      if contactID = [] \<or> messageID = [] \<or> content = []
      then Inl (ErrText ''contact id, message id and content are required'')
      else Inr (contactID, messageID, content))"

definition EnsureEditableMessage :: "Message option \<Rightarrow> string \<Rightarrow> go_error option" where
  "EnsureEditableMessage found contactID =
     (case found of
        None \<Rightarrow> Some (ErrText ''message not found'')
      | Some msg \<Rightarrow>
          if msg_ContactID msg \<noteq> contactID then Some (ErrText ''message does not belong to contact'')
          else if msg_Direction msg \<noteq> ''out'' then Some (ErrText ''only outbound messages can be edited'')
          else None)"

definition ValidateListMessagesContactID :: "string \<Rightarrow> go_error + string" where
  "ValidateListMessagesContactID contactID =
     (if blank contactID then Inl (ErrText ''contact id is required'') else Inr (TrimSpace contactID))"

definition ValidateMessageStatusID :: "string \<Rightarrow> go_error + string" where
  "ValidateMessageStatusID messageID =
     (if blank messageID then Inl (ErrText ''message id is required'') else Inr (TrimSpace messageID))"

record MessageStatus =
  mst_MessageID :: string
  mst_Status :: string

definition BuildMessageStatus :: "Message option \<Rightarrow> go_error + MessageStatus" where
  "BuildMessageStatus found =
     (case found of
        None \<Rightarrow> Inl (ErrText ''message not found'')
      | Some msg \<Rightarrow> Inr \<lparr>mst_MessageID = msg_ID msg, mst_Status = msg_Status msg\<rparr>)"

definition ValidateSendMessageInput :: "string \<Rightarrow> string \<Rightarrow> go_error + (string \<times> string)" where
  "ValidateSendMessageInput contactID content =
     (let contactID = TrimSpace contactID; content = TrimSpace content in
      if contactID = [] \<or> content = [] then Inl (ErrText ''contact id and content are required'')
      else Inr (contactID, content))"

definition NewOutboundMessage :: "string \<Rightarrow> string \<Rightarrow> string \<Rightarrow> gotime \<Rightarrow> Message" where
  "NewOutboundMessage messageID contactID content now =
     \<lparr>msg_ID = messageID, msg_ContactID = contactID, msg_ConversationID = contactID,
      msg_ConversationType = ConversationTypeDirect, msg_ThreadID = [], msg_Content = bytes_of_string content,
      msg_Timestamp = now, msg_Direction = ''out'', msg_Status = ''pending'', msg_ContentType = ''text'', msg_Edited = False\<rparr>"

definition ShouldAutoMarkRead :: "Message \<Rightarrow> bool" where
  "ShouldAutoMarkRead msg \<longleftrightarrow> msg_Direction msg = ''in'' \<and> msg_Status msg \<noteq> ''read''"

definition EnsureVerifiedContact :: "bool \<Rightarrow> go_error option" where
  "EnsureVerifiedContact verified = (if \<not> verified then Some (ErrText ''contact is not verified'') else None)"

section \<open>Receipts, inbound messages and retries\<close>

definition ShouldApplyReceiptStatus :: "string \<Rightarrow> bool" where
  "ShouldApplyReceiptStatus status \<longleftrightarrow> status = ''delivered'' \<or> status = ''read''"

record InboundReceiptHandling =
  rh_Handled :: bool
  rh_ShouldUpdate :: bool
  rh_MessageID :: string
  rh_Status :: string

definition ResolveInboundReceiptHandling :: "WirePayload \<Rightarrow> InboundReceiptHandling" where
  "ResolveInboundReceiptHandling wire =
     (case wp_Receipt wire of
        Some receipt \<Rightarrow>
          if wp_Kind wire \<noteq> ''receipt''
          then \<lparr>rh_Handled = False, rh_ShouldUpdate = False, rh_MessageID = [], rh_Status = []\<rparr>
          else if ShouldApplyReceiptStatus (rc_Status receipt)
          then \<lparr>rh_Handled = True, rh_ShouldUpdate = True, rh_MessageID = rc_MessageID receipt, rh_Status = rc_Status receipt\<rparr>
          else \<lparr>rh_Handled = True, rh_ShouldUpdate = False, rh_MessageID = [], rh_Status = []\<rparr>
      | None \<Rightarrow> \<lparr>rh_Handled = False, rh_ShouldUpdate = False, rh_MessageID = [], rh_Status = []\<rparr>)"

definition BuildInboundStoredMessage :: "InboundPrivateMessage \<Rightarrow> string \<Rightarrow> bytes \<Rightarrow> string \<Rightarrow> gotime \<Rightarrow> Message" where
  "BuildInboundStoredMessage msg threadID content contentType now =
     \<lparr>msg_ID = im_ID msg, msg_ContactID = im_SenderID msg, msg_ConversationID = im_SenderID msg,
      msg_ConversationType = ConversationTypeDirect, msg_ThreadID = TrimSpace threadID, msg_Content = content,
      msg_Timestamp = now, msg_Direction = ''in'', msg_Status = ''delivered'', msg_ContentType = contentType, msg_Edited = False\<rparr>"

definition BuildInboundGroupStoredMessage ::
    "InboundPrivateMessage \<Rightarrow> string \<Rightarrow> string \<Rightarrow> bytes \<Rightarrow> string \<Rightarrow> gotime \<Rightarrow> Message" where
  "BuildInboundGroupStoredMessage msg conversationID threadID content contentType now =
     \<lparr>msg_ID = im_ID msg, msg_ContactID = im_SenderID msg, msg_ConversationID = TrimSpace conversationID,
      msg_ConversationType = ConversationTypeGroup, msg_ThreadID = TrimSpace threadID, msg_Content = content,
      msg_Timestamp = now, msg_Direction = ''in'', msg_Status = ''delivered'', msg_ContentType = contentType, msg_Edited = False\<rparr>"

text \<open>\<open>decrypted\<close> is the result of \<open>sessions.Decrypt\<close>, which is only called for the kind e2ee.\<close>

definition ResolveInboundContent ::
    "InboundPrivateMessage \<Rightarrow> WirePayload \<Rightarrow> go_error + bytes \<Rightarrow> bytes \<times> string \<times> go_error option" where
  "ResolveInboundContent msg wire decrypted =
     (if wp_Kind wire = ''plain'' then (wp_Plain wire, ''text'', None)
      else if wp_Kind wire = ''e2ee''
      then (case decrypted of
              Inl err \<Rightarrow> (im_Payload msg, ''e2ee-unreadable'', Some err)
            | Inr plain \<Rightarrow> (plain, ''e2ee'', None))
      else (im_Payload msg, ''text'', None))"

abbreviation second :: duration where "second \<equiv> 1000000000"

text \<open>The loop of \<open>NextRetryTime\<close>: \<open>left\<close> counts the iterations that remain.\<close>

fun backoff_loop :: "nat \<Rightarrow> duration \<Rightarrow> duration" where
  "backoff_loop 0 backoff = backoff"
| "backoff_loop (Suc left) backoff =
     (let backoff = backoff * 2 in
      if backoff \<ge> 30 * second then 30 * second else backoff_loop left backoff)"

definition NextRetryTime :: "int \<Rightarrow> gotime \<Rightarrow> gotime" where
  "NextRetryTime retryCount now =
     (let retryCount = (if retryCount < 1 then 1 else retryCount)
      in now + backoff_loop (nat (retryCount - 1)) (2 * second))"

section \<open>Laws\<close>

lemma backoff_loop_eq:
  "0 < b \<Longrightarrow> b < 30 * second \<Longrightarrow> backoff_loop n b = min (b * 2 ^ n) (30 * second)"
proof (induction n arbitrary: b)
  case (Suc n)
  show ?case
  proof (cases "30 * second \<le> b * 2")
    case True
    moreover have "b * 2 \<le> b * 2 * 2 ^ n" using Suc.prems(1) by simp
    ultimately have "30 * second \<le> b * 2 * 2 ^ n" by linarith
    with True show ?thesis by (simp add: Let_def min_def mult.assoc)
  next
    case False
    with Suc.IH [of "b * 2"] Suc.prems show ?thesis by (simp add: Let_def mult.assoc)
  qed
qed simp

text \<open>
  The retry delay is the closed form \<open>min (2^n) 30\<close> seconds for the n-th retry (n at least 1), for every
  retry count; so it never leaves the range of 2 to 30 seconds and never gets shorter with more retries.
\<close>

lemma retry_backoff_closed_form:
  "NextRetryTime retryCount now = now + min (2 ^ nat (max retryCount 1)) 30 * second \<and>
   NextRetryTime retryCount now \<ge> now + 2 * second \<and> NextRetryTime retryCount now \<le> now + 30 * second \<and>
   NextRetryTime (min retryCount retryCount') now \<le> NextRetryTime (max retryCount retryCount') now"
proof -
  have eq: "NextRetryTime n now = now + min (2 ^ nat (max n 1)) 30 * second" for n
  proof -
    have "nat (max n 1) = Suc (nat (max n 1 - 1))" by auto
    then have "(2 :: int) ^ nat (max n 1) = 2 * 2 ^ nat (max n 1 - 1)" by (metis power_Suc)
    then show ?thesis
      using backoff_loop_eq [of "2 * second" "nat (max n 1 - 1)"]
      by (auto simp: NextRetryTime_def Let_def max_def min_def)
  qed
  have "(2 :: int) \<le> 2 ^ nat (max retryCount 1)" by (rule self_le_power) auto
  then have "2 \<le> min (2 ^ nat (max retryCount 1)) (30 :: int)" "min (2 ^ nat (max retryCount 1)) (30 :: int) \<le> 30" by simp_all
  moreover have "(2 :: int) ^ nat (max (min retryCount retryCount') 1) \<le> 2 ^ nat (max (max retryCount retryCount') 1)"
    by (rule power_increasing) (auto simp: nat_le_eq_zle)
  then have "min (2 ^ nat (max (min retryCount retryCount') 1)) 30 \<le> min (2 ^ nat (max (max retryCount retryCount') 1)) (30 :: int)"
    by (rule min.mono) simp
  ultimately show ?thesis unfolding eq by (intro conjI refl) linarith+
qed

lemma TrimSpace_pad [simp]: "TrimSpace (CHR '' '' # s) = TrimSpace s"
proof -
  have "strip_front go_spaces (CHR '' '' # s) = strip_front go_spaces s"
    by (subst strip_front.simps) (simp add: go_spaces_def)
  then show ?thesis by (simp add: TrimSpace_def)
qed

lemma Validate_padded:
  "ValidateWirePayload (wire\<lparr>wp_ConversationType := CHR '' '' # TrimSpace (wp_ConversationType wire)\<rparr>) = ValidateWirePayload wire"
proof -
  have "has_group_metadata (wire\<lparr>wp_ConversationType := t\<rparr>) = has_group_metadata wire" for t
    by (simp add: has_group_metadata_def)
  then show ?thesis by (simp add: ValidateWirePayload_def Let_def)
qed

lemma ValidateWirePayload_None:
  "ValidateWirePayload wire = None \<longleftrightarrow>
     (if TrimSpace (wp_ConversationType wire) = ConversationTypeGroup
      then \<not> blank (wp_ConversationID wire) \<and> \<not> blank (wp_EventID wire) \<and> \<not> blank (wp_SenderDeviceID wire) \<and>
        wp_MembershipVersion wire \<noteq> 0 \<and>
        (if TrimSpace (wp_EventType wire) = GroupWireEventTypeMessage then wp_GroupKeyVersion wire \<noteq> 0
         else event_type_Valid (event_type_of_string (TrimSpace (wp_EventType wire))))
      else (TrimSpace (wp_ConversationType wire) = [] \<or> TrimSpace (wp_ConversationType wire) = ConversationTypeDirect) \<and>
        \<not> has_group_metadata wire)"
  by (auto simp: ValidateWirePayload_def ParseGroupEventType_def Let_def)

text \<open>
  The device signature does not protect the routing of a message. Whitespace put around the conversation
  type of a validated payload leaves it valid and leaves the signed bytes the same, whatever their JSON form;
  but the dispatcher of the inbound service compares the type without trimming it, so the
  altered group message is no longer taken for one.
\<close>

lemma signature_ignores_padding:
  "BuildWireAuthPayload marshal messageID senderID recipient (wire\<lparr>wp_ConversationType := '' '' @ TrimSpace (wp_ConversationType wire)\<rparr>) =
     BuildWireAuthPayload marshal messageID senderID recipient wire \<and>
   ValidateWirePayload (wire\<lparr>wp_ConversationType := '' '' @ TrimSpace (wp_ConversationType wire)\<rparr>) = ValidateWirePayload wire \<and>
   wp_ConversationType (wire\<lparr>wp_ConversationType := '' '' @ TrimSpace (wp_ConversationType wire)\<rparr>) \<noteq> ConversationTypeGroup"
  by (simp add: BuildWireAuthPayload_def Validate_padded split: option.split)

end
