(* ===== verification/Group_Inbound.thy ===== *)
theory Group_Inbound
  imports Group_Refinement Messaging_Wire
begin

text \<open>
  What a daemon does with the group traffic of other daemons: decoding of inbound events
  (\<open>group/inbound_event_boundary.go\<close>), their authorisation (\<open>usecase/inbound_events.go\<close>), the replay guard
  (\<open>guardInboundGroupReplay\<close>), and the two handlers of \<open>usecase/inbound_orchestration_service.go\<close> with
  their wiring in \<open>composition/daemonservice/runtime_inbound.go\<close>.
  \<^item> \<open>json.Unmarshal\<close> of the event details and \<open>time.Parse\<close> are parameters of the decoder.
  \<^item> The world \<open>GroupInbound\<close> holds the group maps, the replay map, the message store, and what the
    handlers report: errors, aggregates, notifications. Log lines are left out.
  \<^item> An optional function of the service is an option; the daemon sets all that it needs.
\<close>

section \<open>Decoding\<close>

record inboundGroupEventPayload =
  pl_MemberID :: string
  pl_Role :: string
  pl_Title :: string
  pl_Description :: string
  pl_Avatar :: string
  pl_KeyVersion :: "32 word"
  pl_OccurredAt :: string

record InboundGroupEventWire =
  gw_EventID :: string
  gw_ConversationID :: string
  gw_MembershipVersion :: "64 word"
  gw_EventType :: string
  gw_Plain :: bytes
  gw_SenderID :: string
  gw_RecipientID :: string

definition zero_details :: inboundGroupEventPayload where
  "zero_details = \<lparr>pl_MemberID = [], pl_Role = [], pl_Title = [], pl_Description = [], pl_Avatar = [], pl_KeyVersion = 0,
     pl_OccurredAt = []\<rparr>"

text \<open>The event before the defaults of the last \<open>switch\<close>; the role is the empty one when it does not parse.\<close>

definition decoded_event ::
    "(string \<Rightarrow> gotime option) \<Rightarrow> InboundGroupEventWire \<Rightarrow> gotime \<Rightarrow> GroupEventType \<Rightarrow> inboundGroupEventPayload \<Rightarrow> GroupEvent" where
  "decoded_event parseTime wire occurredAt eventType details =
     (let ts = TrimSpace (pl_OccurredAt details) in
      \<lparr>e_ID = TrimSpace (gw_EventID wire), e_GroupID = TrimSpace (gw_ConversationID wire), e_Version = gw_MembershipVersion wire,
       e_Type = eventType, e_ActorID = TrimSpace (gw_SenderID wire),
       e_OccurredAt = (if ts = [] then occurredAt else case parseTime ts of Some parsed \<Rightarrow> parsed | None \<Rightarrow> occurredAt),
       e_MemberID = TrimSpace (pl_MemberID details),
       e_Role = (case ParseGroupMemberRole (pl_Role details) of Inr role \<Rightarrow> role | Inl _ \<Rightarrow> RoleOther []),
       e_Title = TrimSpace (pl_Title details), e_Description = TrimSpace (pl_Description details),
       e_Avatar = TrimSpace (pl_Avatar details), e_KeyVersion = pl_KeyVersion details\<rparr>)"

definition with_defaults :: "string \<Rightarrow> GroupEvent \<Rightarrow> GroupEvent" where
  "with_defaults recipientID event =
     (case e_Type event of
        MemberLeave \<Rightarrow> if e_MemberID event = [] then event\<lparr>e_MemberID := e_ActorID event\<rparr> else event
      | MemberAdd \<Rightarrow>
          let event = (if e_MemberID event = [] then event\<lparr>e_MemberID := TrimSpace recipientID\<rparr> else event)
          in if e_Role event = RoleOther [] then event\<lparr>e_Role := RoleUser\<rparr> else event
      | MemberRemove \<Rightarrow>
          let event = (if e_MemberID event = [] then event\<lparr>e_MemberID := TrimSpace recipientID\<rparr> else event)
          in if e_Role event = RoleOther [] then event\<lparr>e_Role := RoleUser\<rparr> else event
      | _ \<Rightarrow> event)"

definition DecodeInboundGroupEvent ::
    "(bytes \<Rightarrow> go_error + inboundGroupEventPayload) \<Rightarrow> (string \<Rightarrow> gotime option) \<Rightarrow> InboundGroupEventWire \<Rightarrow> gotime \<Rightarrow>
     go_error + GroupEvent" where
  "DecodeInboundGroupEvent unmarshal parseTime wire occurredAt =
     bindE (ParseGroupEventType (gw_EventType wire)) (\<lambda>eventType.
     bindE (if gw_Plain wire = [] then Inr zero_details else unmarshal (gw_Plain wire)) (\<lambda>details.
     let event = with_defaults (gw_RecipientID wire) (decoded_event parseTime wire occurredAt eventType details)
     in case ValidateGroupEvent event of Some err \<Rightarrow> Inl err | None \<Rightarrow> Inr event))"

section \<open>Authorisation\<close>

definition AuthorizeInboundGroupEvent :: "GroupState \<Rightarrow> GroupEvent \<Rightarrow> go_error option" where
  "AuthorizeInboundGroupEvent state event =
     (let actor = lookup (s_Members state) (e_ActorID event);
          target = lookup (s_Members state) (e_MemberID event);
          denied = Some ErrGroupPermissionDenied
      in case e_Type event of
           MemberAdd \<Rightarrow>
             (case actor of
                None \<Rightarrow> denied
              | Some actor \<Rightarrow>
                  if (case target of Some t \<Rightarrow> m_Status t = StatusInvited | None \<Rightarrow> False) \<and> e_ActorID event = e_MemberID event
                  then None
                  else if m_Status actor \<noteq> StatusActive then denied
                  else (case target of
                          None \<Rightarrow> if m_Role actor = RoleOwner \<or> m_Role actor = RoleAdmin then None else denied
                        | Some target \<Rightarrow>
                            if m_Role target \<noteq> e_Role event
                            then (if m_Role actor \<noteq> RoleOwner then denied
                                  else if m_Role target = RoleOwner then denied
                                  else None)
                            else None))
         | MemberRemove \<Rightarrow>
             (case actor of
                None \<Rightarrow> denied
              | Some actor \<Rightarrow>
                  if m_Status actor \<noteq> StatusActive then denied
                  else (case target of
                          None \<Rightarrow> Some ErrGroupMembershipNotFound
                        | Some target \<Rightarrow>
                            if m_Role actor \<noteq> RoleOwner \<and> m_Role actor \<noteq> RoleAdmin then denied
                            else if m_Role target = RoleOwner then denied
                            else if m_Role actor = RoleAdmin \<and> m_Role target = RoleAdmin then denied
                            else None))
         | MemberLeave \<Rightarrow>
             (if actor = None then denied
              else if e_ActorID event \<noteq> e_MemberID event then denied
              else None)
         | TitleChange \<Rightarrow>
             (case actor of
                None \<Rightarrow> denied
              | Some actor \<Rightarrow>
                  if m_Status actor \<noteq> StatusActive then denied
                  else if m_Role actor \<noteq> RoleOwner \<and> m_Role actor \<noteq> RoleAdmin then denied
                  else None)
         | ProfileChange \<Rightarrow>
             (case actor of
                None \<Rightarrow> denied
              | Some actor \<Rightarrow>
                  if m_Status actor \<noteq> StatusActive then denied
                  else if m_Role actor \<noteq> RoleOwner \<and> m_Role actor \<noteq> RoleAdmin then denied
                  else None)
         | KeyRotate \<Rightarrow>
             (case actor of
                None \<Rightarrow> denied
              | Some actor \<Rightarrow>
                  if m_Status actor \<noteq> StatusActive then denied
                  else if m_Role actor \<noteq> RoleOwner then denied
                  else None)
         | EventTypeOther _ \<Rightarrow> denied)"

section \<open>The replay guard\<close>

type_synonym replay_map = "(string, gotime) gomap"

definition evict_replays :: "gotime \<Rightarrow> replay_map \<Rightarrow> replay_map" where
  "evict_replays cutoff seen = filter (\<lambda>(_, seenAt). \<not> seenAt < cutoff) seen"

text \<open>The part of the guard under the lock: drop the expired keys, then refuse a known key or record a new one.\<close>

definition replay_admit :: "string \<Rightarrow> gotime \<Rightarrow> replay_map \<Rightarrow> bool \<times> replay_map" where
  "replay_admit key now seen =
     (let seen = evict_replays (now - ReplayWindow) seen
      in if lookup seen key \<noteq> None then (False, seen) else (True, put key now seen))"

definition guardInboundGroupReplay ::
    "string \<Rightarrow> string \<Rightarrow> string \<Rightarrow> string \<Rightarrow> gotime \<Rightarrow> gotime \<Rightarrow> replay_map \<Rightarrow> go_error option \<times> replay_map" where
  "guardInboundGroupReplay kind groupID senderDeviceID uniqueID occurredAt now seen =
     (case BuildReplayGuardKey kind groupID senderDeviceID uniqueID of
        Inl err \<Rightarrow> (Some err, seen)
      | Inr key \<Rightarrow>
          (case ValidateReplayOccurredAt occurredAt now of
             Some err \<Rightarrow> (Some err, seen)
           | None \<Rightarrow>
               (case replay_admit key now seen of
                  (admitted, seen) \<Rightarrow> (if admitted then None else Some ErrOutOfOrderGroupEvent, seen))))"

text \<open>What the users of a replay guard rely on.\<close>

locale replay_guard =
  fixes admit :: "'k \<Rightarrow> int \<Rightarrow> 'g \<Rightarrow> bool \<times> 'g"
    and seen_at :: "'g \<Rightarrow> 'k \<Rightarrow> int option"
    and window :: int
    and wf :: "'g \<Rightarrow> bool"
  assumes admit_wf: "wf g \<Longrightarrow> wf (snd (admit k t g))"
    and admit_records: "wf g \<Longrightarrow> fst (admit k t g) \<Longrightarrow> seen_at (snd (admit k t g)) k = Some t"
    and admit_refuses: "wf g \<Longrightarrow> seen_at g k = Some u \<Longrightarrow> t - window \<le> u \<Longrightarrow> \<not> fst (admit k t g)"
    and admit_keeps: "wf g \<Longrightarrow> seen_at g k = Some u \<Longrightarrow> t - window \<le> u \<Longrightarrow> seen_at (snd (admit k' t g)) k = Some u"
begin

definition guarded :: "('k \<times> int) list \<Rightarrow> 'g \<Rightarrow> 'g" where
  "guarded calls g = foldl (\<lambda>g (k, t). snd (admit k t g)) g calls"

lemma guarded_keeps:
  "wf g \<Longrightarrow> seen_at g k = Some u \<Longrightarrow> \<forall>(k', t) \<in> set calls. t - window \<le> u \<Longrightarrow>
   wf (guarded calls g) \<and> seen_at (guarded calls g) k = Some u"
  by (induction calls arbitrary: g) (auto simp: guarded_def admit_wf admit_keeps)

lemma admitted_once:
  assumes "wf g" "fst (admit k u g)" "\<forall>(k', t) \<in> set calls. t - window \<le> u" "t - window \<le> u"
  shows "\<not> fst (admit k t (guarded calls (snd (admit k u g))))"
proof -
  have "wf (guarded calls (snd (admit k u g))) \<and> seen_at (guarded calls (snd (admit k u g))) k = Some u"
    by (rule guarded_keeps) (use assms admit_wf admit_records in auto)
  with assms(4) show ?thesis by (blast dest: admit_refuses)
qed

end

lemma lookup_evict_replays:
  "keys_distinct seen \<Longrightarrow> lookup (evict_replays cutoff seen) k =
     (case lookup seen k of Some u \<Rightarrow> if u < cutoff then None else Some u | None \<Rightarrow> None)"
  by (induction seen) (auto simp: evict_replays_def map_of_eq_None_iff dest: map_of_SomeD split: option.splits)

lemma keys_distinct_evict_replays [simp]: "keys_distinct seen \<Longrightarrow> keys_distinct (evict_replays cutoff seen)"
  by (induction seen) (auto simp: evict_replays_def)

interpretation replays: replay_guard replay_admit lookup ReplayWindow keys_distinct
  by unfold_locales
    (auto simp: replay_admit_def Let_def lookup_evict_replays simp del: map_of_eq_Some_iff split: if_splits option.splits)

section \<open>The handlers\<close>

record InboundGroupMessageParams =
  mp_MessageID :: string
  mp_SenderID :: string
  mp_Payload :: bytes
  mp_ConversationID :: string
  mp_EventID :: string
  mp_MembershipVersion :: "64 word"
  mp_GroupKeyVersion :: "32 word"
  mp_SenderDeviceID :: string

record InboundGroupEventParams =
  ep_Event :: GroupEvent
  ep_SenderDeviceID :: string
  ep_HasDevice :: bool
  ep_DeviceID :: string

record GroupInbound =
  in_States :: group_states
  in_EventLog :: event_log
  in_ReplaySeen :: replay_map
  in_Messages :: MessageStore
  in_Errors :: "(string \<times> go_error) list"
  in_Aggregates :: "string list"
  in_Updated :: "GroupEvent list"
  in_NewMessages :: "(string \<times> Message) list"

text \<open>
  The optional parts of \<open>InboundOrchestrationService\<close>. \<open>GuardReplay\<close> is the daemon's guard when it is set;
  \<open>ResolveInboundContent\<close> and \<open>IdentityID\<close> hold the result of the call; \<open>SaveMessage\<close> is the message store
  with the outcome of its snapshot write.
\<close>

record InboundOrchestrationService =
  io_Persist :: "persist option"
  io_IdentityID :: "string option"
  io_IsBlockedSender :: "(string \<Rightarrow> bool) option"
  io_GuardReplay :: bool
  io_ResolveInboundContent :: "(bytes \<times> string \<times> go_error option) option"
  io_BuildStoredMessage :: "(bytes \<Rightarrow> string \<Rightarrow> gotime \<Rightarrow> Message) option"
  io_SaveMessage :: "snapshot_write option"
  io_IsMessageIDConflict :: "(go_error \<Rightarrow> bool) option"
  io_NotifyGroupMessage :: bool
  io_NotifyGroupUpdated :: bool

definition blocked_by :: "(string \<Rightarrow> bool) option \<Rightarrow> string \<Rightarrow> bool" where
  "blocked_by isBlocked senderID = (case isBlocked of None \<Rightarrow> False | Some f \<Rightarrow> f senderID)"

definition in_recordErr :: "string \<Rightarrow> go_error \<Rightarrow> GroupInbound \<Rightarrow> GroupInbound" where
  "in_recordErr category err w = w\<lparr>in_Errors := in_Errors w @ [(category, err)]\<rparr>"

definition policy_reject :: "string \<Rightarrow> go_error \<Rightarrow> GroupInbound \<Rightarrow> GroupInbound" where
  "policy_reject category err w =
     (in_recordErr category err w)\<lparr>in_Aggregates := in_Aggregates w @ [''policy_reject'']\<rparr>"

definition guard :: "bool \<Rightarrow> string \<Rightarrow> string \<Rightarrow> string \<Rightarrow> string \<Rightarrow> gotime \<Rightarrow> gotime \<Rightarrow> GroupInbound \<Rightarrow> go_error option \<times> GroupInbound" where
  "guard configured kind groupID senderDeviceID uniqueID occurredAt now w =
     (if \<not> configured then (None, w)
      else case guardInboundGroupReplay kind groupID senderDeviceID uniqueID occurredAt now (in_ReplaySeen w) of
             (r, seen) \<Rightarrow> (r, w\<lparr>in_ReplaySeen := seen\<rparr>))"

definition resolved_content ::
    "InboundOrchestrationService \<Rightarrow> InboundGroupMessageParams \<Rightarrow> GroupInbound \<Rightarrow> bytes \<times> string \<times> GroupInbound" where
  "resolved_content svc inp w =
     (case io_ResolveInboundContent svc of
        None \<Rightarrow> (mp_Payload inp, ''text'', w)
      | Some (decrypted, resolvedType, None) \<Rightarrow> (decrypted, resolvedType, w)
      | Some (_, _, Some decryptErr) \<Rightarrow>
          (mp_Payload inp, ''text'',
           (in_recordErr ''crypto'' decryptErr w)\<lparr>in_Aggregates := in_Aggregates w @ [''decrypt_fail'']\<rparr>))"

text \<open>The second half of \<open>HandleInboundGroupMessage\<close>, after the checks: resolve the content, store, notify.\<close>

definition store_group_message ::
    "InboundOrchestrationService \<Rightarrow> gotime \<Rightarrow> InboundGroupMessageParams \<Rightarrow> GroupInbound \<Rightarrow> GroupInbound" where
  "store_group_message svc now inp w =
     (case resolved_content svc inp w of
        (content, contentType, w) \<Rightarrow>
          (case (io_BuildStoredMessage svc, io_SaveMessage svc) of
             (Some build, Some write) \<Rightarrow>
               let stored = build content contentType now
               in (case SaveMessage write stored (in_Messages w) of
                     (Some err, _) \<Rightarrow>
                       if (case io_IsMessageIDConflict svc of None \<Rightarrow> False | Some f \<Rightarrow> f err) then w
                       else in_recordErr ''storage'' err w
                   | (None, store) \<Rightarrow>
                       let w = w\<lparr>in_Messages := store\<rparr>
                       in if io_NotifyGroupMessage svc
                          then w\<lparr>in_NewMessages := in_NewMessages w @ [(mp_ConversationID inp, stored)]\<rparr>
                          else w)
           | _ \<Rightarrow> w))"

definition HandleInboundGroupMessage ::
    "InboundOrchestrationService \<Rightarrow> gotime \<Rightarrow> InboundGroupMessageParams \<Rightarrow> GroupInbound \<Rightarrow> GroupInbound" where
  "HandleInboundGroupMessage svc now inp w =
     (if blocked_by (io_IsBlockedSender svc) (mp_SenderID inp) then policy_reject ''crypto'' ErrGroupSenderBlocked w
      else case lookup (in_States w) (TrimSpace (mp_ConversationID inp)) of
             None \<Rightarrow> policy_reject ''crypto'' ErrGroupNotFound w
           | Some state \<Rightarrow>
               (case snd (ValidateInboundGroupMessageState state (TrimSpace (mp_SenderID inp))
                       (mp_MembershipVersion inp) (mp_GroupKeyVersion inp)) of
                  Some err \<Rightarrow> policy_reject ''crypto'' err w
                | None \<Rightarrow>
                    let replayID = (if blank (mp_EventID inp) then TrimSpace (mp_MessageID inp) else TrimSpace (mp_EventID inp))
                    in case guard (io_GuardReplay svc) ''message'' (mp_ConversationID inp) (mp_SenderDeviceID inp) replayID now now w of
                         (Some err, w) \<Rightarrow> policy_reject ''crypto'' err w
                       | (None, w) \<Rightarrow> store_group_message svc now inp w))"

text \<open>The second half of \<open>HandleInboundGroupEvent\<close>, after the replay guard has admitted the event.\<close>

definition admit_event :: "InboundOrchestrationService \<Rightarrow> GroupEvent \<Rightarrow> GroupInbound \<Rightarrow> GroupInbound" where
  "admit_event svc event w =
     (case io_IdentityID svc of
        None \<Rightarrow> w
      | Some identityID \<Rightarrow>
          (case EnsureInboundEventState (in_States w) event identityID of
             Inl err \<Rightarrow> policy_reject ''crypto'' err w
           | Inr state \<Rightarrow>
               (case AuthorizeInboundGroupEvent state event of
                  Some err \<Rightarrow> policy_reject ''crypto'' err w
                | None \<Rightarrow>
                    (case ApplyEventsWithRollback state (in_States w) (in_EventLog w) (io_Persist svc) [event] of
                       (r, states, eventLog) \<Rightarrow>
                         let w = w\<lparr>in_States := states, in_EventLog := eventLog\<rparr>
                         in case r of
                              Inl err \<Rightarrow> policy_reject ''storage'' err w
                            | Inr (_, applied) \<Rightarrow>
                                if applied = [] then w
                                else if io_NotifyGroupUpdated svc
                                then w\<lparr>in_Updated := in_Updated w @ [event]\<rparr>
                                else w))))"

definition HandleInboundGroupEvent ::
    "InboundOrchestrationService \<Rightarrow> gotime \<Rightarrow> InboundGroupEventParams \<Rightarrow> GroupInbound \<Rightarrow> GroupInbound" where
  "HandleInboundGroupEvent svc now inp w =
     (let event = ep_Event inp in
      if blocked_by (io_IsBlockedSender svc) (e_ActorID event) then policy_reject ''crypto'' ErrGroupSenderBlocked w
      else if ep_HasDevice inp \<and> TrimSpace (ep_SenderDeviceID inp) \<noteq> TrimSpace (ep_DeviceID inp)
      then policy_reject ''crypto'' (ErrText ''sender device mismatch'') w
      else case guard (io_GuardReplay svc) ''event'' (e_GroupID event) (ep_SenderDeviceID inp) (e_ID event) (e_OccurredAt event) now w of
             (Some err, w) \<Rightarrow> policy_reject ''crypto'' err w
           | (None, w) \<Rightarrow> admit_event svc event w)"

section \<open>The wiring in the daemon\<close>

text \<open>
  What the daemon brings to one inbound call: the local identity, the blocklist, the outcomes of the
  snapshot writes, the result of decryption, and the two parsers.
\<close>

record inbound_env =
  ie_Identity :: string
  ie_Blocked :: "string \<Rightarrow> bool"
  ie_Persist :: persist
  ie_Write :: snapshot_write
  ie_Decrypted :: "go_error + bytes"
  ie_Unmarshal :: "bytes \<Rightarrow> go_error + inboundGroupEventPayload"
  ie_ParseTime :: "string \<Rightarrow> gotime option"

definition message_service :: "inbound_env \<Rightarrow> InboundPrivateMessage \<Rightarrow> WirePayload \<Rightarrow> InboundOrchestrationService" where
  "message_service env msg wire =
     \<lparr>io_Persist = None, io_IdentityID = None, io_IsBlockedSender = Some (ie_Blocked env), io_GuardReplay = True,
      io_ResolveInboundContent = Some (ResolveInboundContent msg wire (ie_Decrypted env)),
      io_BuildStoredMessage = Some (BuildInboundGroupStoredMessage msg (wp_ConversationID wire) (wp_ThreadID wire)),
      io_SaveMessage = Some (ie_Write env), io_IsMessageIDConflict = Some (\<lambda>err. err = ErrMessageIDConflict),
      io_NotifyGroupMessage = True, io_NotifyGroupUpdated = False\<rparr>"

definition message_params :: "InboundPrivateMessage \<Rightarrow> WirePayload \<Rightarrow> InboundGroupMessageParams" where
  "message_params msg wire =
     \<lparr>mp_MessageID = im_ID msg, mp_SenderID = im_SenderID msg, mp_Payload = im_Payload msg,
      mp_ConversationID = wp_ConversationID wire, mp_EventID = wp_EventID wire,
      mp_MembershipVersion = wp_MembershipVersion wire, mp_GroupKeyVersion = wp_GroupKeyVersion wire,
      mp_SenderDeviceID = wp_SenderDeviceID wire\<rparr>"

definition handleInboundGroupMessage ::
    "inbound_env \<Rightarrow> gotime \<Rightarrow> InboundPrivateMessage \<Rightarrow> WirePayload \<Rightarrow> GroupInbound \<Rightarrow> GroupInbound" where
  "handleInboundGroupMessage env now msg wire w =
     HandleInboundGroupMessage (message_service env msg wire) now (message_params msg wire) w"

definition event_service :: "inbound_env \<Rightarrow> InboundOrchestrationService" where
  "event_service env =
     \<lparr>io_Persist = Some (ie_Persist env), io_IdentityID = Some (ie_Identity env),
      io_IsBlockedSender = Some (ie_Blocked env), io_GuardReplay = True, io_ResolveInboundContent = None,
      io_BuildStoredMessage = None, io_SaveMessage = None, io_IsMessageIDConflict = None,
      io_NotifyGroupMessage = False, io_NotifyGroupUpdated = True\<rparr>"

definition event_wire :: "InboundPrivateMessage \<Rightarrow> WirePayload \<Rightarrow> InboundGroupEventWire" where
  "event_wire msg wire =
     \<lparr>gw_EventID = wp_EventID wire, gw_ConversationID = wp_ConversationID wire,
      gw_MembershipVersion = wp_MembershipVersion wire, gw_EventType = wp_EventType wire, gw_Plain = wp_Plain wire,
      gw_SenderID = im_SenderID msg, gw_RecipientID = im_Recipient msg\<rparr>"

definition handleInboundGroupEvent ::
    "inbound_env \<Rightarrow> gotime \<Rightarrow> InboundPrivateMessage \<Rightarrow> WirePayload \<Rightarrow> GroupInbound \<Rightarrow> GroupInbound" where
  "handleInboundGroupEvent env now msg wire w =
     (case DecodeInboundGroupEvent (ie_Unmarshal env) (ie_ParseTime env) (event_wire msg wire) now of
        Inl err \<Rightarrow> policy_reject ''api'' err w
      | Inr event \<Rightarrow>
          HandleInboundGroupEvent (event_service env) now
            \<lparr>ep_Event = event, ep_SenderDeviceID = wp_SenderDeviceID wire, ep_HasDevice = (wp_Device wire \<noteq> None),
             ep_DeviceID = (case wp_Device wire of None \<Rightarrow> [] | Some d \<Rightarrow> dv_ID d)\<rparr> w)"

definition handle_group_wire ::
    "inbound_env \<Rightarrow> gotime \<Rightarrow> InboundPrivateMessage \<Rightarrow> WirePayload \<Rightarrow> GroupInbound \<Rightarrow> GroupInbound" where
  "handle_group_wire env now msg wire w =
     (if wp_EventType wire = GroupWireEventTypeMessage then handleInboundGroupMessage env now msg wire w
      else handleInboundGroupEvent env now msg wire w)"

section \<open>What an inbound event can change\<close>

lemma policy_reject_frame [simp]:
  "in_States (policy_reject c e w) = in_States w" "in_EventLog (policy_reject c e w) = in_EventLog w"
  "in_ReplaySeen (policy_reject c e w) = in_ReplaySeen w" "in_Updated (policy_reject c e w) = in_Updated w"
  "in_Messages (policy_reject c e w) = in_Messages w" "in_NewMessages (policy_reject c e w) = in_NewMessages w"
  by (simp_all add: policy_reject_def in_recordErr_def)

lemma in_recordErr_frame [simp]:
  "in_States (in_recordErr c e w) = in_States w" "in_EventLog (in_recordErr c e w) = in_EventLog w"
  "in_ReplaySeen (in_recordErr c e w) = in_ReplaySeen w" "in_Messages (in_recordErr c e w) = in_Messages w"
  "in_NewMessages (in_recordErr c e w) = in_NewMessages w" "in_Updated (in_recordErr c e w) = in_Updated w"
  by (simp_all add: in_recordErr_def)

lemma guard_frame:
  "guard b kind g d u t now w = (r, w') \<Longrightarrow> \<exists>seen. w' = w\<lparr>in_ReplaySeen := seen\<rparr>"
  by (auto simp: guard_def split: if_splits prod.splits intro: exI [of _ "in_ReplaySeen w"])

abbreviation in_store :: "GroupInbound \<Rightarrow> group_store" where
  "in_store w \<equiv> (map_of (in_States w), events_of (in_EventLog w))"

lemma unknown_group_denied:
  assumes "lookup states (e_GroupID e) = None" "EnsureInboundEventState states e me = Inr st"
  shows "AuthorizeInboundGroupEvent st e = Some ErrGroupPermissionDenied"
  using ensure_unknown_no_members [OF assms] assms
  by (auto simp: AuthorizeInboundGroupEvent_def EnsureInboundEventState_def Let_def split: if_splits)

lemma ensure_known:
  "lookup states (e_GroupID e) = Some st \<Longrightarrow> EnsureInboundEventState states e me = Inr st' \<longleftrightarrow> st' = st"
  by (auto simp: EnsureInboundEventState_def)

text \<open>How one event ends: it is applied and told, or nothing changes.\<close>

definition event_committed :: "GroupEvent \<Rightarrow> GroupInbound \<Rightarrow> GroupInbound \<Rightarrow> bool" where
  "event_committed e w w' \<longleftrightarrow>
     (\<exists>st. lookup (in_States w) (e_GroupID e) = Some st \<and> AuthorizeInboundGroupEvent st e = None \<and> applicable st e \<and>
        in_store w' = ((map_of (in_States w))(e_GroupID e \<mapsto> applied_state st e),
                       (events_of (in_EventLog w))(e_GroupID e := events_of (in_EventLog w) (e_GroupID e) @ [e])) \<and>
        in_Updated w' = in_Updated w @ [e])"

definition event_refused :: "GroupInbound \<Rightarrow> GroupInbound \<Rightarrow> bool" where
  "event_refused w w' \<longleftrightarrow> in_store w' = in_store w \<and> in_Updated w' = in_Updated w"

lemma single_event_batch:
  assumes "lookup S gid = Some st" "g_ID (s_Group st) = gid" "ApplyEventsWithRollback st S L p [e] = (r, S', L')"
  shows "(if (\<exists>x. r = Inr (x, [e])) then applicable st e \<and> S' = put gid (applied_state st e) S \<and> L' = put gid (events_of L gid @ [e]) L
    else (isl r \<or> (\<exists>x. r = Inr (x, []))) \<and> map_of S' = map_of S \<and> events_of L' = events_of L)"
  using assms Apply_applicable [of st e] Apply_not_applicable [of st e]
  by (cases "applicable st e")
    (auto simp: ApplyEventsWithRollback_def leak_shared_def Let_def fun_upd_idem split: prod.splits sum.splits option.splits if_splits)

lemma single_event_wf:
  assumes "store_wf S L" "lookup S gid = Some st" "g_ID (s_Group st) = gid" "trimmed gid" "gid \<noteq> []"
    and "ApplyEventsWithRollback st S L p [e] = (r, S', L')"
  shows "store_wf S' L'"
proof -
  have put: "store_wf (put gid x S) L" for x using assms(1) by (simp add: store_wf_def)
  have "leak_shared gid x S = put gid (leaked x) S" if "leaked = (\<lambda>x. st\<lparr>s_AppliedEventIDs := s_AppliedEventIDs x, s_Members := s_Members x\<rparr>)" for x leaked
    using assms(2) that by (simp add: leak_shared_def)
  with assms put show ?thesis
    by (auto simp: ApplyEventsWithRollback_def Let_def split: prod.splits sum.splits option.splits if_splits)
qed

lemma admit_event_denied:
  assumes "lookup (in_States w) (e_GroupID e) = None"
  shows "\<exists>err. admit_event (event_service env) e w = policy_reject ''crypto'' err w"
proof (cases "EnsureInboundEventState (in_States w) e (ie_Identity env)")
  case (Inr st)
  with unknown_group_denied [OF assms Inr] show ?thesis by (auto simp: admit_event_def event_service_def)
qed (auto simp: admit_event_def event_service_def)

lemma admit_event_cases:
  assumes ok: "store_ok (in_States w) (in_EventLog w)" and w': "w' = admit_event (event_service env) e w"
  shows "(event_refused w w' \<or> event_committed e w w') \<and> store_wf (in_States w') (in_EventLog w')"
proof (cases "\<exists>st. lookup (in_States w) (e_GroupID e) = Some st \<and> AuthorizeInboundGroupEvent st e = None")
  case True
  then obtain st where known: "lookup (in_States w) (e_GroupID e) = Some st" and auth: "AuthorizeInboundGroupEvent st e = None"
    by blast
  have gid: "g_ID (s_Group st) = e_GroupID e" "trimmed (e_GroupID e)" "e_GroupID e \<noteq> []"
    using store_ok_group [OF ok known] by (auto dest: group_okD)
  obtain r S' L' where app: "ApplyEventsWithRollback st (in_States w) (in_EventLog w) (Some (ie_Persist env)) [e] = (r, S', L')"
    by (metis prod_cases3)
  have eq: "w' = (let w = w\<lparr>in_States := S', in_EventLog := L'\<rparr> in
      case r of Inl err \<Rightarrow> policy_reject ''storage'' err w
      | Inr (_, applied) \<Rightarrow> if applied = [] then w else w\<lparr>in_Updated := in_Updated w @ [e]\<rparr>)"
    unfolding w' admit_event_def using known auth app
    by (simp add: event_service_def EnsureInboundEventState_def Let_def split: sum.split prod.split)
  have S: "in_States w' = S'" "in_EventLog w' = L'"
    unfolding eq by (simp_all add: Let_def split: sum.split prod.split)
  have "store_wf S' L'" by (rule single_event_wf [OF _ known gid app]) (use ok in \<open>simp add: store_ok_abs\<close>)
  moreover note single_event_batch [OF known gid(1) app]
  moreover have "in_Updated w' = in_Updated w @ (case r of Inl _ \<Rightarrow> [] | Inr (_, applied) \<Rightarrow> if applied = [] then [] else [e])"
    unfolding eq by (simp add: Let_def split: sum.split prod.split)
  ultimately show ?thesis using S known auth
    by (auto simp: event_committed_def event_refused_def split: if_splits sum.splits)
next
  case False
  have "in_States w' = in_States w \<and> in_EventLog w' = in_EventLog w \<and> in_Updated w' = in_Updated w"
  proof (cases "lookup (in_States w) (e_GroupID e)")
    case None
    then show ?thesis using admit_event_denied [of w e env] w' by auto
  next
    case (Some st)
    with False w' show ?thesis by (auto simp: admit_event_def event_service_def EnsureInboundEventState_def)
  qed
  then show ?thesis using ok by (simp add: event_refused_def store_ok_abs)
qed

lemma HandleInboundGroupEvent_cases:
  assumes ok: "store_ok (in_States w) (in_EventLog w)" and w': "w' = HandleInboundGroupEvent (event_service env) now inp w"
  shows "(event_refused w w' \<or> event_committed (ep_Event inp) w w' \<and> \<not> ie_Blocked env (e_ActorID (ep_Event inp))) \<and>
    store_wf (in_States w') (in_EventLog w')"
proof -
  let ?e = "ep_Event inp"
  obtain r w1 where g: "guard True ''event'' (e_GroupID ?e) (ep_SenderDeviceID inp) (e_ID ?e) (e_OccurredAt ?e) now w = (r, w1)"
    by fastforce
  then obtain seen where w1: "w1 = w\<lparr>in_ReplaySeen := seen\<rparr>" using guard_frame by blast
  have "(\<exists>err w2. w' = policy_reject ''crypto'' err w2 \<and> w2 \<in> {w, w1}) \<or>
      (\<not> ie_Blocked env (e_ActorID ?e) \<and> w' = admit_event (event_service env) ?e w1)"
    using w' g by (auto simp: HandleInboundGroupEvent_def event_service_def blocked_by_def Let_def split: if_splits option.splits)
  then show ?thesis
  proof (elim disjE exE conjE)
    fix err w2 assume "w' = policy_reject ''crypto'' err w2" "w2 \<in> {w, w1}"
    then show ?thesis using ok by (auto simp: event_refused_def w1 store_ok_abs)
  next
    assume "\<not> ie_Blocked env (e_ActorID ?e)" "w' = admit_event (event_service env) ?e w1"
    then show ?thesis using admit_event_cases [of w1 w' env ?e] ok
      by (simp add: w1 event_refused_def event_committed_def)
  qed
qed

lemma event_committed_ok:
  assumes ok: "store_ok (in_States w) (in_EventLog w)" and wf: "store_wf (in_States w') (in_EventLog w')"
    and "event_refused w w' \<or> event_committed e w w'"
  shows "store_ok (in_States w') (in_EventLog w')"
proof -
  have a: "astore_ok (in_store w)" using ok by (simp add: store_ok_abs)
  have "astore_ok (in_store w')"
    using assms(3)
  proof
    assume "event_committed e w w'"
    then obtain st where st: "lookup (in_States w) (e_GroupID e) = Some st" "applicable st e"
      and w': "in_store w' = ((map_of (in_States w))(e_GroupID e \<mapsto> applied_state st e),
           (events_of (in_EventLog w))(e_GroupID e := events_of (in_EventLog w) (e_GroupID e) @ [e]))"
      by (auto simp: event_committed_def)
    have "group_ok (e_GroupID e) (applied_state st e) (events_of (in_EventLog w) (e_GroupID e) @ [e])"
      by (rule group_ok_applied [OF store_ok_group [OF ok st(1)] st(2)])
    then show ?thesis unfolding w' by (rule astore_ok_upd [OF a])
  qed (use a in \<open>simp add: event_refused_def\<close>)
  with wf show ?thesis by (simp add: store_ok_abs)
qed

text \<open>
  C9: What an inbound group event can do. Whatever the event, the sender, the clock and the outcome of the
  snapshot write: either no group, no log and no subscriber sees anything of it, or the group is
  known, its actor is not blocked, the event is authorised in the stored state and the next one, and
  exactly that event is applied, logged and told. In both cases the store stays well-formed.
\<close>

theorem inbound_event_all_or_nothing:
  assumes "store_ok (in_States w) (in_EventLog w)"
  shows "let w' = HandleInboundGroupEvent (event_service env) now inp w; e = ep_Event inp in
    store_ok (in_States w') (in_EventLog w') \<and>
    (in_store w' = in_store w \<and> in_Updated w' = in_Updated w \<or>
     (\<exists>st. lookup (in_States w) (e_GroupID e) = Some st \<and> \<not> ie_Blocked env (e_ActorID e) \<and>
        AuthorizeInboundGroupEvent st e = None \<and> e_Version e = s_Version st + 1 \<and>
        lookup (in_States w') (e_GroupID e) = Some (applied_state st e) \<and>
        events_of (in_EventLog w') (e_GroupID e) = events_of (in_EventLog w) (e_GroupID e) @ [e] \<and>
        (\<forall>g. g \<noteq> e_GroupID e \<longrightarrow> lookup (in_States w') g = lookup (in_States w) g \<and>
           events_of (in_EventLog w') g = events_of (in_EventLog w) g) \<and>
        in_Updated w' = in_Updated w @ [e]))"
proof -
  define w' where "w' = HandleInboundGroupEvent (event_service env) now inp w"
  note cases = HandleInboundGroupEvent_cases [OF assms w'_def]
  then have "store_ok (in_States w') (in_EventLog w')" using event_committed_ok [OF assms] by blast
  moreover from cases have "event_refused w w' \<or>
      (event_committed (ep_Event inp) w w' \<and> \<not> ie_Blocked env (e_ActorID (ep_Event inp)))" by blast
  ultimately show ?thesis unfolding Let_def w'_def [symmetric]
    by (auto simp: event_refused_def event_committed_def applicable_def)
qed

section \<open>Authority of other members\<close>

lemma authorized_owner_kept:
  assumes "AuthorizeInboundGroupEvent st e = None" "state_ok st" "trimmed (e_MemberID e)" "trimmed (e_ActorID e)"
    and "lookup (s_Members st) k = Some t" "IsOwner t" "m_Status t = StatusActive \<or> m_Status t = StatusInvited" "k \<noteq> e_ActorID e"
  shows "\<exists>t'. lookup (s_Members (applied_state st e)) k = Some t' \<and> m_Role t' = RoleOwner \<and> m_Status t' = m_Status t"
proof (cases "k = e_MemberID e \<and> event_member st e \<noteq> None")
  case True
  then have k: "k = e_MemberID e" by simp
  from assms k have "e_Type e = MemberAdd \<and> e_Role e = RoleOwner \<or> event_member st e = None"
    by (auto simp: AuthorizeInboundGroupEvent_def IsOwner_def Let_def event_member_def
        split: GroupEventType.splits option.splits if_splits)
  with True have add: "e_Type e = MemberAdd" "e_Role e = RoleOwner" by auto
  have "event_member st e = Some (member_added st e)" using add by (simp add: event_member_def)
  then show ?thesis
    using assms k add by (auto simp: effect_lookup member_added_def Let_def)
next
  case False
  with assms show ?thesis by (auto simp: effect_lookup IsOwner_def)
qed

lemma committed_owner_kept:
  assumes "store_ok (in_States w) (in_EventLog w)" "trimmed (e_MemberID e)" "trimmed (e_ActorID e)"
    and "lookup (in_States w) gid = Some st" "lookup (s_Members st) k = Some t" "IsOwner t"
    and "m_Status t = StatusActive \<or> m_Status t = StatusInvited" "k \<noteq> e_ActorID e"
    and w': "event_refused w w' \<or> event_committed e w w'"
  shows "\<exists>st' t'. lookup (in_States w') gid = Some st' \<and> lookup (s_Members st') k = Some t' \<and> m_Role t' = RoleOwner \<and> m_Status t' = m_Status t"
  using w'
proof
  assume "event_refused w w'"
  with assms show ?thesis by (auto simp: event_refused_def IsOwner_def)
next
  assume c: "event_committed e w w'"
  show ?thesis
  proof (cases "gid = e_GroupID e")
    case True
    with c assms(4) have st': "lookup (in_States w') gid = Some (applied_state st e)" "AuthorizeInboundGroupEvent st e = None"
      by (auto simp: event_committed_def)
    have "state_ok st" using store_ok_group [OF assms(1,4)] by (rule group_okD)
    from authorized_owner_kept [OF st'(2) this assms(2,3,5-8)] st'(1) show ?thesis by blast
  next
    case False
    with c assms show ?thesis by (auto simp: event_committed_def IsOwner_def)
  qed
qed

lemma Decode_trimmed:
  assumes "DecodeInboundGroupEvent unmarshal parseTime wire now = Inr e"
  shows "e_ActorID e = TrimSpace (gw_SenderID wire)" "trimmed (e_ActorID e)" "trimmed (e_MemberID e)"
proof -
  obtain eventType details where e: "e = with_defaults (gw_RecipientID wire) (decoded_event parseTime wire now eventType details)"
    using assms by (auto simp: DecodeInboundGroupEvent_def bindE_eq_Inr Let_def split: option.splits)
  then show "e_ActorID e = TrimSpace (gw_SenderID wire)" "trimmed (e_ActorID e)" "trimmed (e_MemberID e)"
    by (simp_all add: with_defaults_def decoded_event_def Let_def split: GroupEventType.split)
qed

lemma handleInboundGroupEvent_cases:
  assumes ok: "store_ok (in_States w) (in_EventLog w)" and w': "w' = handleInboundGroupEvent env now msg wire w"
  shows "event_refused w w' \<or>
    (\<exists>e. DecodeInboundGroupEvent (ie_Unmarshal env) (ie_ParseTime env) (event_wire msg wire) now = Inr e \<and> event_committed e w w')"
proof (cases "DecodeInboundGroupEvent (ie_Unmarshal env) (ie_ParseTime env) (event_wire msg wire) now")
  case (Inl err)
  with w' show ?thesis by (simp add: handleInboundGroupEvent_def event_refused_def)
next
  case (Inr e)
  with w' HandleInboundGroupEvent_cases [OF ok] show ?thesis by (fastforce simp: handleInboundGroupEvent_def)
qed

text \<open>
  C26: Nobody else can take an active or invited owner's role or standing with an inbound event: whatever
  the daemon receives from a sender who is not that owner, afterwards the owner is still in the group,
  still owner, with the same status.
\<close>

theorem inbound_events_spare_owners:
  assumes "store_ok (in_States w) (in_EventLog w)" "lookup (in_States w) gid = Some st" "lookup (s_Members st) k = Some t"
    and "IsOwner t" "m_Status t = StatusActive \<or> m_Status t = StatusInvited" "k \<noteq> TrimSpace (im_SenderID msg)"
  shows "\<exists>st' t'. lookup (in_States (handleInboundGroupEvent env now msg wire w)) gid = Some st' \<and>
    lookup (s_Members st') k = Some t' \<and> m_Role t' = RoleOwner \<and> m_Status t' = m_Status t"
proof -
  define w' where "w' = handleInboundGroupEvent env now msg wire w"
  from handleInboundGroupEvent_cases [OF assms(1) w'_def]
  have "\<exists>st' t'. lookup (in_States w') gid = Some st' \<and> lookup (s_Members st') k = Some t' \<and> m_Role t' = RoleOwner \<and> m_Status t' = m_Status t"
  proof (elim disjE exE conjE)
    assume "event_refused w w'"
    with assms show ?thesis by (auto simp: event_refused_def IsOwner_def)
  next
    fix e assume d: "DecodeInboundGroupEvent (ie_Unmarshal env) (ie_ParseTime env) (event_wire msg wire) now = Inr e" and "event_committed e w w'"
    have "k \<noteq> e_ActorID e" using assms(6) Decode_trimmed(1) [OF d] by (simp add: event_wire_def)
    with assms \<open>event_committed e w w'\<close> Decode_trimmed(2,3) [OF d] show ?thesis
      by (intro committed_owner_kept [of w e]) simp_all
  qed
  then show ?thesis by (simp add: w'_def)
qed

text \<open>
  An invitation for a group that the daemon does not know never takes effect. The code builds a fresh
  group for the first \<open>member_add\<close> event that names the local user, and says that the caller handles this
  case; but the authorisation that follows refuses every such event, since the fresh group has no members.
  So no inbound event ever adds a group.
\<close>

lemma inbound_never_creates_group:
  assumes "store_ok (in_States w) (in_EventLog w)" "lookup (in_States w) gid = None"
  shows "lookup (in_States (handleInboundGroupEvent env now msg wire w)) gid = None"
proof -
  define w' where "w' = handleInboundGroupEvent env now msg wire w"
  from handleInboundGroupEvent_cases [OF assms(1) w'_def] assms(2) have "lookup (in_States w') gid = None"
    by (auto simp: event_refused_def event_committed_def)
  then show ?thesis by (simp add: w'_def)
qed

end
