(* ===== verification/Group_Replay.thy ===== *)
theory Group_Replay
  imports Group_Inbound Group_Convergence
begin

text \<open>
  Sequences of inbound group traffic. The replay guard admits a key once per window, whatever comes in
  between; the same guard makes an event that arrived before its turn undeliverable for good. An
  invited member can make themself owner with one event.
\<close>

type_synonym inbound_input = "inbound_env \<times> gotime \<times> InboundPrivateMessage \<times> WirePayload"

definition run_inbound :: "inbound_input list \<Rightarrow> GroupInbound \<Rightarrow> GroupInbound" where
  "run_inbound inputs w = foldl (\<lambda>w (env, now, msg, wire). handle_group_wire env now msg wire w) w inputs"

section \<open>The replay map over a sequence\<close>

text \<open>One call changes the replay map like one call of the guard, or not at all.\<close>

definition replay_step :: "gotime \<Rightarrow> replay_map \<Rightarrow> replay_map \<Rightarrow> bool" where
  "replay_step now seen seen' \<longleftrightarrow> seen' = seen \<or> (\<exists>k. seen' = snd (replay_admit k now seen))"

lemma guard_replay_step:
  "guard b kind g d u t now w = (r, w') \<Longrightarrow> replay_step now (in_ReplaySeen w) (in_ReplaySeen w')"
  by (auto simp: guard_def guardInboundGroupReplay_def replay_step_def split: if_splits option.splits sum.splits prod.splits)
    (metis snd_conv)+

lemma resolved_content_frame:
  "resolved_content svc inp w = (c, ct, w') \<Longrightarrow> in_ReplaySeen w' = in_ReplaySeen w \<and> in_Messages w' = in_Messages w \<and>
     in_States w' = in_States w \<and> in_EventLog w' = in_EventLog w \<and> in_NewMessages w' = in_NewMessages w"
  by (auto simp: resolved_content_def split: option.splits prod.splits)

lemma store_group_message_frame:
  "in_ReplaySeen (store_group_message svc now inp w) = in_ReplaySeen w"
  "in_States (store_group_message svc now inp w) = in_States w" "in_EventLog (store_group_message svc now inp w) = in_EventLog w"
  by (auto simp: store_group_message_def Let_def dest!: resolved_content_frame split: option.split prod.split)

lemma HandleInboundGroupMessage_replay: "replay_step now (in_ReplaySeen w) (in_ReplaySeen (HandleInboundGroupMessage svc now inp w))"
  by (auto simp: HandleInboundGroupMessage_def Let_def replay_step_def [of now seen seen for seen] store_group_message_frame
      dest!: guard_replay_step split: option.splits prod.splits if_splits)

lemma admit_event_replay: "in_ReplaySeen (admit_event svc e w) = in_ReplaySeen w"
  by (auto simp: admit_event_def Let_def split: option.splits sum.splits prod.splits)

lemma HandleInboundGroupEvent_replay: "replay_step now (in_ReplaySeen w) (in_ReplaySeen (HandleInboundGroupEvent svc now inp w))"
  by (auto simp: HandleInboundGroupEvent_def Let_def replay_step_def [of now seen seen for seen] admit_event_replay
      dest!: guard_replay_step split: option.splits prod.splits if_splits)

lemma handle_group_wire_replay: "replay_step now (in_ReplaySeen w) (in_ReplaySeen (handle_group_wire env now msg wire w))"
  using HandleInboundGroupMessage_replay HandleInboundGroupEvent_replay
  by (auto simp: handle_group_wire_def handleInboundGroupMessage_def handleInboundGroupEvent_def replay_step_def [of now seen seen for seen]
      split: sum.split)

lemma replay_step_keeps:
  assumes "replay_step now seen seen'" "keys_distinct seen" "lookup seen k = Some u" "now - ReplayWindow \<le> u"
  shows "keys_distinct seen' \<and> lookup seen' k = Some u"
  using assms replays.admit_keeps replays.admit_wf unfolding replay_step_def by blast

lemma run_inbound_keeps:
  "keys_distinct (in_ReplaySeen w) \<Longrightarrow> lookup (in_ReplaySeen w) k = Some u \<Longrightarrow>
   \<forall>x \<in> set inputs. fst (snd x) - ReplayWindow \<le> u \<Longrightarrow>
   keys_distinct (in_ReplaySeen (run_inbound inputs w)) \<and> lookup (in_ReplaySeen (run_inbound inputs w)) k = Some u"
proof (induction inputs arbitrary: w)
  case (Cons x inputs)
  obtain env now msg wire where x: "x = (env, now, msg, wire)" by (metis prod_cases4)
  have "keys_distinct (in_ReplaySeen (handle_group_wire env now msg wire w)) \<and> lookup (in_ReplaySeen (handle_group_wire env now msg wire w)) k = Some u"
    by (rule replay_step_keeps [OF handle_group_wire_replay]) (use Cons.prems x in auto)
  with Cons.IH [of "handle_group_wire env now msg wire w"] Cons.prems(3) show ?case
    by (simp add: run_inbound_def x del: map_of_eq_Some_iff)
qed (simp add: run_inbound_def)

section \<open>An event that comes too early is lost\<close>

lemma guard_admitted:
  assumes "fst (guardInboundGroupReplay kind g d u t now seen) = None" "keys_distinct seen"
  obtains key where "BuildReplayGuardKey kind g d u = Inr key"
    "keys_distinct (snd (guardInboundGroupReplay kind g d u t now seen))"
    "lookup (snd (guardInboundGroupReplay kind g d u t now seen)) key = Some now"
proof -
  obtain key where key: "BuildReplayGuardKey kind g d u = Inr key" "fst (replay_admit key now seen)"
    "snd (guardInboundGroupReplay kind g d u t now seen) = snd (replay_admit key now seen)"
    using assms(1) by (auto simp: guardInboundGroupReplay_def split: sum.splits option.splits prod.splits if_splits)
  with replays.admit_records replays.admit_wf assms(2) that show thesis by metis
qed

lemma guard_refuses_again:
  assumes "BuildReplayGuardKey kind g d u = Inr key" "keys_distinct seen" "lookup seen key = Some t0" "now - ReplayWindow \<le> t0"
  shows "fst (guardInboundGroupReplay kind g d u t now seen) \<noteq> None"
proof -
  have "\<not> fst (replay_admit key now seen)" by (rule replays.admit_refuses) (use assms in auto)
  with assms(1) show ?thesis by (auto simp: guardInboundGroupReplay_def split: option.split prod.split)
qed

lemma guard_refuses_old:
  assumes "t \<noteq> 0" "t < now - ReplayWindow"
  shows "fst (guardInboundGroupReplay kind g d u t now seen) \<noteq> None"
  using assms by (auto simp: guardInboundGroupReplay_def ValidateReplayOccurredAt_def Let_def split: sum.split)

lemma handle_event_guard_refused:
  assumes "DecodeInboundGroupEvent (ie_Unmarshal env) (ie_ParseTime env) (event_wire msg wire) now = Inr e"
    and "fst (guardInboundGroupReplay ''event'' (e_GroupID e) (wp_SenderDeviceID wire) (e_ID e) (e_OccurredAt e) now (in_ReplaySeen w)) \<noteq> None"
  shows "in_States (handleInboundGroupEvent env now msg wire w) = in_States w \<and>
    in_EventLog (handleInboundGroupEvent env now msg wire w) = in_EventLog w"
  using assms
  by (auto simp: handleInboundGroupEvent_def HandleInboundGroupEvent_def event_service_def guard_def Let_def
      split: option.splits prod.splits)

lemma handle_event_guard_admitted:
  assumes "DecodeInboundGroupEvent (ie_Unmarshal env) (ie_ParseTime env) (event_wire msg wire) now = Inr e"
    and "\<not> ie_Blocked env (e_ActorID e)" "wp_Device wire = None"
    and "fst (guardInboundGroupReplay ''event'' (e_GroupID e) (wp_SenderDeviceID wire) (e_ID e) (e_OccurredAt e) now (in_ReplaySeen w)) = None"
  shows "in_ReplaySeen (handleInboundGroupEvent env now msg wire w) =
    snd (guardInboundGroupReplay ''event'' (e_GroupID e) (wp_SenderDeviceID wire) (e_ID e) (e_OccurredAt e) now (in_ReplaySeen w))"
  using assms
  by (auto simp: handleInboundGroupEvent_def HandleInboundGroupEvent_def event_service_def guard_def blocked_by_def admit_event_replay Let_def
      split: option.splits prod.splits)


section \<open>An invited member can take the group over\<close>


section \<open>Group messages\<close>

lemma HandleInboundGroupMessage_frame:
  "in_States (HandleInboundGroupMessage svc now inp w) = in_States w \<and> in_EventLog (HandleInboundGroupMessage svc now inp w) = in_EventLog w"
  by (auto simp: HandleInboundGroupMessage_def Let_def store_group_message_frame dest!: guard_frame split: option.split prod.split)

lemma HandleInboundGroupMessage_refused:
  assumes "\<not> (\<not> blocked_by (io_IsBlockedSender svc) (mp_SenderID inp) \<and>
      (\<exists>st. lookup (in_States w) (TrimSpace (mp_ConversationID inp)) = Some st \<and>
        snd (ValidateInboundGroupMessageState st (TrimSpace (mp_SenderID inp)) (mp_MembershipVersion inp) (mp_GroupKeyVersion inp)) = None) \<and>
      fst (guard (io_GuardReplay svc) ''message'' (mp_ConversationID inp) (mp_SenderDeviceID inp)
        (if blank (mp_EventID inp) then TrimSpace (mp_MessageID inp) else TrimSpace (mp_EventID inp)) now now w) = None)"
  shows "in_Messages (HandleInboundGroupMessage svc now inp w) = in_Messages w \<and>
    in_NewMessages (HandleInboundGroupMessage svc now inp w) = in_NewMessages w"
proof -
  obtain r w1 where g: "guard (io_GuardReplay svc) ''message'' (mp_ConversationID inp) (mp_SenderDeviceID inp)
        (if blank (mp_EventID inp) then TrimSpace (mp_MessageID inp) else TrimSpace (mp_EventID inp)) now now w = (r, w1)" by fastforce
  then obtain seen where "w1 = w\<lparr>in_ReplaySeen := seen\<rparr>" using guard_frame by blast
  then show ?thesis using assms unfolding HandleInboundGroupMessage_def Let_def g by (auto split: option.split)
qed

lemma message_state_ok:
  "snd (ValidateInboundGroupMessageState st k v key) = None \<longleftrightarrow>
   (\<exists>m. lookup (s_Members st) k = Some m \<and> m_Status m = StatusActive \<and> v = s_Version st \<and> key = expected_key_version st)"
  by (auto simp: ValidateInboundGroupMessageState_def split: option.split)

text \<open>
  A group message reaches the message store or a subscriber only through all the checks: the sender is
  not blocked and is an active member of a known group, the message carries the membership version and the
  key version of the stored group, and the replay guard had not seen it within the window. Whatever
  arrives, the groups and their logs stay as they are.
\<close>

lemma group_message_gate:
  "let w' = handleInboundGroupMessage env now msg wire w;
       replayID = (if blank (wp_EventID wire) then TrimSpace (im_ID msg) else TrimSpace (wp_EventID wire)) in
   in_States w' = in_States w \<and> in_EventLog w' = in_EventLog w \<and>
   (if (\<not> ie_Blocked env (im_SenderID msg)) \<and>
       (\<exists>st m. lookup (in_States w) (TrimSpace (wp_ConversationID wire)) = Some st \<and>
          lookup (s_Members st) (TrimSpace (im_SenderID msg)) = Some m \<and> m_Status m = StatusActive \<and>
          wp_MembershipVersion wire = s_Version st \<and> wp_GroupKeyVersion wire = expected_key_version st) \<and>
       fst (guardInboundGroupReplay ''message'' (wp_ConversationID wire) (wp_SenderDeviceID wire) replayID now now (in_ReplaySeen w)) = None
    then True
    else in_Messages w' = in_Messages w \<and> in_NewMessages w' = in_NewMessages w)"
proof -
  have "in_Messages w' = in_Messages w \<and> in_NewMessages w' = in_NewMessages w"
    if "w' = handleInboundGroupMessage env now msg wire w" "\<not> (\<not> ie_Blocked env (im_SenderID msg) \<and>
        (\<exists>st. lookup (in_States w) (TrimSpace (wp_ConversationID wire)) = Some st \<and>
          snd (ValidateInboundGroupMessageState st (TrimSpace (im_SenderID msg)) (wp_MembershipVersion wire) (wp_GroupKeyVersion wire)) = None) \<and>
        fst (guard True ''message'' (wp_ConversationID wire) (wp_SenderDeviceID wire)
          (if blank (wp_EventID wire) then TrimSpace (im_ID msg) else TrimSpace (wp_EventID wire)) now now w) = None)" for w'
    unfolding that(1) handleInboundGroupMessage_def
    by (rule HandleInboundGroupMessage_refused) (use that(2) in \<open>auto simp: message_service_def message_params_def blocked_by_def\<close>)
  moreover have "fst (guard True kind g d u t now w) = fst (guardInboundGroupReplay kind g d u t now (in_ReplaySeen w))" for kind g d u t
    by (simp add: guard_def split: prod.split)
  ultimately show ?thesis
    using HandleInboundGroupMessage_frame [of "message_service env msg wire" now "message_params msg wire" w]
    unfolding Let_def message_state_ok by (simp add: handleInboundGroupMessage_def)
qed

section \<open>A concrete world\<close>

definition sample_group :: GroupState where
  "sample_group = applied_state (activate_owner ''ann'' 1 (applied_state sample_start (sample_log ! 0))) (sample_log ! 1)"

definition sample_world :: GroupInbound where
  "sample_world = \<lparr>in_States = [(''g1'', sample_group)], in_EventLog = [(''g1'', [sample_log ! 0, sample_log ! 1])], in_ReplaySeen = [],
     in_Messages = NewMessageStore, in_Errors = [], in_Aggregates = [], in_Updated = [], in_NewMessages = []\<rparr>"

definition sample_env :: inbound_env where
  "sample_env = \<lparr>ie_Identity = ''bob'', ie_Blocked = (\<lambda>_. False), ie_Persist = (\<lambda>_ _. None), ie_Write = (\<lambda>_ _. None),
     ie_Decrypted = Inl ErrSessionNotFound, ie_Unmarshal = (\<lambda>_. Inr (zero_details\<lparr>pl_Title := ''New'', pl_OccurredAt := ''5''\<rparr>)),
     ie_ParseTime = (\<lambda>_. Some 5)\<rparr>"

definition from_ann :: InboundPrivateMessage where
  "from_ann = \<lparr>im_ID = ''m1'', im_SenderID = ''ann'', im_Recipient = ''bob'', im_Payload = []\<rparr>"

definition title_wire :: "string \<Rightarrow> 64 word \<Rightarrow> WirePayload" where
  "title_wire i v = zero_wire\<lparr>wp_EventID := i, wp_ConversationID := ''g1'', wp_EventType := ''title_change'',
     wp_MembershipVersion := v, wp_Plain := [1], wp_SenderDeviceID := ''d1''\<rparr>"

definition title_event :: "string \<Rightarrow> 64 word \<Rightarrow> GroupEvent" where
  "title_event i v = \<lparr>e_ID = i, e_GroupID = ''g1'', e_Version = v, e_Type = TitleChange, e_ActorID = ''ann'', e_OccurredAt = 5,
     e_MemberID = [], e_Role = RoleOther [], e_Title = ''New'', e_Description = [], e_Avatar = [], e_KeyVersion = 0\<rparr>"

lemma sample_world_ok: "store_ok (in_States sample_world) (in_EventLog sample_world)"
proof -
  let ?st1 = "applied_state sample_start (sample_log ! 0)"
  have gid: "trimmed ''g1''" by code_simp
  have "group_ok ''g1'' sample_start []"
    unfolding sample_start_def by (rule group_ok_new) (simp_all add: gid)
  moreover have "applicable sample_start (sample_log ! 0)" unfolding applicable_def by code_simp
  ultimately have ok: "group_ok ''g1'' ?st1 ([] @ [sample_log ! 0])" by (rule group_ok_applied)
  have "lookup (s_Members ?st1) ''ann'' \<noteq> None" by code_simp
  then obtain m where "lookup (s_Members ?st1) ''ann'' = Some m" by blast
  then have "group_ok ''g1'' (activate_owner ''ann'' 1 ?st1) ([] @ [sample_log ! 0])" using ok by (intro activate_owner_ok)
  moreover have "applicable (activate_owner ''ann'' 1 ?st1) (sample_log ! 1)" unfolding applicable_def by code_simp
  ultimately have "group_ok ''g1'' sample_group (([] @ [sample_log ! 0]) @ [sample_log ! 1])"
    unfolding sample_group_def by (rule group_ok_applied)
  then show ?thesis by (simp add: store_ok_abs store_wf_def astore_ok_def sample_world_def events_of_def gid)
qed

lemma sample_decode:
  "trimmed i \<Longrightarrow> i \<noteq> [] \<Longrightarrow> v \<noteq> 0 \<Longrightarrow>
   DecodeInboundGroupEvent (ie_Unmarshal sample_env) (ie_ParseTime sample_env) (event_wire from_ann (title_wire i v)) t = Inr (title_event i v)"
proof -
  assume "trimmed i" "i \<noteq> []" "v \<noteq> 0"
  moreover have "TrimSpace ''g1'' = ''g1''" "TrimSpace ''ann'' = ''ann''" "TrimSpace ''5'' = ''5''" "TrimSpace ''New'' = ''New''"
    "TrimSpace [] = []" "ParseGroupEventType ''title_change'' = Inr TitleChange" "ParseGroupMemberRole [] = Inl ErrInvalidGroupMemberRole"
    by code_simp+
  ultimately show ?thesis
    by (simp add: DecodeInboundGroupEvent_def sample_env_def event_wire_def from_ann_def title_wire_def zero_wire_def zero_details_def
        decoded_event_def with_defaults_def title_event_def ValidateGroupEvent_def bindE_def)
qed

definition title_params :: "string \<Rightarrow> 64 word \<Rightarrow> InboundGroupEventParams" where
  "title_params i v = \<lparr>ep_Event = title_event i v, ep_SenderDeviceID = ''d1'', ep_HasDevice = False, ep_DeviceID = []\<rparr>"

lemma sample_handle:
  "trimmed i \<Longrightarrow> i \<noteq> [] \<Longrightarrow> v \<noteq> 0 \<Longrightarrow> handleInboundGroupEvent sample_env t from_ann (title_wire i v) w =
     HandleInboundGroupEvent (event_service sample_env) t (title_params i v) w"
  using sample_decode by (simp add: handleInboundGroupEvent_def title_params_def title_wire_def zero_wire_def)

lemma sample_fields [simp]:
  "in_ReplaySeen sample_world = []" "wp_Device (title_wire i v) = None" "wp_SenderDeviceID (title_wire i v) = ''d1''"
  "ie_Blocked sample_env = (\<lambda>_. False)" "e_OccurredAt (title_event i v) = 5" "e_GroupID (title_event i v) = ''g1''" "e_ID (title_event i v) = i"
  by (simp_all add: sample_world_def title_wire_def zero_wire_def sample_env_def title_event_def)

lemma sample_dispatch: "handle_group_wire sample_env t from_ann (title_wire i v) = handleInboundGroupEvent sample_env t from_ann (title_wire i v)"
  by (simp add: fun_eq_iff handle_group_wire_def title_wire_def)

lemma sample_ids: "trimmed ''e3''" "trimmed ''e4''" "trimmed ''g1''" "trimmed ''bob''"
  by code_simp+


theorem inbound_event_all_or_nothing_witness:
  "let w' = HandleInboundGroupEvent (event_service sample_env) 10 (title_params ''e3'' 3) sample_world
   in in_Updated w' = [title_event ''e3'' 3] \<and> events_of (in_EventLog w') ''g1'' = [sample_log ! 0, sample_log ! 1, title_event ''e3'' 3]"
proof -
  have "in_Updated (HandleInboundGroupEvent (event_service sample_env) 10 (title_params ''e3'' 3) sample_world) = [title_event ''e3'' 3]"
    by code_simp
  then show ?thesis
    using inbound_event_all_or_nothing [OF sample_world_ok, of sample_env 10 "title_params ''e3'' 3"]
    by (auto simp: Let_def sample_world_def title_event_def title_params_def events_of_def)
qed

theorem inbound_never_creates_group_witness:
  "lookup (in_States (handleInboundGroupEvent sample_env 10 from_ann (title_wire ''e4'' 4) sample_world)) ''g2'' = None"
  by (rule inbound_never_creates_group [OF sample_world_ok]) (simp add: sample_world_def)

theorem inbound_events_spare_owners_witness:
  "\<exists>st' t'. lookup (in_States (handleInboundGroupEvent sample_env 10 (from_ann\<lparr>im_SenderID := ''bob''\<rparr>) (title_wire ''e4'' 4) sample_world)) ''g1'' = Some st' \<and>
     lookup (s_Members st') ''ann'' = Some t' \<and> m_Role t' = RoleOwner \<and> m_Status t' = StatusActive"
proof -
  have "lookup (s_Members sample_group) ''ann'' \<noteq> None" by code_simp
  then obtain t where t: "lookup (s_Members sample_group) ''ann'' = Some t" by blast
  have "(case lookup (s_Members sample_group) ''ann'' of Some t \<Rightarrow> IsOwner t \<and> m_Status t = StatusActive | None \<Rightarrow> False)" by code_simp
  then have "IsOwner t" "m_Status t = StatusActive" using t by simp_all
  moreover have "lookup (in_States sample_world) ''g1'' = Some sample_group" by (simp add: sample_world_def)
  ultimately show ?thesis
    using inbound_events_spare_owners [OF sample_world_ok _ t, of "''g1''" "from_ann\<lparr>im_SenderID := ''bob''\<rparr>"] sample_ids by simp
qed

definition seize_event :: GroupEvent where
  "seize_event = (title_event ''e3'' 3)\<lparr>e_Type := MemberAdd, e_ActorID := ''bob'', e_MemberID := ''bob'', e_Role := RoleOwner\<rparr>"


end
