(* ===== verification/Privacy_Service.thy ===== *)
theory Privacy_Service
  imports Inbound_Policy Blocklist
begin

text \<open>
  The privacy service of \<open>internal/domains/privacy/usecase/service.go\<close> over its two stores
  (\<open>settings_store.go\<close>, \<open>blocklist_store.go\<close>). The state is what the service holds in memory; a
  \<open>Persist\<close> method of a store is a function that returns its error. The service mutex makes the blocklist
  operations atomic; the settings operations read under the lock, persist, and write back under
  the lock again, which \<open>write_back\<close> separates from the read. The encrypted settings file is what
  was last written to it, \<open>None\<close> when it does not exist.
\<close>

section \<open>The stores\<close>

record persistedPrivacySettingsState =
  pp_Version :: int
  pp_Settings :: PrivacySettings

definition SettingsStore_Persist ::
    "bool \<Rightarrow> go_error option \<Rightarrow> persistedPrivacySettingsState option \<Rightarrow> PrivacySettings \<Rightarrow>
     go_error option \<times> persistedPrivacySettingsState option" where
  "SettingsStore_Persist configured writeErr file settings =
     (if \<not> configured then (None, file)
      else case writeErr of
             Some err \<Rightarrow> (Some err, file)
           | None \<Rightarrow> (None, Some \<lparr>pp_Version = 1, pp_Settings = NormalizePrivacySettings settings\<rparr>))"

text \<open>
  \<open>reflect.DeepEqual\<close> tells a nil map from an empty one. The overrides are tagged \<open>omitempty\<close>, so a file
  that \<open>Persist\<close> wrote without overrides decodes to a nil map, and the normalised settings hold an
  empty map: the two differ.
\<close>

definition requiresPrivacySettingsMigration :: "PrivacySettings \<Rightarrow> PrivacySettings \<Rightarrow> bool" where
  "requiresPrivacySettingsMigration before after =
     (if ps_ProfileSchemaVersion before < CurrentProfileSchemaVersion then True
      else if ps_NodePolicies before = None then True
      else before \<noteq> after \<or> ps_StorageScopeOverrides before = [])"

definition SettingsStore_Bootstrap ::
    "bool \<Rightarrow> go_error option \<Rightarrow> go_error option \<Rightarrow> persistedPrivacySettingsState option \<Rightarrow>
     (go_error + PrivacySettings) \<times> persistedPrivacySettingsState option" where
  "SettingsStore_Bootstrap configured readErr writeErr file =
     (if \<not> configured then (Inr DefaultPrivacySettings, file)
      else case file of
             None \<Rightarrow>
               (case SettingsStore_Persist configured writeErr file DefaultPrivacySettings of
                  (Some err, file) \<Rightarrow> (Inl err, file)
                | (None, file) \<Rightarrow> (Inr DefaultPrivacySettings, file))
           | Some state \<Rightarrow>
               (case readErr of
                  Some err \<Rightarrow> (Inl err, file)
                | None \<Rightarrow>
                    if pp_Version state \<noteq> 1
                    then (Inl (ErrText ''privacy settings persistence payload is invalid''), file)
                    else
                      let normalized = NormalizePrivacySettings (pp_Settings state) in
                      if requiresPrivacySettingsMigration (pp_Settings state) normalized
                      then (case SettingsStore_Persist configured writeErr file normalized of
                              (Some err, file) \<Rightarrow> (Inl err, file)
                            | (None, file) \<Rightarrow> (Inr normalized, file))
                      else (Inr normalized, file)))"

record persistedBlocklistState =
  pb_Version :: int
  pb_Blocked :: "string list"

definition BlocklistStore_Persist ::
    "bool \<Rightarrow> go_error option \<Rightarrow> persistedBlocklistState option \<Rightarrow> Blocklist \<Rightarrow>
     go_error option \<times> persistedBlocklistState option" where
  "BlocklistStore_Persist configured writeErr file lst =
     (if \<not> configured then (None, file)
      else case writeErr of
             Some err \<Rightarrow> (Some err, file)
           | None \<Rightarrow> (None, Some \<lparr>pb_Version = 1, pb_Blocked = List lst\<rparr>))"

definition BlocklistStore_Bootstrap ::
    "bool \<Rightarrow> go_error option \<Rightarrow> go_error option \<Rightarrow> persistedBlocklistState option \<Rightarrow>
     (go_error + Blocklist) \<times> persistedBlocklistState option" where
  "BlocklistStore_Bootstrap configured readErr writeErr file =
     (if \<not> configured then (NewBlocklist [], file)
      else case file of
             None \<Rightarrow>
               (case NewBlocklist [] of
                  Inl err \<Rightarrow> (Inl err, file)
                | Inr lst \<Rightarrow>
                    (case BlocklistStore_Persist configured writeErr file lst of
                       (Some err, file) \<Rightarrow> (Inl err, file)
                     | (None, file) \<Rightarrow> (Inr lst, file)))
           | Some state \<Rightarrow>
               (case readErr of
                  Some err \<Rightarrow> (Inl err, file)
                | None \<Rightarrow>
                    if pb_Version state \<noteq> 1
                    then (Inl (ErrText ''blocklist persistence payload is invalid''), file)
                    else (NewBlocklist (pb_Blocked state), file)))"

section \<open>The service\<close>

record PrivacyService =
  pv_privacy :: PrivacySettings
  pv_blocklist :: Blocklist
  pv_errors :: "(string \<times> go_error) list"

definition NewPrivacyService :: PrivacyService where
  "NewPrivacyService = \<lparr>pv_privacy = DefaultPrivacySettings, pv_blocklist = [], pv_errors = []\<rparr>"

definition recordError :: "string \<Rightarrow> go_error \<Rightarrow> PrivacyService \<Rightarrow> PrivacyService" where
  "recordError category err s = s\<lparr>pv_errors := pv_errors s @ [(category, err)]\<rparr>"

definition SetState :: "PrivacySettings \<Rightarrow> Blocklist \<Rightarrow> PrivacyService \<Rightarrow> PrivacyService" where
  "SetState settings blocklist s = s\<lparr>pv_privacy := NormalizePrivacySettings settings, pv_blocklist := blocklist\<rparr>"

definition BootstrapPartial ::
    "go_error + PrivacySettings \<Rightarrow> go_error + Blocklist \<Rightarrow> PrivacyService \<Rightarrow>
     (PrivacySettings \<times> Blocklist \<times> go_error option \<times> go_error option) \<times> PrivacyService" where
  "BootstrapPartial bootstrappedSettings bootstrappedList s =
     (let (settings, settingsErr) =
            (case bootstrappedSettings of
               Inr b \<Rightarrow> (NormalizePrivacySettings b, None)
             | Inl err \<Rightarrow> (DefaultPrivacySettings, Some err));
          (lst, blocklistErr) =
            (case bootstrappedList of
               Inr b \<Rightarrow> (b, None)
             | Inl err \<Rightarrow> ((case NewBlocklist [] of Inr e \<Rightarrow> e | Inl _ \<Rightarrow> []), Some err))
      in ((settings, lst, settingsErr, blocklistErr), SetState settings lst s))"

definition PrivacyBootstrap ::
    "go_error + PrivacySettings \<Rightarrow> go_error + Blocklist \<Rightarrow> PrivacyService \<Rightarrow>
     (go_error + (PrivacySettings \<times> Blocklist)) \<times> PrivacyService" where
  "PrivacyBootstrap bootstrappedSettings bootstrappedList s =
     (case BootstrapPartial bootstrappedSettings bootstrappedList s of
        ((settings, lst, settingsErr, blocklistErr), s) \<Rightarrow>
          (case settingsErr of
             Some err \<Rightarrow> (Inl err, s)
           | None \<Rightarrow>
               (case blocklistErr of
                  Some err \<Rightarrow> (Inl err, s)
                | None \<Rightarrow> (Inr (settings, lst), s))))"

definition CurrentMode :: "PrivacyService \<Rightarrow> MessagePrivacyMode" where
  "CurrentMode s = ps_MessagePrivacyMode (pv_privacy s)"

definition IsBlockedSender :: "PrivacyService \<Rightarrow> string \<Rightarrow> bool" where
  "IsBlockedSender s senderID = Contains (pv_blocklist s) senderID"

definition GetPrivacySettings :: "PrivacyService \<Rightarrow> PrivacySettings" where
  "GetPrivacySettings s = NormalizePrivacySettings (pv_privacy s)"

text \<open>The common end of the settings operations: persist, record a failure, write back.\<close>

definition write_back ::
    "(PrivacySettings \<Rightarrow> go_error option) \<Rightarrow> PrivacySettings \<Rightarrow> 'r \<Rightarrow> PrivacyService \<Rightarrow> (go_error + 'r) \<times> PrivacyService" where
  "write_back persist updated result s =
     (case persist updated of
        Some err \<Rightarrow> (Inl err, recordError ''storage'' err s)
      | None \<Rightarrow> (Inr result, s\<lparr>pv_privacy := updated\<rparr>))"

definition with_mode :: "MessagePrivacyMode \<Rightarrow> PrivacySettings \<Rightarrow> PrivacySettings" where
  "with_mode mode current = NormalizePrivacySettings (current\<lparr>ps_MessagePrivacyMode := mode\<rparr>)"

definition UpdatePrivacySettings ::
    "(PrivacySettings \<Rightarrow> go_error option) \<Rightarrow> string \<Rightarrow> PrivacyService \<Rightarrow> (go_error + PrivacySettings) \<times> PrivacyService" where
  "UpdatePrivacySettings persist mode s =
     orFail (ParseMessagePrivacyMode mode) s (\<lambda>parsedMode.
     let updated = with_mode parsedMode (GetPrivacySettings s)
     in write_back persist updated updated s)"

definition GetStoragePolicy :: "PrivacyService \<Rightarrow> StoragePolicy" where
  "GetStoragePolicy s = StoragePolicyFromSettings (GetPrivacySettings s)"

definition with_policy :: "StoragePolicy \<Rightarrow> PrivacySettings \<Rightarrow> PrivacySettings" where
  "with_policy policy current =
     NormalizePrivacySettings (current\<lparr>ps_StorageProtection := sp_StorageProtection policy,
       ps_ContentRetentionMode := sp_ContentRetentionMode policy, ps_MessageTTLSeconds := sp_MessageTTLSeconds policy,
       ps_ImageTTLSeconds := sp_ImageTTLSeconds policy, ps_FileTTLSeconds := sp_FileTTLSeconds policy,
       ps_ImageQuotaMB := sp_ImageQuotaMB policy, ps_FileQuotaMB := sp_FileQuotaMB policy,
       ps_ImageMaxItemSizeMB := sp_ImageMaxItemSizeMB policy, ps_FileMaxItemSizeMB := sp_FileMaxItemSizeMB policy\<rparr>)"

definition UpdateStoragePolicy ::
    "(PrivacySettings \<Rightarrow> go_error option) \<Rightarrow> string \<Rightarrow> string \<Rightarrow> int \<Rightarrow> int \<Rightarrow> int \<Rightarrow> int \<Rightarrow> int \<Rightarrow> int \<Rightarrow> int \<Rightarrow>
     PrivacyService \<Rightarrow> (go_error + StoragePolicy) \<times> PrivacyService" where
  "UpdateStoragePolicy persist storageProtection retention messageTTL imageTTL fileTTL imageQuota fileQuota imageMax fileMax s =
     orFail (ParseStoragePolicy storageProtection retention messageTTL imageTTL fileTTL imageQuota fileQuota imageMax fileMax) s
       (\<lambda>policy.
        let updated = with_policy policy (GetPrivacySettings s)
        in write_back persist updated (StoragePolicyFromSettings updated) s)"

definition SetStorageScopeOverride ::
    "(PrivacySettings \<Rightarrow> go_error option) \<Rightarrow> string \<Rightarrow> string \<Rightarrow> StoragePolicyOverride \<Rightarrow> PrivacyService \<Rightarrow>
     (go_error + StoragePolicyOverride) \<times> PrivacyService" where
  "SetStorageScopeOverride persist scope scopeID override s =
     orFail (ScopeOverrideKey scope scopeID) s (\<lambda>key.
     let normalized = NormalizeStoragePolicyOverride override;
         current = GetPrivacySettings s;
         current = NormalizePrivacySettings
           (current\<lparr>ps_StorageScopeOverrides := put key normalized (ps_StorageScopeOverrides current)\<rparr>)
     in write_back persist current normalized s)"

definition GetStorageScopeOverride ::
    "string \<Rightarrow> string \<Rightarrow> PrivacyService \<Rightarrow> go_error + (StoragePolicyOverride option)" where
  "GetStorageScopeOverride scope scopeID s =
     bindE (ScopeOverrideKey scope scopeID) (\<lambda>key.
     Inr (lookup (ps_StorageScopeOverrides (GetPrivacySettings s)) key))"

definition RemoveStorageScopeOverride ::
    "(PrivacySettings \<Rightarrow> go_error option) \<Rightarrow> string \<Rightarrow> string \<Rightarrow> PrivacyService \<Rightarrow> (go_error + bool) \<times> PrivacyService" where
  "RemoveStorageScopeOverride persist scope scopeID s =
     orFail (ScopeOverrideKey scope scopeID) s (\<lambda>key.
     let current = GetPrivacySettings s in
     if lookup (ps_StorageScopeOverrides current) key = None then (Inr False, s)
     else
       let current = NormalizePrivacySettings
             (current\<lparr>ps_StorageScopeOverrides := del key (ps_StorageScopeOverrides current)\<rparr>)
       in write_back persist current True s)"

definition ResolveStoragePolicy :: "string \<Rightarrow> string \<Rightarrow> bool \<Rightarrow> PrivacyService \<Rightarrow> go_error + StoragePolicy" where
  "ResolveStoragePolicy scope scopeID isPinned s =
     ResolveStoragePolicyForScope (GetPrivacySettings s) scope scopeID isPinned"

definition GetNodePolicies :: "PrivacyService \<Rightarrow> NodePolicies" where
  "GetNodePolicies s =
     (case ps_NodePolicies (NormalizePrivacySettings (GetPrivacySettings s)) of
        None \<Rightarrow> DefaultNodePolicies
      | Some p \<Rightarrow> p)"

definition UpdateNodePolicies ::
    "(PrivacySettings \<Rightarrow> go_error option) \<Rightarrow> NodePolicies \<Rightarrow> PrivacyService \<Rightarrow> (go_error + NodePolicies) \<times> PrivacyService" where
  "UpdateNodePolicies persist policies s =
     (let normalized = ps_NodePolicies (NormalizePrivacySettings (zero_settings\<lparr>ps_NodePolicies := Some policies\<rparr>));
          updated = NormalizePrivacySettings ((GetPrivacySettings s)\<lparr>ps_NodePolicies := normalized\<rparr>);
          result = (case ps_NodePolicies updated of None \<Rightarrow> DefaultNodePolicies | Some p \<Rightarrow> p)
      in write_back persist updated result s)"

definition updateBlocklist ::
    "(Blocklist \<Rightarrow> go_error option) \<Rightarrow> (Blocklist \<Rightarrow> go_error + Blocklist) \<Rightarrow> PrivacyService \<Rightarrow>
     (go_error + string list) \<times> PrivacyService" where
  "updateBlocklist persist mutate s =
     orFail (NewBlocklist (List (pv_blocklist s))) s (\<lambda>next.
     orFail (mutate next) s (\<lambda>next.
     case persist next of
       Some err \<Rightarrow> (Inl err, recordError ''storage'' err s)
     | None \<Rightarrow> (Inr (List next), s\<lparr>pv_blocklist := next\<rparr>)))"

definition AddToBlocklist ::
    "(Blocklist \<Rightarrow> go_error option) \<Rightarrow> string \<Rightarrow> PrivacyService \<Rightarrow> (go_error + string list) \<times> PrivacyService" where
  "AddToBlocklist persist identityID s = updateBlocklist persist (Add identityID) s"

definition RemoveFromBlocklist ::
    "(Blocklist \<Rightarrow> go_error option) \<Rightarrow> string \<Rightarrow> PrivacyService \<Rightarrow> (go_error + string list) \<times> PrivacyService" where
  "RemoveFromBlocklist persist identityID s = updateBlocklist persist (Remove identityID) s"

definition WipeState :: "go_error option \<Rightarrow> go_error option \<Rightarrow> PrivacyService \<Rightarrow> go_error option \<times> PrivacyService" where
  "WipeState wipeSettingsErr wipeBlocklistErr s =
     (let wipeErr =
            (case (wipeSettingsErr, wipeBlocklistErr) of
               (None, None) \<Rightarrow> None
             | (Some e, None) \<Rightarrow> Some e
             | (None, Some e) \<Rightarrow> Some e
             | (Some e, Some f) \<Rightarrow> Some (ErrJoin e f))
      in case NewBlocklist [] of
           Inl err \<Rightarrow> (Some (case wipeErr of None \<Rightarrow> err | Some w \<Rightarrow> ErrJoin w err), s)
         | Inr lst \<Rightarrow> (wipeErr, s\<lparr>pv_privacy := DefaultPrivacySettings, pv_blocklist := lst\<rparr>))"

section \<open>Requests\<close>

datatype privacy_request =
    SetMode string
  | SetPolicy string string int int int int int int int
  | SetOverride string string StoragePolicyOverride
  | RemoveOverride string string
  | SetNodePolicies NodePolicies
  | Block string
  | Unblock string

definition err_of :: "go_error + 'r \<Rightarrow> go_error option" where
  "err_of r = (case r of Inl err \<Rightarrow> Some err | Inr _ \<Rightarrow> None)"

fun handle_privacy ::
    "(PrivacySettings \<Rightarrow> go_error option) \<Rightarrow> (Blocklist \<Rightarrow> go_error option) \<Rightarrow> privacy_request \<Rightarrow> PrivacyService \<Rightarrow>
     go_error option \<times> PrivacyService" where
  "handle_privacy ps pb (SetMode mode) s = apfst err_of (UpdatePrivacySettings ps mode s)"
| "handle_privacy ps pb (SetPolicy prot ret mt it ft iq fq im fm) s =
     apfst err_of (UpdateStoragePolicy ps prot ret mt it ft iq fq im fm s)"
| "handle_privacy ps pb (SetOverride scope scopeID ov) s = apfst err_of (SetStorageScopeOverride ps scope scopeID ov s)"
| "handle_privacy ps pb (RemoveOverride scope scopeID) s = apfst err_of (RemoveStorageScopeOverride ps scope scopeID s)"
| "handle_privacy ps pb (SetNodePolicies p) s = apfst err_of (UpdateNodePolicies ps p s)"
| "handle_privacy ps pb (Block x) s = apfst err_of (AddToBlocklist pb x s)"
| "handle_privacy ps pb (Unblock x) s = apfst err_of (RemoveFromBlocklist pb x s)"

definition privacy_ok :: "PrivacyService \<Rightarrow> bool" where
  "privacy_ok s \<longleftrightarrow> NormalizePrivacySettings (pv_privacy s) = pv_privacy s \<and> blocklist_ok (pv_blocklist s)"

lemma privacy_okD:
  "privacy_ok s \<Longrightarrow> settings_ok (pv_privacy s)" "privacy_ok s \<Longrightarrow> blocklist_ok (pv_blocklist s)"
  using normalized_settings_ok [of "pv_privacy s"] by (simp_all add: privacy_ok_def)

text \<open>\<open>kept s r s'\<close>: the invariant holds after the call, and a call that fails changes no setting.\<close>

definition kept :: "PrivacyService \<Rightarrow> go_error option \<Rightarrow> PrivacyService \<Rightarrow> bool" where
  "kept s r s' \<longleftrightarrow> privacy_ok s' \<and> (r \<noteq> None \<longrightarrow> pv_privacy s' = pv_privacy s \<and> pv_blocklist s' = pv_blocklist s)"

lemma write_back_kept:
  assumes "privacy_ok s" "NormalizePrivacySettings updated = updated"
  shows "kept s (err_of (fst (write_back ps updated r s))) (snd (write_back ps updated r s))"
  using assms by (auto simp: write_back_def kept_def privacy_ok_def recordError_def err_of_def split: option.splits)

lemma kept_same: "privacy_ok s \<Longrightarrow> kept s r s"
  by (simp add: kept_def)

lemma blocklist_ok_Add: "blocklist_ok b \<Longrightarrow> Add x b = Inr b' \<Longrightarrow> blocklist_ok b'"
  by (auto simp: Add_def bindE_eq_Inr NormalizeIdentityID_idem)

lemma blocklist_ok_Remove: "blocklist_ok b \<Longrightarrow> Remove x b = Inr b' \<Longrightarrow> blocklist_ok b'"
  by (auto simp: Remove_def bindE_eq_Inr blocklist_ok_def set_del)

lemma updateBlocklist_kept:
  assumes "privacy_ok s" "\<And>b b'. blocklist_ok b \<Longrightarrow> mutate b = Inr b' \<Longrightarrow> blocklist_ok b'"
  shows "kept s (err_of (fst (updateBlocklist pb mutate s))) (snd (updateBlocklist pb mutate s))"
proof -
  obtain b where b: "NewBlocklist (List (pv_blocklist s)) = Inr b" "blocklist_ok b"
    using NewBlocklist_List [of "pv_blocklist s"] assms(1) by (auto simp: privacy_ok_def)
  with assms show ?thesis
    by (cases "mutate b") (auto simp: updateBlocklist_def kept_def privacy_ok_def recordError_def err_of_def
        split: option.splits)
qed

lemma handle_privacy_kept:
  assumes "privacy_ok s"
  shows "kept s (fst (handle_privacy ps pb req s)) (snd (handle_privacy ps pb req s))"
proof (cases req)
  case (Block x)
  with assms show ?thesis by (simp add: AddToBlocklist_def updateBlocklist_kept blocklist_ok_Add)
next
  case (Unblock x)
  with assms show ?thesis by (simp add: RemoveFromBlocklist_def updateBlocklist_kept blocklist_ok_Remove)
qed (use assms in \<open>auto simp: UpdatePrivacySettings_def UpdateStoragePolicy_def SetStorageScopeOverride_def
       RemoveStorageScopeOverride_def UpdateNodePolicies_def with_mode_def with_policy_def Let_def
       orFail_def kept_same write_back_kept split: sum.split\<close>)

definition run_privacy ::
    "(PrivacySettings \<Rightarrow> go_error option) \<Rightarrow> (Blocklist \<Rightarrow> go_error option) \<Rightarrow> privacy_request list \<Rightarrow> PrivacyService" where
  "run_privacy ps pb reqs = foldl (\<lambda>s req. snd (handle_privacy ps pb req s)) NewPrivacyService reqs"

lemma privacy_ok_new: "privacy_ok NewPrivacyService"
  by (simp add: privacy_ok_def NewPrivacyService_def DefaultPrivacySettings_def zero_settings_def NormalizePrivacySettings_def
      normalize_with_def limit_defs Let_def normalizeStorageScopeOverrides_def normalizeNodePolicies_def DefaultNodePolicies_def)

lemma run_privacy_ok: "privacy_ok (run_privacy ps pb reqs)"
  unfolding run_privacy_def
  by (induction reqs rule: rev_induct) (use privacy_ok_new handle_privacy_kept in \<open>auto simp: kept_def\<close>)

lemma updateBlocklist_Inr:
  assumes "privacy_ok s" "updateBlocklist pb mutate s = (Inr l, s')"
  shows "\<exists>b. blocklist_ok b \<and> (\<forall>y. Contains b y \<longleftrightarrow> IsBlockedSender s y) \<and> mutate b = Inr (pv_blocklist s') \<and> l = List (pv_blocklist s')"
proof -
  obtain b where b: "NewBlocklist (List (pv_blocklist s)) = Inr b" "blocklist_ok b" "fst ` set b = fst ` set (pv_blocklist s)"
    using NewBlocklist_List [of "pv_blocklist s"] assms(1) by (auto simp: privacy_ok_def)
  then have "\<forall>y. Contains b y \<longleftrightarrow> IsBlockedSender s y" by (simp only: IsBlockedSender_def Contains_keys) simp
  with b assms(2) show ?thesis
    by (auto simp: updateBlocklist_def split: orFail_splits option.splits)
qed

lemma put_overrides_lookup:
  assumes "NormalizePrivacySettings s = s" "NormalizeStoragePolicyOverride v = v"
  shows "lookup (ps_StorageScopeOverrides (NormalizePrivacySettings
      (s\<lparr>ps_StorageScopeOverrides := put key v (ps_StorageScopeOverrides s)\<rparr>))) key =
    (if key \<noteq> [] \<and> TrimSpace (ToLower key) = key then Some v else None)"
proof (cases "key \<noteq> [] \<and> TrimSpace (ToLower key) = key")
  case True
  let ?m = "ps_StorageScopeOverrides s"
  have "?m = normalizeStorageScopeOverrides ?m" using arg_cong [OF assms(1), of ps_StorageScopeOverrides] by (simp add: normalized_fields(1))
  then have m: "\<forall>e \<in> set ?m. override_entry_ok e" "keys_distinct ?m" using normalized_overrides [of ?m] by simp_all
  with True assms(2) have "\<forall>e \<in> set (put key v ?m). override_entry_ok e"
    using set_put_subset [of key v ?m] by (auto simp: override_entry_ok_def)
  with m have "normalizeStorageScopeOverrides (put key v ?m) = put key v ?m"
    using overrides_loop_id [of "put key v ?m" "[]"] by (simp add: normalizeStorageScopeOverrides_def)
  with True show ?thesis by (simp add: normalized_fields(1))
next
  case False
  then have "\<not> override_entry_ok (key, w)" for w by (auto simp: override_entry_ok_def)
  then have "lookup (normalizeStorageScopeOverrides m) key = None" for m
    using normalized_overrides(2) [of m]
    by (cases "lookup (normalizeStorageScopeOverrides m) key") (auto dest!: map_of_SomeD)
  with False show ?thesis by (auto simp: normalized_fields(1))
qed

lemma SetScope_Get:
  assumes ok: "privacy_ok s" and key: "ScopeOverrideKey scope scopeID = Inr key"
    and set: "SetStorageScopeOverride ps scope scopeID ov s = (Inr v, s')"
  shows "GetStorageScopeOverride scope scopeID s' = Inr (if key \<noteq> [] \<and> TrimSpace (ToLower key) = key then Some v else None)"
proof -
  let ?c = "pv_privacy s"
  have c: "NormalizePrivacySettings ?c = ?c" using ok by (simp add: privacy_ok_def)
  have v: "v = NormalizeStoragePolicyOverride ov"
    "pv_privacy s' = NormalizePrivacySettings (?c\<lparr>ps_StorageScopeOverrides := put key v (ps_StorageScopeOverrides ?c)\<rparr>)"
    using set key c by (auto simp: SetStorageScopeOverride_def GetPrivacySettings_def write_back_def Let_def split: option.splits)
  have "lookup (ps_StorageScopeOverrides (pv_privacy s')) key = (if key \<noteq> [] \<and> TrimSpace (ToLower key) = key then Some v else None)"
    unfolding v(2) by (rule put_overrides_lookup [OF c]) (simp add: v(1))
  moreover have "GetPrivacySettings s' = pv_privacy s'" by (simp add: GetPrivacySettings_def v(2))
  ultimately show ?thesis using key by (simp add: GetStorageScopeOverride_def)
qed

text \<open>
  After any sequence of settings and blocklist requests the settings in memory are well-formed and the
  blocklist holds normalised identifiers only; the next request keeps that, and if it fails, in parsing or in
  storage, it leaves both the settings and the blocklist exactly as they were.
\<close>

lemma privacy_requests_atomic:
  "let s = run_privacy ps pb reqs; (r, s') = handle_privacy ps pb req s
   in settings_ok (pv_privacy s) \<and> settings_ok (pv_privacy s') \<and> blocklist_ok (pv_blocklist s') \<and>
      (if r = None then True else pv_privacy s' = pv_privacy s \<and> pv_blocklist s' = pv_blocklist s)"
  using run_privacy_ok [of ps pb reqs] handle_privacy_kept [OF run_privacy_ok [of ps pb reqs], of ps pb req]
  by (auto simp: kept_def privacy_okD Let_def split: prod.split)

text \<open>
  A sender that was added to the blocklist is rejected from then on, whatever the contact list and the
  privacy mode say; every other sender is judged as before, and the identifier appears in the returned list.
\<close>

lemma block_takes_effect:
  assumes "privacy_ok s" and "AddToBlocklist pb x s = (Inr l, s')"
  shows "(\<forall>y. IsBlockedSender s' y \<longleftrightarrow> NormalizeIdentityID y = NormalizeIdentityID x \<or> IsBlockedSender s y) \<and>
    TrimSpace x \<in> set l \<and>
    de_Action (EvaluateInboundMessagePolicy
      \<lparr>in_IsKnownContact = known, in_IsBlocked = IsBlockedSender s' x, in_PrivacyMode = mode\<rparr>) = MessageReject"
proof -
  obtain b where b: "\<forall>y. Contains b y \<longleftrightarrow> IsBlockedSender s y" "Add x b = Inr (pv_blocklist s')" "l = List (pv_blocklist s')"
    using updateBlocklist_Inr [OF assms(1) assms(2) [unfolded AddToBlocklist_def]] by blast
  have all: "\<forall>y. IsBlockedSender s' y \<longleftrightarrow> NormalizeIdentityID y = NormalizeIdentityID x \<or> IsBlockedSender s y"
    using blocked.has_insert [OF b(2)] b(1) by (simp add: IsBlockedSender_def)
  moreover have "TrimSpace x \<in> set l"
    using b(2,3) dom_update [of "TrimSpace x" "()" b]
    by (auto simp: Add_def bindE_eq_Inr NormalizeIdentityID_Inr List_def)
  ultimately show ?thesis by (simp add: message_decision)
qed

definition alice :: string where "alice = ''aim1alice0001''"

lemma alice_id [simp]: "NormalizeIdentityID alice = Inr alice"
  by code_simp

lemma block_takes_effect_witness:
  "let (r, s') = AddToBlocklist (\<lambda>_. None) alice NewPrivacyService
   in r = Inr [alice] \<and> IsBlockedSender s' alice"
proof -
  have "AddToBlocklist (\<lambda>_. None) alice NewPrivacyService =
      (Inr [alice], NewPrivacyService\<lparr>pv_blocklist := [(alice, ())]\<rparr>)"
    by (simp add: AddToBlocklist_def updateBlocklist_def NewPrivacyService_def NewBlocklist_def List_def Add_def)
  with block_takes_effect [OF privacy_ok_new this] show ?thesis by simp
qed

text \<open>
  An override set for a scope is the one read back, for every scope key that is its own lower-case
  form. For every other key (a scope identifier with an upper-case letter) the call reports success and
  the override is not there afterwards: it is stored under the lower-case key, which no lookup uses.
\<close>

lemma scope_override_read_back:
  assumes "privacy_ok s" and "ScopeOverrideKey scope scopeID = Inr key"
    and "SetStorageScopeOverride ps scope scopeID ov s = (Inr v, s')"
  shows "GetStorageScopeOverride scope scopeID s' = Inr (if key \<noteq> [] \<and> TrimSpace (ToLower key) = key then Some v else None)"
  using assms by (rule SetScope_Get)

definition sample_override :: StoragePolicyOverride where
  "sample_override =
     \<lparr>sp_StorageProtection = Protected, sp_ContentRetentionMode = Ephemeral, sp_MessageTTLSeconds = 60,
      sp_ImageTTLSeconds = 0, sp_FileTTLSeconds = 0, sp_ImageQuotaMB = 5, sp_FileQuotaMB = 5,
      sp_ImageMaxItemSizeMB = 1, sp_FileMaxItemSizeMB = 1, so_InfiniteTTL = False, so_PinRequiredForInfinite = False\<rparr>"

lemma set_override_result:
  "ScopeOverrideKey scope scopeID = Inr key \<Longrightarrow>
   \<exists>s'. SetStorageScopeOverride (\<lambda>_. None) scope scopeID ov s = (Inr (NormalizeStoragePolicyOverride ov), s')"
  by (simp add: SetStorageScopeOverride_def write_back_def Let_def)

lemma scope_override_read_back_witness:
  "(\<exists>v s'. SetStorageScopeOverride (\<lambda>_. None) ''group'' ''team'' sample_override NewPrivacyService = (Inr v, s') \<and>
      GetStorageScopeOverride ''group'' ''team'' s' = Inr (Some v)) \<and>
   (\<exists>v s'. SetStorageScopeOverride (\<lambda>_. None) ''group'' ''Team'' sample_override NewPrivacyService = (Inr v, s') \<and>
      GetStorageScopeOverride ''group'' ''Team'' s' = Inr None)"
proof -
  have k: "ScopeOverrideKey ''group'' ''team'' = Inr ''group:team''" "ScopeOverrideKey ''group'' ''Team'' = Inr ''group:Team''"
    "TrimSpace (ToLower ''group:team'') = ''group:team''" "TrimSpace (ToLower ''group:Team'') \<noteq> ''group:Team''"
    by code_simp+
  obtain s1 s2 where s: "SetStorageScopeOverride (\<lambda>_. None) ''group'' ''team'' sample_override NewPrivacyService =
      (Inr (NormalizeStoragePolicyOverride sample_override), s1)"
    "SetStorageScopeOverride (\<lambda>_. None) ''group'' ''Team'' sample_override NewPrivacyService =
      (Inr (NormalizeStoragePolicyOverride sample_override), s2)"
    using set_override_result k(1,2) by meson
  from scope_override_read_back [OF privacy_ok_new k(1) s(1)] scope_override_read_back [OF privacy_ok_new k(2) s(2)] s k(3,4)
  show ?thesis by auto
qed

text \<open>
  The settings operations are not atomic: each reads the current settings, and writes back a whole
  settings value later. When a change of the storage policy reads before and writes after a change of
  the privacy mode, both calls succeed and the mode is what it was before.
\<close>

lemma concurrent_updates_lose_mode:
  assumes "privacy_ok s"
  shows "let modeWrite = write_back (\<lambda>_. None) (with_mode mode (GetPrivacySettings s)) () s;
             policyWrite = write_back (\<lambda>_. None) (with_policy policy (GetPrivacySettings s)) () (snd modeWrite)
         in fst modeWrite = Inr () \<and> fst policyWrite = Inr () \<and> CurrentMode (snd policyWrite) = CurrentMode s"
proof -
  have "ps_MessagePrivacyMode (with_policy policy (pv_privacy s)) = ps_MessagePrivacyMode (pv_privacy s)"
    using privacy_okD [OF assms]
    by (simp add: with_policy_def NormalizePrivacySettings_def normalize_with_def settings_ok_def Let_def)
  moreover have "GetPrivacySettings s = pv_privacy s" using assms by (simp add: GetPrivacySettings_def privacy_ok_def)
  ultimately show ?thesis by (simp add: write_back_def CurrentMode_def Let_def)
qed

lemma concurrent_updates_lose_mode_witness:
  "let modeWrite = write_back (\<lambda>_. None) (with_mode ContactsOnly (GetPrivacySettings NewPrivacyService)) () NewPrivacyService;
       policyWrite = write_back (\<lambda>_. None) (with_policy (StoragePolicyFromSettings DefaultPrivacySettings)
         (GetPrivacySettings NewPrivacyService)) () (snd modeWrite)
   in CurrentMode (snd policyWrite) = Everyone"
  using concurrent_updates_lose_mode [OF privacy_ok_new, of ContactsOnly "StoragePolicyFromSettings DefaultPrivacySettings"]
  by (simp add: Let_def CurrentMode_def NewPrivacyService_def DefaultPrivacySettings_def)

text \<open>
  Settings that were written are read back as they were normalised, from a file with no error; a
  corrupt version is refused. Reading a file without scope overrides writes it again, so it fails
  when the storage cannot be written.
\<close>

lemma settings_store_round_trip:
  "snd (SettingsStore_Persist True None file settings) =
     Some \<lparr>pp_Version = 1, pp_Settings = NormalizePrivacySettings settings\<rparr> \<and>
   SettingsStore_Bootstrap True None None (snd (SettingsStore_Persist True None file settings)) =
     (Inr (NormalizePrivacySettings settings), snd (SettingsStore_Persist True None file settings)) \<and>
   (if ps_StorageScopeOverrides (NormalizePrivacySettings settings) = []
    then fst (SettingsStore_Bootstrap True None (Some err) (snd (SettingsStore_Persist True None file settings))) = Inl err
    else True)"
  by (simp add: SettingsStore_Persist_def SettingsStore_Bootstrap_def requiresPrivacySettingsMigration_def Let_def
      split: option.split)

end
