(* ===== verification/Crypto_Session.thy ===== *)
theory Crypto_Session
  imports Messaging_Wire
begin

text \<open>
  The end-to-end sessions of \<open>internal/crypto/session.go\<close> and their stores of \<open>session_store.go\<close>.
  \<^item> HKDF, SHA-256, XChaCha20-Poly1305 and X25519 are the parameters of \<open>crypto_lib\<close>; \<open>crypto_ok\<close> states
    what their documentation promises.
  \<^item> A store is in memory or a file. The file content is the map that was last written; reading, decrypting
    and parsing it is one step that may fail, so is writing it.
  \<^item> A store that keeps the sessions in memory hands out states that share their map of skipped keys with the
    stored session. \<open>share_skipped\<close> is the effect of the writes of \<open>Decrypt\<close> through that map.
  \<^item> \<open>time.Now\<close> and the random nonce are arguments.
\<close>

section \<open>Library functions\<close>

record crypto_lib =
  cl_hkdf :: "bytes \<Rightarrow> bytes \<Rightarrow> bytes"
  cl_sha256 :: "bytes \<Rightarrow> bytes"
  cl_newX :: "bytes \<Rightarrow> go_error option"
  cl_seal :: "bytes \<Rightarrow> bytes \<Rightarrow> bytes \<Rightarrow> bytes \<Rightarrow> bytes"
  cl_open :: "bytes \<Rightarrow> bytes \<Rightarrow> bytes \<Rightarrow> bytes \<Rightarrow> bytes option"
  cl_x25519 :: "bytes \<Rightarrow> bytes \<Rightarrow> go_error + bytes"

text \<open>
  \<open>NewX\<close> takes the 32-byte keys that \<open>kdf32\<close> reads, sealing never gives the empty text, and opening with the
  key, nonce and additional data of the seal gives the plain text back.
\<close>

definition crypto_ok :: "crypto_lib \<Rightarrow> bool" where
  "crypto_ok L \<longleftrightarrow>
     (\<forall>x i. length (cl_hkdf L x i) = 32) \<and> (\<forall>k. length k = 32 \<longrightarrow> cl_newX L k = None) \<and>
     (\<forall>k n p a. cl_seal L k n p a \<noteq> [] \<and> cl_open L k n (cl_seal L k n p a) a = Some p)"

definition be64 :: "64 word \<Rightarrow> bytes" where
  "be64 w = map (\<lambda>k. ucast (drop_bit k w)) [56, 48, 40, 32, 24, 16, 8, 0]"

section \<open>Key derivation\<close>

definition kdf32 :: "crypto_lib \<Rightarrow> bytes \<Rightarrow> bytes \<Rightarrow> bytes" where
  "kdf32 L input info = cl_hkdf L input info"

definition appendUint64Suffix :: "bytes \<Rightarrow> 64 word \<Rightarrow> bytes" where
  "appendUint64Suffix base idx = base @ be64 idx"

definition normalizeIDs :: "string \<Rightarrow> string \<Rightarrow> string \<times> string" where
  "normalizeIDs a b = (if a \<le> b then (a, b) else (b, a))"

definition buildSessionID :: "crypto_lib \<Rightarrow> string \<Rightarrow> string \<Rightarrow> bytes \<Rightarrow> string" where
  "buildSessionID L localIdentityID contactID peerPublicKey =
     (case normalizeIDs localIdentityID contactID of (idA, idB) \<Rightarrow>
        let h = cl_sha256 L (bytes_of_string (idA @ '':'' @ idB @ '':'') @ peerPublicKey)
        in ''sess1_'' @ EncodeToString (take 16 h))"

definition deriveRootKey :: "crypto_lib \<Rightarrow> string \<Rightarrow> string \<Rightarrow> bytes \<Rightarrow> bytes" where
  "deriveRootKey L localIdentityID contactID peerPublicKey =
     (case normalizeIDs localIdentityID contactID of (idA, idB) \<Rightarrow>
        let salt = bytes_of_string (idA @ '':'' @ idB)
        in kdf32 L peerPublicKey (bytes_of_string ''aim/session/root/v1|'' @ salt))"

definition deriveInitialChainKeys :: "crypto_lib \<Rightarrow> bytes \<Rightarrow> string \<Rightarrow> string \<Rightarrow> bytes \<times> bytes" where
  "deriveInitialChainKeys L rootKey localID contactID =
     (let a2b = kdf32 L rootKey (bytes_of_string ''aim/ratchet/chain/a2b/v1'');
          b2a = kdf32 L rootKey (bytes_of_string ''aim/ratchet/chain/b2a/v1'');
          idA = fst (normalizeIDs localID contactID)
      in if localID = idA then (a2b, b2a) else (b2a, a2b))"

definition deriveMessageKey :: "crypto_lib \<Rightarrow> bytes \<Rightarrow> 64 word \<Rightarrow> bytes \<times> bytes" where
  "deriveMessageKey L chainKey idx =
     (let seed = appendUint64Suffix chainKey idx
      in (kdf32 L seed (bytes_of_string ''aim/ratchet/message-key/v1''), kdf32 L seed (bytes_of_string ''aim/ratchet/chain-key/v1'')))"

definition deriveRatchetPubKey :: "crypto_lib \<Rightarrow> bytes \<Rightarrow> 64 word \<Rightarrow> bytes" where
  "deriveRatchetPubKey L rootKey idx = kdf32 L (appendUint64Suffix rootKey idx) (bytes_of_string ''aim/ratchet/pubkey/v1'')"

definition envelopeAAD :: "string \<Rightarrow> string \<Rightarrow> 64 word \<Rightarrow> bytes" where
  "envelopeAAD sessionID messageID chainIndex =
     bytes_of_string sessionID @ [0] @ bytes_of_string messageID @ [0] @ be64 chainIndex"

section \<open>Seen messages and skipped keys\<close>

abbreviation maxSeenMessageIDs :: nat where "maxSeenMessageIDs \<equiv> 1024"
abbreviation maxSkippedChainGap :: "64 word" where "maxSkippedChainGap \<equiv> 512"
abbreviation maxSkippedMessageKey :: nat where "maxSkippedMessageKey \<equiv> 2048"

type_synonym key_map = "(64 word, bytes) gomap"

definition appendSeen :: "string list \<Rightarrow> string \<Rightarrow> nat \<Rightarrow> string list" where
  "appendSeen l val maxLen =
     (let l = l @ [val] in if length l \<le> maxLen then l else List.drop (length l - maxLen) l)"

fun min_index :: "key_map \<Rightarrow> 64 word" where
  "min_index [] = 0"
| "min_index [(idx, _)] = idx"
| "min_index ((idx, _) # keys) = min idx (min_index keys)"

lemma min_index_mem: "keys \<noteq> [] \<Longrightarrow> min_index keys \<in> fst ` set keys"
  by (induction keys rule: min_index.induct) (auto simp: min_def)

lemma length_del_less: "k \<in> fst ` set keys \<Longrightarrow> length (del k keys) < length keys"
  by (auto simp: AList.delete_eq intro!: length_filter_less)

function drop_oldest :: "nat \<Rightarrow> key_map \<Rightarrow> key_map" where
  "drop_oldest maxLen keys = (if length keys > maxLen then drop_oldest maxLen (del (min_index keys) keys) else keys)"
  by auto

termination drop_oldest
proof (relation "measure (\<lambda>(_, keys). length keys)")
  fix maxLen :: nat and keys :: key_map
  assume "length keys > maxLen"
  then have "keys \<noteq> []" by auto
  from length_del_less [OF min_index_mem [OF this]]
  show "((maxLen, del (min_index keys) keys), maxLen, keys) \<in> measure (\<lambda>(_, keys). length keys)" by simp
qed simp

declare drop_oldest.simps [simp del]

definition pruneSkippedKeys :: "key_map \<Rightarrow> 64 word \<Rightarrow> nat \<Rightarrow> key_map" where
  "pruneSkippedKeys keys recvChainIndex maxLen =
     drop_oldest maxLen (filter (\<lambda>(idx, _). \<not> idx + maxSkippedChainGap < recvChainIndex) keys)"

section \<open>Sessions and their stores\<close>

record SessionState =
  ss_SessionID :: string
  ss_ContactID :: string
  ss_PeerPublicKey :: bytes
  ss_RootKey :: bytes
  ss_SendChainKey :: bytes
  ss_RecvChainKey :: bytes
  ss_SendChainIndex :: "64 word"
  ss_RecvChainIndex :: "64 word"
  ss_SeenMessageIDs :: "string list"
  ss_SkippedKeys :: "key_map option"
  ss_CreatedAt :: gotime
  ss_UpdatedAt :: gotime

text \<open>\<open>None\<close> is the nil map.\<close>

definition skipped :: "SessionState \<Rightarrow> key_map" where
  "skipped state = (case ss_SkippedKeys state of None \<Rightarrow> [] | Some keys \<Rightarrow> keys)"

type_synonym sessions = "(string, SessionState) gomap"

record FileSessionStore =
  fs_persist :: bool
  fs_sessions :: sessions
  fs_file :: "sessions option"

datatype SessionStore = InMemorySessionStore sessions | FileStore FileSessionStore

definition NewInMemorySessionStore :: SessionStore where
  "NewInMemorySessionStore = InMemorySessionStore []"

definition NewFileSessionStore :: "sessions option \<Rightarrow> SessionStore" where
  "NewFileSessionStore file = FileStore \<lparr>fs_persist = True, fs_sessions = [], fs_file = file\<rparr>"

text \<open>
  The outcomes of the file operations during one call of the manager: the read of \<open>Get\<close>, the read of \<open>Save\<close>
  and the write of \<open>Save\<close>.
\<close>

record session_io =
  io_read :: "go_error option"
  io_reread :: "go_error option"
  io_write :: "go_error option"

definition io_fine :: session_io where
  "io_fine = \<lparr>io_read = None, io_reread = None, io_write = None\<rparr>"

definition loadAllLocked :: "go_error option \<Rightarrow> FileSessionStore \<Rightarrow> go_error + sessions" where
  "loadAllLocked failure s =
     (case failure of Some err \<Rightarrow> Inl err
      | None \<Rightarrow> Inr (case fs_file s of None \<Rightarrow> [] | Some all \<Rightarrow> all))"

definition writeAllLocked :: "go_error option \<Rightarrow> sessions \<Rightarrow> FileSessionStore \<Rightarrow> go_error option \<times> FileSessionStore" where
  "writeAllLocked failure all s =
     (case failure of Some err \<Rightarrow> (Some err, s) | None \<Rightarrow> (None, s\<lparr>fs_file := Some all\<rparr>))"

definition file_Save :: "session_io \<Rightarrow> SessionState \<Rightarrow> FileSessionStore \<Rightarrow> go_error option \<times> FileSessionStore" where
  "file_Save io state s =
     (if \<not> fs_persist s then (None, s\<lparr>fs_sessions := put (ss_ContactID state) state (fs_sessions s)\<rparr>)
      else case loadAllLocked (io_reread io) s of
             Inl err \<Rightarrow> (Some err, s)
           | Inr all \<Rightarrow> writeAllLocked (io_write io) (put (ss_ContactID state) state all) s)"

definition file_Get :: "session_io \<Rightarrow> string \<Rightarrow> FileSessionStore \<Rightarrow> go_error + SessionState option" where
  "file_Get io contactID s =
     (if \<not> fs_persist s then Inr (lookup (fs_sessions s) contactID)
      else bindE (loadAllLocked (io_read io) s) (\<lambda>all. Inr (lookup all contactID)))"

definition file_All :: "session_io \<Rightarrow> FileSessionStore \<Rightarrow> go_error + SessionState list" where
  "file_All io s =
     (if \<not> fs_persist s then Inr (map snd (fs_sessions s))
      else bindE (loadAllLocked (io_read io) s) (\<lambda>all. Inr (map snd all)))"

definition file_Wipe :: "go_error option \<Rightarrow> FileSessionStore \<Rightarrow> go_error option \<times> FileSessionStore" where
  "file_Wipe remove s =
     (let s = s\<lparr>fs_sessions := []\<rparr> in
      case remove of Some err \<Rightarrow> (Some err, s) | None \<Rightarrow> (None, s\<lparr>fs_file := None\<rparr>))"

fun Save :: "session_io \<Rightarrow> SessionState \<Rightarrow> SessionStore \<Rightarrow> go_error option \<times> SessionStore" where
  "Save io state (InMemorySessionStore m) = (None, InMemorySessionStore (put (ss_ContactID state) state m))"
| "Save io state (FileStore s) = map_prod (\<lambda>r. r) FileStore (file_Save io state s)"

fun Get :: "session_io \<Rightarrow> string \<Rightarrow> SessionStore \<Rightarrow> go_error + SessionState option" where
  "Get io contactID (InMemorySessionStore m) = Inr (lookup m contactID)"
| "Get io contactID (FileStore s) = file_Get io contactID s"

fun All :: "session_io \<Rightarrow> SessionStore \<Rightarrow> go_error + SessionState list" where
  "All io (InMemorySessionStore m) = Inr (map snd m)"
| "All io (FileStore s) = file_All io s"

fun WipeSessions :: "go_error option \<Rightarrow> SessionStore \<Rightarrow> go_error option \<times> SessionStore" where
  "WipeSessions remove (InMemorySessionStore m) = (None, InMemorySessionStore [])"
| "WipeSessions remove (FileStore s) = map_prod (\<lambda>r. r) FileStore (file_Wipe remove s)"

fun persist_sessions :: "bool \<Rightarrow> SessionStore \<Rightarrow> SessionStore" where
  "persist_sessions enabled (InMemorySessionStore m) = InMemorySessionStore m"
| "persist_sessions enabled (FileStore s) = FileStore (s\<lparr>fs_persist := enabled\<rparr>)"

text \<open>Writes to the map of a state that \<open>Get\<close> returned reach the session in memory, unless the map is nil.\<close>

definition shared :: "string \<Rightarrow> key_map \<Rightarrow> sessions \<Rightarrow> sessions" where
  "shared contactID keys m =
     (case lookup m contactID of
        None \<Rightarrow> m
      | Some state \<Rightarrow>
          if ss_SkippedKeys state = None then m else put contactID (state\<lparr>ss_SkippedKeys := Some keys\<rparr>) m)"

fun share_skipped :: "string \<Rightarrow> key_map \<Rightarrow> SessionStore \<Rightarrow> SessionStore" where
  "share_skipped contactID keys (InMemorySessionStore m) = InMemorySessionStore (shared contactID keys m)"
| "share_skipped contactID keys (FileStore s) =
     FileStore (if fs_persist s then s else s\<lparr>fs_sessions := shared contactID keys (fs_sessions s)\<rparr>)"

section \<open>The session manager\<close>

definition InitSession ::
    "crypto_lib \<Rightarrow> session_io \<Rightarrow> gotime \<Rightarrow> string \<Rightarrow> string \<Rightarrow> bytes \<Rightarrow> SessionStore \<Rightarrow> (go_error + SessionState) \<times> SessionStore" where
  "InitSession L io now localIdentityID contactID peerPublicKey store =
     (if contactID = [] then (Inl ErrInvalidContact, store)
      else if length peerPublicKey \<noteq> 32 then (Inl ErrInvalidPeerKey, store)
      else
        let rootKey = deriveRootKey L localIdentityID contactID peerPublicKey;
            (sendCK, recvCK) = deriveInitialChainKeys L rootKey localIdentityID contactID;
            state = \<lparr>ss_SessionID = buildSessionID L localIdentityID contactID peerPublicKey, ss_ContactID = contactID,
              ss_PeerPublicKey = peerPublicKey, ss_RootKey = rootKey, ss_SendChainKey = sendCK, ss_RecvChainKey = recvCK,
              ss_SendChainIndex = 0, ss_RecvChainIndex = 0, ss_SeenMessageIDs = [], ss_SkippedKeys = Some [],
              ss_CreatedAt = now, ss_UpdatedAt = now\<rparr>
        in case Save io state store of
             (Some err, store) \<Rightarrow> (Inl err, store)
           | (None, store) \<Rightarrow> (Inr state, store))"

primrec RestoreSnapshot :: "(session_io \<times> SessionState) list \<Rightarrow> SessionStore \<Rightarrow> go_error option \<times> SessionStore" where
  "RestoreSnapshot [] store = (None, store)"
| "RestoreSnapshot (x # states) store =
     (case Save (fst x) (snd x) store of
        (Some err, store) \<Rightarrow> (Some err, store)
      | (None, store) \<Rightarrow> RestoreSnapshot states store)"

text \<open>The clock readings and the nonce of one call of \<open>Encrypt\<close>.\<close>

record encrypt_input =
  ei_now :: gotime
  ei_nonce :: "go_error + bytes"
  ei_sentAt :: gotime
  ei_updatedAt :: gotime

definition session_message_id :: "gotime \<Rightarrow> 64 word \<Rightarrow> string" where
  "session_message_id now idx = ''dr_'' @ fmt_int (UnixNano now) @ ''_'' @ fmt_nat (unat idx)"

text \<open>\<open>Encrypt\<close> after the session has been read.\<close>

definition encrypt_state ::
    "crypto_lib \<Rightarrow> session_io \<Rightarrow> encrypt_input \<Rightarrow> bytes \<Rightarrow> SessionState \<Rightarrow> SessionStore \<Rightarrow> (go_error + MessageEnvelope) \<times> SessionStore" where
  "encrypt_state L io inp plaintext state store =
     (let messageID = session_message_id (ei_now inp) (ss_SendChainIndex state);
          (msgKey, nextChainKey) = deriveMessageKey L (ss_SendChainKey state) (ss_SendChainIndex state)
      in orFail (ei_nonce inp) store (\<lambda>nonce.
         case cl_newX L msgKey of
           Some err \<Rightarrow> (Inl err, store)
         | None \<Rightarrow>
             let ad = envelopeAAD (ss_SessionID state) messageID (ss_SendChainIndex state);
                 env = \<lparr>en_Version = 1, en_SessionID = ss_SessionID state, en_MessageID = messageID,
                   en_RatchetPubKey = deriveRatchetPubKey L (ss_RootKey state) (ss_SendChainIndex state),
                   en_ChainIndex = ss_SendChainIndex state, en_PreviousCount = ss_RecvChainIndex state, en_Nonce = nonce,
                   en_Ciphertext = cl_seal L msgKey nonce plaintext ad, en_SentAt = ei_sentAt inp\<rparr>;
                 state = state\<lparr>ss_SendChainIndex := ss_SendChainIndex state + 1, ss_SendChainKey := nextChainKey,
                   ss_UpdatedAt := ei_updatedAt inp\<rparr>
             in case Save io state store of
                  (Some err, store) \<Rightarrow> (Inl err, store)
                | (None, store) \<Rightarrow> (Inr env, store)))"

definition Encrypt ::
    "crypto_lib \<Rightarrow> session_io \<Rightarrow> encrypt_input \<Rightarrow> string \<Rightarrow> bytes \<Rightarrow> SessionStore \<Rightarrow> (go_error + MessageEnvelope) \<times> SessionStore" where
  "Encrypt L io inp contactID plaintext store =
     (case Get io contactID store of
        Inl err \<Rightarrow> (Inl err, store)
      | Inr None \<Rightarrow> (Inl ErrSessionNotFound, store)
      | Inr (Some state) \<Rightarrow> encrypt_state L io inp plaintext state store)"

definition ValidateEnvelope :: "MessageEnvelope \<Rightarrow> go_error option" where
  "ValidateEnvelope env =
     (if en_Version env = 0 then Some (ErrText ''invalid version'')
      else if en_SessionID env = [] \<or> en_MessageID env = [] then Some (ErrText ''missing identifiers'')
      else if en_RatchetPubKey env = [] \<or> length (en_Nonce env) \<noteq> 24 \<or> en_Ciphertext env = []
      then Some (ErrText ''invalid envelope payload'')
      else None)"

text \<open>\<open>NewX\<close> and \<open>Open\<close>; the error of \<open>Open\<close> is its documented one.\<close>

definition open_envelope :: "crypto_lib \<Rightarrow> bytes \<Rightarrow> SessionState \<Rightarrow> MessageEnvelope \<Rightarrow> go_error + bytes" where
  "open_envelope L key state env =
     (case cl_newX L key of
        Some err \<Rightarrow> Inl err
      | None \<Rightarrow>
          (case cl_open L key (en_Nonce env) (en_Ciphertext env)
                  (envelopeAAD (ss_SessionID state) (en_MessageID env) (en_ChainIndex env)) of
             None \<Rightarrow> Inl (ErrText ''chacha20poly1305: message authentication failed'')
           | Some plaintext \<Rightarrow> Inr plaintext))"

definition note_seen :: "MessageEnvelope \<Rightarrow> gotime \<Rightarrow> key_map \<Rightarrow> SessionState \<Rightarrow> SessionState" where
  "note_seen env now keys state =
     state\<lparr>ss_SkippedKeys := Some keys,
       ss_SeenMessageIDs := appendSeen (ss_SeenMessageIDs state) (en_MessageID env) maxSeenMessageIDs, ss_UpdatedAt := now\<rparr>"

lemma unat_succ: "index < target \<Longrightarrow> unat (index + 1) = unat index + 1" for index :: "64 word"
proof -
  assume "index < target"
  moreover have "unat target < 2 ^ 64" using unsigned_less [of target] by simp
  ultimately show ?thesis by (simp add: unat_word_ariths(1) word_less_nat_alt)
qed

lemma word_steps_left: "index < target \<Longrightarrow> unat (target - (index + 1)) < unat (target - index)" for index :: "64 word"
  using inc_le [of index target] by (simp add: unat_sub unat_succ word_less_nat_alt less_imp_le)

function skip_loop :: "crypto_lib \<Rightarrow> 64 word \<Rightarrow> 64 word \<Rightarrow> bytes \<Rightarrow> key_map \<Rightarrow> bytes \<times> key_map" where
  "skip_loop L target index chainKey keys =
     (if index < target
      then (case deriveMessageKey L chainKey index of
              (skippedMsgKey, nextChainKey) \<Rightarrow> skip_loop L target (index + 1) nextChainKey (put index skippedMsgKey keys))
      else (chainKey, keys))"
  by auto

termination skip_loop
proof (relation "measure (\<lambda>(_, target, index, _, _). unat (target - index))")
  fix target index :: "64 word" and L :: crypto_lib and ck keys x y
  assume "index < target"
  then have "unat (target - (index + 1)) < unat (target - index)" by (rule word_steps_left)
  then show "((L, target, index + 1, y, put index x keys), L, target, index, ck, keys) \<in> measure (\<lambda>(_, target, index, _, _). unat (target - index))"
    by simp
qed simp

declare skip_loop.simps [simp del]

text \<open>One pass of the loop, for the statement that the loop ends.\<close>

definition skip_step :: "crypto_lib \<Rightarrow> 64 word \<times> bytes \<times> key_map \<Rightarrow> 64 word \<times> bytes \<times> key_map" where
  "skip_step L = (\<lambda>(index, chainKey, keys).
     case deriveMessageKey L chainKey index of (skippedMsgKey, nextChainKey) \<Rightarrow> (index + 1, nextChainKey, put index skippedMsgKey keys))"

definition decrypt_skipped ::
    "crypto_lib \<Rightarrow> session_io \<Rightarrow> gotime \<Rightarrow> MessageEnvelope \<Rightarrow> SessionState \<Rightarrow> bytes \<Rightarrow> SessionStore \<Rightarrow> (go_error + bytes) \<times> SessionStore" where
  "decrypt_skipped L io now env state skippedKey store =
     orFail (open_envelope L skippedKey state env) store (\<lambda>plaintext.
       case Save io (note_seen env now (del (en_ChainIndex env) (skipped state)) state) store of
         (Some err, store) \<Rightarrow> (Inl err, store)
       | (None, store) \<Rightarrow> (Inr plaintext, store))"

definition decrypt_chain ::
    "crypto_lib \<Rightarrow> session_io \<Rightarrow> gotime \<Rightarrow> string \<Rightarrow> MessageEnvelope \<Rightarrow> SessionState \<Rightarrow> SessionStore \<Rightarrow> (go_error + bytes) \<times> SessionStore" where
  "decrypt_chain L io now contactID env state store =
     (let (chainKey, keys) = skip_loop L (en_ChainIndex env) (ss_RecvChainIndex state) (ss_RecvChainKey state) (skipped state);
          keys = pruneSkippedKeys keys (ss_RecvChainIndex state) maxSkippedMessageKey;
          (msgKey, nextChainKey) = deriveMessageKey L chainKey (en_ChainIndex env);
          store = share_skipped contactID keys store
      in orFail (open_envelope L msgKey state env) store (\<lambda>plaintext.
           let recv = en_ChainIndex env + 1;
               state = (note_seen env now (pruneSkippedKeys keys recv maxSkippedMessageKey) state)
                 \<lparr>ss_RecvChainKey := nextChainKey, ss_RecvChainIndex := recv\<rparr>
           in case Save io state store of
                (Some err, store) \<Rightarrow> (Inl err, store)
              | (None, store) \<Rightarrow> (Inr plaintext, store)))"

definition Decrypt ::
    "crypto_lib \<Rightarrow> session_io \<Rightarrow> gotime \<Rightarrow> string \<Rightarrow> MessageEnvelope \<Rightarrow> SessionStore \<Rightarrow> (go_error + bytes) \<times> SessionStore" where
  "Decrypt L io now contactID env store =
     (case ValidateEnvelope env of
        Some err \<Rightarrow> (Inl err, store)
      | None \<Rightarrow>
          (case Get io contactID store of
             Inl err \<Rightarrow> (Inl err, store)
           | Inr None \<Rightarrow> (Inl ErrSessionNotFound, store)
           | Inr (Some state) \<Rightarrow>
               if en_SessionID env \<noteq> ss_SessionID state then (Inl (ErrText ''session mismatch''), store)
               else if en_MessageID env \<in> set (ss_SeenMessageIDs state) then (Inl ErrReplayDetected, store)
               else (case lookup (skipped state) (en_ChainIndex env) of
                       Some skippedKey \<Rightarrow> decrypt_skipped L io now env state skippedKey store
                     | None \<Rightarrow>
                         if en_ChainIndex env < ss_RecvChainIndex state then (Inl ErrInvalidChainIndex, store)
                         else if en_ChainIndex env - ss_RecvChainIndex state > maxSkippedChainGap
                         then (Inl ErrInvalidChainIndex, store)
                         else decrypt_chain L io now contactID env state store)))"

section \<open>Replay guard and key agreement\<close>

definition replay_Seen :: "string \<Rightarrow> string \<Rightarrow> string list \<Rightarrow> bool \<times> string list" where
  "replay_Seen sessionID messageID seen =
     (let key = sessionID @ '':'' @ messageID
      in if key \<in> set seen then (True, seen) else (False, key # seen))"

record dhPair =
  dh_priv :: bytes
  dh_pub :: bytes

definition combineDHTriplet :: "crypto_lib \<Rightarrow> dhPair \<Rightarrow> dhPair \<Rightarrow> dhPair \<Rightarrow> go_error + bytes" where
  "combineDHTriplet L a b c =
     bindE (cl_x25519 L (dh_priv a) (dh_pub a)) (\<lambda>dh1.
     bindE (cl_x25519 L (dh_priv b) (dh_pub b)) (\<lambda>dh2.
     bindE (cl_x25519 L (dh_priv c) (dh_pub c)) (\<lambda>dh3.
     Inr (dh1 @ dh2 @ dh3))))"

definition baseX3DHMaterial :: "crypto_lib \<Rightarrow> bytes list \<Rightarrow> dhPair \<Rightarrow> dhPair \<Rightarrow> dhPair \<Rightarrow> go_error + bytes" where
  "baseX3DHMaterial L required a b c =
     (if \<exists>key \<in> set required. length key \<noteq> 32 then Inl ErrInvalidPeerKey else combineDHTriplet L a b c)"

definition X3DHInitiatorSharedSecret :: "crypto_lib \<Rightarrow> bytes \<Rightarrow> bytes \<Rightarrow> bytes \<Rightarrow> bytes \<Rightarrow> bytes \<Rightarrow> go_error + bytes" where
  "X3DHInitiatorSharedSecret L ikPriv ekPriv peerIKPub peerSPKPub peerOPKPub =
     bindE (baseX3DHMaterial L [ikPriv, ekPriv, peerIKPub, peerSPKPub]
         \<lparr>dh_priv = ikPriv, dh_pub = peerSPKPub\<rparr> \<lparr>dh_priv = ekPriv, dh_pub = peerIKPub\<rparr> \<lparr>dh_priv = ekPriv, dh_pub = peerSPKPub\<rparr>) (\<lambda>material.
     bindE (if length peerOPKPub = 32 then bindE (cl_x25519 L ekPriv peerOPKPub) (\<lambda>dh4. Inr (material @ dh4)) else Inr material) (\<lambda>material.
     Inr (kdf32 L material (bytes_of_string ''aim/x3dh/v1''))))"

definition X3DHResponderSharedSecret ::
    "crypto_lib \<Rightarrow> bytes \<Rightarrow> bytes \<Rightarrow> bytes \<Rightarrow> bytes \<Rightarrow> bytes \<Rightarrow> bool \<Rightarrow> go_error + bytes" where
  "X3DHResponderSharedSecret L ikPriv spkPriv opkPriv peerIKPub peerEKPub useOPK =
     bindE (baseX3DHMaterial L [ikPriv, spkPriv, peerIKPub, peerEKPub]
         \<lparr>dh_priv = spkPriv, dh_pub = peerIKPub\<rparr> \<lparr>dh_priv = ikPriv, dh_pub = peerEKPub\<rparr> \<lparr>dh_priv = spkPriv, dh_pub = peerEKPub\<rparr>) (\<lambda>material.
     bindE (if useOPK
            then (if length opkPriv \<noteq> 32 then Inl ErrInvalidPeerKey
                  else bindE (cl_x25519 L opkPriv peerEKPub) (\<lambda>dh4. Inr (material @ dh4)))
            else Inr material) (\<lambda>material.
     Inr (kdf32 L material (bytes_of_string ''aim/x3dh/v1''))))"

section \<open>The store as its users see it\<close>

definition session_of :: "SessionStore \<Rightarrow> string \<Rightarrow> SessionState option" where
  "session_of store contactID = (case Get io_fine contactID store of Inr r \<Rightarrow> r | Inl _ \<Rightarrow> None)"

text \<open>What the manager relies on: a read that succeeds is the current session, a save either fails and changes nothing or replaces one session.\<close>

locale session_repository =
  fixes read :: "'io \<Rightarrow> string \<Rightarrow> 'm \<Rightarrow> 'e + 's option"
    and save :: "'io \<Rightarrow> 's \<Rightarrow> 'm \<Rightarrow> 'e option \<times> 'm"
    and current :: "'m \<Rightarrow> string \<Rightarrow> 's option"
    and owner :: "'s \<Rightarrow> string"
  assumes read_current: "read io k m = Inr r \<Longrightarrow> r = current m k"
    and save_failed: "save io s m = (Some e, m') \<Longrightarrow> m' = m"
    and save_done: "save io s m = (None, m') \<Longrightarrow> current m' k = (if k = owner s then Some s else current m k)"
begin

lemma save_cases:
  obtains (failed) e where "save io s m = (Some e, m)"
  | (saved) m' where "save io s m = (None, m')" "current m' = (current m)(owner s \<mapsto> s)"
proof (cases "save io s m")
  case (Pair r m')
  show thesis
  proof (cases r)
    case None
    then have "current m' = (current m)(owner s \<mapsto> s)"
      using save_done [of io s m m'] Pair by (simp add: fun_eq_iff)
    with Pair None saved show thesis by simp
  next
    case (Some e)
    with Pair have "m' = m" using save_failed by simp
    with Pair Some failed show thesis by simp
  qed
qed

lemma save_other: "k \<noteq> owner s \<Longrightarrow> current (snd (save io s m)) k = current m k"
  by (cases rule: save_cases [of io s m]) simp_all

end

lemma session_of_simps [simp]:
  "session_of (InMemorySessionStore m) k = lookup m k"
  "session_of (FileStore s) k =
     (if fs_persist s then (case fs_file s of None \<Rightarrow> None | Some all \<Rightarrow> lookup all k) else lookup (fs_sessions s) k)"
  by (simp_all add: session_of_def file_Get_def loadAllLocked_def io_fine_def split: option.split)

lemma Get_current: "Get io k store = Inr r \<Longrightarrow> r = session_of store k"
  by (cases store) (auto simp: file_Get_def loadAllLocked_def split: if_splits option.splits)

lemma Save_failed: "Save io s store = (Some e, store') \<Longrightarrow> store' = store"
  by (cases store) (auto simp: file_Save_def loadAllLocked_def writeAllLocked_def split: if_splits option.splits sum.splits)

lemma Save_done: "Save io s store = (None, store') \<Longrightarrow> session_of store' k = (if k = ss_ContactID s then Some s else session_of store k)"
  by (cases store) (auto simp: file_Save_def loadAllLocked_def writeAllLocked_def split: if_splits option.splits sum.splits)

interpretation sessions: session_repository Get Save session_of ss_ContactID
  by unfold_locales (fact Get_current Save_failed Save_done)+

lemma Save_fine: "\<exists>store'. Save io_fine s store = (None, store')"
  by (cases store) (auto simp: file_Save_def loadAllLocked_def writeAllLocked_def io_fine_def split: option.split)

lemma Get_fine: "Get io_fine k store = Inr (session_of store k)"
  by (cases store) (auto simp: file_Get_def loadAllLocked_def io_fine_def split: option.split)

end
