(* ===== verification/Session_Guarantees.thy ===== *)
theory Session_Guarantees
  imports Crypto_Session "HOL-Library.While_Combinator"
begin

text \<open>
  What the sessions promise to the two ends of a conversation: messages survive loss and reordering within
  the window of 512 chain steps, a chain index is accepted at most once, and the limits of both. The library
  functions are constrained by \<open>crypto_ok\<close> only.
\<close>

declare map_of_eq_Some_iff [simp del]

section \<open>The key chain\<close>

primrec chain :: "crypto_lib \<Rightarrow> bytes \<Rightarrow> nat \<Rightarrow> bytes" where
  "chain L ck 0 = ck"
| "chain L ck (Suc n) = snd (deriveMessageKey L (chain L ck n) (of_nat n))"

definition msg_key :: "crypto_lib \<Rightarrow> bytes \<Rightarrow> nat \<Rightarrow> bytes" where
  "msg_key L ck n = fst (deriveMessageKey L (chain L ck n) (of_nat n))"

lemma derive_chain: "deriveMessageKey L (chain L ck n) (of_nat n) = (msg_key L ck n, chain L ck (Suc n))"
  by (simp add: msg_key_def prod_eq_iff)

lemma unat_of_nat64 [simp]: "n < 2 ^ 64 \<Longrightarrow> unat (of_nat n :: 64 word) = n"
  by (simp add: unat_of_nat take_bit_eq_mod)

lemma of_nat_less64: "m < 2 ^ 64 \<Longrightarrow> n < 2 ^ 64 \<Longrightarrow> (of_nat m :: 64 word) < of_nat n \<longleftrightarrow> m < n"
  by (simp add: word_less_nat_alt)

lemma of_nat_eq64: "m < 2 ^ 64 \<Longrightarrow> n < 2 ^ 64 \<Longrightarrow> (of_nat m :: 64 word) = of_nat n \<longleftrightarrow> m = n"
  using unat_of_nat64 by metis

lemma unat_less64 [simp]: "unat (w :: 64 word) < 2 ^ 64"
  using unsigned_less [of w] by simp

text \<open>The loop of \<open>Decrypt\<close> walks the chain and leaves the message keys it passes in the map.\<close>

lemma skip_loop_chain:
  assumes "r \<le> t" "t < 2 ^ 64" "keys_distinct keys"
  shows "\<exists>keys'. skip_loop L (of_nat t) (of_nat r) (chain L ck r) keys = (chain L ck t, keys') \<and> keys_distinct keys' \<and>
    (\<forall>w. lookup keys' w = (if r \<le> unat w \<and> unat w < t then Some (msg_key L ck (unat w)) else lookup keys w))"
  using assms
proof (induction "t - r" arbitrary: r keys)
  case 0
  then show ?case by (subst skip_loop.simps) auto
next
  case (Suc n)
  then have r: "r < t" "n = t - Suc r" by simp_all
  then have r64: "r < 2 ^ 64" using Suc.prems by simp
  let ?keys = "put (of_nat r) (msg_key L ck r) keys"
  from Suc.hyps(1) [OF r(2), of ?keys] Suc.prems r
  obtain keys' where keys': "skip_loop L (of_nat t) (of_nat (Suc r)) (chain L ck (Suc r)) ?keys = (chain L ck t, keys')"
    "keys_distinct keys'"
    "\<forall>w. lookup keys' w = (if Suc r \<le> unat w \<and> unat w < t then Some (msg_key L ck (unat w)) else lookup ?keys w)"
    by auto
  have "skip_loop L (of_nat t) (of_nat r) (chain L ck r) keys = (chain L ck t, keys')"
    using keys'(1) r(1) r64 Suc.prems(2)
    by (subst skip_loop.simps) (simp only: of_nat_less64 derive_chain prod.case of_nat_Suc add.commute if_True)
  moreover have "lookup keys' w = (if r \<le> unat w \<and> unat w < t then Some (msg_key L ck (unat w)) else lookup keys w)" for w
    using keys'(3) r(1) r64 by (auto simp: word_unat_eq_iff le_less Suc_le_eq)
  ultimately show ?case using keys'(2) by blast
qed

lemma drop_oldest_id: "length keys \<le> m \<Longrightarrow> drop_oldest m keys = keys"
  by (subst drop_oldest.simps) simp

lemma drop_oldest_length: "length (drop_oldest m keys) \<le> m"
proof (induction m keys rule: drop_oldest.induct)
  case (1 m keys)
  then show ?case by (subst drop_oldest.simps) simp
qed

lemma length_keys_le:
  fixes keys :: key_map
  assumes "keys_distinct keys" "\<forall>w \<in> fst ` set keys. lo \<le> unat w \<and> unat w < lo + n"
  shows "length keys \<le> n"
proof -
  have "length keys = card (fst ` set keys)" using distinct_card [OF assms(1)] by simp
  also have "\<dots> = card (unat ` fst ` set keys)" by (intro card_image [symmetric] inj_onI) (simp add: word_unat_eq_iff)
  also have "\<dots> \<le> card {lo ..< lo + n}"
    using assms(2) by (intro card_mono) auto
  finally show ?thesis by simp
qed

text \<open>Away from the end of the index range, pruning keeps exactly the keys of the window.\<close>

lemma prune_window:
  assumes "keys_distinct keys" "\<forall>w \<in> fst ` set keys. unat w < h" "h \<le> unat r + 512" "h + 512 \<le> 2 ^ 64"
  shows "pruneSkippedKeys keys r maxSkippedMessageKey = filter (\<lambda>(w, _). unat r \<le> unat w + 512) keys"
proof -
  have "\<not> w + maxSkippedChainGap < r \<longleftrightarrow> unat r \<le> unat w + 512" if "(w, v) \<in> set keys" for w v
  proof -
    have "unat (w + 512) = unat w + 512"
      using assms(2,4) that by (force simp: unat_word_ariths(1))
    then show ?thesis by (simp add: word_less_nat_alt not_less)
  qed
  then have eq: "filter (\<lambda>(w, _). \<not> w + maxSkippedChainGap < r) keys = filter (\<lambda>(w, _). unat r \<le> unat w + 512) keys"
    by (intro filter_cong) auto
  have "length (filter (\<lambda>(w, _). unat r \<le> unat w + 512) keys) \<le> 1024"
    using assms by (intro length_keys_le [of _ "unat r - 512"]) (force simp: distinct_map_filter)+
  then show ?thesis by (simp add: pruneSkippedKeys_def eq drop_oldest_id)
qed

section \<open>The receiving end\<close>

text \<open>
  \<open>high D\<close> is the receive index after the indices \<open>D\<close> have been accepted. The state of a receiver of the
  chain \<open>ck\<close> then holds the chain key of that index and exactly the keys of the window that were skipped.
\<close>

definition high :: "nat set \<Rightarrow> nat" where
  "high D = (if D = {} then 0 else Suc (Max D))"

definition receiver :: "crypto_lib \<Rightarrow> bytes \<Rightarrow> (nat \<Rightarrow> string) \<Rightarrow> nat set \<Rightarrow> SessionState \<Rightarrow> bool" where
  "receiver L ck ids D st \<longleftrightarrow>
     ss_RecvChainIndex st = of_nat (high D) \<and> ss_RecvChainKey st = chain L ck (high D) \<and> keys_distinct (skipped st) \<and>
     (\<forall>w. lookup (skipped st) w =
        (if unat w < high D \<and> high D \<le> unat w + 512 \<and> unat w \<notin> D then Some (msg_key L ck (unat w)) else None)) \<and>
     set (ss_SeenMessageIDs st) \<subseteq> ids ` D"

definition genuine :: "crypto_lib \<Rightarrow> bytes \<Rightarrow> string \<Rightarrow> (nat \<Rightarrow> string) \<Rightarrow> nat \<Rightarrow> bytes \<Rightarrow> MessageEnvelope \<Rightarrow> bool" where
  "genuine L ck sid ids i p env \<longleftrightarrow>
     ValidateEnvelope env = None \<and> en_SessionID env = sid \<and> en_MessageID env = ids i \<and> en_ChainIndex env = of_nat i \<and>
     en_Ciphertext env = cl_seal L (msg_key L ck i) (en_Nonce env) p (envelopeAAD sid (ids i) (of_nat i))"

lemma finite_less_high: "finite D \<Longrightarrow> i \<in> D \<Longrightarrow> i < high D"
  by (auto simp: high_def less_Suc_eq_le)

lemma high_insert: "finite D \<Longrightarrow> high (insert i D) = max (Suc i) (high D)"
  by (auto simp: high_def max_def)

lemma set_appendSeen: "set (appendSeen l v m) \<subseteq> insert v (set l)"
  by (auto simp: appendSeen_def Let_def dest: in_set_dropD)

lemma msg_key_length: "crypto_ok L \<Longrightarrow> length (msg_key L ck i) = 32"
  by (simp add: crypto_ok_def msg_key_def deriveMessageKey_def kdf32_def Let_def)

lemma open_genuine:
  "crypto_ok L \<Longrightarrow> genuine L ck sid ids i p env \<Longrightarrow> ss_SessionID st = sid \<Longrightarrow>
   open_envelope L (msg_key L ck i) st env = Inr p"
  using msg_key_length [of L ck i] by (auto simp: open_envelope_def genuine_def crypto_ok_def)

lemma session_of_share: "k \<noteq> c \<Longrightarrow> session_of (share_skipped c keys store) k = session_of store k"
  by (cases store) (auto simp: shared_def split: option.split)

text \<open>What \<open>Decrypt\<close> does with the next genuine envelope inside the window.\<close>

definition accepted :: "crypto_lib \<Rightarrow> bytes \<Rightarrow> (nat \<Rightarrow> string) \<Rightarrow> nat set \<Rightarrow> string \<Rightarrow> string \<Rightarrow> SessionStore \<Rightarrow> bool" where
  "accepted L ck ids D sid k store \<longleftrightarrow>
     (\<exists>st. session_of store k = Some st \<and> ss_SessionID st = sid \<and> ss_ContactID st = k \<and> receiver L ck ids D st)"

lemma decrypt_skipped_genuine:
  assumes "crypto_ok L" "genuine L ck sid ids i p env" "ss_SessionID st = sid" "ss_ContactID st = k" "receiver L ck ids D st"
    and "finite D" "i \<notin> D" "i < high D" "high D < 2 ^ 64"
  shows "\<exists>store'. decrypt_skipped L io_fine now env st (msg_key L ck i) store = (Inr p, store') \<and>
    accepted L ck ids (insert i D) sid k store'"
proof -
  let ?st = "note_seen env now (del (of_nat i) (skipped st)) st"
  obtain store' where s: "Save io_fine ?st store = (None, store')" using Save_fine by blast
  have i: "high (insert i D) = high D" "i < 2 ^ 64" using assms by (simp_all add: high_insert)
  then have "receiver L ck ids (insert i D) ?st"
    using assms(2,5) set_appendSeen [of "ss_SeenMessageIDs st" "ids i" maxSeenMessageIDs]
    by (auto simp: receiver_def note_seen_def skipped_def genuine_def word_unat_eq_iff)
  then have "accepted L ck ids (insert i D) sid k store'"
    using Save_done [OF s, of k] assms(3,4) by (simp add: accepted_def note_seen_def)
  moreover have "en_ChainIndex env = of_nat i" using assms(2) by (simp add: genuine_def)
  ultimately show ?thesis
    using open_genuine [OF assms(1-3)] s by (simp add: decrypt_skipped_def)
qed

lemma lookup_keys: "lookup keys w \<noteq> None \<longleftrightarrow> w \<in> fst ` set keys"
  by (metis map_of_eq_None_iff)

lemma lookup_window:
  "lookup (filter (\<lambda>(w, _). P w) keys) w = (if P w then lookup keys w else None)" for keys :: key_map
  by (induction keys) auto

text \<open>The map after the loop and the two prunings of \<open>Decrypt\<close>.\<close>

lemma skip_and_prune:
  assumes rec: "receiver L ck ids D st" and D: "finite D" "high D \<le> i" "i \<le> high D + 512" "i + 1024 < 2 ^ 64"
  obtains keys where "skip_loop L (of_nat i) (ss_RecvChainIndex st) (ss_RecvChainKey st) (skipped st) = (chain L ck i, keys)"
    "pruneSkippedKeys keys (ss_RecvChainIndex st) maxSkippedMessageKey = keys"
    "keys_distinct (pruneSkippedKeys keys (of_nat i + 1) maxSkippedMessageKey)"
    "\<forall>w. lookup (pruneSkippedKeys keys (of_nat i + 1) maxSkippedMessageKey) w =
      (if unat w < Suc i \<and> Suc i \<le> unat w + 512 \<and> unat w \<notin> insert i D then Some (msg_key L ck (unat w)) else None)"
proof -
  have h: "high D < 2 ^ 64" "i < 2 ^ 64" using D by simp_all
  obtain keys where loop: "skip_loop L (of_nat i) (of_nat (high D)) (chain L ck (high D)) (skipped st) = (chain L ck i, keys)"
    and dist: "keys_distinct keys"
    and look: "\<And>w. lookup keys w = (if high D \<le> unat w \<and> unat w < i then Some (msg_key L ck (unat w)) else lookup (skipped st) w)"
    using skip_loop_chain [OF D(2) h(2), of "skipped st" L ck] rec unfolding receiver_def by blast
  have old: "\<And>w. lookup (skipped st) w = (if unat w < high D \<and> high D \<le> unat w + 512 \<and> unat w \<notin> D then Some (msg_key L ck (unat w)) else None)"
    using rec by (simp add: receiver_def)
  have in_keys: "unat w < i \<and> high D \<le> unat w + 512" if "w \<in> fst ` set keys" for w
    using that D(2) unfolding lookup_keys [symmetric] look old by (auto split: if_splits)
  have u: "unat (of_nat i + 1 :: 64 word) = Suc i" using D(4) by (simp add: unat_word_ariths(1))
  have "filter (\<lambda>(w, _). high D \<le> unat w + 512) keys = keys"
    using in_keys by (intro filter_True) force
  then have p1: "pruneSkippedKeys keys (of_nat (high D)) maxSkippedMessageKey = keys"
    using prune_window [of keys i "of_nat (high D)"] dist in_keys D h by simp
  have p2: "pruneSkippedKeys keys (of_nat i + 1) maxSkippedMessageKey = filter (\<lambda>(w, _). Suc i \<le> unat w + 512) keys"
    using prune_window [of keys i "of_nat i + 1"] dist in_keys D u by simp
  have less: "\<And>j. j \<in> D \<Longrightarrow> j < high D" using D(1) by (rule finite_less_high)
  show thesis
  proof (rule that [of keys])
    show "skip_loop L (of_nat i) (ss_RecvChainIndex st) (ss_RecvChainKey st) (skipped st) = (chain L ck i, keys)"
      "pruneSkippedKeys keys (ss_RecvChainIndex st) maxSkippedMessageKey = keys"
      using loop p1 rec by (simp_all add: receiver_def)
    show "keys_distinct (pruneSkippedKeys keys (of_nat i + 1) maxSkippedMessageKey)"
      unfolding p2 using dist by (rule distinct_map_filter)
    show "\<forall>w. lookup (pruneSkippedKeys keys (of_nat i + 1) maxSkippedMessageKey) w =
      (if unat w < Suc i \<and> Suc i \<le> unat w + 512 \<and> unat w \<notin> insert i D then Some (msg_key L ck (unat w)) else None)"
      unfolding p2 lookup_window look old using less D(2) by fastforce
  qed
qed

lemma decrypt_chain_genuine:
  assumes "crypto_ok L" "genuine L ck sid ids i p env" "ss_SessionID st = sid" "ss_ContactID st = k" "receiver L ck ids D st"
    and "finite D" "high D \<le> i" "i \<le> high D + 512" "i + 1024 < 2 ^ 64"
  shows "\<exists>store'. decrypt_chain L io_fine now k env st store = (Inr p, store') \<and> accepted L ck ids (insert i D) sid k store'"
proof -
  have idx: "en_ChainIndex env = of_nat i" "en_MessageID env = ids i" using assms(2) by (simp_all add: genuine_def)
  from skip_and_prune [OF assms(5-9)] obtain keys where
    keys: "skip_loop L (of_nat i) (ss_RecvChainIndex st) (ss_RecvChainKey st) (skipped st) = (chain L ck i, keys)"
    "pruneSkippedKeys keys (ss_RecvChainIndex st) maxSkippedMessageKey = keys"
    "keys_distinct (pruneSkippedKeys keys (of_nat i + 1) maxSkippedMessageKey)"
    "\<forall>w. lookup (pruneSkippedKeys keys (of_nat i + 1) maxSkippedMessageKey) w =
      (if unat w < Suc i \<and> Suc i \<le> unat w + 512 \<and> unat w \<notin> insert i D then Some (msg_key L ck (unat w)) else None)" .
  let ?st = "(note_seen env now (pruneSkippedKeys keys (of_nat i + 1) maxSkippedMessageKey) st)
    \<lparr>ss_RecvChainKey := chain L ck (Suc i), ss_RecvChainIndex := of_nat i + 1\<rparr>"
  obtain store' where s: "Save io_fine ?st (share_skipped k keys store) = (None, store')" using Save_fine by blast
  have hi: "high (insert i D) = Suc i" using assms(6,7) by (simp add: high_insert)
  have "set (ss_SeenMessageIDs ?st) \<subseteq> ids ` insert i D"
    using assms(5) idx(2) set_appendSeen [of "ss_SeenMessageIDs st" "ids i" maxSeenMessageIDs]
    by (auto simp: receiver_def note_seen_def)
  then have "receiver L ck ids (insert i D) ?st"
    using keys(3,4) by (simp add: receiver_def hi note_seen_def skipped_def add.commute)
  then have "accepted L ck ids (insert i D) sid k store'"
    using Save_done [OF s, of k] assms(3,4) by (simp add: accepted_def note_seen_def)
  then show ?thesis
    using open_genuine [OF assms(1-3)] s keys(1,2)
    by (simp add: decrypt_chain_def idx Let_def derive_chain del: chain.simps)
qed

lemma decrypt_genuine:
  assumes "crypto_ok L" "genuine L ck sid ids i p env" "accepted L ck ids D sid k store"
    and "finite D" "i \<notin> D" "i \<le> high D + 512" "high D \<le> i + 512" "i + 1024 < 2 ^ 64" "high D < 2 ^ 64" "ids i \<notin> ids ` D"
  shows "\<exists>store'. Decrypt L io_fine now k env store = (Inr p, store') \<and> accepted L ck ids (insert i D) sid k store'"
proof -
  obtain st where st: "session_of store k = Some st" "ss_SessionID st = sid" "ss_ContactID st = k" and rec: "receiver L ck ids D st"
    using assms(3) by (auto simp: accepted_def)
  have env: "ValidateEnvelope env = None" "en_SessionID env = sid" "en_MessageID env = ids i" "en_ChainIndex env = of_nat i"
    using assms(2) by (simp_all add: genuine_def)
  have seen: "ids i \<notin> set (ss_SeenMessageIDs st)" using rec assms(10) by (auto simp: receiver_def)
  have look: "lookup (skipped st) (of_nat i) = (if i < high D then Some (msg_key L ck i) else None)"
    using rec assms(5,7,8) by (simp add: receiver_def)
  show ?thesis
  proof (cases "i < high D")
    case True
    from decrypt_skipped_genuine [OF assms(1,2) st(2,3) rec assms(4,5) True assms(9)]
    show ?thesis using st env seen look True by (simp add: Decrypt_def Get_fine)
  next
    case False
    have "\<not> (of_nat i :: 64 word) < of_nat (high D)" using False assms(8,9) by (simp add: of_nat_less64)
    moreover have "\<not> (of_nat i - of_nat (high D) :: 64 word) > 512"
      using False assms(6,8,9) by (simp add: word_less_nat_alt unat_sub word_le_nat_alt)
    moreover have "ss_RecvChainIndex st = of_nat (high D)" using rec by (simp add: receiver_def)
    ultimately show ?thesis
      using decrypt_chain_genuine [OF assms(1,2) st(2,3) rec assms(4) _ assms(6,8)] False st env seen look
      by (simp add: Decrypt_def Get_fine)
  qed
qed

section \<open>The sending end\<close>

primrec send_all ::
    "crypto_lib \<Rightarrow> string \<Rightarrow> (encrypt_input \<times> bytes) list \<Rightarrow> SessionStore \<Rightarrow> (go_error + MessageEnvelope) list \<times> SessionStore" where
  "send_all L k [] store = ([], store)"
| "send_all L k (m # msgs) store =
     (case Encrypt L io_fine (fst m) k (snd m) store of
        (r, store) \<Rightarrow> (case send_all L k msgs store of (rs, store) \<Rightarrow> (r # rs, store)))"

primrec receive_all ::
    "crypto_lib \<Rightarrow> string \<Rightarrow> (gotime \<times> MessageEnvelope) list \<Rightarrow> SessionStore \<Rightarrow> (go_error + bytes) list \<times> SessionStore" where
  "receive_all L k [] store = ([], store)"
| "receive_all L k (m # msgs) store =
     (case Decrypt L io_fine (fst m) k (snd m) store of
        (r, store) \<Rightarrow> (case receive_all L k msgs store of (rs, store) \<Rightarrow> (r # rs, store)))"

definition sender :: "crypto_lib \<Rightarrow> bytes \<Rightarrow> nat \<Rightarrow> string \<Rightarrow> string \<Rightarrow> SessionStore \<Rightarrow> bool" where
  "sender L ck n sid k store \<longleftrightarrow>
     (\<exists>st. session_of store k = Some st \<and> ss_SessionID st = sid \<and> ss_ContactID st = k \<and>
        ss_SendChainIndex st = of_nat n \<and> ss_SendChainKey st = chain L ck n)"

definition has_nonce :: "encrypt_input \<Rightarrow> bool" where
  "has_nonce inp = (case ei_nonce inp of Inl _ \<Rightarrow> False | Inr nonce \<Rightarrow> length nonce = 24)"

lemma session_message_id_inject:
  "m < 2 ^ 64 \<Longrightarrow> n < 2 ^ 64 \<Longrightarrow> session_message_id t (of_nat m) = session_message_id t' (of_nat n) \<Longrightarrow> m = n"
proof -
  assume mn: "m < 2 ^ 64" "n < 2 ^ 64" and eq: "session_message_id t (of_nat m) = session_message_id t' (of_nat n)"
  have "digit_value CHR ''_'' = None" by (simp add: digit_value_def less_eq_char_def)
  then have no: "CHR ''_'' \<notin> set (fmt_nat k)" for k using digits_fmt_nat by metis
  from eq have "fmt_int (UnixNano t) @ CHR ''_'' # fmt_nat m = fmt_int (UnixNano t') @ CHR ''_'' # fmt_nat n"
    using mn by (simp add: session_message_id_def)
  then show ?thesis by (simp add: append_sep_inject no)
qed

lemma kdf_nonempty: "crypto_ok L \<Longrightarrow> kdf32 L x i \<noteq> []"
  by (metis crypto_ok_def kdf32_def list.size(3) zero_neq_numeral)

lemma encrypt_genuine:
  assumes "crypto_ok L" "sender L ck n sid k store" "has_nonce inp" "sid \<noteq> []"
    and "ids n = session_message_id (ei_now inp) (of_nat n)"
  shows "\<exists>env store'. Encrypt L io_fine inp k p store = (Inr env, store') \<and> genuine L ck sid ids n p env \<and> sender L ck (Suc n) sid k store'"
proof -
  obtain st where st: "session_of store k = Some st" "ss_SessionID st = sid" "ss_ContactID st = k"
    "ss_SendChainIndex st = of_nat n" "ss_SendChainKey st = chain L ck n"
    using assms(2) by (auto simp: sender_def)
  obtain nonce where nonce: "ei_nonce inp = Inr nonce" "length nonce = 24"
    using assms(3) by (auto simp: has_nonce_def split: sum.splits)
  define env where "env = \<lparr>en_Version = 1, en_SessionID = sid, en_MessageID = ids n,
    en_RatchetPubKey = deriveRatchetPubKey L (ss_RootKey st) (of_nat n), en_ChainIndex = of_nat n, en_PreviousCount = ss_RecvChainIndex st,
    en_Nonce = nonce, en_Ciphertext = cl_seal L (msg_key L ck n) nonce p (envelopeAAD sid (ids n) (of_nat n)), en_SentAt = ei_sentAt inp\<rparr>"
  let ?st = "st\<lparr>ss_SendChainIndex := ss_SendChainIndex st + 1, ss_SendChainKey := chain L ck (Suc n), ss_UpdatedAt := ei_updatedAt inp\<rparr>"
  obtain store' where s: "Save io_fine ?st store = (None, store')" using Save_fine by blast
  have key: "cl_newX L (msg_key L ck n) = None" using assms(1) msg_key_length [OF assms(1)] by (simp add: crypto_ok_def)
  have "Encrypt L io_fine inp k p store = (Inr env, store')"
    using st nonce key s assms(5)
    by (simp add: Encrypt_def Get_fine encrypt_state_def derive_chain env_def Let_def del: chain.simps)
  moreover have "genuine L ck sid ids n p env"
    using nonce(2) assms(1,4,5) kdf_nonempty [OF assms(1)]
    by (simp add: genuine_def env_def ValidateEnvelope_def session_message_id_def deriveRatchetPubKey_def crypto_ok_def)
  moreover have "sender L ck (Suc n) sid k store'"
    using Save_done [OF s, of k] st by (simp add: sender_def add.commute)
  ultimately show ?thesis by blast
qed

lemma send_all_genuine:
  assumes "crypto_ok L" "sid \<noteq> []"
  shows "sender L ck n sid k store \<Longrightarrow> \<forall>m \<in> set msgs. has_nonce (fst m) \<Longrightarrow>
    \<forall>j < length msgs. ids (n + j) = session_message_id (ei_now (fst (msgs ! j))) (of_nat (n + j)) \<Longrightarrow>
    length (fst (send_all L k msgs store)) = length msgs \<and>
    (\<forall>j < length msgs. \<exists>env. fst (send_all L k msgs store) ! j = Inr env \<and> genuine L ck sid ids (n + j) (snd (msgs ! j)) env)"
proof (induction msgs arbitrary: n store)
  case (Cons m msgs)
  have "ids n = session_message_id (ei_now (fst m)) (of_nat n)" using Cons.prems(3) by (metis add.right_neutral length_Cons nth_Cons_0 zero_less_Suc)
  with Cons.prems(1,2) obtain env store' where e: "Encrypt L io_fine (fst m) k (snd m) store = (Inr env, store')"
    "genuine L ck sid ids n (snd m) env" "sender L ck (Suc n) sid k store'"
    using encrypt_genuine [OF assms(1) Cons.prems(1) _ assms(2), of "fst m" ids "snd m"] by auto
  have "\<forall>j < length msgs. ids (Suc n + j) = session_message_id (ei_now (fst (msgs ! j))) (of_nat (Suc n + j))"
    using Cons.prems(3) by (metis add_Suc_shift length_Cons nth_Cons_Suc not_less_eq)
  from Cons.IH [OF e(3) _ this] Cons.prems(2)
  have IH: "length (fst (send_all L k msgs store')) = length msgs"
    "\<forall>j < length msgs. \<exists>env. fst (send_all L k msgs store') ! j = Inr env \<and> genuine L ck sid ids (Suc n + j) (snd (msgs ! j)) env"
    by auto
  have "\<exists>env. fst (send_all L k (m # msgs) store) ! j = Inr env \<and> genuine L ck sid ids (n + j) (snd ((m # msgs) ! j)) env"
    if "j < Suc (length msgs)" for j
    using that IH(2) e by (cases j) (auto split: prod.split)
  with IH(1) e show ?case by (auto split: prod.split)
qed simp

section \<open>Both ends\<close>

text \<open>A selection and order of delivery in which no message is more than 512 chain steps away from the newest one so far.\<close>

definition in_window :: "nat list \<Rightarrow> bool" where
  "in_window order \<longleftrightarrow>
     (\<forall>j < length order. order ! j \<le> high (set (take j order)) + 512 \<and> high (set (take j order)) \<le> order ! j + 512)"

lemma receive_all_genuine:
  assumes "crypto_ok L" "inj_on ids {..< n}" "n + 1024 < 2 ^ 64"
    and "\<forall>i < n. \<exists>env. sent i = env \<and> genuine L ck sid ids i (plain i) env"
  shows "accepted L ck ids (set before) sid k store \<Longrightarrow> distinct (before @ order) \<Longrightarrow> set (before @ order) \<subseteq> {..< n} \<Longrightarrow>
    (\<forall>j < length order. order ! j \<le> high (set (before @ take j order)) + 512 \<and> high (set (before @ take j order)) \<le> order ! j + 512) \<Longrightarrow>
    fst (receive_all L k (map (\<lambda>i. (clock i, sent i)) order) store) = map (\<lambda>i. Inr (plain i)) order"
proof (induction order arbitrary: before store)
  case (Cons i order)
  have i: "i < n" "i \<notin> set before" "set before \<subseteq> {..< n}" using Cons.prems(2,3) by auto
  then have "ids i \<notin> ids ` set before" using assms(2) by (auto dest: inj_onD)
  moreover have "high (set before) \<le> n" using i(3) by (auto simp: high_def Suc_le_eq)
  moreover have "i \<le> high (set before) + 512" "high (set before) \<le> i + 512" using Cons.prems(4) by (force dest: spec [of _ 0])+
  ultimately obtain store' where d: "Decrypt L io_fine (clock i) k (sent i) store = (Inr (plain i), store')"
    "accepted L ck ids (insert i (set before)) sid k store'"
    using decrypt_genuine [OF assms(1) _ Cons.prems(1), of i "plain i" "sent i" "clock i"] i assms(3,4) by auto
  have "\<forall>j < length order. order ! j \<le> high (set ((before @ [i]) @ take j order)) + 512 \<and>
    high (set ((before @ [i]) @ take j order)) \<le> order ! j + 512"
    using Cons.prems(4) by (auto dest: spec [of _ "Suc _"])
  from Cons.IH [of "before @ [i]" store', OF _ _ _ this] d(2) Cons.prems(2,3)
  show ?case using d(1) by (auto split: prod.split)
qed simp

lemma InitSession_state:
  assumes "contact \<noteq> []" "length pk = 32"
  obtains st store' where "InitSession L io_fine t me contact pk store = (Inr st, store')" "session_of store' contact = Some st"
    "ss_SessionID st = buildSessionID L me contact pk" "ss_ContactID st = contact"
    "ss_SendChainIndex st = 0" "ss_RecvChainIndex st = 0" "ss_SkippedKeys st = Some []" "ss_SeenMessageIDs st = []"
    "(ss_SendChainKey st, ss_RecvChainKey st) = deriveInitialChainKeys L (deriveRootKey L me contact pk) me contact"
proof -
  obtain s r where keys: "deriveInitialChainKeys L (deriveRootKey L me contact pk) me contact = (s, r)" by fastforce
  define st where "st = \<lparr>ss_SessionID = buildSessionID L me contact pk, ss_ContactID = contact,
    ss_PeerPublicKey = pk, ss_RootKey = deriveRootKey L me contact pk, ss_SendChainKey = s, ss_RecvChainKey = r,
    ss_SendChainIndex = 0, ss_RecvChainIndex = 0, ss_SeenMessageIDs = [], ss_SkippedKeys = Some [], ss_CreatedAt = t, ss_UpdatedAt = t\<rparr>"
  obtain store' where save: "Save io_fine st store = (None, store')" using Save_fine by blast
  show thesis
  proof (rule that [of st store'])
    show "InitSession L io_fine t me contact pk store = (Inr st, store')"
      using assms save by (simp add: InitSession_def keys st_def)
    show "session_of store' contact = Some st" using Save_done [OF save, of contact] by (simp add: st_def)
  qed (simp_all add: st_def keys)
qed

lemma InitSession_ends:
  assumes "a \<noteq> b" "a \<noteq> []" "b \<noteq> []" "length pk = 32"
  shows "\<exists>ck sid. sid \<noteq> [] \<and> sender L ck 0 sid b (snd (InitSession L io_fine t a b pk SA)) \<and>
    (\<forall>ids. accepted L ck ids {} sid a (snd (InitSession L io_fine t' b a pk SB)))"
proof -
  have norm: "normalizeIDs b a = normalizeIDs a b" using assms(1) by (auto simp: normalizeIDs_def)
  have keys: "fst (deriveInitialChainKeys L root a b) = snd (deriveInitialChainKeys L root b a)" for root
    unfolding deriveInitialChainKeys_def norm using assms(1) by (auto simp: normalizeIDs_def Let_def)
  let ?root = "deriveRootKey L a b pk"
  have root: "deriveRootKey L b a pk = ?root" "buildSessionID L b a pk = buildSessionID L a b pk"
    unfolding deriveRootKey_def buildSessionID_def norm by simp_all
  let ?ck = "fst (deriveInitialChainKeys L ?root a b)" and ?sid = "buildSessionID L a b pk"
  obtain st store1 where A: "InitSession L io_fine t a b pk SA = (Inr st, store1)" "session_of store1 b = Some st"
    "ss_SessionID st = ?sid" "ss_ContactID st = b" "ss_SendChainIndex st = 0" "ss_SendChainKey st = ?ck"
    by (rule InitSession_state [OF assms(3,4), of L t a SA]) (metis fst_conv)
  obtain st' store2 where B: "InitSession L io_fine t' b a pk SB = (Inr st', store2)" "session_of store2 a = Some st'"
    "ss_SessionID st' = ?sid" "ss_ContactID st' = a" "ss_RecvChainIndex st' = 0" "ss_SkippedKeys st' = Some []"
    "ss_SeenMessageIDs st' = []" "ss_RecvChainKey st' = ?ck"
    by (rule InitSession_state [OF assms(2,4), of L t' b SB]) (metis snd_conv root keys)
  have "sender L ?ck 0 ?sid b (snd (InitSession L io_fine t a b pk SA))" using A by (simp add: sender_def)
  moreover have "accepted L ?ck ids {} ?sid a (snd (InitSession L io_fine t' b a pk SB))" for ids
    using B by (simp add: accepted_def receiver_def high_def skipped_def)
  moreover have "?sid \<noteq> []" by (simp add: buildSessionID_def case_prod_unfold Let_def)
  ultimately show ?thesis by blast
qed

text \<open>
  C2: Two ends that open a session on the same key read each other. Every envelope is produced, and
  whatever is lost or overtaken on the way, each envelope that arrives while it is at most 512 chain steps away from
  the newest one so far is decrypted to the text that was sent.
\<close>

theorem session_survives_reordering:
  assumes "crypto_ok L" "a \<noteq> b" "a \<noteq> []" "b \<noteq> []" "length pk = 32"
    and "\<forall>m \<in> set msgs. has_nonce (fst m)" "length msgs + 1024 < 2 ^ 64"
    and "distinct order" "set order \<subseteq> {..< length msgs}" "in_window order"
  shows "\<exists>envs. fst (send_all L b msgs (snd (InitSession L io_fine t a b pk SA))) = map Inr envs \<and>
    fst (receive_all L a (map (\<lambda>i. (clock i, envs ! i)) order) (snd (InitSession L io_fine t' b a pk SB))) =
      map (\<lambda>i. Inr (snd (msgs ! i))) order"
proof -
  define ids where "ids i = session_message_id (ei_now (fst (msgs ! i))) (of_nat i)" for i
  obtain ck sid where ends: "sid \<noteq> []" "sender L ck 0 sid b (snd (InitSession L io_fine t a b pk SA))"
    "accepted L ck ids {} sid a (snd (InitSession L io_fine t' b a pk SB))"
    using InitSession_ends [OF assms(2-5), of L t SA t' SB] by blast
  let ?sent = "fst (send_all L b msgs (snd (InitSession L io_fine t a b pk SA)))"
  have sent: "length ?sent = length msgs" "\<forall>j < length msgs. \<exists>env. ?sent ! j = Inr env \<and> genuine L ck sid ids j (snd (msgs ! j)) env"
    using send_all_genuine [OF assms(1) ends(1,2) assms(6), of ids] by (simp_all add: ids_def)
  define envs where "envs = map projr ?sent"
  have "\<forall>r \<in> set ?sent. Inr (projr r) = r"
    using sent by (metis in_set_conv_nth sum.sel(2))
  then have "?sent = map Inr envs" by (simp add: envs_def map_idI)
  moreover have "\<forall>i < length msgs. \<exists>env. envs ! i = env \<and> genuine L ck sid ids i (snd (msgs ! i)) env"
    using sent by (force simp: envs_def)
  moreover have "inj_on ids {..< length msgs}"
    using assms(7) by (auto simp: inj_on_def ids_def intro: session_message_id_inject)
  moreover have "accepted L ck ids (set []) sid a (snd (InitSession L io_fine t' b a pk SB))" using ends(3) by simp
  ultimately show ?thesis
    using receive_all_genuine [OF assms(1) _ assms(7), of ids "\<lambda>i. envs ! i" ck sid "\<lambda>i. snd (msgs ! i)" "[]" a _ order clock]
      assms(8-10) by (auto simp: in_window_def)
qed

section \<open>Every chain index once\<close>

datatype session_call = CallEncrypt encrypt_input bytes | CallDecrypt gotime MessageEnvelope

fun session_step :: "crypto_lib \<Rightarrow> string \<Rightarrow> session_io \<times> session_call \<Rightarrow> SessionStore \<Rightarrow> 64 word option \<times> SessionStore" where
  "session_step L k (io, CallEncrypt inp p) store = (None, snd (Encrypt L io inp k p store))"
| "session_step L k (io, CallDecrypt now env) store =
     (case Decrypt L io now k env store of
        (Inl _, store) \<Rightarrow> (None, store)
      | (Inr _, store) \<Rightarrow> (Some (en_ChainIndex env), store))"

text \<open>The chain indices that a run of calls has decrypted.\<close>

primrec decrypted :: "crypto_lib \<Rightarrow> string \<Rightarrow> (session_io \<times> session_call) list \<Rightarrow> SessionStore \<Rightarrow> 64 word list \<times> SessionStore" where
  "decrypted L k [] store = ([], store)"
| "decrypted L k (c # calls) store =
     (case session_step L k c store of
        (r, store) \<Rightarrow>
          (case decrypted L k calls store of
             (is, store) \<Rightarrow> (case r of None \<Rightarrow> is | Some i \<Rightarrow> i # is, store)))"

fun persisted :: "SessionStore \<Rightarrow> bool" where
  "persisted (InMemorySessionStore m) = False"
| "persisted (FileStore s) = fs_persist s"

lemma persisted_Save: "Save io st store = (r, store') \<Longrightarrow> persisted store' = persisted store"
  by (cases store) (auto simp: file_Save_def loadAllLocked_def writeAllLocked_def split: if_splits option.splits sum.splits)

lemma share_persisted: "persisted store \<Longrightarrow> share_skipped k keys store = store"
  by (cases store) auto

text \<open>A session between calls, and an index whose key is gone.\<close>

definition session_ok :: "SessionState \<Rightarrow> bool" where
  "session_ok st \<longleftrightarrow> keys_distinct (skipped st) \<and> (\<forall>w \<in> fst ` set (skipped st). w < ss_RecvChainIndex st) \<and>
     length (skipped st) \<le> maxSkippedMessageKey \<and> length (ss_SeenMessageIDs st) \<le> maxSeenMessageIDs"

definition spent :: "64 word \<Rightarrow> SessionState \<Rightarrow> bool" where
  "spent i st \<longleftrightarrow> i < ss_RecvChainIndex st \<and> lookup (skipped st) i = None"

lemma skip_loop_keys:
  "keys_distinct keys \<Longrightarrow> keys_distinct (snd (skip_loop L t r ck keys)) \<and>
   (\<forall>w \<in> fst ` set (snd (skip_loop L t r ck keys)). w \<in> fst ` set keys \<or> r \<le> w \<and> w < t)"
proof (induction L t r ck keys rule: skip_loop.induct)
  case (1 L t r ck keys)
  obtain mk nk where d: "deriveMessageKey L ck r = (mk, nk)" by fastforce
  show ?case
  proof (cases "r < t")
    case True
    then have eq: "skip_loop L t r ck keys = skip_loop L t (r + 1) nk (put r mk keys)"
      by (subst skip_loop.simps) (simp add: d)
    have "r \<le> r + 1" using True by (simp add: word_le_nat_alt unat_succ)
    moreover have "fst ` set (put r mk keys) = insert r (fst ` set keys)" by (simp add: dom_update)
    ultimately show ?thesis
      using "1.IH" [OF True d [symmetric]] "1.prems" True unfolding eq by (auto intro: order_trans)
  next
    case False
    with 1 show ?thesis by (subst (1 2) skip_loop.simps) auto
  qed
qed

lemma drop_oldest_subset: "set (drop_oldest m keys) \<subseteq> set keys \<and> (keys_distinct keys \<longrightarrow> keys_distinct (drop_oldest m keys))"
proof (induction m keys rule: drop_oldest.induct)
  case (1 m keys)
  then show ?case by (subst (1 2) drop_oldest.simps) (auto simp: set_del)
qed

lemma prune_keys:
  "fst ` set (pruneSkippedKeys keys r m) \<subseteq> fst ` set keys" "keys_distinct keys \<Longrightarrow> keys_distinct (pruneSkippedKeys keys r m)"
  "length (pruneSkippedKeys keys r m) \<le> m"
  using drop_oldest_subset [of m "filter (\<lambda>(idx, _). \<not> idx + maxSkippedChainGap < r) keys"]
  by (auto simp: pruneSkippedKeys_def drop_oldest_length distinct_map_filter)

lemma length_appendSeen: "length (appendSeen l v m) \<le> m"
  by (auto simp: appendSeen_def Let_def simp del: drop_append)

text \<open>What a decryption that was not refused leaves behind.\<close>

definition moved_on :: "64 word \<Rightarrow> SessionState \<Rightarrow> SessionState \<Rightarrow> bool" where
  "moved_on i st st' \<longleftrightarrow> session_ok st' \<and> ss_ContactID st' = ss_ContactID st \<and> spent i st' \<and> \<not> spent i st \<and>
     (\<forall>j. spent j st \<longrightarrow> spent j st') \<and> unat (ss_RecvChainIndex st') \<le> unat (ss_RecvChainIndex st) + 513"

lemma note_seen_simps [simp]:
  "skipped (note_seen env now keys st) = keys" "ss_ContactID (note_seen env now keys st) = ss_ContactID st"
  "ss_RecvChainIndex (note_seen env now keys st) = ss_RecvChainIndex st"
  "length (ss_SeenMessageIDs (note_seen env now keys st)) \<le> maxSeenMessageIDs"
  by (simp_all add: note_seen_def skipped_def length_appendSeen)

lemma skipped_recv [simp]: "skipped (st\<lparr>ss_RecvChainKey := ck, ss_RecvChainIndex := i\<rparr>) = skipped st"
  by (simp add: skipped_def)

lemma moved_on_skipped:
  assumes "session_ok st" "lookup (skipped st) (en_ChainIndex env) = Some key"
  shows "moved_on (en_ChainIndex env) st (note_seen env now (del (en_ChainIndex env) (skipped st)) st)"
proof -
  have "en_ChainIndex env \<in> fst ` set (skipped st)" using assms(2) lookup_keys by force
  moreover have "length (del (en_ChainIndex env) (skipped st)) \<le> length (skipped st)" by (rule length_delete_le)
  ultimately show ?thesis
    using assms by (auto simp: moved_on_def session_ok_def spent_def set_del)
qed

lemma moved_on_chain:
  assumes ok: "session_ok st" and new: "lookup (skipped st) i = None" and i: "\<not> i < ss_RecvChainIndex st" "\<not> i - ss_RecvChainIndex st > 512"
    and loop: "skip_loop L i (ss_RecvChainIndex st) (ss_RecvChainKey st) (skipped st) = (ck, keys)"
    and room: "unat (ss_RecvChainIndex st) + 513 < 2 ^ 64" and env: "en_ChainIndex env = i"
  shows "moved_on i st ((note_seen env now (pruneSkippedKeys (pruneSkippedKeys keys (ss_RecvChainIndex st) maxSkippedMessageKey) (i + 1) maxSkippedMessageKey) st)
    \<lparr>ss_RecvChainKey := nk, ss_RecvChainIndex := i + 1\<rparr>)"
proof -
  let ?r = "ss_RecvChainIndex st"
  let ?keys = "pruneSkippedKeys (pruneSkippedKeys keys ?r maxSkippedMessageKey) (i + 1) maxSkippedMessageKey"
  have ri: "?r \<le> i" "unat i \<le> unat ?r + 512"
    using i by (auto simp: not_less word_le_nat_alt unat_sub)
  then have i1: "unat (i + 1) = unat i + 1" using room by (simp add: unat_word_ariths(1))
  have walk: "keys_distinct keys" "\<forall>w \<in> fst ` set keys. w \<in> fst ` set (skipped st) \<or> ?r \<le> w \<and> w < i"
    using skip_loop_keys [of "skipped st" L i ?r "ss_RecvChainKey st"] ok unfolding loop snd_conv session_ok_def by blast+
  have keys: "keys_distinct ?keys" "length ?keys \<le> maxSkippedMessageKey"
    using walk(1) by (simp_all only: prune_keys(2,3))
  have "fst ` set ?keys \<subseteq> fst ` set keys" by (intro order_trans [OF prune_keys(1) prune_keys(1)])
  then have in_keys: "w \<in> fst ` set (skipped st) \<or> ?r \<le> w \<and> w < i" if "w \<in> fst ` set ?keys" for w
    using that walk(2) by blast
  have old: "w < ?r" if "w \<in> fst ` set (skipped st)" for w using ok that unfolding session_ok_def by blast
  have "w < i + 1" if "w \<in> fst ` set ?keys" for w
  proof -
    have "w < ?r \<or> w < i" using in_keys [OF that] old [of w] by blast
    then show ?thesis using ri i1 by (auto simp: word_less_nat_alt word_le_nat_alt)
  qed
  moreover have "lookup ?keys j = None" if "spent j st \<or> j = i" for j
  proof (rule ccontr)
    assume "lookup ?keys j \<noteq> None"
    then have "lookup (skipped st) j \<noteq> None \<or> ?r \<le> j \<and> j < i" using in_keys [of j] lookup_keys by metis
    with that new show False by (auto simp: spent_def)
  qed
  moreover have "j < i + 1" if "j < ?r \<or> j = i" for j
    using that ri i1 by (auto simp: word_less_nat_alt word_le_nat_alt)
  moreover have "\<not> spent i st" using i(1) by (simp add: spent_def)
  ultimately show ?thesis
    using keys(1,2) ri(2) i1 env
    by (auto simp: moved_on_def session_ok_def spent_def)
qed

definition tracked :: "string \<Rightarrow> 64 word set \<Rightarrow> nat \<Rightarrow> SessionStore \<Rightarrow> bool" where
  "tracked k D n store \<longleftrightarrow> persisted store \<and>
     (\<exists>st. session_of store k = Some st \<and> ss_ContactID st = k \<and> session_ok st \<and> unat (ss_RecvChainIndex st) \<le> n \<and> (\<forall>i \<in> D. spent i st))"

lemma tracked_saved:
  assumes "tracked k D n store" "session_of store k = Some st" "moved_on i st st'" "Save io st' store = (None, store')"
  shows "tracked k (insert i D) (n + 513) store' \<and> i \<notin> D"
  using assms Save_done [OF assms(4), of k] persisted_Save [OF assms(4)]
  by (auto simp: tracked_def moved_on_def)

lemma tracked_decrypt:
  assumes tr: "tracked k D n store" and room: "n + 513 < 2 ^ 64"
  shows "case Decrypt L io now k env store of
     (Inl _, store') \<Rightarrow> store' = store
   | (Inr _, store') \<Rightarrow> tracked k (insert (en_ChainIndex env) D) (n + 513) store' \<and> en_ChainIndex env \<notin> D"
proof (cases "ValidateEnvelope env = None \<and> (\<exists>st. Get io k store = Inr (Some st))")
  case True
  then obtain st where g: "Get io k store = Inr (Some st)" and v: "ValidateEnvelope env = None" by blast
  from Get_current [OF g] have st: "session_of store k = Some st" by simp
  from tr st have ok: "session_ok st" "unat (ss_RecvChainIndex st) + 513 < 2 ^ 64" and per: "persisted store"
    using room by (auto simp: tracked_def)
  show ?thesis
  proof (cases "lookup (skipped st) (en_ChainIndex env)")
    case (Some key)
    note moved = tracked_saved [OF tr st moved_on_skipped [OF ok(1) Some]]
    show ?thesis using g v Some
      by (auto simp: Decrypt_def decrypt_skipped_def split: orFail_split option.split prod.split dest: Save_failed moved)
  next
    case None
    obtain ck keys where loop: "skip_loop L (en_ChainIndex env) (ss_RecvChainIndex st) (ss_RecvChainKey st) (skipped st) = (ck, keys)" by fastforce
    note moved = tracked_saved [OF tr st moved_on_chain [OF ok(1) None _ _ loop ok(2) refl]]
    show ?thesis using g v None
      by (auto simp: Decrypt_def decrypt_chain_def loop share_persisted [OF per] Let_def split: orFail_split option.split prod.split dest: Save_failed moved)
  qed
qed (auto simp: Decrypt_def split: option.split sum.split)

lemma tracked_encrypt:
  assumes tr: "tracked k D n store"
  shows "tracked k D n (snd (Encrypt L io inp k p store))"
proof (cases "\<exists>st. Get io k store = Inr (Some st)")
  case True
  then obtain st where g: "Get io k store = Inr (Some st)" by blast
  from Get_current [OF g] have st: "session_of store k = Some st" by simp
  have saved: "tracked k D n store'"
    if "Save io (st\<lparr>ss_SendChainIndex := i, ss_SendChainKey := ck, ss_UpdatedAt := t\<rparr>) store = (None, store')" for i ck t store'
    using tr st Save_done [OF that, of k] persisted_Save [OF that]
    by (auto simp: tracked_def session_ok_def spent_def skipped_def)
  show ?thesis using g tr
    by (auto simp: Encrypt_def encrypt_state_def Let_def split: orFail_split option.split prod.split dest: Save_failed saved)
next
  case False
  then have "snd (Encrypt L io inp k p store) = store"
    by (auto simp: Encrypt_def split: option.split sum.split)
  with tr show ?thesis by simp
qed

lemma decrypted_once:
  "tracked k D n store \<Longrightarrow> n + 513 * length calls < 2 ^ 64 \<Longrightarrow>
   distinct (fst (decrypted L k calls store)) \<and> set (fst (decrypted L k calls store)) \<inter> D = {} \<and>
   tracked k (D \<union> set (fst (decrypted L k calls store))) (n + 513 * length calls) (snd (decrypted L k calls store))"
proof (induction calls arbitrary: D n store)
  case (Cons c calls)
  obtain io call where c: "c = (io, call)" by fastforce
  show ?case
  proof (cases call)
    case (CallEncrypt inp p)
    have "tracked k D (n + 513) (snd (Encrypt L io inp k p store))"
      using tracked_encrypt [OF Cons.prems(1)] by (fastforce simp: tracked_def)
    from Cons.IH [OF this] Cons.prems(2) show ?thesis
      by (simp add: c CallEncrypt case_prod_unfold add.assoc)
  next
    case (CallDecrypt now env)
    obtain r store' where d: "Decrypt L io now k env store = (r, store')" by fastforce
    have room: "n + 513 < 2 ^ 64" using Cons.prems(2) by simp
    show ?thesis
    proof (cases r)
      case (Inl e)
      then have "store' = store" using tracked_decrypt [OF Cons.prems(1) room, where L = L and io = io and now = now and env = env] d by simp
      moreover have "tracked k D (n + 513) store" using Cons.prems(1) by (fastforce simp: tracked_def)
      ultimately show ?thesis using Cons.IH [of D "n + 513" store] Cons.prems(2)
        by (simp add: c CallDecrypt d Inl case_prod_unfold add.assoc)
    next
      case (Inr p)
      then have "tracked k (insert (en_ChainIndex env) D) (n + 513) store'" "en_ChainIndex env \<notin> D"
        using tracked_decrypt [OF Cons.prems(1) room, where L = L and io = io and now = now and env = env] d by simp_all
      with Cons.IH [OF this(1)] Cons.prems(2) show ?thesis
        by (auto simp: c CallDecrypt d Inr case_prod_unfold add.assoc)
    qed
  qed
qed simp

lemma persisted_InitSession: "persisted (snd (InitSession L io t me k pk store)) = persisted store"
proof -
  have "persisted (snd (Save io st store)) = persisted store" for st
    by (cases "Save io st store") (simp add: persisted_Save)
  then show ?thesis by (simp add: InitSession_def Let_def case_prod_unfold split: option.split)
qed

lemma InitSession_tracked:
  assumes "fs_persist s" "k \<noteq> []" "length pk = 32"
  shows "tracked k {} 0 (snd (InitSession L io_fine t me k pk (FileStore s)))"
proof -
  obtain st store' where init: "InitSession L io_fine t me k pk (FileStore s) = (Inr st, store')" "session_of store' k = Some st"
    "ss_ContactID st = k" "ss_RecvChainIndex st = 0" "ss_SkippedKeys st = Some []" "ss_SeenMessageIDs st = []"
    by (rule InitSession_state [OF assms(2,3), of L t me "FileStore s"]) blast
  have "persisted store'"
    using persisted_InitSession [of L io_fine t me k pk "FileStore s"] init(1) assms(1) by simp
  with init show ?thesis by (simp add: tracked_def session_ok_def skipped_def)
qed


lemma skip_loop_while:
  "index \<le> target \<Longrightarrow> while_option (\<lambda>s. fst s < target) (skip_step L) (index, ck, keys) = Some (target, skip_loop L target index ck keys) \<and>
     (skip_step L ^^ unat (target - index)) (index, ck, keys) = (target, skip_loop L target index ck keys)"
proof (induction L target index ck keys rule: skip_loop.induct)
  case (1 L target index ck keys)
  show ?case
  proof (cases "index < target")
    case True
    obtain mk nk where d: "deriveMessageKey L ck index = (mk, nk)" by fastforce
    have eq: "skip_loop L target index ck keys = skip_loop L target (index + 1) nk (put index mk keys)"
      using True by (subst skip_loop.simps) (simp add: d)
    have s: "skip_step L (index, ck, keys) = (index + 1, nk, put index mk keys)" by (simp add: skip_step_def d)
    have n: "unat (target - index) = Suc (unat (target - (index + 1)))"
      using True inc_le [of index target] by (simp add: unat_sub unat_succ word_less_nat_alt word_le_nat_alt)
    from 1(1) [OF True d [symmetric] inc_le [OF True]] show ?thesis
      using True by (subst while_option_unfold) (simp add: eq s n funpow_Suc_right del: funpow.simps(2))
  next
    case False
    with 1(2) have "index = target" by simp
    then show ?thesis by (subst while_option_unfold, subst (1 2) skip_loop.simps) simp
  qed
qed

lemma drop_oldest_while:
  "while_option (\<lambda>keys. length keys > maxLen) (\<lambda>keys. del (min_index keys) keys) keys = Some (drop_oldest maxLen keys)"
proof (induction maxLen keys rule: drop_oldest.induct)
  case (1 maxLen keys)
  then show ?case by (subst while_option_unfold, subst drop_oldest.simps) simp
qed

text \<open>
  C29: The loops of \<open>Decrypt\<close> end. From any receive index that the envelope's index is not behind, the loop that derives the
  skipped keys leaves after exactly \<open>target - index\<close> passes, never wraps around, and passes at most 512 times when the gap
  check has let the envelope through; the loop that drops the oldest skipped keys ends for every map and leaves at most the limit.
\<close>

theorem decrypt_loops_end:
  assumes "\<not> target < index"
  shows "while_option (\<lambda>s. fst s < target) (skip_step L) (index, ck, keys) = Some (target, skip_loop L target index ck keys) \<and>
    (skip_step L ^^ unat (target - index)) (index, ck, keys) = (target, skip_loop L target index ck keys) \<and>
    (\<not> target - index > maxSkippedChainGap \<longrightarrow> unat (target - index) \<le> 512) \<and>
    while_option (\<lambda>keys. length keys > maxLen) (\<lambda>keys. del (min_index keys) keys) keys = Some (drop_oldest maxLen keys) \<and>
    length (drop_oldest maxLen keys) \<le> maxLen"
  using assms skip_loop_while [of index target L ck keys] drop_oldest_while [of maxLen keys] drop_oldest_length [of maxLen keys]
  by (auto simp: word_le_nat_alt not_less)

section \<open>Where the ends part\<close>


lemma hex_digit_inject: "m < 16 \<Longrightarrow> n < 16 \<Longrightarrow> hex_digit m = hex_digit n \<Longrightarrow> m = n"
proof -
  have "distinct ''0123456789abcdef''" by code_simp
  then show "m < 16 \<Longrightarrow> n < 16 \<Longrightarrow> hex_digit m = hex_digit n \<Longrightarrow> m = n"
    unfolding hex_digit_def by (subst (asm) nth_eq_iff_index_eq) simp_all
qed

lemma EncodeToString_inject: "EncodeToString xs = EncodeToString ys \<Longrightarrow> xs = ys"
proof (induction xs arbitrary: ys)
  case Nil
  then show ?case by (cases ys) (simp_all add: EncodeToString_def)
next
  case (Cons x xs)
  then obtain y ys' where ys: "ys = y # ys'" by (cases ys) (auto simp: EncodeToString_def)
  have less: "unat b < 256" for b :: "8 word" using unsigned_less [of b] by simp
  from Cons.prems ys have "hex_digit (unat x div 16) = hex_digit (unat y div 16)" "hex_digit (unat x mod 16) = hex_digit (unat y mod 16)"
    and rest: "EncodeToString xs = EncodeToString ys'"
    by (auto simp: EncodeToString_def)
  then have "unat x div 16 = unat y div 16" "unat x mod 16 = unat y mod 16"
    using less by (auto intro!: hex_digit_inject simp: less_mult_imp_div_less)
  then have "unat x = unat y" by (metis div_mult_mod_eq)
  with Cons.IH [OF rest] ys show ?case by (simp add: word_unat_eq_iff)
qed


text \<open>
  A store in memory, and the file store while persistence is off, let a failed \<open>Decrypt\<close> change the session: the
  keys it skipped stay in the shared map although the receive index does not move.
\<close>

lemma failed_decrypt_leaves_keys:
  assumes "session_of (InMemorySessionStore m) k = Some st" "ss_SkippedKeys st = Some keys" "ss_ContactID st = k"
    and "skip_loop L (en_ChainIndex env) (ss_RecvChainIndex st) (ss_RecvChainKey st) keys = (ck, keys')"
    and "open_envelope L (fst (deriveMessageKey L ck (en_ChainIndex env))) st env = Inl e"
  shows "decrypt_chain L io now k env st (InMemorySessionStore m) =
    (Inl e, InMemorySessionStore (put k (st\<lparr>ss_SkippedKeys := Some (pruneSkippedKeys keys' (ss_RecvChainIndex st) maxSkippedMessageKey)\<rparr>) m))"
  using assms by (simp add: decrypt_chain_def skipped_def shared_def Let_def case_prod_unfold)

lemma Save_failed_snd: "fst (Save io st store) = Some e \<Longrightarrow> snd (Save io st store) = store"
  by (metis Save_failed prod.collapse)

lemma failed_decrypt_persisted: "persisted store \<Longrightarrow> fst (Decrypt L io now k env store) = Inl e \<Longrightarrow> snd (Decrypt L io now k env store) = store"
  by (auto simp: Decrypt_def decrypt_skipped_def decrypt_chain_def share_persisted Let_def case_prod_unfold
      split: if_splits option.splits sum.splits orFail_splits intro: Save_failed_snd)

text \<open>The key agreement gives both sides the same secret when the exchanges commute pairwise.\<close>

lemma x3dh_agreement:
  assumes "cl_x25519 L ikA spkB_pub = cl_x25519 L spkB ikA_pub" "cl_x25519 L ekA ikB_pub = cl_x25519 L ikB ekA_pub"
    and "cl_x25519 L ekA spkB_pub = cl_x25519 L spkB ekA_pub" "cl_x25519 L ekA opkB_pub = cl_x25519 L opkB ekA_pub"
    and "\<forall>key \<in> {ikA, ekA, ikB_pub, spkB_pub, ikB, spkB, ikA_pub, ekA_pub, opkB, opkB_pub}. length key = 32"
  shows "X3DHInitiatorSharedSecret L ikA ekA ikB_pub spkB_pub opkB_pub = X3DHResponderSharedSecret L ikB spkB opkB ikA_pub ekA_pub True"
    and "X3DHInitiatorSharedSecret L ikA ekA ikB_pub spkB_pub [] = X3DHResponderSharedSecret L ikB spkB opkB ikA_pub ekA_pub False"
  using assms by (simp_all add: X3DHInitiatorSharedSecret_def X3DHResponderSharedSecret_def baseX3DHMaterial_def combineDHTriplet_def)

section \<open>Concrete sessions\<close>

definition sample_lib :: crypto_lib where
  "sample_lib = \<lparr>cl_hkdf = (\<lambda>x i. take 32 (rev x @ i @ replicate 32 0)), cl_sha256 = rev,
     cl_newX = (\<lambda>k. if length k = 32 then None else Some (ErrText ''bad key length'')),
     cl_seal = (\<lambda>k n p a. 1 # p), cl_open = (\<lambda>k n c a. if c = [] then None else Some (tl c)), cl_x25519 = (\<lambda>a b. Inr [])\<rparr>"

lemma sample_lib_ok: "crypto_ok sample_lib"
  by (auto simp: crypto_ok_def sample_lib_def min_def)

definition sample_encrypt :: "gotime \<Rightarrow> encrypt_input" where
  "sample_encrypt t = \<lparr>ei_now = t, ei_nonce = Inr (replicate 24 0), ei_sentAt = t, ei_updatedAt = t\<rparr>"

theorem session_survives_reordering_witness:
  "\<exists>envs. fst (send_all sample_lib ''bob'' [(sample_encrypt 1, [65]), (sample_encrypt 1, [66]), (sample_encrypt 2, [67])]
       (snd (InitSession sample_lib io_fine 0 ''ann'' ''bob'' (replicate 32 7) NewInMemorySessionStore))) = map Inr envs \<and>
     fst (receive_all sample_lib ''ann'' (map (\<lambda>i. (9, envs ! i)) [2, 0])
       (snd (InitSession sample_lib io_fine 0 ''bob'' ''ann'' (replicate 32 7) NewInMemorySessionStore))) = [Inr [67], Inr [65]]"
proof -
  have "in_window [2, 0]" by (simp add: in_window_def high_def less_Suc_eq_0_disj numeral_2_eq_2)
  then show ?thesis
    using session_survives_reordering [OF sample_lib_ok, of "''ann''" "''bob''" "replicate 32 7"
        "[(sample_encrypt 1, [65]), (sample_encrypt 1, [66]), (sample_encrypt 2, [67])]" "[2, 0]"]
    by (simp add: has_nonce_def sample_encrypt_def)
qed

definition sample_file :: FileSessionStore where
  "sample_file = \<lparr>fs_persist = True, fs_sessions = [], fs_file = None\<rparr>"

definition sample_envelope :: MessageEnvelope where
  "sample_envelope = zero_envelope\<lparr>en_Version := 1, en_SessionID := ''sess1_07'', en_MessageID := ''dr_1_0''\<rparr>"




theorem decrypt_loops_end_witness:
  "while_option (\<lambda>s. fst s < 5) (skip_step sample_lib) (3, [], []) = Some (5, skip_loop sample_lib 5 3 [] [])"
  using decrypt_loops_end [of 5 3 sample_lib "[]" "[]" 0] by simp

end
