(* ===== verification/Secure_Store.thy ===== *)
theory Secure_Store
  imports Crypto_Session
begin

text \<open>
  The encryption of files and seeds, \<open>internal/securestore/envelope.go\<close> and \<open>identity/domain/seed_envelope.go\<close>.
  Argon2id with the fixed parameters of \<open>deriveKey\<close> and the JSON form of an envelope are the
  parameters of \<open>vault_lib\<close>; the cipher is the one of \<open>crypto_lib\<close>. The random bytes are arguments.
\<close>

record Envelope =
  ev_Version :: "32 word"
  ev_KDF :: string
  ev_KDFTime :: "32 word"
  ev_KDFMemoryKB :: "32 word"
  ev_KDFThreads :: "8 word"
  ev_Salt :: bytes
  ev_Nonce :: bytes
  ev_Ciphertext :: bytes

record vault_lib =
  vl_idkey :: "bytes \<Rightarrow> bytes \<Rightarrow> bytes"
  vl_marshal :: "Envelope \<Rightarrow> bytes"
  vl_unmarshal :: "bytes \<Rightarrow> Envelope option"

record vault_random =
  vr_salt :: "go_error + bytes"
  vr_nonce :: "go_error + bytes"

text \<open>What the code relies on: keys of the requested 32 bytes, JSON that can be read back, reads of the requested length.\<close>

definition vault_ok :: "crypto_lib \<Rightarrow> vault_lib \<Rightarrow> bool" where
  "vault_ok L V \<longleftrightarrow> crypto_ok L \<and> (\<forall>p s. length (vl_idkey V p s) = 32) \<and> (\<forall>e. vl_unmarshal V (vl_marshal V e) = Some e)"

definition random_ok :: "vault_random \<Rightarrow> bool" where
  "random_ok r \<longleftrightarrow> (\<forall>s. vr_salt r = Inr s \<longrightarrow> length s = 16) \<and> (\<forall>n. vr_nonce r = Inr n \<longrightarrow> length n = 24)"

abbreviation ErrAuthFailed :: go_error where "ErrAuthFailed \<equiv> ErrVar ''securestore.ErrAuthFailed''"
abbreviation ErrInvalidEnvelope :: go_error where "ErrInvalidEnvelope \<equiv> ErrVar ''securestore.ErrInvalid''"
abbreviation ErrLegacyData :: go_error where "ErrLegacyData \<equiv> ErrVar ''securestore.ErrLegacyData''"

abbreviation envelopeVersion :: "32 word" where "envelopeVersion \<equiv> 1"
abbreviation argonTime :: "32 word" where "argonTime \<equiv> 2"
abbreviation argonMemoryKB :: "32 word" where "argonMemoryKB \<equiv> 64 * 1024"
abbreviation argonThreads :: "8 word" where "argonThreads \<equiv> 1"

definition filePrefix :: bytes where
  "filePrefix = bytes_of_string ''AIMENC1'' @ [10]"

definition deriveKey :: "vault_lib \<Rightarrow> string \<Rightarrow> bytes \<Rightarrow> bytes" where
  "deriveKey V passphrase salt = vl_idkey V (bytes_of_string passphrase) salt"

definition isValidEnvelope :: "Envelope \<Rightarrow> bool" where
  "isValidEnvelope env \<longleftrightarrow>
     ev_Version env = envelopeVersion \<and> ev_KDF env = ''argon2id'' \<and>
     ev_KDFTime env = argonTime \<and> ev_KDFMemoryKB env = argonMemoryKB \<and> ev_KDFThreads env = argonThreads \<and>
     length (ev_Salt env) = 16 \<and> length (ev_Nonce env) = 24 \<and> ev_Ciphertext env \<noteq> []"

definition EncryptEnvelope :: "crypto_lib \<Rightarrow> vault_lib \<Rightarrow> vault_random \<Rightarrow> string \<Rightarrow> bytes \<Rightarrow> go_error + Envelope" where
  "EncryptEnvelope L V rnd passphrase plaintext =
     bindE (vr_salt rnd) (\<lambda>salt.
     let key = deriveKey V passphrase salt in
     case cl_newX L key of
       Some err \<Rightarrow> Inl err
     | None \<Rightarrow>
         bindE (vr_nonce rnd) (\<lambda>nonce.
         Inr \<lparr>ev_Version = envelopeVersion, ev_KDF = ''argon2id'', ev_KDFTime = argonTime, ev_KDFMemoryKB = argonMemoryKB,
              ev_KDFThreads = argonThreads, ev_Salt = salt, ev_Nonce = nonce, ev_Ciphertext = cl_seal L key nonce plaintext []\<rparr>))"

definition DecryptEnvelope :: "crypto_lib \<Rightarrow> vault_lib \<Rightarrow> string \<Rightarrow> Envelope \<Rightarrow> go_error + bytes" where
  "DecryptEnvelope L V passphrase env =
     (if \<not> isValidEnvelope env then Inl ErrInvalidEnvelope
      else
        let key = deriveKey V passphrase (ev_Salt env) in
        case cl_newX L key of
          Some err \<Rightarrow> Inl err
        | None \<Rightarrow>
            (case cl_open L key (ev_Nonce env) (ev_Ciphertext env) [] of
               None \<Rightarrow> Inl ErrAuthFailed
             | Some plaintext \<Rightarrow> Inr plaintext))"

definition vault_Encrypt :: "crypto_lib \<Rightarrow> vault_lib \<Rightarrow> vault_random \<Rightarrow> string \<Rightarrow> bytes \<Rightarrow> go_error + bytes" where
  "vault_Encrypt L V rnd passphrase plaintext =
     bindE (EncryptEnvelope L V rnd passphrase plaintext) (\<lambda>env. Inr (filePrefix @ vl_marshal V env))"

definition vault_Decrypt :: "crypto_lib \<Rightarrow> vault_lib \<Rightarrow> string \<Rightarrow> bytes \<Rightarrow> go_error + bytes" where
  "vault_Decrypt L V passphrase data =
     (if \<not> prefix filePrefix data then Inl ErrLegacyData
      else case vl_unmarshal V (List.drop (length filePrefix) data) of
             None \<Rightarrow> Inl ErrInvalidEnvelope
           | Some env \<Rightarrow> DecryptEnvelope L V passphrase env)"

type_synonym EncryptedSeedEnvelope = Envelope

definition EncryptSeed :: "crypto_lib \<Rightarrow> vault_lib \<Rightarrow> vault_random \<Rightarrow> bytes \<Rightarrow> string \<Rightarrow> go_error + EncryptedSeedEnvelope" where
  "EncryptSeed L V rnd seed password = EncryptEnvelope L V rnd password seed"

definition DecryptSeed :: "crypto_lib \<Rightarrow> vault_lib \<Rightarrow> EncryptedSeedEnvelope option \<Rightarrow> string \<Rightarrow> go_error + bytes" where
  "DecryptSeed L V env password =
     (case env of None \<Rightarrow> Inl (ErrText ''seed envelope is nil'') | Some env \<Rightarrow> DecryptEnvelope L V password env)"

section \<open>Round trip\<close>

lemma envelope_round_trip:
  assumes "vault_ok L V" "random_ok rnd" "EncryptEnvelope L V rnd pw p = Inr env"
  shows "DecryptEnvelope L V pw env = Inr p"
  using assms
  by (auto simp: EncryptEnvelope_def DecryptEnvelope_def isValidEnvelope_def vault_ok_def crypto_ok_def random_ok_def deriveKey_def Let_def
      split: option.splits bindE_splits)

lemma envelope_made:
  assumes "vault_ok L V" "vr_salt rnd = Inr s" "vr_nonce rnd = Inr n"
  shows "\<exists>env. EncryptEnvelope L V rnd pw p = Inr env"
  using assms by (simp add: EncryptEnvelope_def vault_ok_def crypto_ok_def deriveKey_def Let_def)

lemma vault_round_trip:
  assumes "vault_ok L V" "random_ok rnd" "vault_Encrypt L V rnd pw p = Inr blob"
  shows "vault_Decrypt L V pw blob = Inr p"
proof -
  obtain env where env: "EncryptEnvelope L V rnd pw p = Inr env" "blob = filePrefix @ vl_marshal V env"
    using assms(3) by (auto simp: vault_Encrypt_def bindE_eq_Inr)
  then show ?thesis
    using envelope_round_trip [OF assms(1,2) env(1)] assms(1) by (simp add: vault_Decrypt_def vault_ok_def)
qed

end
