(* ===== verification/Identity_Manager.thy ===== *)
theory Identity_Manager
  imports Secure_Store
begin

text \<open>
  The identity manager, \<open>identity/domain\<close> with the cards of \<open>identity/policy/identity_card.go\<close>: contact cards,
  the contact book, devices and their revocation, and the encrypted seed with its password attempts.
  \<^item> Ed25519, BLAKE2b, base58 and BIP-39 are the parameters of \<open>sign_lib\<close>; HKDF and SHA-256 come from \<open>crypto_lib\<close>.
  \<^item> The set of revoked devices of a contact is the list of its elements.
  \<^item> The mutex of the manager makes each method one step; \<open>time.Now\<close> is an argument.
\<close>

declare map_of_eq_Some_iff [simp del]

record sign_lib =
  sg_keyFromSeed :: "bytes \<Rightarrow> bytes"
  sg_public :: "bytes \<Rightarrow> bytes"
  sg_sign :: "bytes \<Rightarrow> bytes \<Rightarrow> bytes"
  sg_verify :: "bytes \<Rightarrow> bytes \<Rightarrow> bytes \<Rightarrow> bool"
  sg_blake2b :: "bytes \<Rightarrow> bytes"
  sg_base58 :: "bytes \<Rightarrow> string"
  sg_mnemonicValid :: "string \<Rightarrow> bool"
  sg_newSeed :: "string \<Rightarrow> bytes"

text \<open>
  The documented laws of the signature scheme: a key made from a 32-byte seed has 64 bytes and starts with
  the seed, its public key has 32 bytes, and its signatures have 64 bytes and are accepted.
\<close>

definition sign_ok :: "sign_lib \<Rightarrow> bool" where
  "sign_ok S \<longleftrightarrow>
     (\<forall>seed. length seed = 32 \<longrightarrow>
        length (sg_keyFromSeed S seed) = 64 \<and> take 32 (sg_keyFromSeed S seed) = seed \<and>
        length (sg_public S (sg_keyFromSeed S seed)) = 32 \<and>
        (\<forall>m. length (sg_sign S (sg_keyFromSeed S seed) m) = 64 \<and>
           sg_verify S (sg_public S (sg_keyFromSeed S seed)) m (sg_sign S (sg_keyFromSeed S seed) m)))"

abbreviation ErrInvalidContactCard :: go_error where "ErrInvalidContactCard \<equiv> ErrVar ''identity.ErrInvalidContactCard''"
abbreviation ErrIdentityMismatch :: go_error where "ErrIdentityMismatch \<equiv> ErrVar ''identity.ErrIdentityMismatch''"
abbreviation ErrInvalidContactID :: go_error where "ErrInvalidContactID \<equiv> ErrVar ''identity.ErrInvalidContactID''"
abbreviation ErrContactKeyMismatch :: go_error where "ErrContactKeyMismatch \<equiv> ErrVar ''identity.ErrContactKeyMismatch''"
abbreviation ErrDeviceNotFound :: go_error where "ErrDeviceNotFound \<equiv> ErrVar ''identity.ErrDeviceNotFound''"
abbreviation ErrDeviceRevoked :: go_error where "ErrDeviceRevoked \<equiv> ErrVar ''identity.ErrDeviceRevoked''"
abbreviation ErrInvalidDeviceSig :: go_error where "ErrInvalidDeviceSig \<equiv> ErrVar ''identity.ErrInvalidDeviceSig''"
abbreviation ErrInvalidDeviceCert :: go_error where "ErrInvalidDeviceCert \<equiv> ErrVar ''identity.ErrInvalidDeviceCert''"
abbreviation ErrUnverifiedContact :: go_error where "ErrUnverifiedContact \<equiv> ErrVar ''identity.ErrUnverifiedContact''"
abbreviation ErrInvalidMnemonic :: go_error where "ErrInvalidMnemonic \<equiv> ErrVar ''identity.ErrInvalidMnemonic''"
abbreviation ErrInvalidPassword :: go_error where "ErrInvalidPassword \<equiv> ErrVar ''identity.ErrInvalidPassword''"
abbreviation ErrSeedNotAvailable :: go_error where "ErrSeedNotAvailable \<equiv> ErrVar ''identity.ErrSeedNotAvailable''"
abbreviation ErrPasswordRequired :: go_error where "ErrPasswordRequired \<equiv> ErrVar ''identity.ErrPasswordRequired''"
abbreviation ErrMnemonicRequired :: go_error where "ErrMnemonicRequired \<equiv> ErrVar ''identity.ErrMnemonicRequired''"
abbreviation ErrIdentityInit :: go_error where "ErrIdentityInit \<equiv> ErrVar ''identity.ErrIdentityInit''"
abbreviation ErrPasswordLocked :: go_error where "ErrPasswordLocked \<equiv> ErrVar ''identity.ErrPasswordLocked''"

section \<open>Contact cards\<close>

definition BuildIdentityID :: "sign_lib \<Rightarrow> bytes \<Rightarrow> go_error + string" where
  "BuildIdentityID S signingPublicKey =
     (if length signingPublicKey \<noteq> 32
      then Inl (ErrText (''invalid signing public key size: '' @ fmt_nat (length signingPublicKey)))
      else Inr (''aim1'' @ sg_base58 S (sg_blake2b S signingPublicKey)))"

definition VerifyIdentityID :: "sign_lib \<Rightarrow> string \<Rightarrow> bytes \<Rightarrow> go_error + bool" where
  "VerifyIdentityID S identityID signingPublicKey =
     bindE (BuildIdentityID S signingPublicKey) (\<lambda>expected. Inr (identityID = expected))"

definition contactCardSigningBytes :: "ContactCard \<Rightarrow> bytes" where
  "contactCardSigningBytes crd =
     bytes_of_string (cc_IdentityID crd) @ [0] @ bytes_of_string (cc_DisplayName crd) @ [0] @ cc_PublicKey crd"

definition SignContactCard :: "sign_lib \<Rightarrow> string \<Rightarrow> string \<Rightarrow> bytes \<Rightarrow> bytes \<Rightarrow> go_error + ContactCard" where
  "SignContactCard S identityID displayName publicKey privateKey =
     (if privateKey = [] \<or> publicKey = [] then Inl ErrInvalidContactCard
      else
        let crd = \<lparr>cc_IdentityID = identityID, cc_DisplayName = displayName, cc_PublicKey = publicKey, cc_Signature = []\<rparr>
        in bindE (VerifyIdentityID S identityID publicKey) (\<lambda>ok.
           if \<not> ok then Inl ErrIdentityMismatch
           else Inr (crd\<lparr>cc_Signature := sg_sign S privateKey (contactCardSigningBytes crd)\<rparr>)))"

definition VerifyContactCard :: "sign_lib \<Rightarrow> ContactCard \<Rightarrow> go_error + bool" where
  "VerifyContactCard S crd =
     (if length (cc_PublicKey crd) \<noteq> 32 \<or> length (cc_Signature crd) \<noteq> 64 then Inl ErrInvalidContactCard
      else bindE (VerifyIdentityID S (cc_IdentityID crd) (cc_PublicKey crd)) (\<lambda>ok.
        if \<not> ok then Inl ErrIdentityMismatch
        else Inr (sg_verify S (cc_PublicKey crd) (contactCardSigningBytes crd) (cc_Signature crd))))"

section \<open>State\<close>

record Contact =
  ct_ID :: string
  ct_DisplayName :: string
  ct_PublicKey :: bytes
  ct_AddedAt :: gotime
  ct_LastSeen :: gotime

record Identity =
  id_ID :: string
  id_SigningPublicKey :: bytes

record devicePrivate =
  dp_model :: Device
  dp_priv :: bytes

record SeedManager =
  sm_envelope :: "EncryptedSeedEnvelope option"
  sm_failedAttempts :: int
  sm_lockedUntil :: gotime

record Manager =
  mg_identity :: Identity
  mg_selfPriv :: bytes
  mg_contacts :: "(string, Contact) gomap"
  mg_devices :: "(string, devicePrivate) gomap"
  mg_activeDeviceID :: string
  mg_revokedDevices :: "(string, string list) gomap"
  mg_seeds :: SeedManager

section \<open>Contacts\<close>

definition AddContact :: "sign_lib \<Rightarrow> gotime \<Rightarrow> ContactCard \<Rightarrow> Manager \<Rightarrow> go_error option \<times> Manager" where
  "AddContact S now crd m =
     (case VerifyContactCard S crd of
        Inl err \<Rightarrow> (Some err, m)
      | Inr ok \<Rightarrow>
          if \<not> ok then (Some ErrInvalidContactCard, m)
          else if (case lookup (mg_contacts m) (cc_IdentityID crd) of
                     None \<Rightarrow> False
                   | Some existing \<Rightarrow> length (ct_PublicKey existing) = 32 \<and> ct_PublicKey existing \<noteq> cc_PublicKey crd)
          then (Some ErrContactKeyMismatch, m)
          else (None, m\<lparr>mg_contacts := put (cc_IdentityID crd)
                  \<lparr>ct_ID = cc_IdentityID crd, ct_DisplayName = cc_DisplayName crd, ct_PublicKey = cc_PublicKey crd,
                   ct_AddedAt = now, ct_LastSeen = 0\<rparr> (mg_contacts m)\<rparr>))"

definition AddContactByIdentityID :: "gotime \<Rightarrow> string \<Rightarrow> string \<Rightarrow> Manager \<Rightarrow> go_error option \<times> Manager" where
  "AddContactByIdentityID now contactID displayName m =
     (let contactID = TrimSpace contactID; displayName = TrimSpace displayName in
      if \<not> prefix ''aim1'' contactID \<or> length contactID < 12 then (Some ErrInvalidContactID, m)
      else
        let displayName = (if displayName = [] then contactID else displayName);
            publicKey = (case lookup (mg_contacts m) contactID of
                           None \<Rightarrow> []
                         | Some existing \<Rightarrow> if length (ct_PublicKey existing) = 32 then ct_PublicKey existing else [])
        in (None, m\<lparr>mg_contacts := put contactID
              \<lparr>ct_ID = contactID, ct_DisplayName = displayName, ct_PublicKey = publicKey, ct_AddedAt = now, ct_LastSeen = 0\<rparr> (mg_contacts m)\<rparr>))"

definition RemoveContact :: "string \<Rightarrow> Manager \<Rightarrow> go_error option \<times> Manager" where
  "RemoveContact contactID m =
     (let contactID = TrimSpace contactID in
      if contactID = [] then (Some ErrInvalidContactID, m)
      else if lookup (mg_contacts m) contactID = None then (Some ErrInvalidContactID, m)
      else (None, m\<lparr>mg_contacts := del contactID (mg_contacts m)\<rparr>))"

definition HasContact :: "string \<Rightarrow> Manager \<Rightarrow> bool" where
  "HasContact contactID m \<longleftrightarrow> lookup (mg_contacts m) contactID \<noteq> None"

definition HasVerifiedContact :: "string \<Rightarrow> Manager \<Rightarrow> bool" where
  "HasVerifiedContact contactID m =
     (case lookup (mg_contacts m) contactID of None \<Rightarrow> False | Some contact \<Rightarrow> length (ct_PublicKey contact) = 32)"

definition ContactPublicKey :: "string \<Rightarrow> Manager \<Rightarrow> bytes option" where
  "ContactPublicKey contactID m =
     (case lookup (mg_contacts m) contactID of
        None \<Rightarrow> None
      | Some contact \<Rightarrow> if length (ct_PublicKey contact) \<noteq> 32 then None else Some (ct_PublicKey contact))"

definition SelfContactCard :: "sign_lib \<Rightarrow> string \<Rightarrow> Manager \<Rightarrow> go_error + ContactCard" where
  "SelfContactCard S displayName m =
     SignContactCard S (id_ID (mg_identity m)) displayName (id_SigningPublicKey (mg_identity m)) (mg_selfPriv m)"

section \<open>Devices\<close>

definition deviceIDFromPub :: "crypto_lib \<Rightarrow> bytes \<Rightarrow> string" where
  "deviceIDFromPub L pub = ''dev1_'' @ EncodeToString (take 8 (cl_sha256 L pub))"

definition deviceCertBytes :: "string \<Rightarrow> string \<Rightarrow> bytes \<Rightarrow> bytes" where
  "deviceCertBytes identityID deviceID pub = bytes_of_string identityID @ [0] @ bytes_of_string deviceID @ [0] @ pub"

definition deviceRevocationBytes :: "string \<Rightarrow> string \<Rightarrow> gotime \<Rightarrow> bytes" where
  "deviceRevocationBytes identityID deviceID ts = bytes_of_string (identityID @ '':'' @ deviceID @ '':'' @ fmt_int (UnixNano ts))"

definition deriveDeviceSeed :: "crypto_lib \<Rightarrow> bytes \<Rightarrow> nat \<Rightarrow> bytes" where
  "deriveDeviceSeed L masterSeed index = cl_hkdf L masterSeed (bytes_of_string (''aim/device/'' @ fmt_nat index))"

definition new_device :: "crypto_lib \<Rightarrow> sign_lib \<Rightarrow> gotime \<Rightarrow> string \<Rightarrow> bytes \<Rightarrow> Manager \<Rightarrow> devicePrivate" where
  "new_device L S now name seed m =
     (let priv = sg_keyFromSeed S seed;
          pub = sg_public S priv;
          did = deviceIDFromPub L pub
      in \<lparr>dp_model = \<lparr>dv_ID = did, dv_Name = name, dv_PublicKey = pub,
            dv_CertSig = sg_sign S (mg_selfPriv m) (deviceCertBytes (id_ID (mg_identity m)) did pub), dv_CreatedAt = now,
            dv_IsRevoked = False, dv_RevokedAt = 0\<rparr>, dp_priv = priv\<rparr>)"

definition initPrimaryDevice :: "crypto_lib \<Rightarrow> sign_lib \<Rightarrow> gotime \<Rightarrow> Manager \<Rightarrow> go_error option \<times> Manager" where
  "initPrimaryDevice L S now m =
     (if length (mg_selfPriv m) < 32 then (Some (ErrText ''invalid identity private key''), m)
      else
        let device = new_device L S now ''primary'' (take 32 (mg_selfPriv m)) m
        in (None, m\<lparr>mg_devices := [(dv_ID (dp_model device), device)], mg_activeDeviceID := dv_ID (dp_model device)\<rparr>))"

definition AddDevice :: "crypto_lib \<Rightarrow> sign_lib \<Rightarrow> gotime \<Rightarrow> string \<Rightarrow> Manager \<Rightarrow> Device \<times> Manager" where
  "AddDevice L S now name m =
     (let name = TrimSpace name;
          name = (if name = [] then ''device'' else name);
          index = length (mg_devices m) + 1;
          device = new_device L S now name (deriveDeviceSeed L (take 32 (mg_selfPriv m)) index) m
      in (dp_model device, m\<lparr>mg_devices := put (dv_ID (dp_model device)) device (mg_devices m)\<rparr>))"

definition buildRevocationLocked :: "sign_lib \<Rightarrow> gotime \<Rightarrow> string \<Rightarrow> Manager \<Rightarrow> DeviceRevocation" where
  "buildRevocationLocked S now deviceID m =
     \<lparr>rv_IdentityID = id_ID (mg_identity m), rv_DeviceID = deviceID, rv_Timestamp = now,
      rv_Signature = sg_sign S (mg_selfPriv m) (deviceRevocationBytes (id_ID (mg_identity m)) deviceID now)\<rparr>"

definition RevokeDevice :: "sign_lib \<Rightarrow> gotime \<Rightarrow> gotime \<Rightarrow> string \<Rightarrow> Manager \<Rightarrow> (go_error + DeviceRevocation) \<times> Manager" where
  "RevokeDevice S revokedAt now deviceID m =
     (case lookup (mg_devices m) deviceID of
        None \<Rightarrow> (Inl ErrDeviceNotFound, m)
      | Some d \<Rightarrow>
          if dv_IsRevoked (dp_model d) then (Inr (buildRevocationLocked S now deviceID m), m)
          else
            let d = d\<lparr>dp_model := (dp_model d)\<lparr>dv_IsRevoked := True, dv_RevokedAt := revokedAt\<rparr>\<rparr>
            in (Inr (buildRevocationLocked S now deviceID m), m\<lparr>mg_devices := put deviceID d (mg_devices m)\<rparr>))"

definition ActiveDeviceAuth :: "sign_lib \<Rightarrow> bytes \<Rightarrow> Manager \<Rightarrow> go_error + (Device \<times> bytes)" where
  "ActiveDeviceAuth S payload m =
     (case lookup (mg_devices m) (mg_activeDeviceID m) of
        None \<Rightarrow> Inl ErrDeviceNotFound
      | Some d \<Rightarrow>
          if dv_IsRevoked (dp_model d) then Inl ErrDeviceRevoked
          else Inr (dp_model d, sg_sign S (dp_priv d) payload))"

definition is_revoked :: "string \<Rightarrow> string \<Rightarrow> Manager \<Rightarrow> bool" where
  "is_revoked contactID deviceID m =
     (case lookup (mg_revokedDevices m) contactID of None \<Rightarrow> False | Some revokedSet \<Rightarrow> deviceID \<in> set revokedSet)"

text \<open>\<open>ed25519.Verify\<close> panics on a public key that does not have 32 bytes.\<close>

datatype verdict = Verdict "go_error option" | Panic

definition VerifyInboundDevice :: "sign_lib \<Rightarrow> string \<Rightarrow> Device \<Rightarrow> bytes \<Rightarrow> bytes \<Rightarrow> Manager \<Rightarrow> verdict" where
  "VerifyInboundDevice S contactID device payload sig m =
     (case lookup (mg_contacts m) contactID of
        None \<Rightarrow> Verdict (Some ErrInvalidContactCard)
      | Some contact \<Rightarrow>
          if length (ct_PublicKey contact) \<noteq> 32 then Verdict (Some ErrUnverifiedContact)
          else if is_revoked contactID (dv_ID device) m then Verdict (Some ErrDeviceRevoked)
          else if \<not> sg_verify S (ct_PublicKey contact) (deviceCertBytes contactID (dv_ID device) (dv_PublicKey device)) (dv_CertSig device)
          then Verdict (Some ErrInvalidDeviceCert)
          else if length (dv_PublicKey device) \<noteq> 32 then Panic
          else if \<not> sg_verify S (dv_PublicKey device) payload sig then Verdict (Some ErrInvalidDeviceSig)
          else Verdict None)"

definition ApplyDeviceRevocation :: "sign_lib \<Rightarrow> string \<Rightarrow> DeviceRevocation \<Rightarrow> Manager \<Rightarrow> go_error option \<times> Manager" where
  "ApplyDeviceRevocation S contactID rv m =
     (case lookup (mg_contacts m) contactID of
        None \<Rightarrow> (Some ErrInvalidContactCard, m)
      | Some contact \<Rightarrow>
          if length (ct_PublicKey contact) \<noteq> 32 then (None, m)
          else if rv_IdentityID rv \<noteq> contactID then (Some ErrIdentityMismatch, m)
          else if \<not> sg_verify S (ct_PublicKey contact) (deviceRevocationBytes (rv_IdentityID rv) (rv_DeviceID rv) (rv_Timestamp rv)) (rv_Signature rv)
          then (Some ErrInvalidDeviceSig, m)
          else
            let revokedSet = (case lookup (mg_revokedDevices m) contactID of None \<Rightarrow> [] | Some s \<Rightarrow> s)
            in (None, m\<lparr>mg_revokedDevices := put contactID (List.insert (rv_DeviceID rv) revokedSet) (mg_revokedDevices m)\<rparr>))"

section \<open>The seed and its password\<close>

definition NewSeedManager :: SeedManager where
  "NewSeedManager = \<lparr>sm_envelope = None, sm_failedAttempts = 0, sm_lockedUntil = 0\<rparr>"

record DerivedKeys =
  dk_SigningPrivateKey :: bytes
  dk_SigningPublicKey :: bytes
  dk_EncryptionSeed :: bytes

definition DeriveKeys :: "crypto_lib \<Rightarrow> sign_lib \<Rightarrow> bytes \<Rightarrow> DerivedKeys" where
  "DeriveKeys L S seedBytes =
     (let signingPriv = sg_keyFromSeed S (cl_hkdf L seedBytes (bytes_of_string ''aim/identity/signing/v1''))
      in \<lparr>dk_SigningPrivateKey = signingPriv, dk_SigningPublicKey = sg_public S signingPriv,
          dk_EncryptionSeed = cl_hkdf L seedBytes (bytes_of_string ''aim/identity/encryption/v1'')\<rparr>)"

definition failedAttemptBackoff :: "int \<Rightarrow> duration" where
  "failedAttemptBackoff attempt = (if attempt \<le> 0 then 0 else second * 2 ^ nat (min (attempt - 1) 5))"

definition ensureUnlocked :: "gotime \<Rightarrow> SeedManager \<Rightarrow> go_error option" where
  "ensureUnlocked now s =
     (if sm_lockedUntil s = 0 then None
      else if now < sm_lockedUntil s then Some ErrPasswordLocked
      else None)"

definition onFailedPasswordAttempt :: "gotime \<Rightarrow> SeedManager \<Rightarrow> SeedManager" where
  "onFailedPasswordAttempt now s =
     (let s = s\<lparr>sm_failedAttempts := sm_failedAttempts s + 1\<rparr>
      in s\<lparr>sm_lockedUntil := now + failedAttemptBackoff (sm_failedAttempts s)\<rparr>)"

definition resetPasswordAttemptState :: "SeedManager \<Rightarrow> SeedManager" where
  "resetPasswordAttemptState s = s\<lparr>sm_failedAttempts := 0, sm_lockedUntil := 0\<rparr>"

definition string_of_bytes :: "bytes \<Rightarrow> string" where
  "string_of_bytes bs = map (\<lambda>b. char_of (unat b)) bs"

definition seed_Import ::
    "crypto_lib \<Rightarrow> vault_lib \<Rightarrow> sign_lib \<Rightarrow> vault_random \<Rightarrow> string \<Rightarrow> string \<Rightarrow> SeedManager \<Rightarrow> (go_error + string \<times> DerivedKeys) \<times> SeedManager" where
  "seed_Import L V S rnd mnemonic seedPassword s =
     (let mnemonic = TrimSpace mnemonic in
      if mnemonic = [] then (Inl ErrMnemonicRequired, s)
      else if blank seedPassword then (Inl ErrPasswordRequired, s)
      else if \<not> sg_mnemonicValid S mnemonic then (Inl ErrInvalidMnemonic, s)
      else
        let keys = DeriveKeys L S (sg_newSeed S mnemonic)
        in orFail (EncryptSeed L V rnd (bytes_of_string mnemonic) seedPassword) s (\<lambda>env.
           (Inr (mnemonic, keys), s\<lparr>sm_envelope := Some env\<rparr>)))"

text \<open>\<open>entropy\<close> is the outcome of \<open>bip39.NewEntropy\<close> and \<open>bip39.NewMnemonic\<close>.\<close>

definition seed_Create ::
    "crypto_lib \<Rightarrow> vault_lib \<Rightarrow> sign_lib \<Rightarrow> vault_random \<Rightarrow> go_error + string \<Rightarrow> string \<Rightarrow> SeedManager \<Rightarrow> (go_error + string \<times> DerivedKeys) \<times> SeedManager" where
  "seed_Create L V S rnd entropy seedPassword s =
     (if blank seedPassword then (Inl ErrPasswordRequired, s)
      else orFail entropy s (\<lambda>mnemonic. seed_Import L V S rnd mnemonic seedPassword s))"

definition seed_Export ::
    "crypto_lib \<Rightarrow> vault_lib \<Rightarrow> sign_lib \<Rightarrow> gotime \<Rightarrow> gotime \<Rightarrow> string \<Rightarrow> SeedManager \<Rightarrow> (go_error + string) \<times> SeedManager" where
  "seed_Export L V S now failedAt seedPassword s =
     (if blank seedPassword then (Inl ErrPasswordRequired, s)
      else case ensureUnlocked now s of
             Some err \<Rightarrow> (Inl err, s)
           | None \<Rightarrow>
               (case sm_envelope s of
                  None \<Rightarrow> (Inl ErrSeedNotAvailable, s)
                | Some env \<Rightarrow>
                    (case DecryptSeed L V (Some env) seedPassword of
                       Inl _ \<Rightarrow> (Inl ErrInvalidPassword, onFailedPasswordAttempt failedAt s)
                     | Inr plaintext \<Rightarrow>
                         let s = resetPasswordAttemptState s;
                             mnemonic = TrimSpace (string_of_bytes plaintext)
                         in if \<not> sg_mnemonicValid S mnemonic
                            then (Inl (ErrJoin ErrInvalidMnemonic (ErrText ''corrupted mnemonic'')), s)
                            else (Inr mnemonic, s))))"

definition seed_ChangePassword ::
    "crypto_lib \<Rightarrow> vault_lib \<Rightarrow> vault_random \<Rightarrow> gotime \<Rightarrow> gotime \<Rightarrow> string \<Rightarrow> string \<Rightarrow> SeedManager \<Rightarrow> go_error option \<times> SeedManager" where
  "seed_ChangePassword L V rnd now failedAt oldSeedPassword newSeedPassword s =
     (let oldSeedPassword = TrimSpace oldSeedPassword; newSeedPassword = TrimSpace newSeedPassword in
      if oldSeedPassword = [] \<or> newSeedPassword = [] then (Some ErrPasswordRequired, s)
      else case ensureUnlocked now s of
             Some err \<Rightarrow> (Some err, s)
           | None \<Rightarrow>
               (case sm_envelope s of
                  None \<Rightarrow> (Some ErrSeedNotAvailable, s)
                | Some env \<Rightarrow>
                    (case DecryptSeed L V (Some env) oldSeedPassword of
                       Inl _ \<Rightarrow> (Some ErrInvalidPassword, onFailedPasswordAttempt failedAt s)
                     | Inr mnemonicBytes \<Rightarrow>
                         (case EncryptSeed L V rnd mnemonicBytes newSeedPassword of
                            Inl err \<Rightarrow> (Some err, s)
                          | Inr newEnv \<Rightarrow> (None, resetPasswordAttemptState (s\<lparr>sm_envelope := Some newEnv\<rparr>))))))"

definition RestoreEnvelope :: "EncryptedSeedEnvelope option \<Rightarrow> SeedManager \<Rightarrow> SeedManager" where
  "RestoreEnvelope env s = resetPasswordAttemptState (s\<lparr>sm_envelope := env\<rparr>)"

definition FromKeys :: "sign_lib \<Rightarrow> DerivedKeys \<Rightarrow> go_error + (string \<times> bytes)" where
  "FromKeys S keys =
     (if length (dk_SigningPublicKey keys) \<noteq> 32 then Inl ErrIdentityInit
      else bindE (BuildIdentityID S (dk_SigningPublicKey keys)) (\<lambda>did. Inr (did, dk_SigningPublicKey keys)))"

section \<open>Replacing the identity\<close>

text \<open>The common tail of \<open>CreateIdentity\<close>, \<open>ImportIdentity\<close> and \<open>RestoreIdentityPrivateKey\<close>.\<close>

definition install_identity :: "crypto_lib \<Rightarrow> sign_lib \<Rightarrow> gotime \<Rightarrow> string \<Rightarrow> bytes \<Rightarrow> bytes \<Rightarrow> Manager \<Rightarrow> go_error option \<times> Manager" where
  "install_identity L S now did pub priv m =
     initPrimaryDevice L S now
       (m\<lparr>mg_identity := \<lparr>id_ID = did, id_SigningPublicKey = pub\<rparr>, mg_selfPriv := priv, mg_contacts := [], mg_revokedDevices := []\<rparr>)"

definition use_keys :: "crypto_lib \<Rightarrow> sign_lib \<Rightarrow> gotime \<Rightarrow> DerivedKeys \<Rightarrow> Manager \<Rightarrow> (go_error + Identity) \<times> Manager" where
  "use_keys L S now keys m =
     orFail (FromKeys S keys) m (\<lambda>(did, pub).
       case install_identity L S now did pub (dk_SigningPrivateKey keys) m of
         (Some err, m) \<Rightarrow> (Inl err, m)
       | (None, m) \<Rightarrow> (Inr (mg_identity m), m))"

definition mgr_CreateIdentity ::
    "crypto_lib \<Rightarrow> vault_lib \<Rightarrow> sign_lib \<Rightarrow> vault_random \<Rightarrow> go_error + string \<Rightarrow> gotime \<Rightarrow> string \<Rightarrow> Manager \<Rightarrow> (go_error + Identity \<times> string) \<times> Manager" where
  "mgr_CreateIdentity L V S rnd entropy now seedPassword m =
     (case seed_Create L V S rnd entropy seedPassword (mg_seeds m) of
        (r, seeds) \<Rightarrow>
          let m = m\<lparr>mg_seeds := seeds\<rparr>
          in orFail r m (\<lambda>(mnemonic, keys).
             case use_keys L S now keys m of
               (Inl err, m) \<Rightarrow> (Inl err, m)
             | (Inr identity, m) \<Rightarrow> (Inr (identity, mnemonic), m)))"

definition mgr_ImportIdentity ::
    "crypto_lib \<Rightarrow> vault_lib \<Rightarrow> sign_lib \<Rightarrow> vault_random \<Rightarrow> gotime \<Rightarrow> string \<Rightarrow> string \<Rightarrow> Manager \<Rightarrow> (go_error + Identity) \<times> Manager" where
  "mgr_ImportIdentity L V S rnd now mnemonic seedPassword m =
     (case seed_Import L V S rnd mnemonic seedPassword (mg_seeds m) of
        (r, seeds) \<Rightarrow>
          let m = m\<lparr>mg_seeds := seeds\<rparr>
          in orFail r m (\<lambda>(_, keys). use_keys L S now keys m))"

definition RestoreIdentityPrivateKey :: "crypto_lib \<Rightarrow> sign_lib \<Rightarrow> gotime \<Rightarrow> bytes \<Rightarrow> Manager \<Rightarrow> go_error option \<times> Manager" where
  "RestoreIdentityPrivateKey L S now privateKey m =
     (if length privateKey \<noteq> 64 then (Some ErrInvalidContactCard, m)
      else
        let pub = sg_public S privateKey
        in case BuildIdentityID S pub of
             Inl err \<Rightarrow> (Some err, m)
           | Inr did \<Rightarrow> install_identity L S now did pub privateKey m)"

definition VerifyPassword ::
    "crypto_lib \<Rightarrow> vault_lib \<Rightarrow> sign_lib \<Rightarrow> gotime \<Rightarrow> gotime \<Rightarrow> string \<Rightarrow> Manager \<Rightarrow> go_error option \<times> Manager" where
  "VerifyPassword L V S now failedAt seedPassword m =
     (case seed_Export L V S now failedAt (TrimSpace seedPassword) (mg_seeds m) of
        (r, seeds) \<Rightarrow> (case r of Inl err \<Rightarrow> Some err | Inr _ \<Rightarrow> None, m\<lparr>mg_seeds := seeds\<rparr>))"

end
