(* ===== verification/Identity_Service.thy ===== *)
theory Identity_Service
  imports Identity_Manager
begin

text \<open>
  Persistence and use cases of the identity: the runtime snapshot of \<open>runtime_state.go\<close>, the state file of
  \<open>state_store.go\<close>, the contact, device and identity operations of \<open>identity/usecase\<close>, and the guarantees of the
  component. The file holds what was last written; its encryption and JSON form are the ones of \<open>Secure_Store\<close>,
  whose round trip is proved there, so reading and writing are steps that succeed or fail.
\<close>

declare map_of_eq_Some_iff [simp del]

section \<open>Snapshots\<close>

record persistedRuntimeState =
  pr_Contacts :: "Contact list"
  pr_Devices :: "devicePrivate list"
  pr_ActiveDeviceID :: string
  pr_RevokedDevices :: "(string, string list) gomap"

record persistedIdentityState =
  pi_Version :: int
  pi_SigningPrivateKey :: bytes
  pi_SeedEnvelope :: "EncryptedSeedEnvelope option"
  pi_RuntimeState :: persistedRuntimeState

definition SnapshotRuntimeState :: "Manager \<Rightarrow> persistedRuntimeState" where
  "SnapshotRuntimeState m =
     \<lparr>pr_Contacts = map snd (mg_contacts m), pr_Devices = map snd (mg_devices m), pr_ActiveDeviceID = mg_activeDeviceID m,
      pr_RevokedDevices = mg_revokedDevices m\<rparr>"

definition restore_contacts :: "Contact list \<Rightarrow> (string, Contact) gomap" where
  "restore_contacts contacts = fold (\<lambda>c. put (ct_ID c) c) contacts []"

definition restore_devices :: "devicePrivate list \<Rightarrow> (string, devicePrivate) gomap" where
  "restore_devices devices =
     fold (\<lambda>d devices. if dv_ID (dp_model d) = [] \<or> length (dp_priv d) \<noteq> 64 then devices else put (dv_ID (dp_model d)) d devices) devices []"

definition restore_revoked :: "(string, string list) gomap \<Rightarrow> (string, string list) gomap" where
  "restore_revoked revoked =
     fold (\<lambda>(identityID, ids) acc.
       let ids = remdups (filter (\<lambda>i. i \<noteq> []) ids)
       in if ids = [] then acc else put identityID ids acc) revoked []"

text \<open>The device that takes over when the stored active device is missing is the first of the map's iteration.\<close>

definition RestoreRuntimeState :: "persistedRuntimeState \<Rightarrow> Manager \<Rightarrow> Manager" where
  "RestoreRuntimeState state m =
     (let devices = restore_devices (pr_Devices state);
          active = (if lookup devices (pr_ActiveDeviceID state) \<noteq> None then pr_ActiveDeviceID state
                    else if lookup devices (mg_activeDeviceID m) \<noteq> None then mg_activeDeviceID m
                    else case devices of [] \<Rightarrow> [] | (did, _) # _ \<Rightarrow> did)
      in m\<lparr>mg_contacts := restore_contacts (pr_Contacts state), mg_devices := devices,
           mg_revokedDevices := restore_revoked (pr_RevokedDevices state), mg_activeDeviceID := active\<rparr>)"

definition identity_snapshot :: "Manager \<Rightarrow> persistedIdentityState" where
  "identity_snapshot m =
     \<lparr>pi_Version = 1, pi_SigningPrivateKey = mg_selfPriv m, pi_SeedEnvelope = sm_envelope (mg_seeds m), pi_RuntimeState = SnapshotRuntimeState m\<rparr>"

section \<open>The service\<close>

text \<open>\<open>is_configured\<close>: the path and the secret of the state store are not blank.\<close>

record IdentityService =
  is_manager :: Manager
  is_file :: "persistedIdentityState option"
  is_configured :: bool

definition ids_Persist :: "go_error option \<Rightarrow> IdentityService \<Rightarrow> go_error option \<times> IdentityService" where
  "ids_Persist failure s =
     (if \<not> is_configured s then (None, s)
      else case failure of
             Some err \<Rightarrow> (Some err, s)
           | None \<Rightarrow> (None, s\<lparr>is_file := Some (identity_snapshot (is_manager s))\<rparr>))"

definition restore_state :: "crypto_lib \<Rightarrow> sign_lib \<Rightarrow> gotime \<Rightarrow> persistedIdentityState \<Rightarrow> Manager \<Rightarrow> go_error option \<times> Manager" where
  "restore_state L S now state m =
     (if pi_Version state \<noteq> 1 \<or> pi_SigningPrivateKey state = [] then (Some (ErrText ''identity persistence payload is invalid''), m)
      else case RestoreIdentityPrivateKey L S now (pi_SigningPrivateKey state) m of
             (Some err, m) \<Rightarrow> (Some err, m)
           | (None, m) \<Rightarrow>
               let m = (case pi_SeedEnvelope state of
                          None \<Rightarrow> m
                        | Some env \<Rightarrow> m\<lparr>mg_seeds := RestoreEnvelope (Some env) (mg_seeds m)\<rparr>)
               in (None, RestoreRuntimeState (pi_RuntimeState state) m))"

definition ids_Bootstrap ::
    "crypto_lib \<Rightarrow> sign_lib \<Rightarrow> gotime \<Rightarrow> go_error option \<Rightarrow> go_error option \<Rightarrow> IdentityService \<Rightarrow> go_error option \<times> IdentityService" where
  "ids_Bootstrap L S now readFailure writeFailure s =
     (if \<not> is_configured s then (None, s)
      else case readFailure of
             Some err \<Rightarrow> (Some err, s)
           | None \<Rightarrow>
               (case is_file s of
                  None \<Rightarrow> ids_Persist writeFailure s
                | Some state \<Rightarrow>
                    (case restore_state L S now state (is_manager s) of
                       (r, m) \<Rightarrow> (r, s\<lparr>is_manager := m\<rparr>))))"

text \<open>Most operations change the manager and then persist; a failed write is reported but the change stays in memory.\<close>

definition and_persist :: "go_error option \<times> Manager \<Rightarrow> go_error option \<Rightarrow> IdentityService \<Rightarrow> go_error option \<times> IdentityService" where
  "and_persist result failure s =
     (case result of
        (Some err, m) \<Rightarrow> (Some err, s\<lparr>is_manager := m\<rparr>)
      | (None, m) \<Rightarrow> ids_Persist failure (s\<lparr>is_manager := m\<rparr>))"

definition ids_AddContactCard :: "sign_lib \<Rightarrow> gotime \<Rightarrow> go_error option \<Rightarrow> ContactCard \<Rightarrow> IdentityService \<Rightarrow> go_error option \<times> IdentityService" where
  "ids_AddContactCard S now failure crd s = and_persist (AddContact S now crd (is_manager s)) failure s"

definition ids_AddContact :: "gotime \<Rightarrow> go_error option \<Rightarrow> string \<Rightarrow> string \<Rightarrow> IdentityService \<Rightarrow> go_error option \<times> IdentityService" where
  "ids_AddContact now failure contactID displayName s =
     and_persist (AddContactByIdentityID now contactID displayName (is_manager s)) failure s"

definition ids_RemoveContact :: "go_error option \<Rightarrow> string \<Rightarrow> IdentityService \<Rightarrow> go_error option \<times> IdentityService" where
  "ids_RemoveContact failure contactID s = and_persist (RemoveContact contactID (is_manager s)) failure s"

definition ids_AddDevice ::
    "crypto_lib \<Rightarrow> sign_lib \<Rightarrow> gotime \<Rightarrow> go_error option \<Rightarrow> string \<Rightarrow> IdentityService \<Rightarrow> (go_error + Device) \<times> IdentityService" where
  "ids_AddDevice L S now failure name s =
     (case AddDevice L S now (TrimSpace name) (is_manager s) of
        (device, m) \<Rightarrow>
          (case ids_Persist failure (s\<lparr>is_manager := m\<rparr>) of
             (Some err, s) \<Rightarrow> (Inl err, s)
           | (None, s) \<Rightarrow> (Inr device, s)))"

definition ids_CreateIdentity ::
    "crypto_lib \<Rightarrow> vault_lib \<Rightarrow> sign_lib \<Rightarrow> vault_random \<Rightarrow> go_error + string \<Rightarrow> gotime \<Rightarrow> go_error option \<Rightarrow> string \<Rightarrow> IdentityService \<Rightarrow>
     (go_error + Identity \<times> string) \<times> IdentityService" where
  "ids_CreateIdentity L V S rnd entropy now failure seedPassword s =
     (case mgr_CreateIdentity L V S rnd entropy now (TrimSpace seedPassword) (is_manager s) of
        (r, m) \<Rightarrow>
          let s = s\<lparr>is_manager := m\<rparr>
          in orFail r s (\<lambda>created.
             case ids_Persist failure s of
               (Some err, s) \<Rightarrow> (Inl err, s)
             | (None, s) \<Rightarrow> (Inr created, s)))"

definition ids_ImportIdentity ::
    "crypto_lib \<Rightarrow> vault_lib \<Rightarrow> sign_lib \<Rightarrow> vault_random \<Rightarrow> gotime \<Rightarrow> go_error option \<Rightarrow> string \<Rightarrow> string \<Rightarrow> IdentityService \<Rightarrow>
     (go_error + Identity) \<times> IdentityService" where
  "ids_ImportIdentity L V S rnd now failure mnemonic seedPassword s =
     (case mgr_ImportIdentity L V S rnd now (TrimSpace mnemonic) (TrimSpace seedPassword) (is_manager s) of
        (r, m) \<Rightarrow>
          let s = s\<lparr>is_manager := m\<rparr>
          in orFail r s (\<lambda>created.
             case ids_Persist failure s of
               (Some err, s) \<Rightarrow> (Inl err, s)
             | (None, s) \<Rightarrow> (Inr created, s)))"

definition ids_ExportSeed ::
    "crypto_lib \<Rightarrow> vault_lib \<Rightarrow> sign_lib \<Rightarrow> gotime \<Rightarrow> gotime \<Rightarrow> string \<Rightarrow> IdentityService \<Rightarrow> (go_error + string) \<times> IdentityService" where
  "ids_ExportSeed L V S now failedAt seedPassword s =
     (case seed_Export L V S now failedAt (TrimSpace seedPassword) (mg_seeds (is_manager s)) of
        (r, seeds) \<Rightarrow> (r, s\<lparr>is_manager := (is_manager s)\<lparr>mg_seeds := seeds\<rparr>\<rparr>))"

definition ids_ChangePassword ::
    "crypto_lib \<Rightarrow> vault_lib \<Rightarrow> vault_random \<Rightarrow> gotime \<Rightarrow> gotime \<Rightarrow> string \<Rightarrow> string \<Rightarrow> IdentityService \<Rightarrow> go_error option \<times> IdentityService" where
  "ids_ChangePassword L V rnd now failedAt oldSeedPassword newSeedPassword s =
     (case seed_ChangePassword L V rnd now failedAt (TrimSpace oldSeedPassword) (TrimSpace newSeedPassword) (mg_seeds (is_manager s)) of
        (r, seeds) \<Rightarrow> (r, s\<lparr>is_manager := (is_manager s)\<lparr>mg_seeds := seeds\<rparr>\<rparr>))"

definition ValidateLoginInput :: "string \<Rightarrow> string \<Rightarrow> string \<Rightarrow> go_error option" where
  "ValidateLoginInput accountID password currentIdentityID =
     (let accountID = TrimSpace accountID; password = TrimSpace password in
      if accountID = [] \<or> password = [] then Some (ErrText ''account id and password are required'')
      else if TrimSpace currentIdentityID \<noteq> accountID then Some (ErrText ''account id mismatch'')
      else None)"

definition ids_Login ::
    "crypto_lib \<Rightarrow> vault_lib \<Rightarrow> sign_lib \<Rightarrow> gotime \<Rightarrow> gotime \<Rightarrow> string \<Rightarrow> string \<Rightarrow> IdentityService \<Rightarrow> go_error option \<times> IdentityService" where
  "ids_Login L V S now failedAt identityID seedPassword s =
     (case ValidateLoginInput (TrimSpace identityID) (TrimSpace seedPassword) (id_ID (mg_identity (is_manager s))) of
        Some err \<Rightarrow> (Some err, s)
      | None \<Rightarrow>
          (case VerifyPassword L V S now failedAt (TrimSpace seedPassword) (is_manager s) of
             (r, m) \<Rightarrow> (r, s\<lparr>is_manager := m\<rparr>)))"

end
