(* ===== verification/Identity_Guarantees.thy ===== *)
theory Identity_Guarantees
  imports Identity_Service Session_Guarantees
begin

text \<open>
  The guarantees of the identity component: what the manager maintains, that trust in a contact's key and the revocation
  of devices persist through every operation, that two managers verify each other, the limits of device
  certificates, the throttling of password attempts, and what a restart keeps.
\<close>

declare map_of_eq_Some_iff [simp del]

section \<open>The invariant\<close>

definition own_key :: "sign_lib \<Rightarrow> bytes \<Rightarrow> bool" where
  "own_key S priv \<longleftrightarrow> (\<exists>seed. length seed = 32 \<and> priv = sg_keyFromSeed S seed)"

definition device_ok :: "sign_lib \<Rightarrow> string \<Rightarrow> bytes \<Rightarrow> string \<Rightarrow> devicePrivate \<Rightarrow> bool" where
  "device_ok S me priv k d \<longleftrightarrow>
     dv_ID (dp_model d) = k \<and> k \<noteq> [] \<and> own_key S (dp_priv d) \<and> dv_PublicKey (dp_model d) = sg_public S (dp_priv d) \<and>
     dv_CertSig (dp_model d) = sg_sign S priv (deviceCertBytes me k (dv_PublicKey (dp_model d)))"

definition manager_ok :: "sign_lib \<Rightarrow> Manager \<Rightarrow> bool" where
  "manager_ok S m \<longleftrightarrow>
     own_key S (mg_selfPriv m) \<and> id_SigningPublicKey (mg_identity m) = sg_public S (mg_selfPriv m) \<and>
     BuildIdentityID S (id_SigningPublicKey (mg_identity m)) = Inr (id_ID (mg_identity m)) \<and>
     keys_distinct (mg_contacts m) \<and> (\<forall>(k, c) \<in> set (mg_contacts m). ct_ID c = k) \<and>
     keys_distinct (mg_devices m) \<and> (\<forall>(k, d) \<in> set (mg_devices m). device_ok S (id_ID (mg_identity m)) (mg_selfPriv m) k d) \<and>
     lookup (mg_devices m) (mg_activeDeviceID m) \<noteq> None \<and>
     keys_distinct (mg_revokedDevices m) \<and> (\<forall>(k, ids) \<in> set (mg_revokedDevices m). distinct ids)"

datatype identity_op =
    OpAddContact gotime ContactCard
  | OpAddContactByIdentityID gotime string string
  | OpRemoveContact string
  | OpAddDevice gotime string
  | OpRevokeDevice gotime gotime string
  | OpApplyDeviceRevocation string DeviceRevocation

fun manager_step :: "crypto_lib \<Rightarrow> sign_lib \<Rightarrow> identity_op \<Rightarrow> Manager \<Rightarrow> Manager" where
  "manager_step L S (OpAddContact now crd) m = snd (AddContact S now crd m)"
| "manager_step L S (OpAddContactByIdentityID now i n) m = snd (AddContactByIdentityID now i n m)"
| "manager_step L S (OpRemoveContact i) m = snd (RemoveContact i m)"
| "manager_step L S (OpAddDevice now n) m = snd (AddDevice L S now n m)"
| "manager_step L S (OpRevokeDevice t now i) m = snd (RevokeDevice S t now i m)"
| "manager_step L S (OpApplyDeviceRevocation k rv) m = snd (ApplyDeviceRevocation S k rv m)"

definition manager_run :: "crypto_lib \<Rightarrow> sign_lib \<Rightarrow> identity_op list \<Rightarrow> Manager \<Rightarrow> Manager" where
  "manager_run L S ops m = fold (manager_step L S) ops m"

lemma own_key_length: "sign_ok S \<Longrightarrow> own_key S priv \<Longrightarrow> length priv = 64"
  by (auto simp: sign_ok_def own_key_def)

lemma own_key_public: "sign_ok S \<Longrightarrow> own_key S priv \<Longrightarrow> length (sg_public S priv) = 32"
  by (auto simp: sign_ok_def own_key_def)

lemma own_key_verify: "sign_ok S \<Longrightarrow> own_key S priv \<Longrightarrow> sg_verify S (sg_public S priv) x (sg_sign S priv x)"
  by (auto simp: sign_ok_def own_key_def)

lemma own_key_sig: "sign_ok S \<Longrightarrow> own_key S priv \<Longrightarrow> length (sg_sign S priv x) = 64"
  by (auto simp: sign_ok_def own_key_def)

lemma own_key_seed: "sign_ok S \<Longrightarrow> own_key S priv \<Longrightarrow> sg_keyFromSeed S (take 32 priv) = priv"
  by (auto simp: sign_ok_def own_key_def)

lemma new_device_ok:
  assumes "length seed = 32"
  shows "device_ok S (id_ID (mg_identity m)) (mg_selfPriv m) (dv_ID (dp_model (new_device L S now name seed m))) (new_device L S now name seed m)"
  using assms by (auto simp: device_ok_def new_device_def Let_def own_key_def deviceIDFromPub_def)

lemma manager_ok_put_device:
  "manager_ok S m \<Longrightarrow> device_ok S (id_ID (mg_identity m)) (mg_selfPriv m) k d \<Longrightarrow> manager_ok S (m\<lparr>mg_devices := put k d (mg_devices m)\<rparr>)"
  by (auto simp: manager_ok_def set_put)

lemma manager_ok_put_revoked:
  "manager_ok S m \<Longrightarrow> distinct ids \<Longrightarrow> manager_ok S (m\<lparr>mg_revokedDevices := put k ids (mg_revokedDevices m)\<rparr>)"
  by (auto simp: manager_ok_def set_put)

lemma manager_step_ok:
  assumes "crypto_ok L" "sign_ok S" "manager_ok S m"
  shows "manager_ok S (manager_step L S op m)"
proof (cases op)
  case (OpAddContact now crd)
  with assms(3) show ?thesis
    by (auto simp: AddContact_def manager_ok_def set_put split: sum.split option.split)
next
  case (OpAddContactByIdentityID now i n)
  with assms(3) show ?thesis by (auto simp: AddContactByIdentityID_def manager_ok_def set_put Let_def)
next
  case (OpRemoveContact i)
  with assms(3) show ?thesis by (auto simp: RemoveContact_def manager_ok_def set_del Let_def)
next
  case (OpAddDevice now n)
  let ?d = "new_device L S now (if TrimSpace n = [] then ''device'' else TrimSpace n)
    (deriveDeviceSeed L (take 32 (mg_selfPriv m)) (length (mg_devices m) + 1)) m"
  have "device_ok S (id_ID (mg_identity m)) (mg_selfPriv m) (dv_ID (dp_model ?d)) ?d"
    using assms(1) by (intro new_device_ok) (simp add: deriveDeviceSeed_def crypto_ok_def)
  from manager_ok_put_device [OF assms(3) this] OpAddDevice show ?thesis by (simp add: AddDevice_def Let_def)
next
  case (OpRevokeDevice t now i)
  show ?thesis
  proof (cases "lookup (mg_devices m) i")
    case (Some d)
    then have "device_ok S (id_ID (mg_identity m)) (mg_selfPriv m) i d"
      using assms(3) lookup_mem [OF Some] by (auto simp: manager_ok_def)
    then have "device_ok S (id_ID (mg_identity m)) (mg_selfPriv m) i (d\<lparr>dp_model := (dp_model d)\<lparr>dv_IsRevoked := True, dv_RevokedAt := t\<rparr>\<rparr>)"
      by (simp add: device_ok_def)
    from manager_ok_put_device [OF assms(3) this] OpRevokeDevice Some assms(3) show ?thesis by (simp add: RevokeDevice_def Let_def)
  qed (use assms(3) OpRevokeDevice in \<open>simp add: RevokeDevice_def\<close>)
next
  case (OpApplyDeviceRevocation k rv)
  have "distinct (case lookup (mg_revokedDevices m) k of None \<Rightarrow> [] | Some s \<Rightarrow> s)"
    using assms(3) by (auto simp: manager_ok_def split: option.split dest: lookup_mem)
  then have "distinct (List.insert (rv_DeviceID rv) (case lookup (mg_revokedDevices m) k of None \<Rightarrow> [] | Some s \<Rightarrow> s))"
    by (rule distinct_insert [THEN iffD2])
  from manager_ok_put_revoked [OF assms(3) this, of k] assms(3) OpApplyDeviceRevocation show ?thesis
    by (simp add: ApplyDeviceRevocation_def Let_def split: option.split)
qed

lemma manager_run_ok: "crypto_ok L \<Longrightarrow> sign_ok S \<Longrightarrow> manager_ok S m \<Longrightarrow> manager_ok S (manager_run L S ops m)"
  unfolding manager_run_def by (induction ops arbitrary: m) (simp_all add: manager_step_ok)

lemma install_identity_ok:
  assumes "sign_ok S" "own_key S priv" "BuildIdentityID S (sg_public S priv) = Inr did"
    and "install_identity L S now did (sg_public S priv) priv m = (None, m')"
  shows "manager_ok S m'"
proof -
  let ?m = "m\<lparr>mg_identity := \<lparr>id_ID = did, id_SigningPublicKey = sg_public S priv\<rparr>, mg_selfPriv := priv, mg_contacts := [], mg_revokedDevices := []\<rparr>"
  let ?d = "new_device L S now ''primary'' (take 32 priv) ?m"
  have "length priv = 64" using own_key_length assms(1,2) .
  then have "device_ok S did priv (dv_ID (dp_model ?d)) ?d"
    using new_device_ok [of "take 32 priv" S ?m L now "''primary''"] by simp
  moreover have "m' = ?m\<lparr>mg_devices := [(dv_ID (dp_model ?d), ?d)], mg_activeDeviceID := dv_ID (dp_model ?d)\<rparr>"
    using assms(4) \<open>length priv = 64\<close> by (simp add: install_identity_def initPrimaryDevice_def Let_def)
  ultimately show ?thesis using assms(2,3) by (simp add: manager_ok_def)
qed

section \<open>Trust\<close>

text \<open>
  C32: An identity that has been installed stays well formed. Through every sequence of contact and device operations the
  public key and the identity id belong to the private key, every contact and device is stored under its own id, the
  certificate of every device is the identity's signature, the active device exists and no set of revoked devices repeats an entry.
\<close>

theorem identity_stays_well_formed:
  assumes "crypto_ok L" "sign_ok S" "own_key S priv" "BuildIdentityID S (sg_public S priv) = Inr did"
    and "install_identity L S now did (sg_public S priv) priv m = (None, m')"
  shows "manager_ok S (manager_run L S ops m')"
  using manager_run_ok [OF assms(1,2) install_identity_ok [OF assms(2-5)]] .

fun removes :: "string \<Rightarrow> identity_op \<Rightarrow> bool" where
  "removes k (OpRemoveContact i) = (TrimSpace i = k)"
| "removes k _ = False"

lemma step_keeps_key:
  "ContactPublicKey k m = Some key \<Longrightarrow> \<not> removes k op \<Longrightarrow> ContactPublicKey k (manager_step L S op m) = Some key"
  by (cases op)
    (auto simp: ContactPublicKey_def AddContact_def AddContactByIdentityID_def RemoveContact_def AddDevice_def RevokeDevice_def
      ApplyDeviceRevocation_def Let_def split: option.splits sum.splits if_splits)

lemma step_keeps_revocation: "is_revoked k d m \<Longrightarrow> is_revoked k d (manager_step L S op m)"
  by (cases op)
    (auto simp: is_revoked_def AddContact_def AddContactByIdentityID_def RemoveContact_def AddDevice_def RevokeDevice_def
      ApplyDeviceRevocation_def Let_def split: option.splits sum.splits if_splits)

lemma revoked_refused: "is_revoked k (dv_ID dev) m \<Longrightarrow> VerifyInboundDevice S k dev payload sig m \<noteq> Verdict None"
  by (auto simp: VerifyInboundDevice_def split: option.split)

text \<open>
  C7: Trust once given stays. A contact whose key is pinned keeps exactly that key through every sequence of contact
  and device operations that does not remove the contact, whatever cards arrive; and a revoked device
  is refused from then on, even after its contact has been removed and added again.
\<close>

theorem trust_is_sticky:
  "(\<forall>k key. ContactPublicKey k m = Some key \<and> (\<forall>op \<in> set ops. \<not> removes k op) \<longrightarrow>
      ContactPublicKey k (manager_run L S ops m) = Some key) \<and>
   (\<forall>k dev. is_revoked k (dv_ID dev) m \<longrightarrow> (\<forall>payload sig. VerifyInboundDevice S k dev payload sig (manager_run L S ops m) \<noteq> Verdict None))"
proof -
  have "ContactPublicKey k m = Some key \<Longrightarrow> \<forall>op \<in> set ops. \<not> removes k op \<Longrightarrow> ContactPublicKey k (fold (manager_step L S) ops m) = Some key"
    for k key by (induction ops arbitrary: m) (simp_all add: step_keeps_key)
  moreover have "is_revoked k d m \<Longrightarrow> is_revoked k d (fold (manager_step L S) ops m)" for k d
    by (induction ops arbitrary: m) (simp_all add: step_keeps_revocation)
  ultimately show ?thesis unfolding manager_run_def by (blast dest: revoked_refused)
qed

text \<open>
  C23: Two managers verify each other. Whoever does not yet hold another key for the sender accepts the sender's
  card, and from then on every payload that the sender's active device signs verifies, unless that
  device has been revoked.
\<close>

theorem peers_verify_each_other:
  assumes "sign_ok S" "manager_ok S a" "\<not> HasContact (id_ID (mg_identity a)) b"
  shows "\<exists>crd b'. SelfContactCard S name a = Inr crd \<and> AddContact S now crd b = (None, b') \<and>
    (\<forall>payload dev sig. ActiveDeviceAuth S payload a = Inr (dev, sig) \<and> \<not> is_revoked (id_ID (mg_identity a)) (dv_ID dev) b \<longrightarrow>
       VerifyInboundDevice S (id_ID (mg_identity a)) dev payload sig b' = Verdict None)"
proof -
  let ?me = "id_ID (mg_identity a)" and ?pub = "id_SigningPublicKey (mg_identity a)" and ?priv = "mg_selfPriv a"
  have key: "own_key S ?priv" "?pub = sg_public S ?priv" "BuildIdentityID S ?pub = Inr ?me"
    using assms(2) unfolding manager_ok_def by blast+
  have len: "length ?pub = 32" "length ?priv = 64" using own_key_public own_key_length assms(1) key by simp_all
  define crd where "crd = \<lparr>cc_IdentityID = ?me, cc_DisplayName = name, cc_PublicKey = ?pub,
    cc_Signature = sg_sign S ?priv (contactCardSigningBytes \<lparr>cc_IdentityID = ?me, cc_DisplayName = name, cc_PublicKey = ?pub, cc_Signature = []\<rparr>)\<rparr>"
  define b' where "b' = b\<lparr>mg_contacts := put ?me \<lparr>ct_ID = ?me, ct_DisplayName = name, ct_PublicKey = ?pub, ct_AddedAt = now, ct_LastSeen = 0\<rparr> (mg_contacts b)\<rparr>"
  have self: "SelfContactCard S name a = Inr crd"
    using len key(3) by (auto simp: SelfContactCard_def SignContactCard_def VerifyIdentityID_def crd_def Let_def)
  have "contactCardSigningBytes crd = contactCardSigningBytes \<lparr>cc_IdentityID = ?me, cc_DisplayName = name, cc_PublicKey = ?pub, cc_Signature = []\<rparr>"
    by (simp add: contactCardSigningBytes_def crd_def)
  then have "VerifyContactCard S crd = Inr True"
    using len key own_key_sig [OF assms(1) key(1)] own_key_verify [OF assms(1) key(1)]
    by (simp add: VerifyContactCard_def VerifyIdentityID_def crd_def)
  then have add: "AddContact S now crd b = (None, b')"
    using assms(3) by (simp add: AddContact_def HasContact_def crd_def b'_def)
  have "VerifyInboundDevice S ?me dev payload sig b' = Verdict None"
    if auth: "ActiveDeviceAuth S payload a = Inr (dev, sig)" and fresh: "\<not> is_revoked ?me (dv_ID dev) b" for payload dev sig
  proof -
    obtain d where d: "lookup (mg_devices a) (mg_activeDeviceID a) = Some d" "dev = dp_model d" "sig = sg_sign S (dp_priv d) payload"
      using auth by (auto simp: ActiveDeviceAuth_def split: option.splits if_splits)
    then have "device_ok S ?me ?priv (mg_activeDeviceID a) d"
      using assms(2) lookup_mem [OF d(1)] by (auto simp: manager_ok_def)
    then have dev: "own_key S (dp_priv d)" "dv_PublicKey dev = sg_public S (dp_priv d)"
      "dv_CertSig dev = sg_sign S ?priv (deviceCertBytes ?me (dv_ID dev) (dv_PublicKey dev))"
      using d(2) by (auto simp: device_ok_def)
    have "\<not> is_revoked ?me (dv_ID dev) b'" using fresh by (simp add: is_revoked_def b'_def)
    then show ?thesis
      using len(1) dev d(3) key own_key_verify [OF assms(1) key(1)] own_key_verify [OF assms(1) dev(1)] own_key_public [OF assms(1) dev(1)]
      by (simp add: VerifyInboundDevice_def b'_def)
  qed
  with self add show ?thesis by blast
qed

text \<open>
  A device record with a certificate of the contact but a public key of another length than 32 bytes passes every check up
  to \<open>ed25519.Verify\<close>, which panics.
\<close>

lemma short_device_key:
  assumes "sign_ok S" "own_key S priv" "ContactPublicKey k m = Some (sg_public S priv)" "length pub \<noteq> 32" "\<not> is_revoked k d m"
  shows "VerifyInboundDevice S k \<lparr>dv_ID = d, dv_Name = n, dv_PublicKey = pub, dv_CertSig = sg_sign S priv (deviceCertBytes k d pub),
      dv_CreatedAt = t, dv_IsRevoked = False, dv_RevokedAt = 0\<rparr> payload sig m = Panic"
  using assms own_key_verify [OF assms(1,2)]
  by (auto simp: VerifyInboundDevice_def ContactPublicKey_def split: option.splits if_splits)

text \<open>
  Revoking the primary device does not lock out its holder. The private key of the primary device is the
  identity key itself, so with it one certifies a device of any name that is not revoked, and the peers that pinned
  the identity accept it.
\<close>

lemma primary_device_outlives_revocation:
  assumes "sign_ok S" "own_key S (mg_selfPriv a)" "initPrimaryDevice L S now a = (None, a')"
    and "lookup (mg_devices a') (mg_activeDeviceID a') = Some d"
    and "ContactPublicKey k b = Some (sg_public S (mg_selfPriv a))" "\<not> is_revoked k name b"
  shows "VerifyInboundDevice S k \<lparr>dv_ID = name, dv_Name = [], dv_PublicKey = sg_public S (dp_priv d),
      dv_CertSig = sg_sign S (dp_priv d) (deviceCertBytes k name (sg_public S (dp_priv d))), dv_CreatedAt = 0, dv_IsRevoked = False, dv_RevokedAt = 0\<rparr>
    payload (sg_sign S (dp_priv d) payload) b = Verdict None"
proof -
  have "dp_priv d = mg_selfPriv a"
    using assms(3,4) own_key_seed [OF assms(1,2)]
    by (auto simp: initPrimaryDevice_def new_device_def Let_def split: if_splits)
  then show ?thesis
    using assms(5,6) own_key_verify [OF assms(1,2)] own_key_public [OF assms(1,2)]
    by (auto simp: VerifyInboundDevice_def ContactPublicKey_def split: option.splits if_splits)
qed

section \<open>Password attempts\<close>

text \<open>A guess: the time of the attempt, the time at which its failure is noted, the password.\<close>

type_synonym guess = "gotime \<times> gotime \<times> string"

definition guess_step :: "crypto_lib \<Rightarrow> vault_lib \<Rightarrow> sign_lib \<Rightarrow> guess \<Rightarrow> SeedManager \<Rightarrow> SeedManager" where
  "guess_step L V S g s = (case g of (now, failedAt, pw) \<Rightarrow> snd (seed_Export L V S now failedAt pw s))"

primrec wait_sum :: "nat \<Rightarrow> int" where
  "wait_sum 0 = 0"
| "wait_sum (Suc n) = wait_sum n + 2 ^ min n 5"

definition throttled :: "gotime \<Rightarrow> gotime \<Rightarrow> EncryptedSeedEnvelope \<Rightarrow> nat \<Rightarrow> SeedManager \<Rightarrow> bool" where
  "throttled t0 T env n s \<longleftrightarrow> sm_envelope s = Some env \<and> sm_failedAttempts s = int n \<and>
     (if n = 0 then sm_lockedUntil s = 0
      else t0 + second * wait_sum n \<le> sm_lockedUntil s \<and> sm_lockedUntil s \<le> T + 32 * second \<and> 0 < sm_lockedUntil s)"

lemma wait_sum_bound: "32 * int n \<le> wait_sum n + 129"
proof (induction n)
  case (Suc n)
  show ?case
  proof (cases "n < 5")
    case True
    then have "n \<in> {0, 1, 2, 3, 4}" by auto
    then show ?thesis by (auto simp: eval_nat_numeral min_def)
  next
    case False
    then have "min n 5 = 5" by simp
    with Suc show ?thesis by simp
  qed
qed simp

lemma power_min_le: "(2 :: int) ^ min n 5 \<le> 32"
proof -
  have "(2 :: int) ^ min n 5 \<le> 2 ^ 5" by (rule power_increasing) simp_all
  then show ?thesis by simp
qed

lemma guess_throttled:
  assumes "throttled t0 T env n s" "DecryptSeed L V (Some env) pw = Inl e" "0 < t0" "t0 \<le> now" "now \<le> failedAt" "failedAt \<le> T"
  shows "\<exists>n'. throttled t0 T env n' (guess_step L V S (now, failedAt, pw) s)"
proof (cases "blank pw \<or> ensureUnlocked now s \<noteq> None")
  case True
  then have "guess_step L V S (now, failedAt, pw) s = s" by (auto simp: guess_step_def seed_Export_def)
  with assms(1) show ?thesis by auto
next
  case False
  then have step: "guess_step L V S (now, failedAt, pw) s = onFailedPasswordAttempt failedAt s"
    using assms(1,2) by (simp add: guess_step_def seed_Export_def throttled_def)
  have late: "n = 0 \<or> sm_lockedUntil s \<le> now"
    using False assms(1) by (auto simp: ensureUnlocked_def throttled_def split: if_splits)
  have delay: "failedAttemptBackoff (int n + 1) = second * 2 ^ min n 5"
    by (simp add: failedAttemptBackoff_def min_def nat_eq_iff)
  have pos: "0 < failedAt + second * 2 ^ min n 5" using assms(3-5) by (intro add_pos_pos) simp_all
  have low: "t0 + second * wait_sum (Suc n) \<le> failedAt + second * 2 ^ min n 5"
    using late assms(1,4,5) by (cases n) (auto simp: throttled_def algebra_simps)
  have "throttled t0 T env (Suc n) (onFailedPasswordAttempt failedAt s)"
    using assms(1,3-6) low power_min_le [of n] pos
    by (simp add: throttled_def onFailedPasswordAttempt_def Let_def delay)
  with step show ?thesis by auto
qed


section \<open>Restart\<close>

lemma fold_put_values:
  "keys_distinct (acc @ m) \<Longrightarrow> \<forall>(k, v) \<in> set m. key v = k \<Longrightarrow> fold (\<lambda>v. put (key v) v) (map snd m) acc = acc @ m"
proof (induction m arbitrary: acc)
  case (Cons x m)
  obtain k v where x: "x = (k, v)" by fastforce
  have "lookup acc k = None" using Cons.prems(1) x by (auto simp: map_of_eq_None_iff)
  then have "put k v acc = acc @ [(k, v)]" by (rule put_fresh)
  with Cons.IH [of "acc @ [x]"] Cons.prems x show ?case by simp
qed simp

lemma restore_contacts_id: "manager_ok S m \<Longrightarrow> restore_contacts (map snd (mg_contacts m)) = mg_contacts m"
  unfolding restore_contacts_def manager_ok_def using fold_put_values [of "[]" "mg_contacts m" ct_ID] by simp

lemma restore_devices_id:
  assumes "sign_ok S" "manager_ok S m"
  shows "restore_devices (map snd (mg_devices m)) = mg_devices m"
proof -
  have ok: "\<forall>(k, d) \<in> set (mg_devices m). dv_ID (dp_model d) = k \<and> k \<noteq> [] \<and> length (dp_priv d) = 64"
    using assms own_key_length by (fastforce simp: manager_ok_def device_ok_def)
  then have "restore_devices (map snd (mg_devices m)) = fold (\<lambda>d. put (dv_ID (dp_model d)) d) (map snd (mg_devices m)) []"
    unfolding restore_devices_def by (intro fold_cong) auto
  also have "\<dots> = mg_devices m"
    using fold_put_values [of "[]" "mg_devices m" "\<lambda>d. dv_ID (dp_model d)"] ok assms(2) by (auto simp: manager_ok_def)
  finally show ?thesis .
qed

lemma lookup_restore_revoked:
  assumes "keys_distinct r"
  shows "lookup (restore_revoked r) k =
    (case lookup r k of None \<Rightarrow> None | Some ids \<Rightarrow> (let ids = remdups (filter (\<lambda>i. i \<noteq> []) ids) in if ids = [] then None else Some ids))"
proof -
  let ?f = "\<lambda>(identityID, ids) acc. let ids = remdups (filter (\<lambda>i. i \<noteq> []) ids) in if ids = [] then acc else put identityID ids acc"
  have "keys_distinct r \<Longrightarrow> lookup (fold ?f r acc) k =
    (case lookup r k of None \<Rightarrow> lookup acc k
     | Some ids \<Rightarrow> (let ids = remdups (filter (\<lambda>i. i \<noteq> []) ids) in if ids = [] then lookup acc k else Some ids))" for acc :: "(string, string list) gomap"
  proof (induction r arbitrary: acc)
    case (Cons x r)
    obtain i ids where x: "x = (i, ids)" by fastforce
    have "lookup r i = None" using Cons.prems x by (simp add: map_of_eq_None_iff)
    with Cons x show ?case by (auto simp: Let_def split: option.split)
  qed simp
  from this [OF assms, of "[]"] show ?thesis unfolding restore_revoked_def map_of.simps .
qed

lemma restore_state_manager:
  assumes "sign_ok S" "manager_ok S m"
  obtains m' where "restore_state L S t (identity_snapshot m) m0 = (None, m')"
    "mg_identity m' = mg_identity m" "mg_selfPriv m' = mg_selfPriv m" "mg_contacts m' = mg_contacts m" "mg_devices m' = mg_devices m"
    "mg_activeDeviceID m' = mg_activeDeviceID m" "\<And>k d. d \<noteq> [] \<Longrightarrow> is_revoked k d m' = is_revoked k d m"
    "mg_seeds m' = (case sm_envelope (mg_seeds m) of None \<Rightarrow> mg_seeds m0 | Some env \<Rightarrow> RestoreEnvelope (Some env) (mg_seeds m0))"
proof -
  have key: "own_key S (mg_selfPriv m)" "BuildIdentityID S (sg_public S (mg_selfPriv m)) = Inr (id_ID (mg_identity m))"
    "id_SigningPublicKey (mg_identity m) = sg_public S (mg_selfPriv m)"
    using assms(2) unfolding manager_ok_def by metis+
  have len: "length (mg_selfPriv m) = 64" using own_key_length [OF assms(1) key(1)] .
  obtain m1 where m1: "RestoreIdentityPrivateKey L S t (mg_selfPriv m) m0 = (None, m1)"
    "mg_identity m1 = mg_identity m" "mg_selfPriv m1 = mg_selfPriv m" "mg_seeds m1 = mg_seeds m0"
    using len key by (simp add: RestoreIdentityPrivateKey_def install_identity_def initPrimaryDevice_def Let_def)
  define m2 where "m2 = (case sm_envelope (mg_seeds m) of None \<Rightarrow> m1 | Some env \<Rightarrow> m1\<lparr>mg_seeds := RestoreEnvelope (Some env) (mg_seeds m1)\<rparr>)"
  have m2: "mg_identity m2 = mg_identity m" "mg_selfPriv m2 = mg_selfPriv m"
    "mg_seeds m2 = (case sm_envelope (mg_seeds m) of None \<Rightarrow> mg_seeds m0 | Some env \<Rightarrow> RestoreEnvelope (Some env) (mg_seeds m0))"
    using m1 by (simp_all add: m2_def split: option.split)
  define m' where "m' = RestoreRuntimeState (SnapshotRuntimeState m) m2"
  have "restore_state L S t (identity_snapshot m) m0 = (None, m')"
    using m1(1) len by (auto simp: restore_state_def identity_snapshot_def m2_def m'_def)
  moreover have "mg_activeDeviceID m' = mg_activeDeviceID m" "mg_devices m' = mg_devices m" "mg_contacts m' = mg_contacts m"
    using restore_contacts_id [OF assms(2)] restore_devices_id [OF assms] assms(2)
    by (auto simp: m'_def RestoreRuntimeState_def SnapshotRuntimeState_def Let_def manager_ok_def)
  moreover have "is_revoked k d m' = is_revoked k d m" if "d \<noteq> []" for k d
  proof -
    have "keys_distinct (mg_revokedDevices m)" using assms(2) by (simp add: manager_ok_def)
    then show ?thesis using that lookup_restore_revoked [of "mg_revokedDevices m" k]
      by (auto simp: is_revoked_def m'_def RestoreRuntimeState_def SnapshotRuntimeState_def Let_def filter_empty_conv split: option.splits)
  qed
  moreover have "mg_identity m' = mg_identity m2" "mg_selfPriv m' = mg_selfPriv m2" "mg_seeds m' = mg_seeds m2"
    by (simp_all add: m'_def RestoreRuntimeState_def Let_def)
  ultimately show thesis using that [of m'] m2 by simp
qed

text \<open>
  What has been persisted is there after a restart: a manager that starts from the file of \<open>m\<close> has the identity, the
  private key, the contacts, the devices and the active device of \<open>m\<close>, knows the same devices as revoked, and holds
  the same encrypted seed with no password attempt on record.
\<close>

lemma restart_restores_identity:
  assumes "sign_ok S" "manager_ok S m" "sm_envelope (mg_seeds m) = Some env"
  shows "case ids_Bootstrap L S t None None \<lparr>is_manager = m0, is_file = Some (identity_snapshot m), is_configured = True\<rparr> of (r, s) \<Rightarrow>
    r = None \<and> mg_identity (is_manager s) = mg_identity m \<and> mg_selfPriv (is_manager s) = mg_selfPriv m \<and>
    mg_contacts (is_manager s) = mg_contacts m \<and> mg_devices (is_manager s) = mg_devices m \<and>
    mg_activeDeviceID (is_manager s) = mg_activeDeviceID m \<and>
    (\<forall>k d. d \<noteq> [] \<longrightarrow> is_revoked k d (is_manager s) = is_revoked k d m) \<and>
    mg_seeds (is_manager s) = \<lparr>sm_envelope = Some env, sm_failedAttempts = 0, sm_lockedUntil = 0\<rparr>"
proof -
  obtain m' where m': "restore_state L S t (identity_snapshot m) m0 = (None, m')"
    "mg_identity m' = mg_identity m" "mg_selfPriv m' = mg_selfPriv m" "mg_contacts m' = mg_contacts m" "mg_devices m' = mg_devices m"
    "mg_activeDeviceID m' = mg_activeDeviceID m" "\<And>k d. d \<noteq> [] \<Longrightarrow> is_revoked k d m' = is_revoked k d m"
    "mg_seeds m' = RestoreEnvelope (Some env) (mg_seeds m0)"
    by (rule restore_state_manager [OF assms(1,2), of L t m0]) (simp add: assms(3))
  then show ?thesis
    by (simp add: ids_Bootstrap_def RestoreEnvelope_def resetPasswordAttemptState_def)
qed

text \<open>
  C34: A password change does not survive a restart. \<open>ChangePassword\<close> is the one operation of the service that does
  not persist: when nothing else writes the file before the daemon restarts, the old password opens
  the seed again and the new one is refused.
\<close>

theorem password_change_lost_on_restart:
  assumes "sign_ok S" "manager_ok S (is_manager s)" "is_configured s" "is_file s = Some (identity_snapshot (is_manager s))"
    and "sm_envelope (mg_seeds (is_manager s)) = Some env"
    and "ids_ExportSeed L V S t0 t0 old s = (Inr mnemonic, s0)" "DecryptSeed L V (Some env) (TrimSpace new) = Inl e" "\<not> blank new"
    and "ids_ChangePassword L V rnd t1 t1 old new s = (None, s1)"
  shows "let s2 = snd (ids_Bootstrap L S t2 None None (s1\<lparr>is_manager := m0\<rparr>)) in
    fst (ids_ExportSeed L V S t3 t3 old s2) = Inr mnemonic \<and> fst (ids_ExportSeed L V S t3 t3 new s2) = Inl ErrInvalidPassword"
proof -
  obtain m' where m': "restore_state L S t2 (identity_snapshot (is_manager s)) m0 = (None, m')"
    "mg_seeds m' = RestoreEnvelope (Some env) (mg_seeds m0)"
    by (rule restore_state_manager [OF assms(1,2), of L t2 m0]) (simp add: assms(5))
  have "is_file s1 = is_file s" "is_configured s1 = is_configured s"
    using assms(9) by (auto simp: ids_ChangePassword_def split: prod.splits)
  then have s2: "snd (ids_Bootstrap L S t2 None None (s1\<lparr>is_manager := m0\<rparr>)) = s1\<lparr>is_manager := m'\<rparr>"
    using assms(3,4) m'(1) by (simp add: ids_Bootstrap_def)
  have "fst (ids_ExportSeed L V S t3 t3 old (s1\<lparr>is_manager := m'\<rparr>)) = Inr mnemonic"
    using assms(5,6) m'(2)
    by (auto simp: ids_ExportSeed_def seed_Export_def ensureUnlocked_def RestoreEnvelope_def resetPasswordAttemptState_def Let_def
        split: prod.splits option.splits sum.splits if_splits)
  moreover have "fst (ids_ExportSeed L V S t3 t3 new (s1\<lparr>is_manager := m'\<rparr>)) = Inl ErrInvalidPassword"
    using assms(7,8) m'(2)
    by (simp add: ids_ExportSeed_def seed_Export_def ensureUnlocked_def RestoreEnvelope_def resetPasswordAttemptState_def)
  ultimately show ?thesis by (simp add: s2 Let_def)
qed

section \<open>Concrete managers\<close>

definition sample_sign :: sign_lib where
  "sample_sign = \<lparr>sg_keyFromSeed = (\<lambda>seed. seed @ seed), sg_public = take 32, sg_sign = (\<lambda>priv x. priv),
     sg_verify = (\<lambda>pub x sig. take 32 sig = pub), sg_blake2b = (\<lambda>x. x), sg_base58 = string_of_bytes,
     sg_mnemonicValid = (\<lambda>x. x \<noteq> []), sg_newSeed = bytes_of_string\<rparr>"

lemma sample_sign_ok: "sign_ok sample_sign"
  by (simp add: sign_ok_def sample_sign_def)

definition sample_priv :: "8 word \<Rightarrow> bytes" where
  "sample_priv b = replicate 64 b"

definition blank_manager :: Manager where
  "blank_manager = \<lparr>mg_identity = \<lparr>id_ID = [], id_SigningPublicKey = []\<rparr>, mg_selfPriv = [], mg_contacts = [], mg_devices = [],
     mg_activeDeviceID = [], mg_revokedDevices = [], mg_seeds = NewSeedManager\<rparr>"

definition sample_id :: "8 word \<Rightarrow> string" where
  "sample_id b = ''aim1'' @ string_of_bytes (replicate 32 b)"

definition sample_manager :: "8 word \<Rightarrow> Manager" where
  "sample_manager b = snd (install_identity sample_lib sample_sign 1 (sample_id b) (replicate 32 b) (sample_priv b) blank_manager)"

lemma sample_key: "own_key sample_sign (sample_priv b)" "sg_public sample_sign (sample_priv b) = replicate 32 b"
  unfolding own_key_def by (auto intro!: exI [of _ "replicate 32 b"] simp: sample_sign_def sample_priv_def simp flip: replicate_add)

lemma sample_manager_ok: "manager_ok sample_sign (sample_manager b)"
proof (rule install_identity_ok [OF sample_sign_ok sample_key(1)])
  show "BuildIdentityID sample_sign (sg_public sample_sign (sample_priv b)) = Inr (sample_id b)"
    unfolding sample_key by (simp add: BuildIdentityID_def sample_sign_def sample_id_def)
  show "install_identity sample_lib sample_sign 1 (sample_id b) (sg_public sample_sign (sample_priv b)) (sample_priv b) blank_manager = (None, sample_manager b)"
    unfolding sample_key by (simp add: sample_manager_def install_identity_def initPrimaryDevice_def sample_priv_def Let_def)
qed

lemma sample_identity: "mg_identity (sample_manager b) = \<lparr>id_ID = sample_id b, id_SigningPublicKey = replicate 32 b\<rparr>"
    "mg_contacts (sample_manager b) = []" "mg_revokedDevices (sample_manager b) = []" "mg_selfPriv (sample_manager b) = sample_priv b"
  by (simp_all add: sample_manager_def install_identity_def initPrimaryDevice_def Let_def sample_priv_def)

definition pinned_manager :: Manager where
  "pinned_manager = (sample_manager 2)\<lparr>mg_contacts := [(sample_id 1,
     \<lparr>ct_ID = sample_id 1, ct_DisplayName = ''ann'', ct_PublicKey = replicate 32 1, ct_AddedAt = 1, ct_LastSeen = 0\<rparr>)],
     mg_revokedDevices := [(sample_id 1, [''dev1_old''])]\<rparr>"

definition other_card :: ContactCard where
  "other_card = \<lparr>cc_IdentityID = sample_id 1, cc_DisplayName = ''eve'', cc_PublicKey = replicate 32 9, cc_Signature = sample_priv 9\<rparr>"

lemma pinned_key: "ContactPublicKey (sample_id 1) pinned_manager = Some (replicate 32 1)"
  by (simp add: ContactPublicKey_def pinned_manager_def)

theorem trust_is_sticky_witness:
  "ContactPublicKey (sample_id 1) (manager_run sample_lib sample_sign [OpAddContact 5 other_card, OpAddDevice 6 ''phone''] pinned_manager) = Some (replicate 32 1) \<and>
   VerifyInboundDevice sample_sign (sample_id 1) \<lparr>dv_ID = ''dev1_old'', dv_Name = [], dv_PublicKey = [], dv_CertSig = [], dv_CreatedAt = 0, dv_IsRevoked = False, dv_RevokedAt = 0\<rparr>
     [] [] (manager_run sample_lib sample_sign [OpAddContact 5 other_card, OpAddDevice 6 ''phone''] pinned_manager) \<noteq> Verdict None"
proof -
  have "is_revoked (sample_id 1) ''dev1_old'' pinned_manager" by (simp add: is_revoked_def pinned_manager_def)
  with pinned_key show ?thesis
    using trust_is_sticky [of pinned_manager "[OpAddContact 5 other_card, OpAddDevice 6 ''phone'']" sample_lib sample_sign] by simp
qed

theorem peers_verify_each_other_witness:
  "\<exists>crd b'. SelfContactCard sample_sign ''ann'' (sample_manager 1) = Inr crd \<and> AddContact sample_sign 3 crd (sample_manager 2) = (None, b') \<and>
    (\<exists>dev sig. ActiveDeviceAuth sample_sign [7] (sample_manager 1) = Inr (dev, sig) \<and>
       VerifyInboundDevice sample_sign (sample_id 1) dev [7] sig b' = Verdict None)"
proof -
  have "\<not> HasContact (id_ID (mg_identity (sample_manager 1))) (sample_manager 2)" by (simp add: HasContact_def sample_identity)
  then obtain crd b' where c: "SelfContactCard sample_sign ''ann'' (sample_manager 1) = Inr crd" "AddContact sample_sign 3 crd (sample_manager 2) = (None, b')"
    "\<And>payload dev sig. ActiveDeviceAuth sample_sign payload (sample_manager 1) = Inr (dev, sig) \<Longrightarrow> \<not> is_revoked (sample_id 1) (dv_ID dev) (sample_manager 2) \<Longrightarrow>
       VerifyInboundDevice sample_sign (sample_id 1) dev payload sig b' = Verdict None"
    using peers_verify_each_other [OF sample_sign_ok sample_manager_ok [of 1], of "sample_manager 2" "''ann''" 3] by (auto simp: sample_identity)
  obtain dev sig where a: "ActiveDeviceAuth sample_sign [7] (sample_manager 1) = Inr (dev, sig)"
    by (simp add: ActiveDeviceAuth_def sample_manager_def install_identity_def initPrimaryDevice_def new_device_def Let_def sample_priv_def)
  have "\<not> is_revoked (sample_id 1) (dv_ID dev) (sample_manager 2)" by (simp add: is_revoked_def sample_identity)
  from c(3) [OF a this] c(1,2) a show ?thesis by blast
qed

lemma primary_device_outlives_revocation_witness:
  "\<exists>d. lookup (mg_devices (sample_manager 1)) (mg_activeDeviceID (sample_manager 1)) = Some d \<and>
     VerifyInboundDevice sample_sign (sample_id 1) \<lparr>dv_ID = ''dev1_new'', dv_Name = [], dv_PublicKey = sg_public sample_sign (dp_priv d),
       dv_CertSig = sg_sign sample_sign (dp_priv d) (deviceCertBytes (sample_id 1) ''dev1_new'' (sg_public sample_sign (dp_priv d))),
       dv_CreatedAt = 0, dv_IsRevoked = False, dv_RevokedAt = 0\<rparr> [7] (sg_sign sample_sign (dp_priv d) [7]) pinned_manager = Verdict None"
proof -
  let ?a = "blank_manager\<lparr>mg_identity := \<lparr>id_ID = sample_id 1, id_SigningPublicKey = replicate 32 1\<rparr>, mg_selfPriv := sample_priv 1\<rparr>"
  have init: "initPrimaryDevice sample_lib sample_sign 1 ?a = (None, sample_manager 1)"
    by (simp add: sample_manager_def install_identity_def initPrimaryDevice_def sample_priv_def Let_def blank_manager_def)
  obtain d where d: "lookup (mg_devices (sample_manager 1)) (mg_activeDeviceID (sample_manager 1)) = Some d"
    using sample_manager_ok [of 1] by (auto simp: manager_ok_def)
  have "\<not> is_revoked (sample_id 1) ''dev1_new'' pinned_manager" by (simp add: is_revoked_def pinned_manager_def)
  then show ?thesis
    using primary_device_outlives_revocation [OF sample_sign_ok _ init d, of "sample_id 1" pinned_manager "''dev1_new''" "[7]"]
      d pinned_key sample_key by simp
qed

definition keyed_lib :: crypto_lib where
  "keyed_lib = sample_lib\<lparr>cl_seal := (\<lambda>k n p a. k @ p), cl_open := (\<lambda>k n c a. if take 32 c = k then Some (List.drop 32 c) else None)\<rparr>"

definition sample_vault :: vault_lib where
  "sample_vault = \<lparr>vl_idkey = (\<lambda>p s. take 32 (p @ replicate 32 0)), vl_marshal = (\<lambda>_. []), vl_unmarshal = (\<lambda>_. None)\<rparr>"

definition sample_random :: vault_random where
  "sample_random = \<lparr>vr_salt = Inr (replicate 16 0), vr_nonce = Inr (replicate 24 0)\<rparr>"

definition sample_seed :: EncryptedSeedEnvelope where
  "sample_seed = projr (EncryptSeed keyed_lib sample_vault sample_random (bytes_of_string ''word'') ''old'')"

definition seeded_manager :: Manager where
  "seeded_manager = (sample_manager 1)\<lparr>mg_seeds := \<lparr>sm_envelope = Some sample_seed, sm_failedAttempts = 0, sm_lockedUntil = 0\<rparr>\<rparr>"

definition seeded_service :: IdentityService where
  "seeded_service = \<lparr>is_manager = seeded_manager, is_file = Some (identity_snapshot seeded_manager), is_configured = True\<rparr>"

lemma manager_ok_seeds: "manager_ok S (m\<lparr>mg_seeds := s\<rparr>) = manager_ok S m"
  by (simp add: manager_ok_def)

lemma seeded_manager_ok: "manager_ok sample_sign seeded_manager"
  by (simp add: seeded_manager_def manager_ok_seeds sample_manager_ok)

lemma sample_passwords:
  "DecryptSeed keyed_lib sample_vault (Some sample_seed) ''old'' = Inr (bytes_of_string ''word'')"
  "DecryptSeed keyed_lib sample_vault (Some sample_seed) ''new'' = Inl ErrAuthFailed"
  by code_simp+

lemma sample_words: "TrimSpace ''old'' = ''old''" "TrimSpace ''new'' = ''new''" "TrimSpace (string_of_bytes (bytes_of_string ''word'')) = ''word''"
  by code_simp+


lemma restart_restores_identity_witness:
  "case ids_Bootstrap sample_lib sample_sign 9 None None \<lparr>is_manager = sample_manager 5, is_file = Some (identity_snapshot seeded_manager), is_configured = True\<rparr> of (r, s) \<Rightarrow>
    r = None \<and> mg_identity (is_manager s) = mg_identity seeded_manager \<and> mg_devices (is_manager s) = mg_devices seeded_manager \<and>
    mg_seeds (is_manager s) = mg_seeds seeded_manager"
  using restart_restores_identity [OF sample_sign_ok seeded_manager_ok, of sample_seed sample_lib 9 "sample_manager 5"]
  by (auto simp: seeded_manager_def)

theorem password_change_lost_on_restart_witness:
  "let s1 = snd (ids_ChangePassword keyed_lib sample_vault sample_random 5 5 ''old'' ''new'' seeded_service);
       s2 = snd (ids_Bootstrap keyed_lib sample_sign 6 None None (s1\<lparr>is_manager := sample_manager 5\<rparr>))
   in fst (ids_ExportSeed keyed_lib sample_vault sample_sign 7 7 ''old'' s2) = Inr ''word'' \<and>
      fst (ids_ExportSeed keyed_lib sample_vault sample_sign 7 7 ''new'' s2) = Inl ErrInvalidPassword"
proof -
  have env: "sm_envelope (mg_seeds (is_manager seeded_service)) = Some sample_seed" by (simp add: seeded_service_def seeded_manager_def)
  have export: "fst (ids_ExportSeed keyed_lib sample_vault sample_sign 4 4 ''old'' seeded_service) = Inr ''word''"
    by (simp add: ids_ExportSeed_def seed_Export_def ensureUnlocked_def seeded_service_def seeded_manager_def sample_passwords sample_words Let_def sample_sign_def)
  have "EncryptSeed keyed_lib sample_vault sample_random (bytes_of_string ''word'') ''new'' \<noteq> Inl e" for e
    by (simp add: EncryptSeed_def EncryptEnvelope_def sample_random_def keyed_lib_def sample_lib_def sample_vault_def deriveKey_def Let_def min_def)
  then obtain env' where "EncryptSeed keyed_lib sample_vault sample_random (bytes_of_string ''word'') ''new'' = Inr env'" by (cases "EncryptSeed keyed_lib sample_vault sample_random (bytes_of_string ''word'') ''new''") auto
  then have "fst (ids_ChangePassword keyed_lib sample_vault sample_random 5 5 ''old'' ''new'' seeded_service) = None"
    by (simp add: ids_ChangePassword_def seed_ChangePassword_def ensureUnlocked_def seeded_service_def seeded_manager_def sample_passwords sample_words Let_def)
  then show ?thesis
    using password_change_lost_on_restart [OF sample_sign_ok _ _ _ env, of keyed_lib sample_vault 4 "''old''" "''word''" _ "''new''" ErrAuthFailed sample_random 5 _ 6 "sample_manager 5" 7]
      export seeded_manager_ok sample_passwords sample_words
    by (simp add: seeded_service_def prod_eq_iff)
qed

theorem identity_stays_well_formed_witness:
  "manager_ok sample_sign (manager_run sample_lib sample_sign [OpAddContact 5 other_card, OpAddDevice 6 ''phone'', OpRevokeDevice 7 7 ''dev1_x''] (sample_manager 1))"
proof (rule identity_stays_well_formed [OF sample_lib_ok sample_sign_ok sample_key(1)])
  show "BuildIdentityID sample_sign (sg_public sample_sign (sample_priv 1)) = Inr (sample_id 1)"
    unfolding sample_key by (simp add: BuildIdentityID_def sample_sign_def sample_id_def)
  show "install_identity sample_lib sample_sign 1 (sample_id 1) (sg_public sample_sign (sample_priv 1)) (sample_priv 1) blank_manager = (None, sample_manager 1)"
    unfolding sample_key by (simp add: sample_manager_def install_identity_def initPrimaryDevice_def sample_priv_def Let_def)
qed

end
