(* ===== verification/Daemon.thy ===== *)
theory Daemon
  imports Group_Inbound Group_Service Identity_Service Privacy_Service
begin

text \<open>
  The daemon as one state (\<open>internal/composition/daemonservice\<close>): the identity, session, privacy, group and
  message components and the inbox of message requests, with what the daemon publishes to the network and
  tells its subscribers. On it: the status updates and the signed publication of \<open>service_runtime.go\<close>, the padding of
  \<open>metadata_hardening.go\<close> and the receipts of \<open>outbound_delivery.go\<close>.
  \<^item> \<open>call_env\<close> is what one call takes from outside: libraries, clock readings, random bytes, JSON, and the outcomes
    of file and network operations. Log lines, counters and the delay before a publication are left out.
  \<^item> Errors are recorded, and messages stored, in the world of \<open>Group_Inbound\<close>, which the daemon contains.
\<close>

declare map_of_eq_Some_iff [simp del]

record PrivateMessage =
  wm_ID :: string
  wm_SenderID :: string
  wm_Recipient :: string
  wm_Payload :: bytes

datatype notification =
    NotifyMessageNew string Message
  | NotifyMessageStatus string string string
  | NotifyMessageEdited string string string
  | NotifyMessageDeleted string string
  | NotifyMessageCleared string nat
  | NotifyRequestNew string Message
  | NotifyRequestAccepted string nat
  | NotifyRequestDeclined string
  | NotifyRequestBlocked string
  | NotifySenderBlocked string bool bool
  | NotifySecurityAlert string string go_error
  | NotifyGroupMessageNew string Message
  | NotifyGroupMessageDeleted string string

type_synonym request_inbox = "(string, Message list) gomap"

record Daemon =
  dm_identity :: IdentityService
  dm_sessions :: SessionStore
  dm_privacy :: PrivacyService
  dm_world :: GroupInbound
  dm_inbox :: request_inbox
  dm_inboxFile :: "request_inbox option"
  dm_inboxConfigured :: bool
  dm_networking :: bool
  dm_published :: "PrivateMessage list"
  dm_notified :: "notification list"

abbreviation dm_manager :: "Daemon \<Rightarrow> Manager" where "dm_manager d \<equiv> is_manager (dm_identity d)"
abbreviation dm_messages :: "Daemon \<Rightarrow> MessageStore" where "dm_messages d \<equiv> in_Messages (dm_world d)"
abbreviation dm_self :: "Daemon \<Rightarrow> string" where "dm_self d \<equiv> id_ID (mg_identity (dm_manager d))"

text \<open>The \<open>n\<close>-th reading, random string or write of a call; \<open>errorText\<close> is the \<open>Error\<close> method of error values.\<close>

record call_env =
  ce_crypto :: crypto_lib
  ce_sign :: sign_lib
  ce_now :: "nat \<Rightarrow> gotime"
  ce_random :: "nat \<Rightarrow> go_error + bytes"
  ce_encrypt :: encrypt_input
  ce_sessionIO :: "nat \<Rightarrow> session_io"
  ce_write :: "nat \<Rightarrow> snapshot_write"
  ce_marshalWire :: "WirePayload \<Rightarrow> bytes"
  ce_unmarshalWire :: "bytes \<Rightarrow> WirePayload option"
  ce_marshalAuth :: "wire_auth \<Rightarrow> bytes"
  ce_unmarshalEvent :: "bytes \<Rightarrow> go_error + inboundGroupEventPayload"
  ce_parseTime :: "string \<Rightarrow> gotime option"
  ce_groupPersist :: persist
  ce_identityWrite :: "go_error option"
  ce_inboxWrite :: "nat \<Rightarrow> go_error option"
  ce_blockWrite :: "Blocklist \<Rightarrow> go_error option"
  ce_errorText :: "go_error \<Rightarrow> string"
  ce_hardening :: bool
  ce_wait :: "go_error option"
  ce_publish :: "PrivateMessage \<Rightarrow> go_error option"

definition daemon_recordError :: "string \<Rightarrow> go_error \<Rightarrow> Daemon \<Rightarrow> Daemon" where
  "daemon_recordError category err d = d\<lparr>dm_world := in_recordErr category err (dm_world d)\<rparr>"

definition daemon_notify :: "notification \<Rightarrow> Daemon \<Rightarrow> Daemon" where
  "daemon_notify n d = d\<lparr>dm_notified := dm_notified d @ [n]\<rparr>"

definition with_messages :: "MessageStore \<Rightarrow> Daemon \<Rightarrow> Daemon" where
  "with_messages store d = d\<lparr>dm_world := (dm_world d)\<lparr>in_Messages := store\<rparr>\<rparr>"

definition with_manager :: "Manager \<Rightarrow> Daemon \<Rightarrow> Daemon" where
  "with_manager m d = d\<lparr>dm_identity := (dm_identity d)\<lparr>is_manager := m\<rparr>\<rparr>"

section \<open>Status updates\<close>

definition notifyMessageStatus :: "string \<Rightarrow> string \<Rightarrow> Daemon \<Rightarrow> Daemon" where
  "notifyMessageStatus messageID status d =
     (case GetMessage (dm_messages d) messageID of
        None \<Rightarrow> d
      | Some msg \<Rightarrow> daemon_notify (NotifyMessageStatus messageID (msg_ContactID msg) status) d)"

definition updateMessageStatusAndNotify :: "snapshot_write \<Rightarrow> string \<Rightarrow> string \<Rightarrow> Daemon \<Rightarrow> bool \<times> Daemon" where
  "updateMessageStatusAndNotify write messageID status d =
     (case UpdateMessageStatus write messageID status (dm_messages d) of
        (Inl err, _) \<Rightarrow> (False, daemon_recordError ''storage'' err d)
      | (Inr _, store) \<Rightarrow> (True, notifyMessageStatus messageID status (with_messages store d)))"

definition markMessageAsSent :: "snapshot_write \<Rightarrow> snapshot_write \<Rightarrow> string \<Rightarrow> Daemon \<Rightarrow> Daemon" where
  "markMessageAsSent write write' messageID d =
     (let d = snd (updateMessageStatusAndNotify write messageID ''sent'' d) in
      case RemovePending write' messageID (dm_messages d) of
        (Some err, _) \<Rightarrow> daemon_recordError ''storage'' err d
      | (None, store) \<Rightarrow> with_messages store d)"

section \<open>Padding\<close>

definition sizeBuckets :: "nat list" where
  "sizeBuckets = [256, 512, 1024, 2048, 4096, 8192]"

definition padded :: "WirePayload \<Rightarrow> nat \<Rightarrow> WirePayload" where
  "padded wire n = wire\<lparr>wp_Padding := replicate n (CHR ''0'')\<rparr>"

definition isLatencyCritical :: "WirePayload \<Rightarrow> bool" where
  "isLatencyCritical wire \<longleftrightarrow> TrimSpace (ToLower (wp_Kind wire)) \<in> {''receipt'', ''device_revoke''}"

definition targetSize :: "(WirePayload \<Rightarrow> bytes) \<Rightarrow> WirePayload \<Rightarrow> nat" where
  "targetSize marshal wire =
     (case filter (\<lambda>bucket. length (marshal wire) \<le> bucket) sizeBuckets of [] \<Rightarrow> 0 | bucket # _ \<Rightarrow> bucket)"

text \<open>
  The binary search of \<open>buildPaddingForTarget\<close>: the length that fills the target, or else the last length that
  was too short.
\<close>

function padding_search :: "(nat \<Rightarrow> nat) \<Rightarrow> nat \<Rightarrow> int \<Rightarrow> int \<Rightarrow> nat \<Rightarrow> nat + nat" where
  "padding_search sz target low high best =
     (if low \<le> high
      then let mid = (low + high) div 2
           in if sz (nat mid) = target then Inl (nat mid)
              else if sz (nat mid) < target then padding_search sz target (mid + 1) high (nat mid)
              else padding_search sz target low (mid - 1) best
      else Inr best)"
  by auto

termination padding_search
  by (relation "measure (\<lambda>(_, _, low, high, _). nat (high - low + 1))") auto

declare padding_search.simps [simp del]

definition buildPaddingForTarget :: "(WirePayload \<Rightarrow> bytes) \<Rightarrow> WirePayload \<Rightarrow> nat \<Rightarrow> go_error + nat" where
  "buildPaddingForTarget marshal wire target =
     (let sz = (\<lambda>n. length (marshal (padded wire n))) in
      case padding_search sz target 0 (int target) 0 of
        Inl n \<Rightarrow> Inr n
      | Inr best \<Rightarrow>
          if sz best > target then Inl (ErrText ''failed to fit payload into target size bucket'') else Inr best)"

definition harden :: "(WirePayload \<Rightarrow> bytes) \<Rightarrow> bool \<Rightarrow> WirePayload \<Rightarrow> go_error + WirePayload" where
  "harden marshal enabled wire =
     (if \<not> enabled \<or> isLatencyCritical wire then Inr wire
      else
        let hardened = padded wire 0;
            target = targetSize marshal hardened
        in if target > 0 then bindE (buildPaddingForTarget marshal hardened target) (\<lambda>n. Inr (padded hardened n))
           else Inr hardened)"

section \<open>Signed publication\<close>

definition ComposeSignedPrivateMessage :: "call_env \<Rightarrow> string \<Rightarrow> string \<Rightarrow> WirePayload \<Rightarrow> Manager \<Rightarrow> go_error + PrivateMessage" where
  "ComposeSignedPrivateMessage env messageID recipient wire m =
     (case ValidateWirePayload wire of
        Some err \<Rightarrow> Inl (WrapCategorizedError ''api'' err)
      | None \<Rightarrow>
          (case BuildWireAuthPayload (ce_marshalAuth env) messageID (id_ID (mg_identity m)) recipient wire of
             Inl err \<Rightarrow> Inl (WrapCategorizedError ''api'' err)
           | Inr authPayload \<Rightarrow>
               (case ActiveDeviceAuth (ce_sign env) authPayload m of
                  Inl err \<Rightarrow> Inl (WrapCategorizedError ''crypto'' err)
                | Inr (device, deviceSig) \<Rightarrow>
                    Inr \<lparr>wm_ID = messageID, wm_SenderID = id_ID (mg_identity m), wm_Recipient = recipient,
                      wm_Payload = ce_marshalWire env (wire\<lparr>wp_Device := Some device, wp_DeviceSig := deviceSig\<rparr>)\<rparr>)))"

definition publishWithTimeout :: "call_env \<Rightarrow> PrivateMessage \<Rightarrow> Daemon \<Rightarrow> go_error option \<times> Daemon" where
  "publishWithTimeout env msg d =
     (case ce_publish env msg of
        Some err \<Rightarrow> (Some err, d)
      | None \<Rightarrow> (None, d\<lparr>dm_published := dm_published d @ [msg]\<rparr>))"

definition publishSignedWireWithContext :: "call_env \<Rightarrow> string \<Rightarrow> string \<Rightarrow> WirePayload \<Rightarrow> Daemon \<Rightarrow> go_error option \<times> Daemon" where
  "publishSignedWireWithContext env messageID recipient wire d =
     (case harden (ce_marshalWire env) (ce_hardening env) wire of
        Inl err \<Rightarrow> (Some (WrapCategorizedError ''api'' err), d)
      | Inr hardenedWire \<Rightarrow>
          (case ce_wait env of
             Some err \<Rightarrow> (Some (WrapCategorizedError ''network'' err), d)
           | None \<Rightarrow>
               (case ComposeSignedPrivateMessage env messageID recipient hardenedWire (dm_manager d) of
                  Inl err \<Rightarrow> (Some err, d)
                | Inr wmsg \<Rightarrow>
                    (case publishWithTimeout env wmsg d of
                       (Some err, d) \<Rightarrow> (Some (WrapCategorizedError ''network'' err), d)
                     | (None, d) \<Rightarrow> (None, d)))))"

definition networkContext :: "string \<Rightarrow> Daemon \<Rightarrow> go_error option" where
  "networkContext category d =
     (if dm_networking d then None
      else if category = [] then Some (ErrText ''networking is not started'')
      else Some (WrapCategorizedError category (ErrText ''networking is not started'')))"

definition sendReceipt :: "call_env \<Rightarrow> string \<Rightarrow> string \<Rightarrow> string \<Rightarrow> Daemon \<Rightarrow> go_error option \<times> Daemon" where
  "sendReceipt env contactID messageID status d =
     (if \<not> HasVerifiedContact contactID (dm_manager d) then (Some (ErrText ''receipt target is not a verified contact''), d)
      else
        let wire = NewReceiptWire messageID status (ce_now env 4)
        in case GeneratePrefixedID ''rcpt'' (ce_random env 4) of
             Inl err \<Rightarrow> (Some err, d)
           | Inr wireID \<Rightarrow>
               (case networkContext ''network'' d of
                  Some err \<Rightarrow> (Some err, d)
                | None \<Rightarrow> publishSignedWireWithContext env wireID contactID wire d))"

end
