(* ===== verification/Inbox.thy ===== *)
theory Inbox
  imports Daemon
begin

text \<open>
  The inbox of message requests from unknown senders: summaries (\<open>inbox/model/request.go\<close>), the request store
  (\<open>inbox/state_store.go\<close>), the guarded access of the daemon (\<open>inbox_runtime_state.go\<close> and \<open>persistInboundRequest\<close> of
  \<open>runtime_inbound.go\<close>) and the use cases (\<open>inbox/usecase/service.go\<close>). The inbox file holds what was last written; its
  encryption is the one of \<open>Secure_Store\<close>. Threads are lists and are never shared, so the clones of the code are the
  lists themselves.
\<close>

declare map_of_eq_Some_iff [simp del]

section \<open>Summaries\<close>

record MessageRequest =
  mr_SenderID :: string
  mr_FirstMessageAt :: gotime
  mr_LastMessageAt :: gotime
  mr_MessageCount :: nat
  mr_LastMessageID :: string
  mr_LastContentType :: string
  mr_LastPreview :: string

abbreviation ErrMessageRequestNotFound :: go_error where
  "ErrMessageRequestNotFound \<equiv> ErrVar ''inbox.ErrMessageRequestNotFound''"

definition MessagePreview :: "bytes \<Rightarrow> string" where
  "MessagePreview content =
     (let trimmed = TrimSpace (string_of_bytes content) in if length trimmed \<le> 96 then trimmed else take 96 trimmed)"

definition first_last :: "Message \<Rightarrow> Message list \<Rightarrow> Message \<times> Message" where
  "first_last m messages =
     fold (\<lambda>msg (oldest, newest).
       (if msg_Timestamp msg < msg_Timestamp oldest then msg else oldest,
        if msg_Timestamp msg > msg_Timestamp newest then msg else newest)) messages (m, m)"

definition BuildMessageRequestSummary :: "string \<Rightarrow> Message list \<Rightarrow> go_error + MessageRequest" where
  "BuildMessageRequestSummary senderID messages =
     (case messages of
        [] \<Rightarrow> Inl ErrMessageRequestNotFound
      | m # ms \<Rightarrow>
          (case first_last m ms of
             (oldest, newest) \<Rightarrow>
               Inr \<lparr>mr_SenderID = senderID, mr_FirstMessageAt = msg_Timestamp oldest, mr_LastMessageAt = msg_Timestamp newest,
                 mr_MessageCount = length messages, mr_LastMessageID = msg_ID newest, mr_LastContentType = msg_ContentType newest,
                 mr_LastPreview = MessagePreview (msg_Content newest)\<rparr>))"

definition more_recent :: "MessageRequest \<Rightarrow> MessageRequest \<Rightarrow> bool" where
  "more_recent a b \<longleftrightarrow>
     (if mr_LastMessageAt a = mr_LastMessageAt b then mr_SenderID a < mr_SenderID b else mr_LastMessageAt a > mr_LastMessageAt b)"

fun insert_request :: "MessageRequest \<Rightarrow> MessageRequest list \<Rightarrow> MessageRequest list" where
  "insert_request r [] = [r]"
| "insert_request r (x # xs) = (if more_recent x r then x # insert_request r xs else r # x # xs)"

definition SortMessageRequestsByRecency :: "MessageRequest list \<Rightarrow> MessageRequest list" where
  "SortMessageRequestsByRecency requests = foldr insert_request requests []"

definition HasMessageID :: "Message list \<Rightarrow> string \<Rightarrow> bool" where
  "HasMessageID messages messageID \<longleftrightarrow> (\<exists>msg \<in> set messages. msg_ID msg = messageID)"

definition NormalizeMessageTimestamp :: "gotime \<Rightarrow> gotime \<Rightarrow> gotime" where
  "NormalizeMessageTimestamp now ts = (if ts = 0 then now else ts)"

section \<open>The stored inbox\<close>

definition persistRequestInboxSnapshotLocked :: "go_error option \<Rightarrow> request_inbox \<Rightarrow> Daemon \<Rightarrow> go_error option \<times> Daemon" where
  "persistRequestInboxSnapshotLocked writeErr nextInbox d =
     (if \<not> dm_inboxConfigured d then (None, d)
      else case writeErr of Some err \<Rightarrow> (Some err, d) | None \<Rightarrow> (None, d\<lparr>dm_inboxFile := Some nextInbox\<rparr>))"

text \<open>Every change of the inbox writes the next inbox first and installs it only when that succeeded.\<close>

definition replace_inbox :: "go_error option \<Rightarrow> request_inbox \<Rightarrow> Daemon \<Rightarrow> go_error option \<times> Daemon" where
  "replace_inbox writeErr nextInbox d =
     (case persistRequestInboxSnapshotLocked writeErr nextInbox d of
        (Some err, d) \<Rightarrow> (Some err, d)
      | (None, d) \<Rightarrow> (None, d\<lparr>dm_inbox := nextInbox\<rparr>))"

definition inbox_Bootstrap :: "go_error option \<Rightarrow> go_error option \<Rightarrow> Daemon \<Rightarrow> (go_error + request_inbox) \<times> Daemon" where
  "inbox_Bootstrap readErr writeErr d =
     (if \<not> dm_inboxConfigured d then (Inr [], d)
      else case dm_inboxFile d of
             None \<Rightarrow>
               (case persistRequestInboxSnapshotLocked writeErr [] d of
                  (Some err, d) \<Rightarrow> (Inl err, d)
                | (None, d) \<Rightarrow> (Inr [], d))
           | Some inbox \<Rightarrow> (case readErr of Some err \<Rightarrow> (Inl err, d) | None \<Rightarrow> (Inr inbox, d)))"

definition thread_of :: "Daemon \<Rightarrow> string \<Rightarrow> Message list" where
  "thread_of d senderID = (case lookup (dm_inbox d) senderID of None \<Rightarrow> [] | Some thread \<Rightarrow> thread)"

definition takeMessageRequestThread :: "go_error option \<Rightarrow> string \<Rightarrow> Daemon \<Rightarrow> (go_error + Message list option) \<times> Daemon" where
  "takeMessageRequestThread writeErr senderID d =
     (let current = thread_of d senderID in
      if current = [] then (Inr None, d)
      else case replace_inbox writeErr (del senderID (dm_inbox d)) d of
             (Some err, d) \<Rightarrow> (Inl err, d)
           | (None, d) \<Rightarrow> (Inr (Some current), d))"

definition restoreMessageRequestThreadIfEmpty :: "go_error option \<Rightarrow> string \<Rightarrow> Message list \<Rightarrow> Daemon \<Rightarrow> go_error option \<times> Daemon" where
  "restoreMessageRequestThreadIfEmpty writeErr senderID thread d =
     (if thread_of d senderID \<noteq> [] then (None, d)
      else replace_inbox writeErr (put senderID thread (dm_inbox d)) d)"

definition removeMessageRequest :: "go_error option \<Rightarrow> string \<Rightarrow> Daemon \<Rightarrow> (go_error + bool) \<times> Daemon" where
  "removeMessageRequest writeErr senderID d =
     (if lookup (dm_inbox d) senderID = None then (Inr False, d)
      else case replace_inbox writeErr (del senderID (dm_inbox d)) d of
             (Some err, d) \<Rightarrow> (Inl err, d)
           | (None, d) \<Rightarrow> (Inr True, d))"

definition persistInboundRequest :: "call_env \<Rightarrow> Message \<Rightarrow> Daemon \<Rightarrow> bool \<times> Daemon" where
  "persistInboundRequest env msg d =
     (let thread = thread_of d (msg_ContactID msg) in
      if HasMessageID thread (msg_ID msg) then (False, d)
      else
        let msg = msg\<lparr>msg_Timestamp := NormalizeMessageTimestamp (ce_now env 3) (msg_Timestamp msg)\<rparr>
        in case replace_inbox (ce_inboxWrite env 0) (put (msg_ContactID msg) (thread @ [msg]) (dm_inbox d)) d of
             (Some err, d) \<Rightarrow> (False, daemon_recordError ''storage'' err d)
           | (None, d) \<Rightarrow> (True, daemon_notify (NotifyRequestNew (msg_ContactID msg) msg) d))"

section \<open>Use cases\<close>

definition ListMessageRequests :: "Daemon \<Rightarrow> MessageRequest list" where
  "ListMessageRequests d =
     SortMessageRequestsByRecency
       (List.map_filter (\<lambda>(senderID, messages). case BuildMessageRequestSummary senderID messages of Inl _ \<Rightarrow> None | Inr r \<Rightarrow> Some r) (dm_inbox d))"

definition GetMessageRequest :: "string \<Rightarrow> Daemon \<Rightarrow> go_error + (MessageRequest \<times> Message list)" where
  "GetMessageRequest senderID d =
     bindE (ValidateListMessagesContactID senderID) (\<lambda>senderID.
     let thread = thread_of d senderID in
     if thread = [] then Inl ErrMessageRequestNotFound
     else bindE (BuildMessageRequestSummary senderID thread) (\<lambda>summary. Inr (summary, thread)))"

text \<open>
  The loop of \<open>AcceptMessageRequest\<close> that moves the thread to the message store; \<open>write i\<close> is the snapshot write of
  the \<open>i\<close>-th message. A conflict of ids skips the message; another error ends the loop.
\<close>

fun move_thread :: "(nat \<Rightarrow> snapshot_write) \<Rightarrow> nat \<Rightarrow> string \<Rightarrow> Message list \<Rightarrow> Daemon \<Rightarrow> go_error option \<times> Daemon" where
  "move_thread write i senderID [] d = (None, d)"
| "move_thread write i senderID (msg # msgs) d =
     (case SaveMessage (write i) msg (dm_messages d) of
        (Some err, _) \<Rightarrow>
          if err = ErrMessageIDConflict then move_thread write (Suc i) senderID msgs d
          else (Some err, daemon_recordError ''storage'' err d)
      | (None, store) \<Rightarrow> move_thread write (Suc i) senderID msgs (daemon_notify (NotifyMessageNew senderID msg) (with_messages store d)))"

definition AcceptMessageRequest :: "call_env \<Rightarrow> string \<Rightarrow> Daemon \<Rightarrow> (go_error + bool) \<times> Daemon" where
  "AcceptMessageRequest env senderID d =
     orFail (ValidateListMessagesContactID senderID) d (\<lambda>senderID.
     case takeMessageRequestThread (ce_inboxWrite env 0) senderID d of
       (Inl err, d) \<Rightarrow> (Inl err, daemon_recordError ''storage'' err d)
     | (Inr None, d) \<Rightarrow>
         if HasContact senderID (dm_manager d) then (Inr True, d) else (Inl ErrMessageRequestNotFound, d)
     | (Inr (Some thread), d) \<Rightarrow>
         (case ids_AddContact (ce_now env 0) (ce_identityWrite env) senderID senderID (dm_identity d) of
            (Some err, ids) \<Rightarrow>
              (let d = d\<lparr>dm_identity := ids\<rparr> in
               case restoreMessageRequestThreadIfEmpty (ce_inboxWrite env 1) senderID thread d of
                 (Some perr, d) \<Rightarrow> (Inl (ErrJoin err perr), daemon_recordError ''storage'' perr d)
               | (None, d) \<Rightarrow> (Inl err, d))
          | (None, ids) \<Rightarrow>
              (case move_thread (ce_write env) 0 senderID thread (d\<lparr>dm_identity := ids\<rparr>) of
                 (Some err, d) \<Rightarrow> (Inl err, d)
               | (None, d) \<Rightarrow> (Inr True, daemon_notify (NotifyRequestAccepted senderID (length thread)) d))))"

definition removeRequestThreadAndNotify :: "go_error option \<Rightarrow> string \<Rightarrow> notification \<Rightarrow> Daemon \<Rightarrow> (go_error + bool) \<times> Daemon" where
  "removeRequestThreadAndNotify writeErr senderID n d =
     (case removeMessageRequest writeErr senderID d of
        (Inl err, d) \<Rightarrow> (Inl err, daemon_recordError ''storage'' err d)
      | (Inr removed, d) \<Rightarrow> (Inr removed, if removed then daemon_notify n d else d))"

definition DeclineMessageRequest :: "call_env \<Rightarrow> string \<Rightarrow> Daemon \<Rightarrow> (go_error + bool) \<times> Daemon" where
  "DeclineMessageRequest env senderID d =
     orFail (ValidateListMessagesContactID senderID) d (\<lambda>senderID.
     case removeRequestThreadAndNotify (ce_inboxWrite env 0) senderID (NotifyRequestDeclined senderID) d of
       (Inl err, d) \<Rightarrow> (Inl err, d)
     | (Inr _, d) \<Rightarrow> (Inr True, d))"

record BlockSenderResult =
  bs_Blocked :: "string list"
  bs_RequestRemoved :: bool
  bs_ContactExists :: bool

definition BlockSender :: "call_env \<Rightarrow> string \<Rightarrow> Daemon \<Rightarrow> (go_error + BlockSenderResult) \<times> Daemon" where
  "BlockSender env senderID d =
     orFail (NormalizeIdentityID senderID) d (\<lambda>senderID.
     let contactExists = HasContact senderID (dm_manager d) in
     case AddToBlocklist (ce_blockWrite env) senderID (dm_privacy d) of
       (Inl err, privacy) \<Rightarrow> (Inl err, d\<lparr>dm_privacy := privacy\<rparr>)
     | (Inr blocked, privacy) \<Rightarrow>
         (case removeRequestThreadAndNotify (ce_inboxWrite env 0) senderID (NotifyRequestBlocked senderID) (d\<lparr>dm_privacy := privacy\<rparr>) of
            (Inl err, d) \<Rightarrow> (Inl err, d)
          | (Inr removed, d) \<Rightarrow>
              (Inr \<lparr>bs_Blocked = blocked, bs_RequestRemoved = removed, bs_ContactExists = contactExists\<rparr>,
               daemon_notify (NotifySenderBlocked senderID removed contactExists) d)))"

end
