(* ===== verification/Messaging_Outbound.thy ===== *)
theory Messaging_Outbound
  imports Daemon
begin

text \<open>
  Outbound messaging: the operations of \<open>messaging/usecase/service.go\<close> with the flows of
  \<open>messaging/usecase/flows.go\<close> and their wiring in the daemon (\<open>service_wiring.go\<close>, \<open>outbound_delivery.go\<close> and the
  retry loop of \<open>service_runtime.go\<close>). A loop over messages takes one \<open>call_env\<close> per message.
\<close>

declare map_of_eq_Some_iff [simp del]

section \<open>Wires for stored messages\<close>

definition e2ee_wire :: "(go_error + MessageEnvelope) \<times> SessionStore \<Rightarrow> (go_error + WirePayload) \<times> SessionStore" where
  "e2ee_wire encrypted =
     (case encrypted of
        (Inl err, store) \<Rightarrow> (Inl err, store)
      | (Inr env, store) \<Rightarrow> (Inr (zero_wire\<lparr>wp_Kind := ''e2ee'', wp_Envelope := env\<rparr>), store))"

definition BuildWireForOutboundMessage :: "call_env \<Rightarrow> Message \<Rightarrow> SessionStore \<Rightarrow> (go_error + WirePayload) \<times> SessionStore" where
  "BuildWireForOutboundMessage env msg store =
     (let encrypted = e2ee_wire (Encrypt (ce_crypto env) (ce_sessionIO env 1) (ce_encrypt env) (msg_ContactID msg) (msg_Content msg) store) in
      if msg_ContentType msg = ''e2ee'' then encrypted
      else case Get (ce_sessionIO env 0) (msg_ContactID msg) store of
             Inl err \<Rightarrow> (Inl err, store)
           | Inr None \<Rightarrow> (Inl ErrOutboundSessionRequired, store)
           | Inr (Some _) \<Rightarrow> encrypted)"

definition BuildStoredMessageWire :: "call_env \<Rightarrow> Message \<Rightarrow> Daemon \<Rightarrow> (go_error + WirePayload) \<times> Daemon" where
  "BuildStoredMessageWire env msg d =
     (case BuildWireForOutboundMessage env msg (dm_sessions d) of
        (Inr wire, store) \<Rightarrow> (Inr (wire\<lparr>wp_ThreadID := TrimSpace (msg_ThreadID msg)\<rparr>), d\<lparr>dm_sessions := store\<rparr>)
      | (Inl err, store) \<Rightarrow>
          (let d = d\<lparr>dm_sessions := store\<rparr> in
           if err = ErrOutboundSessionRequired
           then (case SelfContactCard (ce_sign env) (dm_self d) (dm_manager d) of
                   Inl _ \<Rightarrow> (Inl (WrapCategorizedError ''crypto'' err), d)
                 | Inr crd \<Rightarrow>
                     (Inr ((NewPlainWire (msg_Content msg))\<lparr>wp_ThreadID := TrimSpace (msg_ThreadID msg), wp_Card := Some crd\<rparr>), d))
           else (Inl (WrapCategorizedError ''crypto'' err), d)))"

section \<open>Sending\<close>

text \<open>\<open>left\<close> attempts of \<open>AllocateOutboundMessage\<close> remain, \<open>i\<close> have been made.\<close>

fun allocate_loop :: "call_env \<Rightarrow> nat \<Rightarrow> nat \<Rightarrow> string \<Rightarrow> string \<Rightarrow> string \<Rightarrow> Daemon \<Rightarrow> (go_error + Message) \<times> Daemon" where
  "allocate_loop env 0 i contactID content threadID d = (Inl (ErrText ''failed to allocate unique message id''), d)"
| "allocate_loop env (Suc left) i contactID content threadID d =
     (case GeneratePrefixedID ''msg'' (ce_random env i) of
        Inl err \<Rightarrow> (Inl err, d)
      | Inr msgID \<Rightarrow>
          let msg = (NewOutboundMessage msgID contactID content (ce_now env i))\<lparr>msg_ThreadID := TrimSpace threadID\<rparr>
          in case SaveMessage (ce_write env i) msg (dm_messages d) of
               (None, store) \<Rightarrow> (Inr msg, with_messages store d)
             | (Some err, _) \<Rightarrow>
                 if err = ErrMessageIDConflict then allocate_loop env left (Suc i) contactID content threadID d
                 else (Inl err, daemon_recordError ''storage'' err d))"

definition AllocateOutboundMessage :: "call_env \<Rightarrow> string \<Rightarrow> string \<Rightarrow> string \<Rightarrow> Daemon \<Rightarrow> (go_error + Message) \<times> Daemon" where
  "AllocateOutboundMessage env contactID content threadID d = allocate_loop env 3 0 contactID content threadID d"

definition publishQueuedMessage :: "call_env \<Rightarrow> Message \<Rightarrow> string \<Rightarrow> WirePayload \<Rightarrow> Daemon \<Rightarrow> (go_error + string) \<times> Daemon" where
  "publishQueuedMessage env msg contactID wire d =
     (case (case networkContext ''network'' d of
              Some err \<Rightarrow> (Some err, d)
            | None \<Rightarrow> publishSignedWireWithContext env (msg_ID msg) contactID wire d) of
        (Some err, d) \<Rightarrow>
          (let category = ErrorCategory err;
               d = daemon_recordError category err d
           in if category = ''network''
              then (case AddOrUpdatePending (ce_write env 5) msg 1 (NextRetryTime 1 (ce_now env 5)) (ce_errorText env err) (dm_messages d) of
                      (Some perr, _) \<Rightarrow> (Inl perr, daemon_recordError ''storage'' perr d)
                    | (None, store) \<Rightarrow> (Inr (msg_ID msg), with_messages store d))
              else (Inl err, d))
      | (None, d) \<Rightarrow> (Inr (msg_ID msg), markMessageAsSent (ce_write env 6) (ce_write env 7) (msg_ID msg) d))"

definition sendMessageWithThread :: "call_env \<Rightarrow> string \<Rightarrow> string \<Rightarrow> string \<Rightarrow> Daemon \<Rightarrow> (go_error + string) \<times> Daemon" where
  "sendMessageWithThread env contactID content threadID d =
     orFail (ValidateSendMessageInput contactID content) d (\<lambda>(contactID, content).
     if \<not> HasContact contactID (dm_manager d) then (Inl (ErrText ''contact is not added''), d)
     else
       let draft = (NewOutboundMessage ''draft'' contactID content (ce_now env 3))\<lparr>msg_ThreadID := threadID\<rparr>
       in case BuildStoredMessageWire env draft d of
            (Inl werr, d) \<Rightarrow> (Inl werr, daemon_recordError ''crypto'' werr d)
          | (Inr wire, d) \<Rightarrow>
              (case AllocateOutboundMessage env contactID content threadID d of
                 (Inl err, d) \<Rightarrow> (Inl err, d)
               | (Inr msg, d) \<Rightarrow>
                   publishQueuedMessage env msg contactID wire (daemon_notify (NotifyMessageNew contactID msg) d)))"

definition SendMessage :: "call_env \<Rightarrow> string \<Rightarrow> string \<Rightarrow> Daemon \<Rightarrow> (go_error + string) \<times> Daemon" where
  "SendMessage env contactID content d = sendMessageWithThread env contactID content [] d"

definition SendMessageInThread :: "call_env \<Rightarrow> string \<Rightarrow> string \<Rightarrow> string \<Rightarrow> Daemon \<Rightarrow> (go_error + string) \<times> Daemon" where
  "SendMessageInThread env contactID content threadID d =
     (if blank threadID then (Inl (ErrText ''thread id is required''), d)
      else sendMessageWithThread env contactID content (TrimSpace threadID) d)"

section \<open>Editing, deleting, reading\<close>

definition daemon_EditMessage :: "call_env \<Rightarrow> string \<Rightarrow> string \<Rightarrow> string \<Rightarrow> Daemon \<Rightarrow> (go_error + Message) \<times> Daemon" where
  "daemon_EditMessage env contactID messageID content d =
     orFail (ValidateEditMessageInput contactID messageID content) d (\<lambda>(contactID, messageID, content).
     case EnsureEditableMessage (GetMessage (dm_messages d) messageID) contactID of
       Some err \<Rightarrow> (Inl err, d)
     | None \<Rightarrow>
         let contentType = (case GetMessage (dm_messages d) messageID of None \<Rightarrow> [] | Some msg \<Rightarrow> msg_ContentType msg)
         in case UpdateMessageContent (ce_write env 0) (ce_now env 0) messageID (bytes_of_string content) contentType (dm_messages d) of
              (Inl err, _) \<Rightarrow> (Inl err, daemon_recordError ''storage'' err d)
            | (Inr None, _) \<Rightarrow> (Inl (ErrText ''message not found''), d)
            | (Inr (Some updated), store) \<Rightarrow>
                (Inr updated, daemon_notify (NotifyMessageEdited contactID messageID (msg_Status updated)) (with_messages store d)))"

definition daemon_DeleteMessage :: "call_env \<Rightarrow> string \<Rightarrow> string \<Rightarrow> Daemon \<Rightarrow> go_error option \<times> Daemon" where
  "daemon_DeleteMessage env contactID messageID d =
     (let contactID = TrimSpace contactID; messageID = TrimSpace messageID in
      if contactID = [] \<or> messageID = [] then (Some (ErrText ''invalid params''), d)
      else case DeleteMessage (ce_write env 0) contactID messageID (dm_messages d) of
             (Inl err, _) \<Rightarrow> (Some err, daemon_recordError ''storage'' err d)
           | (Inr deleted, store) \<Rightarrow>
               if \<not> deleted then (Some (ErrText ''message not found''), d)
               else (None, daemon_notify (NotifyMessageDeleted contactID messageID) (with_messages store d)))"

definition daemon_ClearMessages :: "call_env \<Rightarrow> string \<Rightarrow> Daemon \<Rightarrow> (go_error + nat) \<times> Daemon" where
  "daemon_ClearMessages env contactID d =
     (let contactID = TrimSpace contactID in
      if contactID = [] then (Inl (ErrText ''invalid params''), d)
      else case ClearMessages (ce_write env 0) contactID (dm_messages d) of
             (Inl err, _) \<Rightarrow> (Inl err, daemon_recordError ''storage'' err d)
           | (Inr deleted, store) \<Rightarrow> (Inr deleted, daemon_notify (NotifyMessageCleared contactID deleted) (with_messages store d)))"

definition applyAutoRead :: "call_env \<Rightarrow> string \<Rightarrow> Message \<Rightarrow> Daemon \<Rightarrow> Message \<times> Daemon" where
  "applyAutoRead env contactID msg d =
     (case updateMessageStatusAndNotify (ce_write env 0) (msg_ID msg) ''read'' d of
        (False, d) \<Rightarrow> (msg, d)
      | (True, d) \<Rightarrow>
          (let msg = msg\<lparr>msg_Status := ''read''\<rparr> in
           case sendReceipt env contactID (msg_ID msg) ''read'' d of
             (Some err, d) \<Rightarrow> (msg, daemon_recordError ''network'' err d)
           | (None, d) \<Rightarrow> (msg, d)))"

fun auto_read_loop :: "(nat \<Rightarrow> call_env) \<Rightarrow> nat \<Rightarrow> string \<Rightarrow> Message list \<Rightarrow> Daemon \<Rightarrow> Message list \<times> Daemon" where
  "auto_read_loop envs i contactID [] d = ([], d)"
| "auto_read_loop envs i contactID (msg # msgs) d =
     (let (msg, d) = (if ShouldAutoMarkRead msg then applyAutoRead (envs i) contactID msg d else (msg, d));
          (msgs, d) = auto_read_loop envs (Suc i) contactID msgs d
      in (msg # msgs, d))"

definition GetMessages :: "(nat \<Rightarrow> call_env) \<Rightarrow> string \<Rightarrow> int \<Rightarrow> int \<Rightarrow> Daemon \<Rightarrow> (go_error + Message list) \<times> Daemon" where
  "GetMessages envs contactID limit offset d =
     orFail (ValidateListMessagesContactID contactID) d (\<lambda>contactID.
     apfst Inr (auto_read_loop envs 0 contactID (ListMessages contactID limit offset (dm_messages d)) d))"

definition GetMessagesByThread :: "(nat \<Rightarrow> call_env) \<Rightarrow> string \<Rightarrow> string \<Rightarrow> int \<Rightarrow> int \<Rightarrow> Daemon \<Rightarrow> (go_error + Message list) \<times> Daemon" where
  "GetMessagesByThread envs contactID threadID limit offset d =
     orFail (ValidateListMessagesContactID contactID) d (\<lambda>contactID.
     let threadID = TrimSpace threadID in
     if threadID = [] then (Inl (ErrText ''thread id is required''), d)
     else apfst Inr (auto_read_loop envs 0 contactID
            (ListMessagesByConversationThread contactID ConversationTypeDirect threadID limit offset (dm_messages d)) d))"

definition GetMessageStatus :: "string \<Rightarrow> Daemon \<Rightarrow> go_error + MessageStatus" where
  "GetMessageStatus messageID d =
     bindE (ValidateMessageStatusID messageID) (\<lambda>messageID. BuildMessageStatus (GetMessage (dm_messages d) messageID))"

definition daemon_InitSession :: "call_env \<Rightarrow> string \<Rightarrow> bytes \<Rightarrow> Daemon \<Rightarrow> (go_error + SessionState) \<times> Daemon" where
  "daemon_InitSession env contactID peerPublicKey d =
     (let contactID = TrimSpace contactID in
      case EnsureVerifiedContact (HasVerifiedContact contactID (dm_manager d)) of
        Some err \<Rightarrow> (Inl err, d)
      | None \<Rightarrow>
          (case InitSession (ce_crypto env) (ce_sessionIO env 0) (ce_now env 0) (dm_self d) contactID peerPublicKey (dm_sessions d) of
             (Inl err, store) \<Rightarrow> (Inl err, daemon_recordError ''crypto'' err (d\<lparr>dm_sessions := store\<rparr>))
           | (Inr state, store) \<Rightarrow> (Inr state, d\<lparr>dm_sessions := store\<rparr>)))"

section \<open>Revoking a device\<close>

record RevocationFailure =
  rf_ContactID :: string
  rf_Category :: string
  rf_Err :: go_error

record DeviceRevocationDeliveryError =
  rd_Attempted :: nat
  rd_Failed :: nat
  rd_Failures :: "(string, string) gomap"

definition BuildDeviceRevocationPayload :: "call_env \<Rightarrow> DeviceRevocation \<Rightarrow> bytes" where
  "BuildDeviceRevocationPayload env rv = ce_marshalWire env (zero_wire\<lparr>wp_Kind := ''device_revoke'', wp_Revocation := Some rv\<rparr>)"

definition PublishPrivate :: "call_env \<Rightarrow> PrivateMessage \<Rightarrow> Daemon \<Rightarrow> go_error option \<times> Daemon" where
  "PublishPrivate env msg d =
     (case networkContext [] d of Some err \<Rightarrow> (Some err, d) | None \<Rightarrow> publishWithTimeout env msg d)"

fun DispatchDeviceRevocation ::
    "(nat \<Rightarrow> call_env) \<Rightarrow> nat \<Rightarrow> string \<Rightarrow> Contact list \<Rightarrow> bytes \<Rightarrow> Daemon \<Rightarrow> RevocationFailure list \<times> Daemon" where
  "DispatchDeviceRevocation envs i localIdentityID [] payload d = ([], d)"
| "DispatchDeviceRevocation envs i localIdentityID (c # contacts) payload d =
     (case GeneratePrefixedID ''rev'' (ce_random (envs i) 0) of
        Inl err \<Rightarrow>
          apfst (\<lambda>fs. \<lparr>rf_ContactID = ct_ID c, rf_Category = ''api'', rf_Err = err\<rparr> # fs)
            (DispatchDeviceRevocation envs (Suc i) localIdentityID contacts payload d)
      | Inr msgID \<Rightarrow>
          (case PublishPrivate (envs i) \<lparr>wm_ID = msgID, wm_SenderID = localIdentityID, wm_Recipient = ct_ID c, wm_Payload = payload\<rparr> d of
             (Some err, d) \<Rightarrow>
               apfst (\<lambda>fs. \<lparr>rf_ContactID = ct_ID c, rf_Category = ''network'', rf_Err = err\<rparr> # fs)
                 (DispatchDeviceRevocation envs (Suc i) localIdentityID contacts payload d)
           | (None, d) \<Rightarrow> DispatchDeviceRevocation envs (Suc i) localIdentityID contacts payload d))"

definition BuildDeviceRevocationDeliveryError ::
    "(go_error \<Rightarrow> string) \<Rightarrow> nat \<Rightarrow> RevocationFailure list \<Rightarrow> DeviceRevocationDeliveryError option" where
  "BuildDeviceRevocationDeliveryError errorText attempted failures =
     (if failures = [] then None
      else
        let byContact = fold (\<lambda>f m. put (rf_ContactID f) (errorText (rf_Err f)) m) failures []
        in Some \<lparr>rd_Attempted = attempted, rd_Failed = length byContact, rd_Failures = byContact\<rparr>)"

definition daemon_RevokeDevice ::
    "call_env \<Rightarrow> (nat \<Rightarrow> call_env) \<Rightarrow> string \<Rightarrow> Daemon \<Rightarrow>
     (go_error + (DeviceRevocation \<times> DeviceRevocationDeliveryError option)) \<times> Daemon" where
  "daemon_RevokeDevice env envs deviceID d =
     (case RevokeDevice (ce_sign env) (ce_now env 0) (ce_now env 1) (TrimSpace deviceID) (dm_manager d) of
        (Inl err, m) \<Rightarrow> (Inl err, with_manager m d)
      | (Inr rv, m) \<Rightarrow>
          (let d = with_manager m d;
               contacts = map snd (mg_contacts m);
               (failures, d) = DispatchDeviceRevocation envs 0 (dm_self d) contacts (BuildDeviceRevocationPayload env rv) d;
               d = fold (\<lambda>f. daemon_recordError (rf_Category f) (rf_Err f)) failures d
           in (Inr (rv, BuildDeviceRevocationDeliveryError (ce_errorText env) (length contacts) failures), d)))"

section \<open>Retries\<close>

definition handleRetryPublishError :: "call_env \<Rightarrow> PendingMessage \<Rightarrow> go_error \<Rightarrow> Daemon \<Rightarrow> Daemon" where
  "handleRetryPublishError env p err d =
     (let d = daemon_recordError (ErrorCategory err) err d;
          nextCount = pm_RetryCount p + 1;
          messageID = msg_ID (pm_Message p)
      in if nextCount > 8
         then let d = snd (updateMessageStatusAndNotify (ce_write env 6) messageID ''failed'' d)
              in case RemovePending (ce_write env 7) messageID (dm_messages d) of
                   (Some remErr, _) \<Rightarrow> daemon_recordError ''storage'' remErr d
                 | (None, store) \<Rightarrow> with_messages store d
         else case AddOrUpdatePending (ce_write env 5) (pm_Message p) nextCount (NextRetryTime nextCount (ce_now env 5)) (ce_errorText env err) (dm_messages d) of
                (Some perr, _) \<Rightarrow> daemon_recordError ''storage'' perr d
              | (None, store) \<Rightarrow> with_messages store d)"

definition handleStartupPublishError :: "call_env \<Rightarrow> PendingMessage \<Rightarrow> go_error \<Rightarrow> Daemon \<Rightarrow> Daemon" where
  "handleStartupPublishError env p err d = daemon_recordError (ErrorCategory err) err d"

definition process_pending ::
    "(call_env \<Rightarrow> PendingMessage \<Rightarrow> go_error \<Rightarrow> Daemon \<Rightarrow> Daemon) \<Rightarrow> call_env \<Rightarrow> PendingMessage \<Rightarrow> Daemon \<Rightarrow> Daemon" where
  "process_pending onPublishError env p d =
     (case BuildStoredMessageWire env (pm_Message p) d of
        (Inl err, d) \<Rightarrow> onPublishError env p err d
      | (Inr wire, d) \<Rightarrow>
          (case publishSignedWireWithContext env (msg_ID (pm_Message p)) (msg_ContactID (pm_Message p)) wire d of
             (Some err, d) \<Rightarrow> onPublishError env p err d
           | (None, d) \<Rightarrow> markMessageAsSent (ce_write env 6) (ce_write env 7) (msg_ID (pm_Message p)) d))"

primrec ProcessPendingMessages ::
    "(call_env \<Rightarrow> PendingMessage \<Rightarrow> go_error \<Rightarrow> Daemon \<Rightarrow> Daemon) \<Rightarrow> (nat \<Rightarrow> call_env) \<Rightarrow> PendingMessage list \<Rightarrow> nat \<Rightarrow> Daemon \<Rightarrow> Daemon" where
  "ProcessPendingMessages onPublishError envs [] i d = d"
| "ProcessPendingMessages onPublishError envs (p # pending) i d =
     ProcessPendingMessages onPublishError envs pending (Suc i) (process_pending onPublishError (envs i) p d)"

definition retry_tick :: "(nat \<Rightarrow> call_env) \<Rightarrow> gotime \<Rightarrow> Daemon \<Rightarrow> Daemon" where
  "retry_tick envs now d = ProcessPendingMessages handleRetryPublishError envs (DuePending now (dm_messages d)) 0 d"

definition recoverPendingOnStartup :: "(nat \<Rightarrow> call_env) \<Rightarrow> gotime \<Rightarrow> Daemon \<Rightarrow> Daemon" where
  "recoverPendingOnStartup envs now d =
     ProcessPendingMessages handleStartupPublishError envs (DuePending (now + 24 * 3600 * second) (dm_messages d)) 0 d"

end
