(* ===== verification/Messaging_Inbound.thy ===== *)
theory Messaging_Inbound
  imports Inbox Messaging_Outbound
begin

text \<open>
  What the daemon does with a private message from the network: \<open>messaging/usecase/inbound_service.go\<close> with the trust
  checks of \<open>flows.go\<close>, wired as in \<open>service_wiring.go\<close> and \<open>runtime_inbound.go\<close>. A panic of \<open>ed25519.Verify\<close> is not
  recovered anywhere, so the handler returns \<open>Crashed\<close> then.
\<close>

declare map_of_eq_Some_iff [simp del]

section \<open>Trust in the sender\<close>

record InboundContactTrustViolation =
  tv_AlertCode :: string
  tv_Err :: go_error

definition card_violation :: "sign_lib \<Rightarrow> string \<Rightarrow> ContactCard \<Rightarrow> InboundContactTrustViolation option" where
  "card_violation S senderID crd =
     (if cc_IdentityID crd \<noteq> senderID
      then Some \<lparr>tv_AlertCode = ''contact_card_identity_mismatch'', tv_Err = ErrText ''contact card identity mismatch''\<rparr>
      else case VerifyContactCard S crd of
             Inl err \<Rightarrow> Some \<lparr>tv_AlertCode = ''contact_card_verification_failed'', tv_Err = err\<rparr>
           | Inr ok \<Rightarrow>
               if \<not> ok
               then Some \<lparr>tv_AlertCode = ''contact_card_verification_failed'', tv_Err = ErrText ''contact card verification failed''\<rparr>
               else None)"

text \<open>The second part of the function, for senders that are not verified; the first part never changes the contacts.\<close>

definition trust_unverified ::
    "sign_lib \<Rightarrow> gotime \<Rightarrow> string \<Rightarrow> WirePayload \<Rightarrow> Manager \<Rightarrow> InboundContactTrustViolation option \<times> Manager" where
  "trust_unverified S now senderID wire m =
     (case wp_Card wire of
        None \<Rightarrow>
          (Some \<lparr>tv_AlertCode = ''unverified_sender_missing_card'', tv_Err = ErrText ''unverified sender did not provide contact card''\<rparr>, m)
      | Some crd \<Rightarrow>
          (case card_violation S senderID crd of
             Some violation \<Rightarrow> (Some violation, m)
           | None \<Rightarrow>
               (case AddContact S now crd m of
                  (Some err, m) \<Rightarrow> (Some \<lparr>tv_AlertCode = ''contact_key_pin_mismatch'', tv_Err = err\<rparr>, m)
                | (None, m) \<Rightarrow> (None, m))))"

definition ValidateInboundContactTrust ::
    "sign_lib \<Rightarrow> gotime \<Rightarrow> string \<Rightarrow> WirePayload \<Rightarrow> Manager \<Rightarrow> InboundContactTrustViolation option \<times> Manager" where
  "ValidateInboundContactTrust S now senderID wire m =
     (let verified = HasVerifiedContact senderID m;
          violation = (case wp_Card wire of
             None \<Rightarrow> None
           | Some crd \<Rightarrow>
               if \<not> verified then None
               else (case card_violation S senderID crd of
                       Some v \<Rightarrow> Some v
                     | None \<Rightarrow>
                         (case ContactPublicKey senderID m of
                            Some pinnedKey \<Rightarrow>
                              if pinnedKey \<noteq> cc_PublicKey crd
                              then Some \<lparr>tv_AlertCode = ''contact_key_pin_mismatch'', tv_Err = ErrText ''contact public key changed for verified contact''\<rparr>
                              else None
                          | None \<Rightarrow> None)))
      in case violation of
           Some v \<Rightarrow> (Some v, m)
         | None \<Rightarrow> if \<not> verified then trust_unverified S now senderID wire m else (None, m))"

definition ValidateInboundDeviceAuth :: "call_env \<Rightarrow> InboundPrivateMessage \<Rightarrow> WirePayload \<Rightarrow> Manager \<Rightarrow> verdict" where
  "ValidateInboundDeviceAuth env msg wire m =
     (case BuildWireAuthPayload (ce_marshalAuth env) (im_ID msg) (im_SenderID msg) (im_Recipient msg) wire of
        Inl err \<Rightarrow> Verdict (Some (WrapCategorizedError ''api'' err))
      | Inr authPayload \<Rightarrow>
          (case wp_Device wire of
             None \<Rightarrow> Verdict (Some (WrapCategorizedError ''crypto'' (ErrText ''missing device authentication'')))
           | Some device \<Rightarrow>
               if wp_DeviceSig wire = [] then Verdict (Some (WrapCategorizedError ''crypto'' (ErrText ''missing device authentication'')))
               else (case VerifyInboundDevice (ce_sign env) (im_SenderID msg) device authPayload (wp_DeviceSig wire) m of
                       Panic \<Rightarrow> Panic
                     | Verdict None \<Rightarrow> Verdict None
                     | Verdict (Some err) \<Rightarrow> Verdict (Some (WrapCategorizedError ''crypto'' err)))))"

section \<open>Content and storage\<close>

text \<open>\<open>ResolveInboundContent\<close> with the session it may advance.\<close>

definition resolve_content :: "call_env \<Rightarrow> InboundPrivateMessage \<Rightarrow> WirePayload \<Rightarrow> Daemon \<Rightarrow> (bytes \<times> string) \<times> Daemon" where
  "resolve_content env msg wire d =
     (let (decrypted, store) =
            (if wp_Kind wire = ''e2ee''
             then Decrypt (ce_crypto env) (ce_sessionIO env 0) (ce_now env 1) (im_SenderID msg) (wp_Envelope wire) (dm_sessions d)
             else (Inr [], dm_sessions d));
          d = d\<lparr>dm_sessions := store\<rparr>
      in case ResolveInboundContent msg wire decrypted of
           (content, contentType, None) \<Rightarrow> ((content, contentType), d)
         | (content, contentType, Some err) \<Rightarrow> ((content, contentType), daemon_recordError ''crypto'' err d))"

definition persistInboundMessage :: "snapshot_write \<Rightarrow> Message \<Rightarrow> string \<Rightarrow> Daemon \<Rightarrow> bool \<times> Daemon" where
  "persistInboundMessage write msg senderID d =
     (case SaveMessage write msg (dm_messages d) of
        (Some err, _) \<Rightarrow> (False, if err = ErrMessageIDConflict then d else daemon_recordError ''storage'' err d)
      | (None, store) \<Rightarrow> (True, daemon_notify (NotifyMessageNew senderID msg) (with_messages store d)))"

definition receipt_after :: "call_env \<Rightarrow> InboundPrivateMessage \<Rightarrow> bool \<times> Daemon \<Rightarrow> Daemon" where
  "receipt_after env msg stored =
     (case stored of
        (False, d) \<Rightarrow> d
      | (True, d) \<Rightarrow>
          if \<not> HasVerifiedContact (im_SenderID msg) (dm_manager d) then d
          else (case sendReceipt env (im_SenderID msg) (im_ID msg) ''delivered'' d of
                  (Some err, d) \<Rightarrow> daemon_recordError ''network'' err d
                | (None, d) \<Rightarrow> d))"

definition persistInboundMessageAndReceipt ::
    "call_env \<Rightarrow> InboundPrivateMessage \<Rightarrow> string \<Rightarrow> bytes \<times> string \<Rightarrow> Daemon \<Rightarrow> Daemon" where
  "persistInboundMessageAndReceipt env msg threadID content d =
     receipt_after env msg (persistInboundMessage (ce_write env 0)
       (BuildInboundStoredMessage msg threadID (fst content) (snd content) (ce_now env 2)) (im_SenderID msg) d)"

definition applyInboundReceiptStatus :: "call_env \<Rightarrow> InboundReceiptHandling \<Rightarrow> Daemon \<Rightarrow> Daemon" where
  "applyInboundReceiptStatus env h d = snd (updateMessageStatusAndNotify (ce_write env 0) (rh_MessageID h) (rh_Status h) d)"

section \<open>Group wires\<close>

definition daemon_inbound_env :: "call_env \<Rightarrow> go_error + bytes \<Rightarrow> Daemon \<Rightarrow> inbound_env" where
  "daemon_inbound_env env decrypted d =
     \<lparr>ie_Identity = dm_self d, ie_Blocked = IsBlockedSender (dm_privacy d), ie_Persist = ce_groupPersist env, ie_Write = ce_write env 0,
      ie_Decrypted = decrypted, ie_Unmarshal = ce_unmarshalEvent env, ie_ParseTime = ce_parseTime env\<rparr>"

text \<open>The checks of \<open>HandleInboundGroupMessage\<close> before the content is resolved: only then a session is touched.\<close>

definition message_admitted :: "InboundOrchestrationService \<Rightarrow> gotime \<Rightarrow> InboundGroupMessageParams \<Rightarrow> GroupInbound \<Rightarrow> bool" where
  "message_admitted svc now inp w \<longleftrightarrow>
     \<not> blocked_by (io_IsBlockedSender svc) (mp_SenderID inp) \<and>
     (case lookup (in_States w) (TrimSpace (mp_ConversationID inp)) of
        None \<Rightarrow> False
      | Some state \<Rightarrow>
          snd (ValidateInboundGroupMessageState state (TrimSpace (mp_SenderID inp)) (mp_MembershipVersion inp) (mp_GroupKeyVersion inp)) = None \<and>
          fst (guard (io_GuardReplay svc) ''message'' (mp_ConversationID inp) (mp_SenderDeviceID inp)
                 (if blank (mp_EventID inp) then TrimSpace (mp_MessageID inp) else TrimSpace (mp_EventID inp)) now now w) = None)"

definition daemon_group_wire :: "call_env \<Rightarrow> InboundPrivateMessage \<Rightarrow> WirePayload \<Rightarrow> Daemon \<Rightarrow> Daemon" where
  "daemon_group_wire env msg wire d =
     (let (decrypted, store) = Decrypt (ce_crypto env) (ce_sessionIO env 0) (ce_now env 1) (im_SenderID msg) (wp_Envelope wire) (dm_sessions d);
          genv = daemon_inbound_env env decrypted d;
          touched = (wp_EventType wire = GroupWireEventTypeMessage \<and> wp_Kind wire = ''e2ee'' \<and>
            message_admitted (message_service genv msg wire) (ce_now env 2) (message_params msg wire) (dm_world d))
      in d\<lparr>dm_world := handle_group_wire genv (ce_now env 2) msg wire (dm_world d),
           dm_sessions := if touched then store else dm_sessions d\<rparr>)"

section \<open>The handler\<close>

datatype inbound_outcome = Handled Daemon | Crashed

definition decodeInboundWire :: "call_env \<Rightarrow> InboundPrivateMessage \<Rightarrow> Daemon \<Rightarrow> (WirePayload \<times> bool \<times> bool) \<times> Daemon" where
  "decodeInboundWire env msg d =
     (case ce_unmarshalWire env (im_Payload msg) of
        None \<Rightarrow> ((zero_wire, False, False), d)
      | Some wire \<Rightarrow>
          (case ValidateWirePayload wire of
             Some err \<Rightarrow> ((zero_wire, True, False), daemon_recordError ''api'' err d)
           | None \<Rightarrow> ((wire, True, True), d)))"

definition HandleInboundMessageRequest :: "call_env \<Rightarrow> InboundPrivateMessage \<Rightarrow> Daemon \<Rightarrow> Daemon" where
  "HandleInboundMessageRequest env msg d =
     (case decodeInboundWire env msg d of
        ((wire, parsed, valid), d) \<Rightarrow>
          if parsed \<and> \<not> valid then d
          else if parsed \<and> rh_Handled (ResolveInboundReceiptHandling wire) then d
          else
            let (content, d) = (if parsed then resolve_content env msg wire d else ((im_Payload msg, ''text''), d))
            in receipt_after env msg (persistInboundRequest env
                 (BuildInboundStoredMessage msg (wp_ThreadID wire) (fst content) (snd content) (ce_now env 2)) d))"

definition evaluateInboundPolicy :: "string \<Rightarrow> Daemon \<Rightarrow> InboundMessagePolicyDecision" where
  "evaluateInboundPolicy senderID d =
     EvaluateInboundMessagePolicy
       \<lparr>in_IsKnownContact = HasContact senderID (dm_manager d), in_IsBlocked = IsBlockedSender (dm_privacy d) senderID,
        in_PrivacyMode = CurrentMode (dm_privacy d)\<rparr>"

text \<open>The steps of \<open>processInboundWire\<close> after a valid wire has been decoded: trust, device, dispatch.\<close>

definition trust_sender :: "call_env \<Rightarrow> InboundMessagePolicyDecision \<Rightarrow> InboundPrivateMessage \<Rightarrow> WirePayload \<Rightarrow> Daemon \<Rightarrow> bool \<times> Daemon" where
  "trust_sender env decision msg wire d =
     (if ShouldAutoAddUnknownSenderContact decision (wp_ConversationType wire) (HasVerifiedContact (im_SenderID msg) (dm_manager d)) (wp_Card wire \<noteq> None)
      then (case AddContactByIdentityID (ce_now env 0) (im_SenderID msg) (im_SenderID msg) (dm_manager d) of
              (Some err, m) \<Rightarrow> (True, daemon_recordError ''crypto'' err (with_manager m d))
            | (None, m) \<Rightarrow> (True, with_manager m d))
      else (case ValidateInboundContactTrust (ce_sign env) (ce_now env 0) (im_SenderID msg) wire (dm_manager d) of
              (Some v, m) \<Rightarrow>
                (False, daemon_notify (NotifySecurityAlert (tv_AlertCode v) (im_SenderID msg) (tv_Err v))
                   (daemon_recordError ''crypto'' (tv_Err v) (with_manager m d)))
            | (None, m) \<Rightarrow> (True, with_manager m d)))"

definition check_device :: "call_env \<Rightarrow> InboundMessagePolicyDecision \<Rightarrow> InboundPrivateMessage \<Rightarrow> WirePayload \<Rightarrow> Daemon \<Rightarrow> verdict" where
  "check_device env decision msg wire d =
     (if ShouldBypassInboundDeviceAuth decision (wp_ConversationType wire) (HasVerifiedContact (im_SenderID msg) (dm_manager d)) (wp_Card wire \<noteq> None)
      then Verdict None
      else ValidateInboundDeviceAuth env msg wire (dm_manager d))"

definition dispatch_wire :: "call_env \<Rightarrow> InboundPrivateMessage \<Rightarrow> WirePayload \<Rightarrow> Daemon \<Rightarrow> Daemon" where
  "dispatch_wire env msg wire d =
     (if wp_ConversationType wire = ConversationTypeGroup then daemon_group_wire env msg wire d
      else
        let h = ResolveInboundReceiptHandling wire in
        if rh_Handled h then (if rh_ShouldUpdate h then applyInboundReceiptStatus env h d else d)
        else (case resolve_content env msg wire d of
                (content, d) \<Rightarrow> persistInboundMessageAndReceipt env msg (wp_ThreadID wire) content d))"

definition processInboundWire :: "call_env \<Rightarrow> InboundMessagePolicyDecision \<Rightarrow> InboundPrivateMessage \<Rightarrow> WirePayload \<Rightarrow> Daemon \<Rightarrow> inbound_outcome" where
  "processInboundWire env decision msg wire d =
     (case trust_sender env decision msg wire d of
        (False, d) \<Rightarrow> Handled d
      | (True, d) \<Rightarrow>
          (case (if wp_Kind wire = ''device_revoke'' then wp_Revocation wire else None) of
             Some rv \<Rightarrow>
               (case ApplyDeviceRevocation (ce_sign env) (im_SenderID msg) rv (dm_manager d) of
                  (Some err, m) \<Rightarrow> Handled (daemon_recordError ''crypto'' err (with_manager m d))
                | (None, m) \<Rightarrow> Handled (with_manager m d))
           | None \<Rightarrow>
               (case check_device env decision msg wire d of
                  Panic \<Rightarrow> Crashed
                | Verdict (Some err) \<Rightarrow> Handled (daemon_recordError (ErrorCategory err) err d)
                | Verdict None \<Rightarrow> Handled (dispatch_wire env msg wire d))))"

definition HandleIncomingPrivateMessage :: "call_env \<Rightarrow> InboundPrivateMessage \<Rightarrow> Daemon \<Rightarrow> inbound_outcome" where
  "HandleIncomingPrivateMessage env msg d =
     (let decision = evaluateInboundPolicy (im_SenderID msg) d in
      case de_Action decision of
        MessageReject \<Rightarrow> Handled (daemon_recordError ''crypto'' (InboundPolicyError (de_Reason decision)) d)
      | MessageQueueRequest \<Rightarrow> Handled (HandleInboundMessageRequest env msg d)
      | MessageAcceptChat \<Rightarrow>
          (case decodeInboundWire env msg d of
             ((wire, parsed, valid), d) \<Rightarrow>
               if \<not> parsed then Handled (persistInboundMessageAndReceipt env msg [] (im_Payload msg, ''text'') d)
               else if \<not> valid then Handled d
               else processInboundWire env decision msg wire d))"

primrec run_incoming :: "(call_env \<times> InboundPrivateMessage) list \<Rightarrow> Daemon \<Rightarrow> inbound_outcome" where
  "run_incoming [] d = Handled d"
| "run_incoming (x # xs) d =
     (case HandleIncomingPrivateMessage (fst x) (snd x) d of Crashed \<Rightarrow> Crashed | Handled d \<Rightarrow> run_incoming xs d)"

end
