(* ===== verification/Group_Fanout.thy ===== *)
theory Group_Fanout
  imports Messaging_Outbound
begin

text \<open>
  Group messages: the fan-out of \<open>group/usecase/message_fanout_service.go\<close>, which sends one private message per
  recipient, its wiring (\<open>prepareAndPublishGroupMessage\<close> and \<open>activeDeviceID\<close> of \<open>group_runtime_support.go\<close>, the senders of
  \<open>group/usecase/service.go\<close>), and the queries of \<open>group/usecase/read_service.go\<close>. \<open>shuffle\<close> is the seeded
  \<open>rand.Shuffle\<close>; every recipient has a \<open>call_env\<close> of its own.
\<close>

declare map_of_eq_Some_iff [simp del]

abbreviation groupFanoutTransportContentType :: string where
  "groupFanoutTransportContentType \<equiv> ''group_fanout_transport''"

record GroupMessageRecipientStatus =
  rs_RecipientID :: string
  rs_MessageID :: string
  rs_Status :: string
  rs_Error :: string
  rs_Duplicate :: bool

record GroupMessageFanoutResult =
  fr_GroupID :: string
  fr_EventID :: string
  fr_Attempted :: nat
  fr_Delivered :: nat
  fr_Pending :: nat
  fr_Failed :: nat
  fr_Recipients :: "GroupMessageRecipientStatus list"

record GroupMessageWireMeta =
  gm_GroupID :: string
  gm_EventID :: string
  gm_MembershipVersion :: "64 word"
  gm_GroupKeyVersion :: "32 word"
  gm_SenderDeviceID :: string

record fanoutContext =
  fc_groupID :: string
  fc_eventID :: string
  fc_content :: string
  fc_threadID :: string
  fc_actorID :: string
  fc_deviceID :: string
  fc_now :: gotime
  fc_state :: GroupState
  fc_groupKeyVersion :: "32 word"

section \<open>Preparation\<close>

definition message_id_for :: "call_env \<Rightarrow> string \<Rightarrow> string \<Rightarrow> string" where
  "message_id_for env eventID recipientID =
     DeriveRecipientMessageID (\<lambda>s. EncodeToString (take 12 (cl_sha256 (ce_crypto env) (bytes_of_string s)))) eventID recipientID"

definition isChannelGroupTitle :: "string \<Rightarrow> bool" where
  "isChannelGroupTitle title \<longleftrightarrow> prefix ''[channel'' (ToLower (TrimSpace title))"

definition validateActorCanFanout :: "GroupState \<Rightarrow> string \<Rightarrow> go_error option" where
  "validateActorCanFanout state senderID =
     (case lookup (s_Members state) senderID of
        None \<Rightarrow> Some ErrGroupPermissionDenied
      | Some actor \<Rightarrow>
          if m_Status actor \<noteq> StatusActive then Some ErrGroupPermissionDenied
          else if isChannelGroupTitle (g_Title (s_Group state)) \<and> m_Role actor \<noteq> RoleOwner \<and> m_Role actor \<noteq> RoleAdmin
          then Some ErrGroupPermissionDenied
          else None)"

definition activeDeviceID :: "call_env \<Rightarrow> Daemon \<Rightarrow> go_error + string" where
  "activeDeviceID env d =
     bindE (ActiveDeviceAuth (ce_sign env) (bytes_of_string ''group-device-id'') (dm_manager d)) (\<lambda>(device, _).
     if blank (dv_ID device) then Inl (ErrText ''active device id is empty'') else Inr (TrimSpace (dv_ID device)))"

definition resolveEventID :: "call_env \<Rightarrow> string \<Rightarrow> go_error + string" where
  "resolveEventID env eventID =
     (if blank eventID then GeneratePrefixedID ''gevtmsg'' (ce_random env 0) else Inr (TrimSpace eventID))"

definition prepareFanoutContext ::
    "'l rate_lib \<Rightarrow> 'l AbuseProtection option \<Rightarrow> call_env \<Rightarrow> string \<Rightarrow> string \<Rightarrow> string \<Rightarrow> string \<Rightarrow> Daemon \<Rightarrow>
     (go_error + fanoutContext) \<times> 'l AbuseProtection option" where
  "prepareFanoutContext lib abuse env groupID eventID content threadID d =
     orFail (NormalizeGroupID groupID) abuse (\<lambda>groupID.
     orFail (resolveEventID env eventID) abuse (\<lambda>eventID.
     if blank content then (Inl ErrInvalidGroupMessageContent, abuse)
     else
       let senderID = TrimSpace (dm_self d) in
       if senderID = [] then (Inl ErrInvalidGroupMemberID, abuse)
       else
         let now = ce_now env 0;
             (allowed, abuse) = AllowSend lib abuse senderID now
         in if \<not> allowed then (Inl ErrGroupRateLimitExceeded, abuse)
            else orFail (activeDeviceID env d) abuse (\<lambda>deviceID.
              case lookup (in_States (dm_world d)) groupID of
                None \<Rightarrow> (Inl ErrGroupNotFound, abuse)
              | Some state \<Rightarrow>
                  (case validateActorCanFanout state senderID of
                     Some err \<Rightarrow> (Inl err, abuse)
                   | None \<Rightarrow>
                       (Inr \<lparr>fc_groupID = groupID, fc_eventID = eventID, fc_content = TrimSpace content, fc_threadID = TrimSpace threadID,
                          fc_actorID = senderID, fc_deviceID = deviceID, fc_now = now, fc_state = state,
                          fc_groupKeyVersion = (if s_LastKeyVersion state = 0 then 1 else s_LastKeyVersion state)\<rparr>, abuse)))))"

definition collectRecipients :: "(gotime \<Rightarrow> string list \<Rightarrow> string list) \<Rightarrow> (string \<Rightarrow> bool) \<Rightarrow> GroupState \<Rightarrow> string \<Rightarrow> gotime \<Rightarrow> string list" where
  "collectRecipients shuffle blocked state senderID now =
     (let recipients = map fst (filter (\<lambda>(memberID, member).
            memberID \<noteq> senderID \<and> m_Status member = StatusActive \<and> \<not> blocked memberID) (s_Members state))
      in if length recipients \<le> 1 then recipients else shuffle now recipients)"

section \<open>The fan-out\<close>

definition sender_message :: "string \<Rightarrow> fanoutContext \<Rightarrow> Message" where
  "sender_message mid ctx =
     \<lparr>msg_ID = mid, msg_ContactID = fc_actorID ctx, msg_ConversationID = fc_groupID ctx, msg_ConversationType = ConversationTypeGroup,
      msg_ThreadID = fc_threadID ctx, msg_Content = bytes_of_string (fc_content ctx), msg_Timestamp = fc_now ctx, msg_Direction = ''out'',
      msg_Status = ''sent'', msg_ContentType = ''text'', msg_Edited = False\<rparr>"

definition transport_message :: "string \<Rightarrow> string \<Rightarrow> fanoutContext \<Rightarrow> Message" where
  "transport_message mid recipientID ctx =
     (sender_message mid ctx)\<lparr>msg_ContactID := recipientID, msg_Status := ''pending'', msg_ContentType := groupFanoutTransportContentType\<rparr>"

definition persistSenderMessage :: "call_env \<Rightarrow> fanoutContext \<Rightarrow> Daemon \<Rightarrow> Daemon" where
  "persistSenderMessage env ctx d =
     (let mid = message_id_for env (fc_eventID ctx) (fc_actorID ctx) in
      case GetMessage (dm_messages d) mid of
        Some existing \<Rightarrow> daemon_notify (NotifyGroupMessageNew (fc_groupID ctx) existing) d
      | None \<Rightarrow>
          (case SaveMessage (ce_write env 0) (sender_message mid ctx) (dm_messages d) of
             (Some err, _) \<Rightarrow> daemon_recordError ''storage'' err d
           | (None, store) \<Rightarrow> daemon_notify (NotifyGroupMessageNew (fc_groupID ctx) (sender_message mid ctx)) (with_messages store d)))"

text \<open>The error comes with the category under which the caller records it, or the empty one.\<close>

definition prepareAndPublishGroupMessage ::
    "call_env \<Rightarrow> Message \<Rightarrow> string \<Rightarrow> GroupMessageWireMeta \<Rightarrow> Daemon \<Rightarrow> (string \<times> go_error + string) \<times> Daemon" where
  "prepareAndPublishGroupMessage env msg recipientID meta d =
     (case BuildWireForOutboundMessage env msg (dm_sessions d) of
        (Inl err, store) \<Rightarrow> (Inl (ErrorCategory err, err), d\<lparr>dm_sessions := store\<rparr>)
      | (Inr wire, store) \<Rightarrow>
          (let wire = wire\<lparr>wp_ConversationType := ConversationTypeGroup, wp_ConversationID := gm_GroupID meta,
                 wp_ThreadID := TrimSpace (msg_ThreadID msg), wp_EventType := GroupWireEventTypeMessage, wp_EventID := gm_EventID meta,
                 wp_MembershipVersion := gm_MembershipVersion meta, wp_GroupKeyVersion := gm_GroupKeyVersion meta,
                 wp_SenderDeviceID := gm_SenderDeviceID meta\<rparr>
           in case publishQueuedMessage env msg recipientID wire (d\<lparr>dm_sessions := store\<rparr>) of
                (Inl err, d) \<Rightarrow> (Inl ([], err), d)
              | (Inr sentID, d) \<Rightarrow> (Inr sentID, d)))"

definition add_status :: "GroupMessageRecipientStatus \<Rightarrow> GroupMessageFanoutResult \<Rightarrow> GroupMessageFanoutResult" where
  "add_status st result =
     (let result = result\<lparr>fr_Recipients := fr_Recipients result @ [st]\<rparr>
      in if rs_Status st = ''pending'' then result\<lparr>fr_Pending := fr_Pending result + 1\<rparr>
         else result\<lparr>fr_Delivered := fr_Delivered result + 1\<rparr>)"

definition appendRecipientFailure :: "string \<Rightarrow> string \<Rightarrow> string \<Rightarrow> GroupMessageFanoutResult \<Rightarrow> GroupMessageFanoutResult" where
  "appendRecipientFailure recipientID messageID text result =
     result\<lparr>fr_Failed := fr_Failed result + 1,
       fr_Recipients := fr_Recipients result @ [\<lparr>rs_RecipientID = recipientID, rs_MessageID = messageID, rs_Status = ''failed'', rs_Error = text, rs_Duplicate = False\<rparr>]\<rparr>"

definition processRecipient ::
    "call_env \<Rightarrow> fanoutContext \<Rightarrow> string \<Rightarrow> GroupMessageFanoutResult \<Rightarrow> Daemon \<Rightarrow> GroupMessageFanoutResult \<times> Daemon" where
  "processRecipient env ctx recipientID result d =
     (let mid = message_id_for env (fc_eventID ctx) recipientID in
      case GetMessage (dm_messages d) mid of
        Some existing \<Rightarrow>
          (add_status \<lparr>rs_RecipientID = recipientID, rs_MessageID = mid, rs_Status = msg_Status existing, rs_Error = [], rs_Duplicate = True\<rparr> result, d)
      | None \<Rightarrow>
          (let msg = transport_message mid recipientID ctx in
           case SaveMessage (ce_write env 0) msg (dm_messages d) of
             (Some err, _) \<Rightarrow> (appendRecipientFailure recipientID mid (ce_errorText env err) result, daemon_recordError ''storage'' err d)
           | (None, store) \<Rightarrow>
               (case prepareAndPublishGroupMessage env msg recipientID
                       \<lparr>gm_GroupID = fc_groupID ctx, gm_EventID = fc_eventID ctx, gm_MembershipVersion = s_Version (fc_state ctx),
                        gm_GroupKeyVersion = fc_groupKeyVersion ctx, gm_SenderDeviceID = fc_deviceID ctx\<rparr> (with_messages store d) of
                  (Inl (category, err), d) \<Rightarrow>
                    (appendRecipientFailure recipientID mid (ce_errorText env err) result,
                     if category = [] then d else daemon_recordError category err d)
                | (Inr sentID, d) \<Rightarrow>
                    (let st = (case GetMessage (dm_messages d) sentID of None \<Rightarrow> ''sent'' | Some saved \<Rightarrow> msg_Status saved) in
                     (add_status \<lparr>rs_RecipientID = recipientID, rs_MessageID = mid, rs_Status = st, rs_Error = [], rs_Duplicate = False\<rparr> result, d)))))"

fun fanout_loop ::
    "(nat \<Rightarrow> call_env) \<Rightarrow> nat \<Rightarrow> fanoutContext \<Rightarrow> string list \<Rightarrow> GroupMessageFanoutResult \<Rightarrow> Daemon \<Rightarrow> GroupMessageFanoutResult \<times> Daemon" where
  "fanout_loop envs i ctx [] result d = (result, d)"
| "fanout_loop envs i ctx (recipientID # recipients) result d =
     (case processRecipient (envs i) ctx recipientID result d of
        (result, d) \<Rightarrow> fanout_loop envs (Suc i) ctx recipients result d)"

definition fanout_SendGroupMessageFanout ::
    "'l rate_lib \<Rightarrow> (gotime \<Rightarrow> string list \<Rightarrow> string list) \<Rightarrow> call_env \<Rightarrow> (nat \<Rightarrow> call_env) \<Rightarrow> 'l AbuseProtection option \<Rightarrow>
     string \<Rightarrow> string \<Rightarrow> string \<Rightarrow> string \<Rightarrow> Daemon \<Rightarrow> (go_error + GroupMessageFanoutResult) \<times> 'l AbuseProtection option \<times> Daemon" where
  "fanout_SendGroupMessageFanout lib shuffle env envs abuse groupID eventID content threadID d =
     (case prepareFanoutContext lib abuse env groupID eventID content threadID d of
        (Inl err, abuse) \<Rightarrow> (Inl err, abuse, d)
      | (Inr ctx, abuse) \<Rightarrow>
          (let recipients = collectRecipients shuffle (IsBlockedSender (dm_privacy d)) (fc_state ctx) (fc_actorID ctx) (fc_now ctx);
               result = \<lparr>fr_GroupID = fc_groupID ctx, fr_EventID = fc_eventID ctx, fr_Attempted = length recipients, fr_Delivered = 0,
                 fr_Pending = 0, fr_Failed = 0, fr_Recipients = []\<rparr>
           in case fanout_loop envs 0 ctx recipients result (persistSenderMessage env ctx d) of
                (result, d) \<Rightarrow> (Inr result, abuse, d)))"

definition svc_SendGroupMessageFanout ::
    "'l rate_lib \<Rightarrow> (gotime \<Rightarrow> string list \<Rightarrow> string list) \<Rightarrow> call_env \<Rightarrow> (nat \<Rightarrow> call_env) \<Rightarrow> 'l AbuseProtection option \<Rightarrow>
     string \<Rightarrow> string \<Rightarrow> string \<Rightarrow> string \<Rightarrow> Daemon \<Rightarrow> (go_error + GroupMessageFanoutResult) \<times> 'l AbuseProtection option \<times> Daemon" where
  "svc_SendGroupMessageFanout lib shuffle env envs abuse groupID eventID content threadID d =
     orFail (NormalizeGroupID groupID) (abuse, d) (\<lambda>groupID.
     orFail (resolveEventID env eventID) (abuse, d) (\<lambda>eventID.
     if blank content then (Inl ErrInvalidGroupMessageContent, abuse, d)
     else case fanout_SendGroupMessageFanout lib shuffle env envs abuse groupID eventID (TrimSpace content) (TrimSpace threadID) d of
            (Inl err, abuse, d) \<Rightarrow> (Inl err, abuse, d)
          | (Inr result, abuse, d) \<Rightarrow>
              (Inr result, abuse, d\<lparr>dm_world := (dm_world d)\<lparr>in_Aggregates := in_Aggregates (dm_world d) @ [''send'']\<rparr>\<rparr>)))"

definition sendGroupMessageWithThread ::
    "'l rate_lib \<Rightarrow> (gotime \<Rightarrow> string list \<Rightarrow> string list) \<Rightarrow> call_env \<Rightarrow> (nat \<Rightarrow> call_env) \<Rightarrow> 'l AbuseProtection option \<Rightarrow>
     string \<Rightarrow> string \<Rightarrow> string \<Rightarrow> Daemon \<Rightarrow> (go_error + GroupMessageFanoutResult) \<times> 'l AbuseProtection option \<times> Daemon" where
  "sendGroupMessageWithThread lib shuffle env envs abuse groupID content threadID d =
     orFail (NormalizeGroupID groupID) (abuse, d) (\<lambda>groupID.
     if blank content then (Inl ErrInvalidGroupMessageContent, abuse, d)
     else orFail (GeneratePrefixedID ''gevtmsg'' (ce_random env 0)) (abuse, d) (\<lambda>eventID.
       svc_SendGroupMessageFanout lib shuffle env envs abuse groupID eventID (TrimSpace content) threadID d))"

definition SendGroupMessageInThread ::
    "'l rate_lib \<Rightarrow> (gotime \<Rightarrow> string list \<Rightarrow> string list) \<Rightarrow> call_env \<Rightarrow> (nat \<Rightarrow> call_env) \<Rightarrow> 'l AbuseProtection option \<Rightarrow>
     string \<Rightarrow> string \<Rightarrow> string \<Rightarrow> Daemon \<Rightarrow> (go_error + GroupMessageFanoutResult) \<times> 'l AbuseProtection option \<times> Daemon" where
  "SendGroupMessageInThread lib shuffle env envs abuse groupID content threadID d =
     (if blank threadID then (Inl ErrInvalidGroupMessageContent, abuse, d)
      else sendGroupMessageWithThread lib shuffle env envs abuse groupID content (TrimSpace threadID) d)"

section \<open>Queries\<close>

definition GetGroup :: "string \<Rightarrow> group_states \<Rightarrow> go_error + Group" where
  "GetGroup groupID states =
     bindE (NormalizeGroupID groupID) (\<lambda>groupID.
     case lookup states groupID of None \<Rightarrow> Inl ErrGroupNotFound | Some state \<Rightarrow> Inr (s_Group state))"

definition ListGroups :: "group_states \<Rightarrow> Group list" where
  "ListGroups states = sort_key g_CreatedAt (sort_key g_ID (map (\<lambda>(_, state). s_Group state) states))"

definition ListGroupMembers :: "string \<Rightarrow> group_states \<Rightarrow> go_error + GroupMember list" where
  "ListGroupMembers groupID states =
     bindE (NormalizeGroupID groupID) (\<lambda>groupID.
     case lookup states groupID of
       None \<Rightarrow> Inl ErrGroupNotFound
     | Some state \<Rightarrow> Inr (sort_key m_MemberID (map snd (s_Members state))))"

definition without_transport :: "Message list \<Rightarrow> Message list" where
  "without_transport msgs = filter (\<lambda>msg. TrimSpace (msg_ContentType msg) \<noteq> groupFanoutTransportContentType) msgs"

definition ListGroupMessages :: "string \<Rightarrow> int \<Rightarrow> int \<Rightarrow> Daemon \<Rightarrow> go_error + Message list" where
  "ListGroupMessages groupID limit offset d =
     bindE (NormalizeGroupID groupID) (\<lambda>groupID.
     if lookup (in_States (dm_world d)) groupID = None then Inl ErrGroupNotFound
     else Inr (without_transport (ListMessagesByConversation groupID ConversationTypeGroup limit offset (dm_messages d))))"

definition ListGroupMessagesByThread :: "string \<Rightarrow> string \<Rightarrow> int \<Rightarrow> int \<Rightarrow> Daemon \<Rightarrow> go_error + Message list" where
  "ListGroupMessagesByThread groupID threadID limit offset d =
     bindE (NormalizeGroupID groupID) (\<lambda>groupID.
     if blank threadID then Inl (ErrText ''thread id is required'')
     else if lookup (in_States (dm_world d)) groupID = None then Inl ErrGroupNotFound
     else Inr (without_transport (ListMessagesByConversationThread groupID ConversationTypeGroup (TrimSpace threadID) limit offset (dm_messages d))))"

definition group_message :: "string \<Rightarrow> string \<Rightarrow> Daemon \<Rightarrow> go_error + Message" where
  "group_message groupID messageID d =
     bindE (NormalizeGroupID groupID) (\<lambda>groupID.
     if blank messageID then Inl (ErrText ''message id is required'')
     else case GetMessage (dm_messages d) (TrimSpace messageID) of
            None \<Rightarrow> Inl (ErrText ''message not found'')
          | Some msg \<Rightarrow>
              if msg_ConversationType msg \<noteq> ConversationTypeGroup \<or> TrimSpace (msg_ConversationID msg) \<noteq> groupID
              then Inl (ErrText ''message does not belong to group'')
              else Inr msg)"

definition GetGroupMessageStatus :: "string \<Rightarrow> string \<Rightarrow> Daemon \<Rightarrow> go_error + MessageStatus" where
  "GetGroupMessageStatus groupID messageID d =
     bindE (group_message groupID messageID d) (\<lambda>msg. Inr \<lparr>mst_MessageID = msg_ID msg, mst_Status = msg_Status msg\<rparr>)"

definition DeleteGroupMessage :: "call_env \<Rightarrow> string \<Rightarrow> string \<Rightarrow> Daemon \<Rightarrow> go_error option \<times> Daemon" where
  "DeleteGroupMessage env groupID messageID d =
     (case group_message groupID messageID d of
        Inl err \<Rightarrow> (Some err, d)
      | Inr msg \<Rightarrow>
          (case DeleteMessage (ce_write env 0) (msg_ContactID msg) (TrimSpace messageID) (dm_messages d) of
             (Inl err, _) \<Rightarrow> (Some err, d)
           | (Inr deleted, store) \<Rightarrow>
               if \<not> deleted then (Some (ErrText ''message not found''), d)
               else (None, daemon_notify (NotifyGroupMessageDeleted groupID messageID) (with_messages store d))))"

end
