(* ===== verification/Outbound_Guarantees.thy ===== *)
theory Outbound_Guarantees
  imports Group_Fanout
begin

text \<open>
  What the sender of a message can rely on: an accepted message is published or queued, a queued message leaves the queue
  after at most eight attempts, padding hides its length; and where the outbound path falls short.
\<close>

declare map_of_eq_Some_iff [simp del]

section \<open>Frames\<close>

lemma daemon_frames [simp]:
  "dm_manager (daemon_recordError c e d) = dm_manager d" "dm_messages (daemon_recordError c e d) = dm_messages d"
  "dm_published (daemon_recordError c e d) = dm_published d" "dm_notified (daemon_recordError c e d) = dm_notified d"
  "dm_networking (daemon_recordError c e d) = dm_networking d" "dm_sessions (daemon_recordError c e d) = dm_sessions d"
  "dm_manager (daemon_notify n d) = dm_manager d" "dm_messages (daemon_notify n d) = dm_messages d"
  "dm_published (daemon_notify n d) = dm_published d" "dm_networking (daemon_notify n d) = dm_networking d"
  "dm_notified (daemon_notify n d) = dm_notified d @ [n]" "dm_sessions (daemon_notify n d) = dm_sessions d"
  "dm_manager (with_messages st d) = dm_manager d" "dm_messages (with_messages st d) = st"
  "dm_published (with_messages st d) = dm_published d" "dm_notified (with_messages st d) = dm_notified d"
  "dm_networking (with_messages st d) = dm_networking d" "dm_sessions (with_messages st d) = dm_sessions d"
  by (simp_all add: daemon_recordError_def daemon_notify_def with_messages_def in_recordErr_def)

lemma publishWithTimeout_frame:
  "publishWithTimeout env msg d = (r, d') \<Longrightarrow> d' = d \<and> r \<noteq> None \<or> d' = d\<lparr>dm_published := dm_published d @ [msg]\<rparr> \<and> r = None"
  by (auto simp: publishWithTimeout_def split: option.splits)

lemma Compose_fields:
  "ComposeSignedPrivateMessage env mid r wire m = Inr pm \<Longrightarrow> wm_ID pm = mid \<and> wm_Recipient pm = r \<and>
     (\<exists>dev sig. wm_Payload pm = ce_marshalWire env (wire\<lparr>wp_Device := Some dev, wp_DeviceSig := sig\<rparr>))"
  by (auto simp: ComposeSignedPrivateMessage_def split: option.splits sum.splits prod.splits) blast+

text \<open>A signed publication either leaves the daemon as it was or adds one message for the recipient.\<close>

lemma publishSigned_cases:
  assumes "publishSignedWireWithContext env mid r wire d = (res, d')"
  obtains (failed) err where "res = Some err" "d' = d"
  | (published) pm hardened dev sig where "res = None" "d' = d\<lparr>dm_published := dm_published d @ [pm]\<rparr>" "wm_ID pm = mid" "wm_Recipient pm = r"
      "harden (ce_marshalWire env) (ce_hardening env) wire = Inr hardened"
      "wm_Payload pm = ce_marshalWire env (hardened\<lparr>wp_Device := Some dev, wp_DeviceSig := sig\<rparr>)"
  using assms
  by (auto simp: publishSignedWireWithContext_def split: sum.splits option.splits prod.splits
      dest!: publishWithTimeout_frame Compose_fields)

lemma padded_fields:
  "harden marshal enabled wire = Inr w \<Longrightarrow> \<exists>s. w = wire\<lparr>wp_Padding := s\<rparr>"
  by (auto simp: harden_def padded_def bindE_eq_Inr Let_def split: if_splits intro: exI [of _ "wp_Padding wire"])


lemma BuildStored_frame: "BuildStoredMessageWire env msg d = (r, d') \<Longrightarrow> \<exists>st. d' = d\<lparr>dm_sessions := st\<rparr>"
  by (auto simp: BuildStoredMessageWire_def Let_def split: sum.splits prod.splits if_splits)

text \<open>A stored message that differs from another one in its status only.\<close>

definition same_message :: "Message \<Rightarrow> Message \<Rightarrow> bool" where
  "same_message m m' \<longleftrightarrow> m\<lparr>msg_Status := []\<rparr> = m'\<lparr>msg_Status := []\<rparr>"

lemma same_messageD:
  "same_message m m' \<Longrightarrow> msg_ID m' = msg_ID m \<and> msg_Content m' = msg_Content m \<and> msg_ContactID m' = msg_ContactID m \<and>
     msg_Direction m' = msg_Direction m \<and> msg_ConversationType m' = msg_ConversationType m"
  by (cases m, cases m') (simp add: same_message_def)

lemma same_message_refl [simp]: "same_message m m" "same_message m (m\<lparr>msg_Status := x\<rparr>)"
  by (simp_all add: same_message_def)

lemma same_message_trans: "same_message a b \<Longrightarrow> same_message b c \<Longrightarrow> same_message a c"
  by (simp add: same_message_def)

lemma UpdateStatus_lookup:
  assumes "UpdateMessageStatus w mid status s = (r, s')"
  shows "st_pending s' = st_pending s"
    and "lookup (st_messages s) k = Some m \<Longrightarrow> \<exists>m'. lookup (st_messages s') k = Some m' \<and> same_message m m'"
    and "r = Inr True \<Longrightarrow> lookup (st_messages s) mid = Some m \<Longrightarrow> lookup (st_messages s') mid = Some (m\<lparr>msg_Status := mergeMessageStatus (msg_Status m) status\<rparr>)"
  using assms by (auto simp: UpdateMessageStatus_def Let_def split: option.splits prod.splits if_splits)

lemma updateStatus_frame:
  assumes "updateMessageStatusAndNotify w mid status d = (b, d')"
  shows "dm_published d' = dm_published d" "st_pending (dm_messages d') = st_pending (dm_messages d)"
    "lookup (st_messages (dm_messages d)) k = Some m \<Longrightarrow> \<exists>m'. lookup (st_messages (dm_messages d')) k = Some m' \<and> same_message m m'"
  using assms UpdateStatus_lookup [of w mid status "dm_messages d"]
  by (auto simp: updateMessageStatusAndNotify_def notifyMessageStatus_def split: option.splits sum.splits prod.splits)

lemma RemovePending_lookup:
  "RemovePending w mid s = (r, s') \<Longrightarrow> st_messages s' = st_messages s \<and>
     (if r = None then st_pending s' = del mid (st_pending s) else s' = s)"
  by (auto simp: RemovePending_def Let_def split: option.splits)

lemma markSent_frame:
  "dm_published (markMessageAsSent w w' mid d) = dm_published d"
  "lookup (st_messages (dm_messages d)) k = Some m \<Longrightarrow>
     \<exists>m'. lookup (st_messages (dm_messages (markMessageAsSent w w' mid d))) k = Some m' \<and> same_message m m'"
proof -
  obtain b d1 where u: "updateMessageStatusAndNotify w mid ''sent'' d = (b, d1)" by fastforce
  note f = updateStatus_frame [OF u]
  show "dm_published (markMessageAsSent w w' mid d) = dm_published d"
    using f(1) by (auto simp: markMessageAsSent_def u split: prod.split option.split)
  show "\<exists>m'. lookup (st_messages (dm_messages (markMessageAsSent w w' mid d))) k = Some m' \<and> same_message m m'"
    if "lookup (st_messages (dm_messages d)) k = Some m"
    using f(3) [OF that] by (auto simp: markMessageAsSent_def u split: prod.split option.split dest!: RemovePending_lookup)
qed

section \<open>What is accepted is sent or queued\<close>

lemma messagesEqual_fields:
  "messagesEqual a b \<Longrightarrow> msg_Content a = msg_Content b \<and> TrimSpace (msg_ContactID a) = TrimSpace (msg_ContactID b) \<and>
     msg_Direction a = msg_Direction b \<and> msg_Status a = msg_Status b"
  by (auto simp: messagesEqual_def NormalizeMessageConversation_def Let_def split: if_splits)

lemma Normalize_idem: "NormalizeMessageConversation (NormalizeMessageConversation m) = NormalizeMessageConversation m"
  using message_normal_Normalize [of m] by (simp add: message_normal_def)

lemma messagesEqual_Normalize:
  "messagesEqual (NormalizeMessageConversation m) m" "messagesEqual a (NormalizeMessageConversation m) = messagesEqual a m"
  by (simp_all add: messagesEqual_def Normalize_idem)

lemma SaveMessage_None:
  assumes "SaveMessage w msg s = (None, s')"
  shows "st_pending s' = st_pending s" "\<exists>m. lookup (st_messages s') (msg_ID msg) = Some m \<and> messagesEqual m msg"
  using assms
  by (auto simp: SaveMessage_def Let_def messagesEqual_Normalize split: option.splits if_splits)

text \<open>The message that \<open>AllocateOutboundMessage\<close> returns is in the store; nothing else changed.\<close>

definition stored_draft :: "string \<Rightarrow> string \<Rightarrow> Daemon \<Rightarrow> Message \<Rightarrow> Daemon \<Rightarrow> bool" where
  "stored_draft contactID content d msg d' \<longleftrightarrow>
     (\<exists>st m. d' = with_messages st d \<and> st_pending st = st_pending (dm_messages d) \<and> lookup (st_messages st) (msg_ID msg) = Some m \<and>
        messagesEqual m msg \<and> msg_ContactID msg = contactID \<and> msg_Content msg = bytes_of_string content \<and> msg_Direction msg = ''out'' \<and> msg_Status msg = ''pending'')"

lemma allocate_Inr: "allocate_loop env n i contactID content threadID d = (Inr msg, d') \<Longrightarrow> stored_draft contactID content d msg d'"
proof (induction n arbitrary: i)
  case (Suc n)
  obtain msgID where gen: "GeneratePrefixedID ''msg'' (ce_random env i) = Inr msgID" using Suc.prems by (auto split: sum.splits)
  define x where "x = (NewOutboundMessage msgID contactID content (ce_now env i))\<lparr>msg_ThreadID := TrimSpace threadID\<rparr>"
  obtain r st where save: "SaveMessage (ce_write env i) x (dm_messages d) = (r, st)" by fastforce
  show ?case
  proof (cases r)
    case None
    with Suc.prems gen save have "msg = x" "d' = with_messages st d" by (simp_all add: x_def Let_def)
    with SaveMessage_None [OF save [unfolded None]] show ?thesis by (auto simp: stored_draft_def x_def NewOutboundMessage_def)
  next
    case (Some err)
    with Suc.prems gen save have "allocate_loop env n (Suc i) contactID content threadID d = (Inr msg, d')"
      by (auto simp: x_def [symmetric] Let_def split: if_splits)
    then show ?thesis by (rule Suc.IH)
  qed
qed simp

lemma publishQueued_cases:
  assumes "publishQueuedMessage env msg c wire d = (r, d')"
  obtains (sent) pm d1 where "r = Inr (msg_ID msg)" "d1 = d\<lparr>dm_published := dm_published d @ [pm]\<rparr>" "wm_ID pm = msg_ID msg" "wm_Recipient pm = c"
      "d' = markMessageAsSent (ce_write env 6) (ce_write env 7) (msg_ID msg) d1"
  | (queued) err st where "r = Inr (msg_ID msg)" "d' = with_messages st (daemon_recordError ''network'' err d)"
      "AddOrUpdatePending (ce_write env 5) msg 1 (NextRetryTime 1 (ce_now env 5)) (ce_errorText env err) (dm_messages d) = (None, st)"
  | (refused) e c' err where "r = Inl e" "d' = daemon_recordError c' err d \<or> d' = daemon_recordError ''storage'' e (daemon_recordError c' err d)"
proof -
  obtain res d1 where pub: "(case networkContext ''network'' d of Some err \<Rightarrow> (Some err, d)
      | None \<Rightarrow> publishSignedWireWithContext env (msg_ID msg) c wire d) = (res, d1)" by fastforce
  show thesis
  proof (cases res)
    case None
    with pub have "publishSignedWireWithContext env (msg_ID msg) c wire d = (None, d1)" by (auto split: option.splits)
    then show thesis
      by (cases rule: publishSigned_cases) (use assms pub None sent in \<open>auto simp: publishQueuedMessage_def\<close>)
  next
    case (Some err)
    with pub have "d1 = d" by (auto split: option.splits elim: publishSigned_cases)
    with assms pub Some show thesis
      by (auto simp: publishQueuedMessage_def Let_def split: if_splits option.splits prod.splits intro: queued refused)
  qed
qed


lemma allocate_Inl:
  "allocate_loop env n i c x t d = (Inl e, d') \<Longrightarrow> dm_notified d' = dm_notified d \<and> dm_messages d' = dm_messages d \<and> dm_published d' = dm_published d"
  by (induction n arbitrary: i) (auto simp: Let_def split: sum.splits option.splits prod.splits if_splits)

text \<open>A call of the sender fails before anything is stored, or stores the message, tells the subscribers and publishes.\<close>

lemma send_cases:
  assumes "sendMessageWithThread env contactID content threadID d = (r, d')"
  obtains (early) e where "r = Inl e" "dm_notified d' = dm_notified d"
  | (stored) msg wire d1 d2 where "stored_draft (TrimSpace contactID) (TrimSpace content) d1 msg d2" "\<exists>st. d1 = d\<lparr>dm_sessions := st\<rparr>"
      "publishQueuedMessage env msg (TrimSpace contactID) wire (daemon_notify (NotifyMessageNew (TrimSpace contactID) msg) d2) = (r, d')"
proof (cases "(TrimSpace contactID = [] \<or> TrimSpace content = []) \<or> \<not> HasContact (TrimSpace contactID) (dm_manager d)")
  case True
  with assms early show thesis by (auto simp: sendMessageWithThread_def ValidateSendMessageInput_def Let_def split: if_splits)
next
  case False
  define draft where "draft = (NewOutboundMessage ''draft'' (TrimSpace contactID) (TrimSpace content) (ce_now env 3))\<lparr>msg_ThreadID := threadID\<rparr>"
  obtain w d1 where b: "BuildStoredMessageWire env draft d = (w, d1)" by fastforce
  from BuildStored_frame [OF this] have d1: "\<exists>st. d1 = d\<lparr>dm_sessions := st\<rparr>" .
  note step = assms False b
  show thesis
  proof (cases w)
    case (Inl e)
    with step d1 early show thesis by (auto simp: sendMessageWithThread_def ValidateSendMessageInput_def Let_def draft_def [symmetric])
  next
    case (Inr wire)
    obtain a d2 where al: "AllocateOutboundMessage env (TrimSpace contactID) (TrimSpace content) threadID d1 = (a, d2)" by fastforce
    show thesis
    proof (cases a)
      case (Inl e)
      with step d1 al Inr early allocate_Inl [of env 3 0 _ _ _ d1 e d2] show thesis
        by (auto simp: sendMessageWithThread_def ValidateSendMessageInput_def AllocateOutboundMessage_def Let_def draft_def [symmetric])
    next
      case (Inr msg)
      with step d1 al \<open>w = Inr wire\<close> show thesis
        by (intro stored [OF allocate_Inr [of env 3 0] d1])
          (auto simp: sendMessageWithThread_def ValidateSendMessageInput_def AllocateOutboundMessage_def Let_def draft_def [symmetric])
    qed
  qed
qed

text \<open>
  C15: A message that the daemon has accepted is not forgotten. When \<open>SendMessage\<close> returns an id, the message is in the
  store under that id with the text and the contact of the call, and it has either been published to the contact or waits in
  the retry queue, with one attempt counted and due two seconds later.
\<close>

theorem accepted_message_sent_or_queued:
  assumes "SendMessage env contactID content d = (Inr mid, d')"
  shows "\<exists>m. lookup (st_messages (dm_messages d')) mid = Some m \<and> msg_Content m = bytes_of_string (TrimSpace content) \<and>
    TrimSpace (msg_ContactID m) = TrimSpace contactID \<and> msg_Direction m = ''out'' \<and>
    ((\<exists>pm. dm_published d' = dm_published d @ [pm] \<and> wm_ID pm = mid \<and> wm_Recipient pm = TrimSpace contactID) \<or>
     (dm_published d' = dm_published d \<and>
      (\<exists>p. lookup (st_pending (dm_messages d')) mid = Some p \<and> pm_RetryCount p = 1 \<and> pm_NextRetry p = ce_now env 5 + 2 * second)))"
  using assms unfolding SendMessage_def
proof (cases rule: send_cases)
  case (stored msg wire d1 d2)
  then obtain st m where d2: "d2 = with_messages st d1" "lookup (st_messages st) (msg_ID msg) = Some m" "messagesEqual m msg" "dm_published d1 = dm_published d"
    and m: "msg_ContactID msg = TrimSpace contactID" "msg_Content msg = bytes_of_string (TrimSpace content)" "msg_Direction msg = ''out''"
    by (auto simp: stored_draft_def)
  from stored(3) show ?thesis
  proof (cases rule: publishQueued_cases)
    case (sent pm d3)
    with d2 m markSent_frame(2) [of d3 "msg_ID msg" m "ce_write env 6" "ce_write env 7" "msg_ID msg"] messagesEqual_fields [OF d2(3)]
    show ?thesis by (auto simp: markSent_frame(1) dest!: same_messageD)
  next
    case (queued err st')
    with d2 m messagesEqual_fields [OF d2(3)] show ?thesis
      by (auto simp: AddOrUpdatePending_def NextRetryTime_def Let_def split: option.splits)
  qed simp
qed simp


section \<open>The retry queue empties\<close>

text \<open>One attempt of the retry loop on the entry of a message, if it has one.\<close>

definition retry_round :: "string \<Rightarrow> call_env \<Rightarrow> Daemon \<Rightarrow> Daemon" where
  "retry_round mid env d =
     (case lookup (st_pending (dm_messages d)) mid of
        None \<Rightarrow> d
      | Some p \<Rightarrow> process_pending handleRetryPublishError env p d)"

text \<open>The message is in the store and waits with at most \<open>n\<close> attempts left, or it has left the queue with a final status.\<close>

definition settles :: "string \<Rightarrow> nat \<Rightarrow> Daemon \<Rightarrow> bool" where
  "settles mid n d \<longleftrightarrow>
     (case lookup (st_pending (dm_messages d)) mid of
        None \<Rightarrow> (\<exists>m. lookup (st_messages (dm_messages d)) mid = Some m \<and> msg_Status m \<noteq> ''pending'')
      | Some p \<Rightarrow> msg_ID (pm_Message p) = mid \<and> 9 \<le> pm_RetryCount p + int n \<and> pm_RetryCount p \<le> 8 \<and> (\<exists>m. lookup (st_messages (dm_messages d)) mid = Some m))"

lemma merge_not_pending: "mergeMessageStatus x ''sent'' \<noteq> ''pending''" "mergeMessageStatus x ''failed'' \<noteq> ''pending''"
  by (auto simp: mergeMessageStatus_def statusOrder_def)

lemma update_and_remove:
  assumes "\<forall>ms ps. w ms ps = None" "\<forall>ms ps. w' ms ps = None" "lookup (st_messages (dm_messages d)) mid = Some m"
    and d1: "d1 = snd (updateMessageStatusAndNotify w mid status d)"
  shows "lookup (st_messages (dm_messages d1)) mid = Some (m\<lparr>msg_Status := mergeMessageStatus (msg_Status m) status\<rparr>)"
    and "\<exists>st. RemovePending w' mid (dm_messages d1) = (None, st) \<and> st_messages st = st_messages (dm_messages d1) \<and> lookup (st_pending st) mid = None"
  using assms(1-3)
  by (auto simp: d1 updateMessageStatusAndNotify_def notifyMessageStatus_def UpdateMessageStatus_def RemovePending_def persistSnapshotLocked_def Let_def
      split: option.splits)

lemma settles_left:
  assumes "\<forall>ms ps. w ms ps = None" "\<forall>ms ps. w' ms ps = None" "lookup (st_messages (dm_messages d)) mid = Some m" "status \<in> {''sent'', ''failed''}"
  shows "settles mid n (case RemovePending w' mid (dm_messages (snd (updateMessageStatusAndNotify w mid status d))) of
      (Some err, _) \<Rightarrow> daemon_recordError ''storage'' err (snd (updateMessageStatusAndNotify w mid status d))
    | (None, store) \<Rightarrow> with_messages store (snd (updateMessageStatusAndNotify w mid status d)))"
  using update_and_remove [OF assms(1-3) refl, of status] assms(4) merge_not_pending by (auto simp: settles_def)

lemma retry_round_settles:
  assumes "settles mid (Suc n) d" "\<forall>i ms ps. ce_write env i ms ps = None"
  shows "settles mid n (retry_round mid env d)"
proof (cases "lookup (st_pending (dm_messages d)) mid")
  case None
  with assms(1) show ?thesis by (auto simp: retry_round_def settles_def)
next
  case (Some p)
  with assms(1) obtain m where p: "msg_ID (pm_Message p) = mid" "9 \<le> pm_RetryCount p + int (Suc n)" "lookup (st_messages (dm_messages d)) mid = Some m"
    by (auto simp: settles_def)
  have failed: "settles mid n (handleRetryPublishError env p err d1)" if "dm_messages d1 = dm_messages d" for err d1
  proof (cases "pm_RetryCount p + 1 > 8")
    case True
    have "settles mid n (case RemovePending (ce_write env 7) mid (dm_messages (snd (updateMessageStatusAndNotify (ce_write env 6) mid ''failed'' d2))) of
        (Some err, _) \<Rightarrow> daemon_recordError ''storage'' err (snd (updateMessageStatusAndNotify (ce_write env 6) mid ''failed'' d2))
      | (None, store) \<Rightarrow> with_messages store (snd (updateMessageStatusAndNotify (ce_write env 6) mid ''failed'' d2)))"
      if "dm_messages d2 = dm_messages d" for d2
      by (rule settles_left) (use assms(2) p that in auto)
    from this [of "daemon_recordError (ErrorCategory err) err d1"] True p(1) that show ?thesis
      by (simp add: handleRetryPublishError_def Let_def)
  next
    case False
    with assms(2) p that show ?thesis
      by (auto simp: handleRetryPublishError_def AddOrUpdatePending_def persistSnapshotLocked_def settles_def Let_def)
  qed
  obtain w d1 where b: "BuildStoredMessageWire env (pm_Message p) d = (w, d1)" by fastforce
  from BuildStored_frame [OF this] have d1: "dm_messages d1 = dm_messages d" by auto
  show ?thesis
  proof (cases w)
    case (Inl err)
    with failed [OF d1] Some b show ?thesis by (simp add: retry_round_def process_pending_def)
  next
    case (Inr wire)
    obtain res d2 where pub: "publishSignedWireWithContext env (msg_ID (pm_Message p)) (msg_ContactID (pm_Message p)) wire d1 = (res, d2)" by fastforce
    then have d2: "dm_messages d2 = dm_messages d" by (cases rule: publishSigned_cases) (auto simp: d1)
    show ?thesis
    proof (cases res)
      case None
      have "settles mid n (markMessageAsSent (ce_write env 6) (ce_write env 7) mid d2)"
        unfolding markMessageAsSent_def Let_def by (rule settles_left) (use assms(2) p(3) d2 in auto)
      with Some b Inr pub None p(1) show ?thesis by (simp add: retry_round_def process_pending_def)
    next
      case (Some err)
      with failed [OF d2] b Inr pub \<open>lookup (st_pending (dm_messages d)) mid = Some p\<close> show ?thesis
        by (simp add: retry_round_def process_pending_def)
    qed
  qed
qed


section \<open>Padding\<close>

lemma padding_search_sound: "padding_search sz t l h b = Inl n \<Longrightarrow> sz n = t"
proof (induction sz t l h b rule: padding_search.induct)
  case (1 sz t l h b)
  from "1.prems" show ?case
    by (subst (asm) padding_search.simps) (use 1 in \<open>auto simp: Let_def split: if_splits\<close>)
qed

lemma padding_search_rest: "padding_search sz t l h b = Inr b' \<Longrightarrow> b' = b \<or> sz b' < t"
proof (induction sz t l h b rule: padding_search.induct)
  case (1 sz t l h b)
  from "1.prems" show ?case
    by (subst (asm) padding_search.simps) (use 1 in \<open>auto simp: Let_def split: if_splits\<close>)
qed

lemma padding_search_complete:
  "strict_mono sz \<Longrightarrow> sz n = t \<Longrightarrow> 0 \<le> l \<Longrightarrow> l \<le> int n \<Longrightarrow> int n \<le> h \<Longrightarrow> \<exists>k. padding_search sz t l h b = Inl k"
proof (induction sz t l h b rule: padding_search.induct)
  case (1 sz t l h b)
  define mid where "mid = (l + h) div 2"
  have mid: "0 \<le> mid" "l \<le> mid" "mid \<le> h" using "1.prems" by (auto simp: mid_def)
  consider "sz (nat mid) = t" | "sz (nat mid) < t" "mid + 1 \<le> int n" | "sz (nat mid) > t" "int n \<le> mid - 1"
    using "1.prems"(1,2) mid strict_mono_less [OF "1.prems"(1), of "nat mid" n] strict_mono_less [OF "1.prems"(1), of n "nat mid"] by linarith
  then show ?case
  proof cases
    case 1
    then show ?thesis using mid by (subst padding_search.simps) (auto simp: Let_def mid_def [symmetric])
  next
    case 2
    have "\<exists>k. padding_search sz t (mid + 1) h (nat mid) = Inl k"
      by (rule "1.IH"(1)) (use 2 mid "1.prems" mid_def in auto)
    then show ?thesis using 2 mid by (subst padding_search.simps) (auto simp: Let_def mid_def [symmetric])
  next
    case 3
    have "\<exists>k. padding_search sz t l (mid - 1) b = Inl k"
      by (rule "1.IH"(2)) (use 3 mid "1.prems" mid_def in auto)
    then show ?thesis using 3 mid by (subst padding_search.simps) (auto simp: Let_def mid_def [symmetric])
  qed
qed

lemma targetSize_bucket:
  "targetSize marshal wire = 0 \<and> length (marshal wire) > 8192 \<or>
   targetSize marshal wire \<in> set sizeBuckets \<and> length (marshal wire) \<le> targetSize marshal wire"
  by (auto simp: targetSize_def sizeBuckets_def)

lemma padded_padded [simp]: "padded (padded wire n) k = padded wire k"
  by (simp add: padded_def)

text \<open>
  Padding hides the length of a message up to the bucket. Let the JSON form of a padded wire grow by the length of the padding
  and a constant for its field. Then hardening succeeds, changes nothing but the padding, and the wire has the size of
  the smallest bucket that holds it, except that it is left as it is when the padding field alone would overflow that bucket
  or when it is larger than the largest bucket.
\<close>

lemma hardened_wire_fills_bucket:
  assumes "\<forall>n > 0. length (marshal (padded wire n)) = length (marshal (padded wire 0)) + c + n" "\<not> isLatencyCritical wire"
  shows "\<exists>n. harden marshal True wire = Inr (padded wire n) \<and>
    (let base = length (marshal (padded wire 0)); target = targetSize marshal (padded wire 0) in
     length (marshal (padded wire n)) = (if base = target \<or> base + c < target then target else base))"
proof -
  define sz where "sz = (\<lambda>n. length (marshal (padded wire n)))"
  define target where "target = targetSize marshal (padded wire 0)"
  have grow: "sz n = sz 0 + c + n" if "n > 0" for n using assms(1) that by (simp add: sz_def)
  have mono: "strict_mono sz"
    unfolding strict_mono_def
  proof (intro allI impI)
    fix x y :: nat assume "x < y"
    then show "sz x < sz y" using grow [of x] grow [of y] by (cases "x = 0") simp_all
  qed
  have build: "buildPaddingForTarget marshal (padded wire 0) target = (case padding_search sz target 0 (int target) 0 of
      Inl n \<Rightarrow> Inr n | Inr best \<Rightarrow> if sz best > target then Inl (ErrText ''failed to fit payload into target size bucket'') else Inr best)"
    unfolding buildPaddingForTarget_def sz_def Let_def padded_padded ..
  consider (big) "target = 0" "sz 0 > 8192" | (fits) "target > 0" "sz 0 \<le> target"
    using targetSize_bucket [of marshal "padded wire 0"] by (auto simp: target_def sz_def sizeBuckets_def)
  then show ?thesis
  proof cases
    case big
    then have "harden marshal True wire = Inr (padded wire 0)"
      using assms(2) by (simp add: harden_def target_def [symmetric] Let_def)
    with big show ?thesis by (auto simp: sz_def target_def Let_def)
  next
    case fits
    show ?thesis
    proof (cases "sz 0 = target \<or> sz 0 + c < target")
      case True
      then obtain n where n: "sz n = target" "n \<le> target"
        using grow [of "target - sz 0 - c"] by (cases "sz 0 = target") auto
      then obtain k where "padding_search sz target 0 (int target) 0 = Inl k"
        using padding_search_complete [OF mono n(1), of 0 "int target" 0] by auto
      with padding_search_sound [OF this] build fits(1) assms(2) True show ?thesis
        by (auto simp: harden_def target_def [symmetric] sz_def Let_def)
    next
      case False
      then have none: "sz n \<noteq> target" for n using grow [of n] fits(2) by (cases "n = 0") auto
      then obtain b where b: "padding_search sz target 0 (int target) 0 = Inr b"
        using padding_search_sound by (cases "padding_search sz target 0 (int target) 0") blast+
      have "b = 0" using padding_search_rest [OF b] grow [of b] False fits(2) by (cases "b = 0") auto
      with b build fits assms(2) False show ?thesis
        by (auto simp: harden_def target_def [symmetric] sz_def Let_def)
    qed
  qed
qed

end
