(* ===== verification/Fanout_Guarantees.thy ===== *)
theory Fanout_Guarantees
  imports Outbound_Guarantees
begin

text \<open>
  What a fan-out promises: it addresses exactly the active members that are not blocked, accounts for each of them, and a repetition
  under the same event id sends nothing twice. \<open>shuffle\<close> is only required to permute its list, as \<open>rand.Shuffle\<close> does.
\<close>

declare map_of_eq_Some_iff [simp del]

section \<open>Fan-out\<close>

lemma processRecipient_result:
  assumes "processRecipient env ctx r res d = (res', d')"
  shows "map rs_RecipientID (fr_Recipients res') = map rs_RecipientID (fr_Recipients res) @ [r]"
    "fr_Delivered res' + fr_Pending res' + fr_Failed res' = Suc (fr_Delivered res + fr_Pending res + fr_Failed res)"
    "fr_Attempted res' = fr_Attempted res" "fr_GroupID res' = fr_GroupID res"
  using assms
  by (auto simp: processRecipient_def add_status_def appendRecipientFailure_def Let_def split: option.splits prod.splits sum.splits if_splits)

lemma fanout_loop_result:
  "fanout_loop envs i ctx rs res d = (res', d') \<Longrightarrow>
     map rs_RecipientID (fr_Recipients res') = map rs_RecipientID (fr_Recipients res) @ rs \<and>
     fr_Delivered res' + fr_Pending res' + fr_Failed res' = length rs + (fr_Delivered res + fr_Pending res + fr_Failed res) \<and>
     fr_Attempted res' = fr_Attempted res \<and> fr_GroupID res' = fr_GroupID res"
proof (induction rs arbitrary: i res d)
  case (Cons r rs)
  obtain res1 d1 where step: "processRecipient (envs i) ctx r res d = (res1, d1)" by fastforce
  with Cons.prems have "fanout_loop envs (Suc i) ctx rs res1 d1 = (res', d')" by simp
  from Cons.IH [OF this] processRecipient_result [OF step] show ?case by simp
qed simp

definition expected_recipients :: "Daemon \<Rightarrow> GroupState \<Rightarrow> string list" where
  "expected_recipients d state =
     map fst (filter (\<lambda>(k, m). k \<noteq> TrimSpace (dm_self d) \<and> m_Status m = StatusActive \<and> \<not> IsBlockedSender (dm_privacy d) k) (s_Members state))"

lemma prepare_Inr:
  assumes "prepareFanoutContext lib abuse env g e c t d = (Inr ctx, abuse')"
  shows "lookup (in_States (dm_world d)) (fc_groupID ctx) = Some (fc_state ctx)" "fc_actorID ctx = TrimSpace (dm_self d)"
    "validateActorCanFanout (fc_state ctx) (fc_actorID ctx) = None" "\<not> blank e \<Longrightarrow> fc_eventID ctx = TrimSpace e" "NormalizeGroupID g = Inr (fc_groupID ctx)"
  using assms
  by (auto simp: prepareFanoutContext_def resolveEventID_def Let_def split: orFail_split_asm sum.splits if_splits option.splits prod.splits)

lemma fanout_cases:
  assumes "fanout_SendGroupMessageFanout lib sh env envs abuse g e c t d = (Inr res, abuse', d')"
  obtains ctx res0 where "prepareFanoutContext lib abuse env g e c t d = (Inr ctx, abuse')" "fr_Recipients res0 = []" "fr_GroupID res0 = fc_groupID ctx"
    "fr_Delivered res0 = 0" "fr_Pending res0 = 0" "fr_Failed res0 = 0"
    "fr_Attempted res0 = length (collectRecipients sh (IsBlockedSender (dm_privacy d)) (fc_state ctx) (fc_actorID ctx) (fc_now ctx))"
    "fanout_loop envs 0 ctx (collectRecipients sh (IsBlockedSender (dm_privacy d)) (fc_state ctx) (fc_actorID ctx) (fc_now ctx)) res0 (persistSenderMessage env ctx d) = (res, d')"
proof -
  obtain ctx where p: "prepareFanoutContext lib abuse env g e c t d = (Inr ctx, abuse')"
    using assms by (auto simp: fanout_SendGroupMessageFanout_def Let_def split: sum.splits prod.splits)
  let ?rs = "collectRecipients sh (IsBlockedSender (dm_privacy d)) (fc_state ctx) (fc_actorID ctx) (fc_now ctx)"
  let ?res = "\<lparr>fr_GroupID = fc_groupID ctx, fr_EventID = fc_eventID ctx, fr_Attempted = length ?rs, fr_Delivered = 0, fr_Pending = 0, fr_Failed = 0, fr_Recipients = []\<rparr>"
  show thesis
    by (rule that [of ctx ?res]) (use assms p in \<open>auto simp: fanout_SendGroupMessageFanout_def Let_def split: prod.splits\<close>)
qed

lemma mset_recipients:
  assumes "\<forall>now xs. mset (sh now xs) = mset xs" "fc_actorID ctx = TrimSpace (dm_self d)"
  shows "mset (collectRecipients sh (IsBlockedSender (dm_privacy d)) (fc_state ctx) (fc_actorID ctx) now) = mset (expected_recipients d (fc_state ctx))"
  using assms by (simp add: collectRecipients_def expected_recipients_def Let_def)

text \<open>
  C17: A group message goes to every member it is meant for. When the fan-out succeeds, the sender is an active member of the group, the
  result lists every other active member that is not blocked exactly once, and nobody else; and the numbers of delivered,
  pending and failed recipients add up to the number of attempts.
\<close>

theorem fanout_covers_members:
  assumes "fanout_SendGroupMessageFanout lib sh env envs abuse g e c t d = (Inr res, abuse', d')" "\<forall>now xs. mset (sh now xs) = mset xs"
  shows "\<exists>state me. lookup (in_States (dm_world d)) (fr_GroupID res) = Some state \<and>
    lookup (s_Members state) (TrimSpace (dm_self d)) = Some me \<and> m_Status me = StatusActive \<and>
    mset (map rs_RecipientID (fr_Recipients res)) = mset (expected_recipients d state) \<and>
    fr_Attempted res = length (fr_Recipients res) \<and> fr_Delivered res + fr_Pending res + fr_Failed res = fr_Attempted res"
  using assms(1)
proof (cases rule: fanout_cases)
  case (1 ctx res0)
  note p = prepare_Inr [OF 1(1)]
  have loop: "map rs_RecipientID (fr_Recipients res) = collectRecipients sh (IsBlockedSender (dm_privacy d)) (fc_state ctx) (fc_actorID ctx) (fc_now ctx)"
    "fr_Delivered res + fr_Pending res + fr_Failed res = fr_Attempted res" "fr_Attempted res = fr_Attempted res0" "fr_GroupID res = fc_groupID ctx"
    using fanout_loop_result [OF 1(8)] 1(2-7) by simp_all
  moreover have "length (fr_Recipients res) = fr_Attempted res" using loop(1,3) 1(7) by (metis length_map)
  moreover have "\<exists>me. lookup (s_Members (fc_state ctx)) (TrimSpace (dm_self d)) = Some me \<and> m_Status me = StatusActive"
    using p(2,3) by (auto simp: validateActorCanFanout_def split: option.splits if_splits)
  ultimately show ?thesis using p(1,2) mset_recipients [OF assms(2) p(2)] by (metis (no_types))
qed

text \<open>Whatever is in the message store stays there.\<close>

definition keeps_ids :: "Daemon \<Rightarrow> Daemon \<Rightarrow> bool" where
  "keeps_ids d d' \<longleftrightarrow> (\<forall>k. lookup (st_messages (dm_messages d)) k \<noteq> None \<longrightarrow> lookup (st_messages (dm_messages d')) k \<noteq> None)"

lemma keeps_ids_refl: "dm_messages d' = dm_messages d \<Longrightarrow> keeps_ids d d'"
  by (simp add: keeps_ids_def)

lemma keeps_ids_trans: "keeps_ids a b \<Longrightarrow> keeps_ids b c \<Longrightarrow> keeps_ids a c"
  by (simp add: keeps_ids_def)

lemma SaveMessage_keeps: "SaveMessage w m (dm_messages d) = (r, st) \<Longrightarrow> keeps_ids d (with_messages st d)"
  by (auto simp: keeps_ids_def SaveMessage_def Let_def split: option.splits if_splits)

lemma publishQueued_keeps:
  assumes "publishQueuedMessage env msg c wire d = (r, d')"
  shows "keeps_ids d d' \<and> (\<exists>pms. dm_published d' = dm_published d @ pms \<and> (\<forall>pm \<in> set pms. wm_Recipient pm = c))"
  using assms
proof (cases rule: publishQueued_cases)
  case (sent pm d1)
  have "keeps_ids d d'"
    unfolding keeps_ids_def
  proof (intro allI impI)
    fix k assume "lookup (st_messages (dm_messages d)) k \<noteq> None"
    then obtain m where "lookup (st_messages (dm_messages d1)) k = Some m" using sent(2) by auto
    from markSent_frame(2) [OF this, of "ce_write env 6" "ce_write env 7" "msg_ID msg"]
    show "lookup (st_messages (dm_messages d')) k \<noteq> None" using sent(5) by auto
  qed
  with sent show ?thesis by (auto simp: markSent_frame(1))
next
  case (queued err st)
  then show ?thesis by (auto simp: keeps_ids_def AddOrUpdatePending_def Let_def split: option.splits)
next
  case (refused e c' err)
  then show ?thesis by (auto simp: keeps_ids_def)
qed

lemma prepareAndPublish_keeps:
  assumes "prepareAndPublishGroupMessage env msg r meta d = (x, d')"
  shows "keeps_ids d d' \<and> (\<exists>pms. dm_published d' = dm_published d @ pms \<and> (\<forall>pm \<in> set pms. wm_Recipient pm = r))"
proof -
  obtain w st where b: "BuildWireForOutboundMessage env msg (dm_sessions d) = (w, st)" by fastforce
  have frame: "keeps_ids d (d\<lparr>dm_sessions := st\<rparr>)" by (simp add: keeps_ids_def)
  show ?thesis
  proof (cases w)
    case (Inl err)
    with assms b frame show ?thesis by (auto simp: prepareAndPublishGroupMessage_def)
  next
    case (Inr wire)
    then obtain wire' y where "publishQueuedMessage env msg r wire' (d\<lparr>dm_sessions := st\<rparr>) = (y, d')"
      using assms b by (auto simp: prepareAndPublishGroupMessage_def Let_def split: sum.splits prod.splits)
    from publishQueued_keeps [OF this] frame show ?thesis by (auto intro: keeps_ids_trans)
  qed
qed

lemma processRecipient_published:
  assumes "processRecipient env ctx r res d = (res', d')"
  defines "mid \<equiv> message_id_for env (fc_eventID ctx) r"
  shows "lookup (st_messages (dm_messages d)) mid \<noteq> None \<Longrightarrow> d' = d" "keeps_ids d d'"
    "\<exists>pms. dm_published d' = dm_published d @ pms \<and> (\<forall>pm \<in> set pms. wm_Recipient pm = r)"
    "fr_Failed res \<le> fr_Failed res'" "fr_Failed res' = fr_Failed res \<Longrightarrow> lookup (st_messages (dm_messages d')) mid \<noteq> None"
proof -
  let ?msg = "transport_message mid r ctx"
  show "lookup (st_messages (dm_messages d)) mid \<noteq> None \<Longrightarrow> d' = d"
    using assms by (auto simp: processRecipient_def GetMessage_def Let_def)
  have main: "keeps_ids d d' \<and> (\<exists>pms. dm_published d' = dm_published d @ pms \<and> (\<forall>pm \<in> set pms. wm_Recipient pm = r)) \<and>
      (fr_Failed res \<le> fr_Failed res' \<and> (fr_Failed res' = fr_Failed res \<longrightarrow> lookup (st_messages (dm_messages d')) mid \<noteq> None))"
  proof (cases "lookup (st_messages (dm_messages d)) mid")
    case (Some m)
    with assms show ?thesis by (auto simp: processRecipient_def GetMessage_def add_status_def keeps_ids_def Let_def)
  next
    case None
    obtain e st where save: "SaveMessage (ce_write env 0) ?msg (dm_messages d) = (e, st)" by fastforce
    show ?thesis
    proof (cases e)
      case (Some err)
      with assms None save show ?thesis by (auto simp: processRecipient_def GetMessage_def appendRecipientFailure_def keeps_ids_def Let_def)
    next
      case e: None
      obtain meta x d2 where p: "prepareAndPublishGroupMessage env ?msg r meta (with_messages st d) = (x, d2)"
        and d': "dm_messages d' = dm_messages d2" "dm_published d' = dm_published d2" "fr_Failed res \<le> fr_Failed res'"
        using assms None save e
        by (auto simp: processRecipient_def GetMessage_def appendRecipientFailure_def add_status_def Let_def split: sum.splits prod.splits if_splits)
      have "lookup (st_messages st) mid \<noteq> None"
        using SaveMessage_None(2) [OF save [unfolded e]] by (auto simp: transport_message_def sender_message_def)
      with prepareAndPublish_keeps [OF p] d' SaveMessage_keeps [OF save] show ?thesis by (auto simp: keeps_ids_def)
    qed
  qed
  then show "keeps_ids d d'" "\<exists>pms. dm_published d' = dm_published d @ pms \<and> (\<forall>pm \<in> set pms. wm_Recipient pm = r)"
    "fr_Failed res \<le> fr_Failed res'" "fr_Failed res' = fr_Failed res \<Longrightarrow> lookup (st_messages (dm_messages d')) mid \<noteq> None" by blast+
qed

lemma message_id_for_lib: "ce_crypto env = L \<Longrightarrow> ce_crypto env' = L \<Longrightarrow> message_id_for env e r = message_id_for env' e r"
  by (simp add: message_id_for_def)

lemma fanout_loop_stored:
  assumes "fanout_loop envs i ctx rs res d = (res', d')" "\<forall>i. ce_crypto (envs i) = ce_crypto env"
  shows "keeps_ids d d' \<and> fr_Failed res \<le> fr_Failed res' \<and>
    (fr_Failed res' = fr_Failed res \<longrightarrow> (\<forall>r \<in> set rs. lookup (st_messages (dm_messages d')) (message_id_for env (fc_eventID ctx) r) \<noteq> None))"
  using assms(1)
proof (induction rs arbitrary: i res d)
  case Nil
  then show ?case by (simp add: keeps_ids_refl)
next
  case (Cons r rs)
  obtain res1 d1 where step: "processRecipient (envs i) ctx r res d = (res1, d1)" by fastforce
  with Cons.prems have rest: "fanout_loop envs (Suc i) ctx rs res1 d1 = (res', d')" by simp
  note p = processRecipient_published [OF step]
  have lib: "message_id_for (envs i) = message_id_for env" using assms(2) by (intro ext message_id_for_lib) auto
  from Cons.IH [OF rest] p(2,4,5) show ?case unfolding lib by (auto simp: keeps_ids_def)
qed

lemma fanout_loop_published:
  assumes "fanout_loop envs i ctx rs res d = (res', d')" "\<forall>i. ce_crypto (envs i) = ce_crypto env"
  shows "\<exists>pms. dm_published d' = dm_published d @ pms \<and>
    (\<forall>pm \<in> set pms. lookup (st_messages (dm_messages d)) (message_id_for env (fc_eventID ctx) (wm_Recipient pm)) = None)"
  using assms(1)
proof (induction rs arbitrary: i res d)
  case (Cons r rs)
  obtain res1 d1 where step: "processRecipient (envs i) ctx r res d = (res1, d1)" by fastforce
  with Cons.prems have rest: "fanout_loop envs (Suc i) ctx rs res1 d1 = (res', d')" by simp
  note p = processRecipient_published [OF step]
  have lib: "message_id_for (envs i) = message_id_for env" using assms(2) by (intro ext message_id_for_lib) auto
  obtain ps where ps: "dm_published d1 = dm_published d @ ps" "\<forall>pm \<in> set ps. wm_Recipient pm = r" using p(3) by blast
  moreover have "lookup (st_messages (dm_messages d)) (message_id_for env (fc_eventID ctx) r) = None" if "ps \<noteq> []"
    using p(1) ps(1) that unfolding lib by (metis append_self_conv)
  ultimately show ?case
    using Cons.IH [OF rest] p(2) by (fastforce simp: keeps_ids_def)
qed simp

lemma persistSender_frame:
  "dm_published (persistSenderMessage env ctx d) = dm_published d" "keeps_ids d (persistSenderMessage env ctx d)"
  by (auto simp: persistSenderMessage_def keeps_ids_def Let_def SaveMessage_def split: option.splits prod.splits if_splits)

text \<open>
  C18: Repeating a fan-out sends nothing twice. After a fan-out in which no recipient failed, another one under the same event
  id, started from any state that still stores the messages of the first one, publishes nothing to the recipients of the
  first one, even if the membership of the group has changed in between.
\<close>

theorem fanout_sends_once:
  assumes "fanout_SendGroupMessageFanout lib sh env envs abuse g e c t d = (Inr res, abuse', d1)" "fr_Failed res = 0" "\<not> blank e"
    and "\<forall>i. ce_crypto (envs i) = ce_crypto env" "\<forall>i. ce_crypto (envs' i) = ce_crypto env"
    and "keeps_ids d1 d1'" "fanout_SendGroupMessageFanout lib sh env' envs' abuse1 g' e c' t' d1' = (Inr res', abuse2, d2)"
  shows "\<exists>pms. dm_published d2 = dm_published d1' @ pms \<and> (\<forall>pm \<in> set pms. wm_Recipient pm \<notin> rs_RecipientID ` set (fr_Recipients res))"
proof -
  let ?id = "message_id_for env (TrimSpace e)"
  have first: "lookup (st_messages (dm_messages d1)) (?id r) \<noteq> None" if "r \<in> rs_RecipientID ` set (fr_Recipients res)" for r
    using assms(1)
  proof (cases rule: fanout_cases)
    case (1 ctx res0)
    have "r \<in> set (map rs_RecipientID (fr_Recipients res))" using that by simp
    then show ?thesis
      using fanout_loop_result [OF 1(8)] fanout_loop_stored [OF 1(8) assms(4)] prepare_Inr(4) [OF 1(1) assms(3)] assms(2) 1(2,6) by simp
  qed
  show ?thesis
    using assms(7)
  proof (cases rule: fanout_cases)
    case (1 ctx res0)
    obtain pms where pms: "dm_published d2 = dm_published d1' @ pms"
      "\<forall>pm \<in> set pms. lookup (st_messages (dm_messages (persistSenderMessage env' ctx d1'))) (?id (wm_Recipient pm)) = None"
      using fanout_loop_published [OF 1(8), of env] assms(5) prepare_Inr(4) [OF 1(1) assms(3)] persistSender_frame(1) [of env' ctx d1'] by auto
    have "lookup (st_messages (dm_messages (persistSenderMessage env' ctx d1'))) (?id r) \<noteq> None" if "r \<in> rs_RecipientID ` set (fr_Recipients res)" for r
      using first [OF that] assms(6) persistSender_frame(2) [of d1' env' ctx] unfolding keeps_ids_def by blast
    with pms show ?thesis by metis
  qed
qed

end
