(* ===== verification/Inbound_Guarantees.thy ===== *)
theory Inbound_Guarantees
  imports Messaging_Inbound Fanout_Guarantees Identity_Guarantees
begin

text \<open>
  What the network can do to a daemon: everything that arrives goes through \<open>HandleIncomingPrivateMessage\<close>. It cannot touch
  the daemon's own identity nor weaken the trust in a contact, and of a verified contact it accepts nothing
  without a device signature, with the exceptions stated here; and what the handling loses or lets through.
\<close>

declare map_of_eq_Some_iff [simp del]

section \<open>What may change the identity\<close>

lemma daemon_identity_frames [simp]:
  "dm_identity (daemon_recordError c e d) = dm_identity d" "dm_identity (daemon_notify n d) = dm_identity d"
  "dm_identity (with_messages st d) = dm_identity d" "dm_identity (with_manager m d) = (dm_identity d)\<lparr>is_manager := m\<rparr>"
  by (simp_all add: daemon_recordError_def daemon_notify_def with_messages_def with_manager_def)

lemma sendReceipt_identity: "sendReceipt env c i s d = (r, d') \<Longrightarrow> dm_identity d' = dm_identity d"
  by (auto simp: sendReceipt_def Let_def split: if_splits sum.splits option.splits elim: publishSigned_cases)

lemma receipt_after_identity [simp]: "dm_identity (receipt_after env msg st) = dm_identity (snd st)"
  by (auto simp: receipt_after_def split: prod.split bool.split option.split dest: sendReceipt_identity)

lemma persist_identity [simp]:
  "dm_identity (snd (persistInboundMessage w m s d)) = dm_identity d"
  "dm_identity (snd (persistInboundRequest env m d)) = dm_identity d"
  by (auto simp: persistInboundMessage_def persistInboundRequest_def replace_inbox_def persistRequestInboxSnapshotLocked_def Let_def
      split: prod.splits option.splits if_splits)

lemma resolve_content_identity: "resolve_content env msg wire d = (c, d') \<Longrightarrow> dm_identity d' = dm_identity d"
  by (auto simp: resolve_content_def Let_def split: prod.splits option.splits)

lemma update_status_identity [simp]: "dm_identity (snd (updateMessageStatusAndNotify w i s d)) = dm_identity d"
  by (auto simp: updateMessageStatusAndNotify_def notifyMessageStatus_def split: prod.splits sum.splits option.splits)

lemma dispatch_identity [simp]: "dm_identity (dispatch_wire env msg wire d) = dm_identity d"
  by (auto simp: dispatch_wire_def daemon_group_wire_def persistInboundMessageAndReceipt_def applyInboundReceiptStatus_def Let_def
      split: prod.splits dest: resolve_content_identity)

lemma decode_identity: "decodeInboundWire env msg d = (x, d') \<Longrightarrow> dm_identity d' = dm_identity d"
  by (auto simp: decodeInboundWire_def split: option.splits)

lemma request_identity [simp]: "dm_identity (HandleInboundMessageRequest env msg d) = dm_identity d"
  by (auto simp: HandleInboundMessageRequest_def Let_def split: prod.splits if_splits dest!: decode_identity resolve_content_identity)

text \<open>The identity operations that a message of one of the given senders can cause.\<close>

fun network_op :: "string set \<Rightarrow> identity_op \<Rightarrow> bool" where
  "network_op senders (OpAddContact now crd) \<longleftrightarrow> cc_IdentityID crd \<in> senders"
| "network_op senders (OpAddContactByIdentityID now i n) \<longleftrightarrow> i \<in> senders"
| "network_op senders (OpApplyDeviceRevocation i rv) \<longleftrightarrow> i \<in> senders"
| "network_op senders _ \<longleftrightarrow> False"

definition learns :: "sign_lib \<Rightarrow> string set \<Rightarrow> IdentityService \<Rightarrow> IdentityService \<Rightarrow> bool" where
  "learns S senders s s' \<longleftrightarrow>
     (\<exists>ops. (\<forall>op \<in> set ops. network_op senders op) \<and> s' = s\<lparr>is_manager := fold (manager_step sample_lib S) ops (is_manager s)\<rparr>)"

lemma learns_refl [simp]: "learns S senders s s"
  unfolding learns_def by (rule exI [of _ "[]"]) simp

lemma learns_step: "network_op senders op \<Longrightarrow> learns S senders s (s\<lparr>is_manager := manager_step sample_lib S op (is_manager s)\<rparr>)"
  unfolding learns_def by (rule exI [of _ "[op]"]) simp

lemma learns_trans: "learns S senders s s' \<Longrightarrow> learns S senders s' s'' \<Longrightarrow> learns S senders s s''"
  unfolding learns_def
proof (elim exE conjE)
  fix ops ops'
  assume "\<forall>op \<in> set ops. network_op senders op" "\<forall>op \<in> set ops'. network_op senders op"
    "s' = s\<lparr>is_manager := fold (manager_step sample_lib S) ops (is_manager s)\<rparr>"
    "s'' = s'\<lparr>is_manager := fold (manager_step sample_lib S) ops' (is_manager s')\<rparr>"
  then show "\<exists>ops. (\<forall>op \<in> set ops. network_op senders op) \<and> s'' = s\<lparr>is_manager := fold (manager_step sample_lib S) ops (is_manager s)\<rparr>"
    by (intro exI [of _ "ops @ ops'"]) auto
qed

lemma learns_mono: "learns S A s s' \<Longrightarrow> A \<subseteq> B \<Longrightarrow> learns S B s s'"
proof -
  have "network_op A op \<Longrightarrow> A \<subseteq> B \<Longrightarrow> network_op B op" for op by (cases op) auto
  then show "learns S A s s' \<Longrightarrow> A \<subseteq> B \<Longrightarrow> learns S B s s'" unfolding learns_def by blast
qed

lemma trust_unverified_learns:
  "trust_unverified S now k wire m = (v, m') \<Longrightarrow> learns S {k} (s\<lparr>is_manager := m\<rparr>) (s\<lparr>is_manager := m'\<rparr>)"
proof (cases "wp_Card wire")
  case (Some crd)
  assume t: "trust_unverified S now k wire m = (v, m')"
  show ?thesis
  proof (cases "card_violation S k crd")
    case None
    then have "cc_IdentityID crd = k" by (auto simp: card_violation_def split: if_splits)
    moreover have "m' = snd (AddContact S now crd m)" using t Some None by (auto simp: trust_unverified_def split: prod.splits option.splits)
    ultimately show ?thesis using learns_step [of "{k}" "OpAddContact now crd" S "s\<lparr>is_manager := m\<rparr>"] by simp
  qed (use t Some in \<open>simp add: trust_unverified_def\<close>)
qed (simp add: trust_unverified_def)

lemma ValidateTrust_learns:
  "ValidateInboundContactTrust S now k wire m = (v, m') \<Longrightarrow> learns S {k} (s\<lparr>is_manager := m\<rparr>) (s\<lparr>is_manager := m'\<rparr>)"
  unfolding ValidateInboundContactTrust_def Let_def
  by (auto split: option.splits if_splits dest: trust_unverified_learns)

lemma trust_sender_learns:
  assumes "trust_sender env decision msg wire d = (b, d')"
  shows "learns (ce_sign env) {im_SenderID msg} (dm_identity d) (dm_identity d')"
proof -
  let ?k = "im_SenderID msg"
  have "learns (ce_sign env) {?k} (dm_identity d) ((dm_identity d)\<lparr>is_manager := snd (AddContactByIdentityID (ce_now env 0) ?k ?k (dm_manager d))\<rparr>)"
    using learns_step [of "{?k}" "OpAddContactByIdentityID (ce_now env 0) ?k ?k" "ce_sign env" "dm_identity d"] by simp
  moreover have "learns (ce_sign env) {?k} (dm_identity d)
      ((dm_identity d)\<lparr>is_manager := snd (ValidateInboundContactTrust (ce_sign env) (ce_now env 0) ?k wire (dm_manager d))\<rparr>)"
    using ValidateTrust_learns [of "ce_sign env" "ce_now env 0" ?k wire "dm_manager d" _ _ "dm_identity d"] by (metis IdentityService.surjective IdentityService.update_convs(1) prod.collapse)
  ultimately show ?thesis
    using assms by (auto simp: trust_sender_def split: if_splits prod.splits option.splits)
qed

lemma handler_learns:
  assumes "HandleIncomingPrivateMessage env msg d = Handled d'"
  shows "learns (ce_sign env) {im_SenderID msg} (dm_identity d) (dm_identity d')"
proof (cases "de_Action (evaluateInboundPolicy (im_SenderID msg) d)")
  case MessageAcceptChat
  obtain wire parsed valid d1 where dec: "decodeInboundWire env msg d = ((wire, parsed, valid), d1)" by (metis prod_cases3 prod.collapse)
  then have d1: "dm_identity d1 = dm_identity d" by (rule decode_identity)
  show ?thesis
  proof (cases "parsed \<and> valid")
    case True
    with assms MessageAcceptChat dec
    have proc: "processInboundWire env (evaluateInboundPolicy (im_SenderID msg) d) msg wire d1 = Handled d'"
      by (simp add: HandleIncomingPrivateMessage_def Let_def)
    obtain ok d2 where t: "trust_sender env (evaluateInboundPolicy (im_SenderID msg) d) msg wire d1 = (ok, d2)" by fastforce
    note trusted = trust_sender_learns [OF t, unfolded d1]
    have revoked: "learns (ce_sign env) {im_SenderID msg} (dm_identity d2)
        ((dm_identity d2)\<lparr>is_manager := snd (ApplyDeviceRevocation (ce_sign env) (im_SenderID msg) rv (dm_manager d2))\<rparr>)" for rv
      using learns_step [of "{im_SenderID msg}" "OpApplyDeviceRevocation (im_SenderID msg) rv" "ce_sign env" "dm_identity d2"] by simp
    have "dm_identity d' = dm_identity d2 \<or> (\<exists>rv. dm_identity d' = (dm_identity d2)\<lparr>is_manager := snd (ApplyDeviceRevocation (ce_sign env) (im_SenderID msg) rv (dm_manager d2))\<rparr>)"
      using proc unfolding processInboundWire_def t
      by (auto split: bool.splits option.splits prod.splits verdict.splits) (metis snd_conv)+
    with trusted revoked show ?thesis by (auto intro: learns_trans)
  next
    case False
    with assms MessageAcceptChat dec d1 show ?thesis
      by (auto simp: HandleIncomingPrivateMessage_def Let_def persistInboundMessageAndReceipt_def split: if_splits)
  qed
qed (use assms in \<open>auto simp: HandleIncomingPrivateMessage_def Let_def\<close>)

lemma run_incoming_learns:
  assumes "\<forall>x \<in> set xs. ce_sign (fst x) = S" "run_incoming xs d = Handled d'"
  shows "learns S ((\<lambda>x. im_SenderID (snd x)) ` set xs) (dm_identity d) (dm_identity d')"
  using assms
proof (induction xs arbitrary: d)
  case (Cons x xs)
  then obtain d1 where d1: "HandleIncomingPrivateMessage (fst x) (snd x) d = Handled d1" "run_incoming xs d1 = Handled d'"
    by (auto split: inbound_outcome.splits)
  have "learns S ((\<lambda>x. im_SenderID (snd x)) ` set (x # xs)) (dm_identity d) (dm_identity d1)"
    using learns_mono [OF handler_learns [OF d1(1)]] Cons.prems(1) by simp
  moreover have "learns S ((\<lambda>x. im_SenderID (snd x)) ` set (x # xs)) (dm_identity d1) (dm_identity d')"
    using learns_mono [OF Cons.IH [OF _ d1(2)]] Cons.prems(1) by auto
  ultimately show ?case by (rule learns_trans)
qed simp


lemma learns_invariant:
  assumes "learns S A s s'" "\<And>m op. network_op A op \<Longrightarrow> P m \<Longrightarrow> P (manager_step sample_lib S op m)" "P (is_manager s)"
  shows "P (is_manager s')"
proof -
  have "(\<forall>op \<in> set ops. network_op A op) \<Longrightarrow> P m \<Longrightarrow> P (fold (manager_step sample_lib S) ops m)" for ops m
    using assms(2) by (induction ops arbitrary: m) auto
  with assms(1,3) show ?thesis by (auto simp: learns_def)
qed

definition same_self :: "Manager \<Rightarrow> Manager \<Rightarrow> bool" where
  "same_self m m' \<longleftrightarrow> mg_identity m' = mg_identity m \<and> mg_selfPriv m' = mg_selfPriv m \<and> mg_devices m' = mg_devices m \<and>
     mg_activeDeviceID m' = mg_activeDeviceID m \<and> mg_seeds m' = mg_seeds m"

lemma network_op_self: "network_op A op \<Longrightarrow> same_self m0 m \<Longrightarrow> same_self m0 (manager_step sample_lib S op m)"
  by (cases op) (auto simp: same_self_def AddContact_def AddContactByIdentityID_def ApplyDeviceRevocation_def Let_def
      split: sum.splits option.splits if_splits)

lemma network_op_other:
  "network_op A op \<Longrightarrow> k \<notin> A \<union> TrimSpace ` A \<Longrightarrow> lookup (mg_contacts (manager_step sample_lib S op m)) k = lookup (mg_contacts m) k \<and>
     lookup (mg_revokedDevices (manager_step sample_lib S op m)) k = lookup (mg_revokedDevices m) k"
  by (cases op) (auto simp: AddContact_def AddContactByIdentityID_def ApplyDeviceRevocation_def Let_def
      split: sum.splits option.splits if_splits)

lemma network_op_not_removes: "network_op A op \<Longrightarrow> \<not> removes k op"
  by (cases op) auto

text \<open>
  C3: The network cannot change whom a daemon trusts. Whatever messages arrive, in any order and from whomever, as long as the
  daemon runs its own identity, keys, devices and seed stay the same, the identity component stays well formed, every
  contact keeps the key that was pinned for it, every revoked device stays revoked, and nothing at all is
  learnt about an identity under whose name no message came.
\<close>

theorem network_cannot_change_trust:
  assumes "sign_ok S" "manager_ok S (dm_manager d)" "\<forall>x \<in> set xs. ce_sign (fst x) = S" "run_incoming xs d = Handled d'"
  shows "manager_ok S (dm_manager d') \<and> same_self (dm_manager d) (dm_manager d') \<and>
    (\<forall>k key. ContactPublicKey k (dm_manager d) = Some key \<longrightarrow> ContactPublicKey k (dm_manager d') = Some key) \<and>
    (\<forall>k dev. is_revoked k dev (dm_manager d) \<longrightarrow> is_revoked k dev (dm_manager d')) \<and>
    (\<forall>k. (\<forall>x \<in> set xs. k \<noteq> im_SenderID (snd x) \<and> k \<noteq> TrimSpace (im_SenderID (snd x))) \<longrightarrow>
       lookup (mg_contacts (dm_manager d')) k = lookup (mg_contacts (dm_manager d)) k \<and>
       (\<forall>dev. is_revoked k dev (dm_manager d') = is_revoked k dev (dm_manager d)))"
proof -
  note l = run_incoming_learns [OF assms(3,4)]
  note kept = learns_invariant [OF l]
  have "manager_ok S (dm_manager d')" by (rule kept) (use assms manager_step_ok sample_lib_ok in auto)
  moreover have "same_self (dm_manager d) (dm_manager d')" by (rule kept) (blast intro: network_op_self, simp add: same_self_def)
  moreover have "ContactPublicKey k (dm_manager d') = Some key" if "ContactPublicKey k (dm_manager d) = Some key" for k key
    by (rule kept) (use that step_keeps_key network_op_not_removes in auto)
  moreover have "is_revoked k dev (dm_manager d')" if "is_revoked k dev (dm_manager d)" for k dev
    by (rule kept) (use that step_keeps_revocation in auto)
  moreover have "lookup (mg_contacts (dm_manager d')) k = lookup (mg_contacts (dm_manager d)) k \<and>
      lookup (mg_revokedDevices (dm_manager d')) k = lookup (mg_revokedDevices (dm_manager d)) k"
    if "\<forall>x \<in> set xs. k \<noteq> im_SenderID (snd x) \<and> k \<noteq> TrimSpace (im_SenderID (snd x))" for k
  proof (rule kept)
    have "k \<notin> (\<lambda>x. im_SenderID (snd x)) ` set xs \<union> TrimSpace ` (\<lambda>x. im_SenderID (snd x)) ` set xs" using that by auto
    note other = network_op_other [OF _ this]
    show "lookup (mg_contacts (manager_step sample_lib S op m)) k = lookup (mg_contacts (dm_manager d)) k \<and>
        lookup (mg_revokedDevices (manager_step sample_lib S op m)) k = lookup (mg_revokedDevices (dm_manager d)) k"
      if "network_op ((\<lambda>x. im_SenderID (snd x)) ` set xs) op" "lookup (mg_contacts m) k = lookup (mg_contacts (dm_manager d)) k \<and>
        lookup (mg_revokedDevices m) k = lookup (mg_revokedDevices (dm_manager d)) k" for m op
      using other [OF that(1), of S m] that(2) by simp
  qed simp
  ultimately show ?thesis by (simp add: is_revoked_def)
qed


section \<open>Authentication of the sender\<close>

lemma evaluate_policy:
  "evaluateInboundPolicy k d =
     (if IsBlockedSender (dm_privacy d) k then \<lparr>de_Action = MessageReject, de_Reason = BlockedSender\<rparr>
      else if HasContact k (dm_manager d) then \<lparr>de_Action = MessageAcceptChat, de_Reason = TrustedContact\<rparr>
      else if CurrentMode (dm_privacy d) = Requests then \<lparr>de_Action = MessageQueueRequest, de_Reason = UnknownMessageReq\<rparr>
      else if CurrentMode (dm_privacy d) = ContactsOnly then \<lparr>de_Action = MessageReject, de_Reason = UnknownContactsOnly\<rparr>
      else \<lparr>de_Action = MessageAcceptChat, de_Reason = UnknownEveryoneMode\<rparr>)"
  by (simp add: evaluateInboundPolicy_def message_decision)

lemma verified_is_contact: "HasVerifiedContact k m \<Longrightarrow> HasContact k m"
  by (auto simp: HasVerifiedContact_def HasContact_def split: option.splits)

lemma verified_trust: "HasVerifiedContact k m \<Longrightarrow> ValidateInboundContactTrust S now k wire m = (v, m') \<Longrightarrow> m' = m"
  unfolding ValidateInboundContactTrust_def Let_def by (auto split: option.splits if_splits)

lemma with_manager_same: "with_manager (dm_manager d) d = d"
  by (simp add: with_manager_def)

lemma no_bypass:
  "HasVerifiedContact k (dm_manager d) \<Longrightarrow>
     \<not> ShouldAutoAddUnknownSenderContact decision ct (HasVerifiedContact k (dm_manager d)) c \<and>
     \<not> ShouldBypassInboundDeviceAuth decision ct (HasVerifiedContact k (dm_manager d)) c"
  by (simp add: ShouldAutoAddUnknownSenderContact_def ShouldBypassInboundDeviceAuth_def)

lemma device_auth_passed:
  assumes "ValidateInboundDeviceAuth env msg wire m = Verdict None"
  obtains dev payload where "wp_Device wire = Some dev" "wp_DeviceSig wire \<noteq> []"
    "BuildWireAuthPayload (ce_marshalAuth env) (im_ID msg) (im_SenderID msg) (im_Recipient msg) wire = Inr payload"
    "VerifyInboundDevice (ce_sign env) (im_SenderID msg) dev payload (wp_DeviceSig wire) m = Verdict None"
  using assms unfolding ValidateInboundDeviceAuth_def by (auto split: sum.splits option.splits if_splits verdict.splits)

lemma device_verified:
  assumes "VerifyInboundDevice S k dev payload sig m = Verdict None"
  obtains key where "ContactPublicKey k m = Some key" "\<not> is_revoked k (dv_ID dev) m"
    "sg_verify S key (deviceCertBytes k (dv_ID dev) (dv_PublicKey dev)) (dv_CertSig dev)" "sg_verify S (dv_PublicKey dev) payload sig"
  using assms unfolding VerifyInboundDevice_def ContactPublicKey_def by (auto split: option.splits if_splits)

definition same_state :: "Daemon \<Rightarrow> Daemon \<Rightarrow> bool" where
  "same_state d d' \<longleftrightarrow> dm_messages d' = dm_messages d \<and> in_States (dm_world d') = in_States (dm_world d) \<and> dm_sessions d' = dm_sessions d \<and>
     dm_inbox d' = dm_inbox d \<and> dm_privacy d' = dm_privacy d \<and> dm_published d' = dm_published d"

lemma same_state_simps [simp]: "same_state d d" "same_state d (daemon_recordError c e d') = same_state d d'"
  "same_state d (daemon_notify n d') = same_state d d'" "same_state d (with_manager m d') = same_state d d'"
  by (simp_all add: same_state_def daemon_recordError_def daemon_notify_def with_manager_def)


end
