(* ===== verification/Inbound_Limits.thy ===== *)
theory Inbound_Limits
  imports Inbound_Guarantees
begin

text \<open>
  Where the inbound path gives less than its checks suggest: payloads that are not JSON, receipts, senders that were added
  automatically, malformed devices, what is forgotten on a restart, and group messages that are retried.
\<close>

declare map_of_eq_Some_iff [simp del]

lemma unblocked_contact:
  "\<not> IsBlockedSender (dm_privacy d) k \<Longrightarrow> HasContact k (dm_manager d) \<Longrightarrow>
     evaluateInboundPolicy k d = \<lparr>de_Action = MessageAcceptChat, de_Reason = TrustedContact\<rparr>"
  by (simp add: evaluate_policy)

lemma decode_valid:
  "ce_unmarshalWire env (im_Payload msg) = Some wire \<Longrightarrow> ValidateWirePayload wire = None \<Longrightarrow> decodeInboundWire env msg d = ((wire, True, True), d)"
  by (simp add: decodeInboundWire_def)

lemma SaveMessage_fresh:
  assumes "lookup (st_messages s) (msg_ID m) = None" "\<forall>ms ps. w ms ps = None"
  shows "\<exists>s'. SaveMessage w m s = (None, s') \<and> lookup (st_messages s') (msg_ID m) = Some (NormalizeMessageConversation m)"
  using assms by (auto simp: SaveMessage_def persistSnapshotLocked_def Let_def split: option.splits)

lemma receipt_after_messages [simp]: "dm_messages (receipt_after env msg st) = dm_messages (snd st)"
  by (auto simp: receipt_after_def sendReceipt_def Let_def split: prod.split bool.split option.split if_splits sum.splits elim!: publishSigned_cases)

lemma inbound_normal: "TrimSpace (im_SenderID msg) = im_SenderID msg \<Longrightarrow>
   NormalizeMessageConversation (BuildInboundStoredMessage msg t c ty now) = BuildInboundStoredMessage msg t c ty now"
  by (simp add: NormalizeMessageConversation_def BuildInboundStoredMessage_def Let_def)

lemma sendReceipt_privacy: "sendReceipt env c i s d = (r, d') \<Longrightarrow> dm_privacy d' = dm_privacy d"
  by (auto simp: sendReceipt_def Let_def split: if_splits sum.splits option.splits elim: publishSigned_cases)

lemma privacy_frames [simp]:
  "dm_privacy (daemon_recordError c e d) = dm_privacy d" "dm_privacy (daemon_notify n d) = dm_privacy d"
  "dm_privacy (with_messages st d) = dm_privacy d" "dm_privacy (with_manager m d) = dm_privacy d"
  by (simp_all add: daemon_recordError_def daemon_notify_def with_messages_def with_manager_def)

lemma handler_privacy [simp]:
  "dm_privacy (receipt_after env msg st) = dm_privacy (snd st)" "dm_privacy (snd (persistInboundMessage w m k d)) = dm_privacy d"
  "dm_privacy (snd (updateMessageStatusAndNotify w i x d)) = dm_privacy d" "dm_privacy (snd (resolve_content env msg wire d)) = dm_privacy d"
  by (auto simp: receipt_after_def persistInboundMessage_def updateMessageStatusAndNotify_def notifyMessageStatus_def resolve_content_def Let_def
      split: prod.split bool.split option.split sum.split dest: sendReceipt_privacy)

lemma dispatch_privacy: "dm_privacy (dispatch_wire env msg wire d) = dm_privacy d"
  by (cases "resolve_content env msg wire d")
    (use handler_privacy(4) [of env msg wire d] in
      \<open>auto simp: dispatch_wire_def daemon_group_wire_def persistInboundMessageAndReceipt_def applyInboundReceiptStatus_def Let_def split: prod.split\<close>)

text \<open>
  C35: A payload that is not JSON needs no authentication at all. In the name of any contact, verified or not, whoever
  can reach the daemon has arbitrary other bytes stored as a message of that contact.
\<close>

theorem raw_payload_needs_no_signature:
  assumes "HasContact (im_SenderID msg) (dm_manager d)" "\<not> IsBlockedSender (dm_privacy d) (im_SenderID msg)" "TrimSpace (im_SenderID msg) = im_SenderID msg"
    and "ce_unmarshalWire env (im_Payload msg) = None" "lookup (st_messages (dm_messages d)) (im_ID msg) = None" "\<forall>ms ps. ce_write env 0 ms ps = None"
  shows "\<exists>d'. HandleIncomingPrivateMessage env msg d = Handled d' \<and>
    lookup (st_messages (dm_messages d')) (im_ID msg) = Some (BuildInboundStoredMessage msg [] (im_Payload msg) ''text'' (ce_now env 2))"
proof -
  let ?m = "BuildInboundStoredMessage msg [] (im_Payload msg) ''text'' (ce_now env 2)"
  have [simp]: "msg_ID ?m = im_ID msg" by (simp add: BuildInboundStoredMessage_def)
  obtain st where "SaveMessage (ce_write env 0) ?m (dm_messages d) = (None, st)" "lookup (st_messages st) (im_ID msg) = Some ?m"
    using SaveMessage_fresh [of "dm_messages d" ?m "ce_write env 0"] assms(5,6) inbound_normal [OF assms(3)] by auto
  then show ?thesis
    using assms(4) unblocked_contact [OF assms(2,1)]
    by (simp add: HandleIncomingPrivateMessage_def decodeInboundWire_def persistInboundMessageAndReceipt_def persistInboundMessage_def Let_def)
qed

text \<open>A valid wire of a verified contact, without a card, that passes the device check is dispatched.\<close>

lemma verified_wire_dispatched:
  assumes "HasVerifiedContact (im_SenderID msg) (dm_manager d)" "\<not> IsBlockedSender (dm_privacy d) (im_SenderID msg)"
    and "ce_unmarshalWire env (im_Payload msg) = Some wire" "ValidateWirePayload wire = None" "wp_Card wire = None" "wp_Kind wire \<noteq> ''device_revoke''"
  shows "HandleIncomingPrivateMessage env msg d =
    (case ValidateInboundDeviceAuth env msg wire (dm_manager d) of
       Panic \<Rightarrow> Crashed
     | Verdict (Some err) \<Rightarrow> Handled (daemon_recordError (ErrorCategory err) err d)
     | Verdict None \<Rightarrow> Handled (dispatch_wire env msg wire d))"
proof -
  let ?dec = "\<lparr>de_Action = MessageAcceptChat, de_Reason = TrustedContact\<rparr>"
  have "trust_sender env ?dec msg wire d = (True, d)"
    using no_bypass [OF assms(1)] assms(1,5)
    by (simp add: trust_sender_def ValidateInboundContactTrust_def with_manager_same)
  moreover have "check_device env ?dec msg wire d = ValidateInboundDeviceAuth env msg wire (dm_manager d)"
    using no_bypass [OF assms(1)] by (simp add: check_device_def)
  ultimately show ?thesis
    using unblocked_contact [OF assms(2) verified_is_contact [OF assms(1)]] decode_valid [OF assms(3,4)] assms(6)
    by (simp add: HandleIncomingPrivateMessage_def processInboundWire_def Let_def)
qed

text \<open>
  A receipt is applied whoever sends it. Any verified contact can mark a message that was sent to somebody else as
  delivered or read: the handler never compares the sender of the receipt with the recipient of the message.
\<close>

lemma receipt_of_any_contact:
  assumes "HasVerifiedContact (im_SenderID msg) (dm_manager d)" "\<not> IsBlockedSender (dm_privacy d) (im_SenderID msg)"
    and "ce_unmarshalWire env (im_Payload msg) = Some wire" "ValidateWirePayload wire = None" "wp_Card wire = None" "wp_Kind wire = ''receipt''"
    and "wp_Receipt wire = Some r" "rc_Status r = ''read''" "wp_ConversationType wire \<noteq> ConversationTypeGroup"
    and "ValidateInboundDeviceAuth env msg wire (dm_manager d) = Verdict None"
    and "lookup (st_messages (dm_messages d)) (rc_MessageID r) = Some m" "msg_ContactID m \<noteq> im_SenderID msg" "msg_Status m = ''sent''"
    and "\<forall>ms ps. ce_write env 0 ms ps = None"
  shows "\<exists>d'. HandleIncomingPrivateMessage env msg d = Handled d' \<and>
    lookup (st_messages (dm_messages d')) (rc_MessageID r) = Some (m\<lparr>msg_Status := ''read''\<rparr>)"
proof -
  have h: "ResolveInboundReceiptHandling wire = \<lparr>rh_Handled = True, rh_ShouldUpdate = True, rh_MessageID = rc_MessageID r, rh_Status = ''read''\<rparr>"
    using assms(6-8) by (simp add: ResolveInboundReceiptHandling_def ShouldApplyReceiptStatus_def)
  have "mergeMessageStatus ''sent'' ''read'' = ''read''" by code_simp
  then have "lookup (st_messages (dm_messages (applyInboundReceiptStatus env (ResolveInboundReceiptHandling wire) d))) (rc_MessageID r) = Some (m\<lparr>msg_Status := ''read''\<rparr>)"
    using update_and_remove(1) [OF assms(14) assms(14) assms(11) refl, of "''read''"] assms(13) by (simp add: applyInboundReceiptStatus_def h)
  then show ?thesis
    using verified_wire_dispatched [OF assms(1-5)] assms(6,9,10) h by (simp add: dispatch_wire_def)
qed

text \<open>
  C36: A contact can stop the daemon. A message of a verified contact whose device record carries the contact's certificate
  but a public key of another length than 32 bytes reaches \<open>ed25519.Verify\<close>, which panics, and nothing on the
  path recovers.
\<close>

theorem contact_can_crash_daemon:
  assumes "sign_ok S" "own_key S priv" "ce_sign env = S" "ContactPublicKey (im_SenderID msg) (dm_manager d) = Some (sg_public S priv)"
    and "\<not> IsBlockedSender (dm_privacy d) (im_SenderID msg)" "ce_unmarshalWire env (im_Payload msg) = Some wire" "ValidateWirePayload wire = None"
    and "wp_Card wire = None" "wp_Kind wire \<noteq> ''device_revoke''" "wp_DeviceSig wire \<noteq> []"
    and "wp_Device wire = Some \<lparr>dv_ID = dev, dv_Name = n, dv_PublicKey = pub, dv_CertSig = sg_sign S priv (deviceCertBytes (im_SenderID msg) dev pub),
      dv_CreatedAt = t, dv_IsRevoked = False, dv_RevokedAt = 0\<rparr>"
    and "length pub \<noteq> 32" "\<not> is_revoked (im_SenderID msg) dev (dm_manager d)"
  shows "run_incoming ((env, msg) # later) d = Crashed"
proof -
  have "HasVerifiedContact (im_SenderID msg) (dm_manager d)"
    using assms(4) by (auto simp: ContactPublicKey_def HasVerifiedContact_def split: option.splits if_splits)
  moreover have "ValidateInboundDeviceAuth env msg wire (dm_manager d) = Panic"
    using short_device_key [OF assms(1,2,4,12,13), of n t] assms(3,7,10,11)
    by (simp add: ValidateInboundDeviceAuth_def BuildWireAuthPayload_def)
  ultimately show ?thesis
    using verified_wire_dispatched [OF _ assms(5-9)] by simp
qed


section \<open>Senders that are added automatically\<close>

lemma dispatch_direct_stores:
  assumes "wp_ConversationType wire \<noteq> ConversationTypeGroup" "wp_Receipt wire = None" "TrimSpace (im_SenderID msg) = im_SenderID msg"
    and "lookup (st_messages (dm_messages d)) (im_ID msg) = None" "\<forall>ms ps. ce_write env 0 ms ps = None"
  shows "\<exists>m. lookup (st_messages (dm_messages (dispatch_wire env msg wire d))) (im_ID msg) = Some m \<and>
    msg_ContactID m = im_SenderID msg \<and> msg_ConversationType m = ConversationTypeDirect \<and> msg_Direction m = ''in''"
proof -
  obtain c ty d1 where r: "resolve_content env msg wire d = ((c, ty), d1)" by (metis prod.collapse)
  then have d1: "dm_messages d1 = dm_messages d" by (auto simp: resolve_content_def Let_def split: prod.splits option.splits)
  let ?m = "BuildInboundStoredMessage msg (wp_ThreadID wire) c ty (ce_now env 2)"
  have [simp]: "msg_ID ?m = im_ID msg" by (simp add: BuildInboundStoredMessage_def)
  obtain st where "SaveMessage (ce_write env 0) ?m (dm_messages d1) = (None, st)" "lookup (st_messages st) (im_ID msg) = Some ?m"
    using SaveMessage_fresh [of "dm_messages d1" ?m "ce_write env 0"] assms(4,5) inbound_normal [OF assms(3)] d1 by auto
  then have "lookup (st_messages (dm_messages (dispatch_wire env msg wire d))) (im_ID msg) = Some ?m"
    using assms(1,2) r
    by (simp add: dispatch_wire_def ResolveInboundReceiptHandling_def persistInboundMessageAndReceipt_def persistInboundMessage_def)
  then show ?thesis by (simp add: BuildInboundStoredMessage_def)
qed

lemma direct_groups [simp]:
  "in_States (dm_world (daemon_recordError c e d)) = in_States (dm_world d)" "in_States (dm_world (daemon_notify n d)) = in_States (dm_world d)"
  "in_States (dm_world (with_messages st d)) = in_States (dm_world d)"
  "in_States (dm_world (snd (resolve_content env msg wire d))) = in_States (dm_world d)"
  by (auto simp: daemon_recordError_def daemon_notify_def with_messages_def resolve_content_def Let_def split: prod.split option.split)

lemma receipt_groups: "in_States (dm_world (receipt_after env msg st)) = in_States (dm_world (snd st))"
  by (auto simp: receipt_after_def sendReceipt_def Let_def split: prod.split bool.split option.split if_splits sum.splits elim!: publishSigned_cases)

lemma dispatch_direct_groups:
  "wp_ConversationType wire = [] \<Longrightarrow> wp_Receipt wire = None \<Longrightarrow>
     in_States (dm_world (dispatch_wire env msg wire d)) = in_States (dm_world d)"
  by (cases "resolve_content env msg wire d")
    (use direct_groups(4) [of env msg wire d] in
      \<open>auto simp: dispatch_wire_def ResolveInboundReceiptHandling_def persistInboundMessageAndReceipt_def persistInboundMessage_def receipt_groups split: prod.split option.split\<close>)

definition stranger_wire :: "WirePayload \<Rightarrow> bool" where
  "stranger_wire wire \<longleftrightarrow> ValidateWirePayload wire = None \<and> wp_Card wire = None \<and> TrimSpace (wp_ConversationType wire) \<noteq> ConversationTypeGroup \<and>
     wp_Revocation wire = None \<and> wp_Receipt wire = None"

text \<open>
  In the mode that accepts everyone, a stranger gets exactly one message through. The first message without a contact card
  is stored and makes its sender a contact without a key; the next one of the same sender is refused with a
  security alert, because a contact without a key has to present a card.
\<close>

lemma second_message_refused:
  assumes "\<not> HasContact k (dm_manager d)" "\<not> IsBlockedSender (dm_privacy d) k" "CurrentMode (dm_privacy d) = Everyone"
    and "TrimSpace k = k" "prefix ''aim1'' k" "12 \<le> length k"
    and "im_SenderID msg1 = k" "ce_unmarshalWire env1 (im_Payload msg1) = Some wire1" "stranger_wire wire1"
    and "lookup (st_messages (dm_messages d)) (im_ID msg1) = None" "\<forall>ms ps. ce_write env1 0 ms ps = None"
    and "im_SenderID msg2 = k" "ce_unmarshalWire env2 (im_Payload msg2) = Some wire2" "stranger_wire wire2"
  shows "\<exists>d1 d2. run_incoming [(env1, msg1)] d = Handled d1 \<and> run_incoming [(env1, msg1), (env2, msg2)] d = Handled d2 \<and>
    lookup (st_messages (dm_messages d1)) (im_ID msg1) \<noteq> None \<and> HasContact k (dm_manager d1) \<and>
    dm_messages d2 = dm_messages d1 \<and>
    dm_notified d2 = dm_notified d1 @ [NotifySecurityAlert ''unverified_sender_missing_card'' k (ErrText ''unverified sender did not provide contact card'')]"
proof -
  define m1 where "m1 = snd (AddContactByIdentityID (ce_now env1 0) k k (dm_manager d))"
  define d1 where "d1 = dispatch_wire env1 msg1 wire1 (with_manager m1 d)"
  have unverified: "\<not> HasVerifiedContact k (dm_manager d)" using assms(1) verified_is_contact by blast
  have add: "AddContactByIdentityID (ce_now env1 0) k k (dm_manager d) = (None, m1)"
    "HasContact k m1" "\<not> HasVerifiedContact k m1"
    using assms(1,4-6) by (simp_all add: m1_def AddContactByIdentityID_def HasContact_def HasVerifiedContact_def Let_def)
  have first: "HandleIncomingPrivateMessage env1 msg1 d = Handled d1"
    using assms(1-3,7-9) add unverified
    by (simp add: HandleIncomingPrivateMessage_def decode_valid evaluate_policy processInboundWire_def trust_sender_def check_device_def
        ShouldAutoAddUnknownSenderContact_def ShouldBypassInboundDeviceAuth_def stranger_wire_def d1_def with_manager_def Let_def)
  have m: "dm_manager d1 = m1" by (simp add: d1_def)
  have privacy: "dm_privacy d1 = dm_privacy d" by (simp add: d1_def dispatch_privacy with_manager_def)
  define d2 where "d2 = daemon_notify (NotifySecurityAlert ''unverified_sender_missing_card'' k (ErrText ''unverified sender did not provide contact card''))
    (daemon_recordError ''crypto'' (ErrText ''unverified sender did not provide contact card'') d1)"
  have second: "HandleIncomingPrivateMessage env2 msg2 d1 = Handled d2"
    using assms(2,12-14) add(2,3) m privacy with_manager_same [of d1]
    by (simp add: HandleIncomingPrivateMessage_def decode_valid evaluate_policy processInboundWire_def trust_sender_def d2_def
        ShouldAutoAddUnknownSenderContact_def stranger_wire_def ValidateInboundContactTrust_def trust_unverified_def Let_def)
  have "TrimSpace ''group'' = ''group''" by code_simp
  with assms(9) have "wp_ConversationType wire1 \<noteq> ConversationTypeGroup" unfolding stranger_wire_def by metis
  then have "lookup (st_messages (dm_messages d1)) (im_ID msg1) \<noteq> None"
    using dispatch_direct_stores [of wire1 msg1 "with_manager m1 d" env1] assms(4,7,9-11)
    by (auto simp: d1_def stranger_wire_def with_manager_def)
  with first second m add(2) show ?thesis by (auto simp: d2_def)
qed


section \<open>Restart\<close>

text \<open>
  C37: What the daemon learns from the network does not survive a restart. The inbound path changes the identity component
  but never writes its file: after any sequence of messages, a restart from the file yields the contacts of the last snapshot
  and the revocations of the last snapshot, so a device that its owner has revoked since is accepted again.
\<close>

theorem learnt_trust_lost_on_restart:
  assumes "sign_ok S" "manager_ok S m" "is_file (dm_identity d) = Some (identity_snapshot m)" "is_configured (dm_identity d)"
    and "run_incoming xs d = Handled d'" "\<forall>x \<in> set xs. ce_sign (fst x) = S"
  shows "\<exists>s. ids_Bootstrap L S t None None ((dm_identity d')\<lparr>is_manager := m0\<rparr>) = (None, s) \<and> mg_contacts (is_manager s) = mg_contacts m \<and>
    (\<forall>k dev. dev \<noteq> [] \<longrightarrow> is_revoked k dev (is_manager s) = is_revoked k dev m)"
proof -
  have "is_file (dm_identity d') = Some (identity_snapshot m)" "is_configured (dm_identity d')"
    using run_incoming_learns [OF assms(6,5)] assms(3,4) by (auto simp: learns_def)
  moreover obtain m' where "restore_state L S t (identity_snapshot m) m0 = (None, m')" "mg_contacts m' = mg_contacts m"
    "\<And>k d. d \<noteq> [] \<Longrightarrow> is_revoked k d m' = is_revoked k d m"
    by (rule restore_state_manager [OF assms(1,2), of L t m0]) blast
  ultimately show ?thesis by (simp add: ids_Bootstrap_def)
qed

section \<open>Retried group messages\<close>

lemma updateStatus_published: "dm_published (snd (updateMessageStatusAndNotify w i x d)) = dm_published d"
  using updateStatus_frame(1) [of w i x d] by (metis prod.collapse)

lemma stored_wire_direct:
  "BuildStoredMessageWire env msg d = (Inr wire, d') \<Longrightarrow>
     wp_ConversationType wire = [] \<and> wp_ConversationID wire = [] \<and> wp_EventType wire = [] \<and> wp_Receipt wire = None"
  by (auto simp: BuildStoredMessageWire_def BuildWireForOutboundMessage_def e2ee_wire_def NewPlainWire_def zero_wire_def Let_def
      split: sum.splits prod.splits option.splits if_splits)


end
