(* ===== verification/Inbox_Guarantees.thy ===== *)
theory Inbox_Guarantees
  imports Inbound_Limits
begin

text \<open>
  The inbox of message requests: an accepted request becomes a conversation with all its messages, a failed acceptance gives
  the request back unless the message store fails, a blocked sender is cut off, and the summaries are sorted.
\<close>

declare map_of_eq_Some_iff [simp del]

section \<open>Blocking\<close>

lemma replace_inbox_cases:
  assumes "replace_inbox w nextInbox d = (r, d')"
  obtains (failed) err where "r = Some err" "d' = d"
  | (replaced) f where "r = None" "d' = d\<lparr>dm_inboxFile := f, dm_inbox := nextInbox\<rparr>" "dm_inboxConfigured d \<Longrightarrow> f = Some nextInbox"
proof (cases "\<not> dm_inboxConfigured d")
  case True
  with assms replaced [of "dm_inboxFile d"] show thesis by (auto simp: replace_inbox_def persistRequestInboxSnapshotLocked_def)
next
  case False
  with assms failed replaced [of "Some nextInbox"] show thesis
    by (auto simp: replace_inbox_def persistRequestInboxSnapshotLocked_def split: option.splits)
qed

lemma removeThread_Inr:
  assumes "removeRequestThreadAndNotify w k n d = (Inr b, d')"
  shows "dm_privacy d' = dm_privacy d \<and> lookup (dm_inbox d') k = None"
proof -
  obtain r d1 where r: "replace_inbox w (del k (dm_inbox d)) d = (r, d1)" by fastforce
  from r show ?thesis
    by (cases rule: replace_inbox_cases)
      (use assms r in \<open>auto simp: removeRequestThreadAndNotify_def removeMessageRequest_def daemon_notify_def split: if_splits\<close>)
qed

lemma BlockSender_Inr:
  assumes "BlockSender env k d = (Inr r, d')"
  obtains privacy k' where "NormalizeIdentityID k = Inr k'" "AddToBlocklist (ce_blockWrite env) k' (dm_privacy d) = (Inr (bs_Blocked r), privacy)"
    "dm_privacy d' = privacy" "lookup (dm_inbox d') k' = None"
proof -
  obtain k' where k': "NormalizeIdentityID k = Inr k'" using assms by (auto simp: BlockSender_def orFail_def split: sum.splits)
  obtain res privacy where add: "AddToBlocklist (ce_blockWrite env) k' (dm_privacy d) = (res, privacy)" by fastforce
  with assms k' obtain bl where bl: "res = Inr bl" by (auto simp: BlockSender_def orFail_def Let_def split: sum.splits)
  obtain rem d1 where rem: "removeRequestThreadAndNotify (ce_inboxWrite env 0) k' (NotifyRequestBlocked k') (d\<lparr>dm_privacy := privacy\<rparr>) = (rem, d1)" by fastforce
  with assms k' add bl obtain b where b: "rem = Inr b" "bs_Blocked r = bl" "d' = daemon_notify (NotifySenderBlocked k' b (HasContact k' (dm_manager d))) d1"
    by (auto simp: BlockSender_def orFail_def Let_def split: sum.splits)
  from removeThread_Inr [OF rem [unfolded b(1)]] that [OF k' add [unfolded bl, folded b(2)]] show thesis
    by (simp add: b(3) daemon_notify_def)
qed

text \<open>
  C16: A blocked sender is cut off. Once \<open>BlockSender\<close> has succeeded there is no open request of the sender, and whatever
  arrives in the sender's name from then on, in whatever form, only adds to the recorded errors: no message, no
  request, no receipt, no change of contacts, groups or sessions, and no notification.
\<close>

theorem blocked_sender_is_cut_off:
  assumes "privacy_ok (dm_privacy d)" "BlockSender env k d = (Inr r, d')"
    and "\<forall>x \<in> set xs. NormalizeIdentityID (im_SenderID (snd x)) = NormalizeIdentityID k"
  shows "\<exists>errs. run_incoming xs d' = Handled (d'\<lparr>dm_world := (dm_world d')\<lparr>in_Errors := errs\<rparr>\<rparr>) \<and> lookup (dm_inbox d') (TrimSpace k) = None"
proof -
  obtain privacy k' where b: "NormalizeIdentityID k = Inr k'" "AddToBlocklist (ce_blockWrite env) k' (dm_privacy d) = (Inr (bs_Blocked r), privacy)"
    "dm_privacy d' = privacy" "lookup (dm_inbox d') k' = None"
    using assms(2) by (rule BlockSender_Inr)
  then have k': "k' = TrimSpace k" "NormalizeIdentityID k' = Inr k'" using NormalizeIdentityID_idem by (auto simp: NormalizeIdentityID_Inr)
  obtain bl where bl: "Add k' bl = Inr (pv_blocklist privacy)"
    using updateBlocklist_Inr [OF assms(1) b(2) [unfolded AddToBlocklist_def]] by blast
  have blocked: "IsBlockedSender privacy y" if "NormalizeIdentityID y = NormalizeIdentityID k" for y
    using blocked.has_insert [OF bl, of y] that b(1) k'(2) by (simp add: IsBlockedSender_def)
  have "\<exists>errs. run_incoming xs w = Handled (w\<lparr>dm_world := (dm_world w)\<lparr>in_Errors := errs\<rparr>\<rparr>)" if "dm_privacy w = privacy" for w
    using assms(3) that
  proof (induction xs arbitrary: w)
    case Nil
    show ?case by (auto intro!: exI [of _ "in_Errors (dm_world w)"])
  next
    case (Cons x xs)
    let ?w = "daemon_recordError ''crypto'' (InboundPolicyError BlockedSender) w"
    have "HandleIncomingPrivateMessage (fst x) (snd x) w = Handled ?w"
      using Cons.prems blocked by (simp add: HandleIncomingPrivateMessage_def evaluate_policy Let_def)
    moreover obtain errs where "run_incoming xs ?w = Handled (?w\<lparr>dm_world := (dm_world ?w)\<lparr>in_Errors := errs\<rparr>\<rparr>)"
      using Cons by fastforce
    ultimately show ?case by (auto simp: daemon_recordError_def in_recordErr_def)
  qed
  from this [OF b(3)] b(4) k'(1) show ?thesis by auto
qed

section \<open>Accepting a request\<close>

lemma SaveMessage_there:
  assumes "SaveMessage w m s = (r, s')" "r = None \<or> r = Some ErrMessageIDConflict" "\<forall>ms ps. w ms ps \<noteq> Some ErrMessageIDConflict"
  shows "lookup (st_messages s) i \<noteq> None \<Longrightarrow> lookup (st_messages s') i \<noteq> None" "lookup (st_messages s') (msg_ID m) \<noteq> None"
    "r \<noteq> None \<Longrightarrow> s' = s"
  using assms by (auto simp: SaveMessage_def persistSnapshotLocked_def Let_def split: option.splits if_splits)

lemma move_thread_moves:
  assumes "move_thread w i k msgs d = (None, d')" "\<forall>i ms ps. w i ms ps \<noteq> Some ErrMessageIDConflict"
  shows "dm_inbox d' = dm_inbox d \<and> dm_identity d' = dm_identity d \<and>
    (\<forall>x. lookup (st_messages (dm_messages d)) x \<noteq> None \<or> x \<in> msg_ID ` set msgs \<longrightarrow> lookup (st_messages (dm_messages d')) x \<noteq> None)"
  using assms(1)
proof (induction msgs arbitrary: i d)
  case (Cons m msgs)
  obtain r st where s: "SaveMessage (w i) m (dm_messages d) = (r, st)" by fastforce
  with Cons.prems have r: "r = None \<or> r = Some ErrMessageIDConflict" by (auto split: option.splits if_splits)
  have "\<forall>ms ps. w i ms ps \<noteq> Some ErrMessageIDConflict" using assms(2) by simp
  note there = SaveMessage_there [OF s r this]
  show ?case
  proof (cases r)
    case None
    with Cons.prems s have "move_thread w (Suc i) k msgs (daemon_notify (NotifyMessageNew k m) (with_messages st d)) = (None, d')" by simp
    note IH = Cons.IH [OF this]
    show ?thesis
    proof (intro conjI allI impI)
      fix x
      assume "lookup (st_messages (dm_messages d)) x \<noteq> None \<or> x \<in> msg_ID ` set (m # msgs)"
      then have "lookup (st_messages st) x \<noteq> None \<or> x \<in> msg_ID ` set msgs" using there(1,2) by auto
      with IH show "lookup (st_messages (dm_messages d')) x \<noteq> None" by auto
    qed (use IH in \<open>simp_all add: daemon_notify_def with_messages_def\<close>)
  next
    case (Some err)
    with Cons.prems s r have "move_thread w (Suc i) k msgs d = (None, d')" by simp
    from Cons.IH [OF this] there(2) there(3) Some show ?thesis by auto
  qed
qed simp

lemma take_thread:
  assumes "thread_of d k \<noteq> []" "takeMessageRequestThread w k d = (r, d')"
  obtains (failed) err where "r = Inl err" "d' = d"
  | (taken) f where "r = Inr (Some (thread_of d k))" "d' = d\<lparr>dm_inboxFile := f, dm_inbox := del k (dm_inbox d)\<rparr>"
      "dm_inboxConfigured d \<Longrightarrow> f = Some (del k (dm_inbox d))"
proof -
  obtain res d1 where r: "replace_inbox w (del k (dm_inbox d)) d = (res, d1)" by fastforce
  from r show thesis
  proof (cases rule: replace_inbox_cases)
    case (failed err)
    with assms r show thesis by (intro that(1) [of err]) (simp_all add: takeMessageRequestThread_def)
  next
    case (replaced f)
    with assms r show thesis by (intro that(2) [of f]) (simp_all add: takeMessageRequestThread_def)
  qed
qed

lemma thread_of_del: "thread_of (d\<lparr>dm_inboxFile := f, dm_inbox := del k (dm_inbox d)\<rparr>) j = (if j = k then [] else thread_of d j)"
  by (simp add: thread_of_def)

lemma ids_AddContact_None: "ids_AddContact now e k n s = (None, s') \<Longrightarrow> HasContact (TrimSpace k) (is_manager s')"
  by (auto simp: ids_AddContact_def and_persist_def AddContactByIdentityID_def ids_Persist_def HasContact_def Let_def
      split: prod.splits option.splits if_splits)


text \<open>
  A request can be lost while it is accepted. The thread is taken out of the inbox, and out of its file, before its messages
  are stored; when the first of them cannot be stored, the call fails and none of the messages is anywhere any more.
\<close>

lemma accept_failure_loses_request:
  assumes "thread_of d k = msg # msgs" "TrimSpace k = k" "k \<noteq> []" "prefix ''aim1'' k" "12 \<le> length k" "dm_inboxConfigured d"
    and "ce_inboxWrite env 0 = None" "ce_identityWrite env = None"
    and "lookup (st_messages (dm_messages d)) (msg_ID msg) = None" "st_path (dm_messages d) \<noteq> []" "st_persist (dm_messages d)"
    and "\<forall>ms ps. ce_write env 0 ms ps = Some err" "err \<noteq> ErrMessageIDConflict"
  shows "\<exists>d'. AcceptMessageRequest env k d = (Inl err, d') \<and> thread_of d' k = [] \<and> dm_inboxFile d' = Some (del k (dm_inbox d)) \<and>
    dm_messages d' = dm_messages d"
proof -
  have take: "takeMessageRequestThread (ce_inboxWrite env 0) k d =
      (Inr (Some (msg # msgs)), d\<lparr>dm_inboxFile := Some (del k (dm_inbox d)), dm_inbox := del k (dm_inbox d)\<rparr>)"
    using assms(1,6,7) by (simp add: takeMessageRequestThread_def replace_inbox_def persistRequestInboxSnapshotLocked_def)
  have "fst (ids_AddContact (ce_now env 0) (ce_identityWrite env) k k (dm_identity d)) = None"
    using assms(2,4,5,8) by (simp add: ids_AddContact_def and_persist_def AddContactByIdentityID_def ids_Persist_def Let_def)
  then obtain ids where "ids_AddContact (ce_now env 0) (ce_identityWrite env) k k (dm_identity d) = (None, ids)" by (metis prod.collapse)
  moreover have "SaveMessage (ce_write env 0) msg (dm_messages d) = (Some err, dm_messages d)"
    using assms(9-12) by (simp add: SaveMessage_def persistSnapshotLocked_def Let_def)
  moreover have "ValidateListMessagesContactID k = Inr k" using assms(2,3) by (simp add: ValidateListMessagesContactID_def)
  ultimately show ?thesis using assms(13) take by (simp add: AcceptMessageRequest_def Let_def thread_of_def daemon_recordError_def)
qed

section \<open>The list of requests\<close>

lemma more_recent_linear:
  "more_recent a b \<Longrightarrow> more_recent b c \<Longrightarrow> more_recent a c" "\<not> more_recent a b \<Longrightarrow> \<not> more_recent b c \<Longrightarrow> \<not> more_recent a c"
  "more_recent a b \<Longrightarrow> \<not> more_recent b a"
  by (auto simp: more_recent_def split: if_splits)

lemma insert_request_set: "set (insert_request r xs) = insert r (set xs)" "mset (insert_request r xs) = add_mset r (mset xs)"
  by (induction xs) auto

lemma insert_request_sorted:
  "sorted_wrt (\<lambda>a b. \<not> more_recent b a) xs \<Longrightarrow> sorted_wrt (\<lambda>a b. \<not> more_recent b a) (insert_request r xs)"
  by (induction xs) (auto simp: insert_request_set dest: more_recent_linear)

text \<open>\<open>SortMessageRequestsByRecency\<close> sorts, and keeps every request.\<close>

lemma requests_sorted:
  "sorted_wrt (\<lambda>a b. \<not> more_recent b a) (SortMessageRequestsByRecency rs)" "mset (SortMessageRequestsByRecency rs) = mset rs"
  by (induction rs) (simp_all add: SortMessageRequestsByRecency_def insert_request_sorted insert_request_set)

end
