(* ===== verification/Daemon_Witnesses.thy ===== *)
theory Daemon_Witnesses
  imports Inbox_Guarantees Group_Guarantees
begin

text \<open>
  A daemon with one verified contact, and the runs that instantiate the guarantees of the sending, fan-out, inbound and inbox theories.
\<close>

declare map_of_eq_Some_iff [simp del]

definition sample_world :: "MessageStore \<Rightarrow> GroupInbound" where
  "sample_world store = \<lparr>in_States = [], in_EventLog = [], in_ReplaySeen = [], in_Messages = store, in_Errors = [], in_Aggregates = [],
     in_Updated = [], in_NewMessages = []\<rparr>"

definition sample_daemon :: "MessageStore \<Rightarrow> Daemon" where
  "sample_daemon store = \<lparr>dm_identity = \<lparr>is_manager = pinned_manager, is_file = Some (identity_snapshot pinned_manager), is_configured = True\<rparr>,
     dm_sessions = NewInMemorySessionStore, dm_privacy = NewPrivacyService, dm_world = sample_world store, dm_inbox = [], dm_inboxFile = None,
     dm_inboxConfigured = True, dm_networking = False, dm_published = [], dm_notified = []\<rparr>"

text \<open>Every payload but the empty one is read as the given wire.\<close>

definition sample_env :: "WirePayload \<Rightarrow> call_env" where
  "sample_env wire = \<lparr>ce_crypto = sample_lib, ce_sign = sample_sign, ce_now = (\<lambda>n. 100 + int n), ce_random = (\<lambda>n. Inr [1, of_nat n]),
     ce_encrypt = sample_encrypt 1, ce_sessionIO = (\<lambda>_. io_fine), ce_write = (\<lambda>_ _ _. None),
     ce_marshalWire = (\<lambda>w. replicate (1 + length (wp_Padding w)) 1), ce_unmarshalWire = (\<lambda>p. if p = [] then None else Some wire),
     ce_marshalAuth = (\<lambda>_. [7]), ce_unmarshalEvent = (\<lambda>_. Inl (ErrText ''json'')), ce_parseTime = (\<lambda>_. None), ce_groupPersist = (\<lambda>_ _. None),
     ce_identityWrite = None, ce_inboxWrite = (\<lambda>_. None), ce_blockWrite = (\<lambda>_. None), ce_errorText = (\<lambda>_. ''failed''),
     ce_hardening = False, ce_wait = None, ce_publish = (\<lambda>_. None)\<rparr>"

lemma sample_peer_ids: "TrimSpace (sample_id 1) = sample_id 1" "TrimSpace (sample_id 2) = sample_id 2" "sample_id 1 \<noteq> []" "sample_id 1 \<noteq> sample_id 2"
  by code_simp+

lemma sample_words2: "TrimSpace ''hi'' = ''hi''" "TrimSpace [] = []"
  by code_simp+

lemma sample_env_simps [simp]:
  "ce_crypto (sample_env w) = sample_lib" "ce_sign (sample_env w) = sample_sign" "ce_now (sample_env w) n = 100 + int n"
  "ce_random (sample_env w) n = Inr [1, of_nat n]" "ce_encrypt (sample_env w) = sample_encrypt 1" "ce_sessionIO (sample_env w) n = io_fine"
  "ce_write (sample_env w) n ms ps = None" "ce_unmarshalWire (sample_env w) p = (if p = [] then None else Some w)"
  "ce_marshalWire (sample_env w) x = replicate (1 + length (wp_Padding x)) 1" "ce_marshalAuth (sample_env w) a = [7]"
  "ce_identityWrite (sample_env w) = None" "ce_inboxWrite (sample_env w) n = None" "ce_blockWrite (sample_env w) b = None"
  "ce_hardening (sample_env w) = False" "ce_wait (sample_env w) = None" "ce_publish (sample_env w) pm = None"
  by (simp_all add: sample_env_def)

lemma sample_daemon_simps [simp]:
  "dm_manager (sample_daemon st) = pinned_manager" "dm_messages (sample_daemon st) = st" "dm_sessions (sample_daemon st) = NewInMemorySessionStore"
  "dm_privacy (sample_daemon st) = NewPrivacyService" "dm_networking (sample_daemon st) = False" "dm_published (sample_daemon st) = []"
  "dm_notified (sample_daemon st) = []" "dm_inbox (sample_daemon st) = []" "dm_inboxConfigured (sample_daemon st)"
  by (simp_all add: sample_daemon_def sample_world_def)

lemma pinned_contact: "HasContact (sample_id 1) pinned_manager" "HasVerifiedContact (sample_id 1) pinned_manager"
  by (simp_all add: pinned_manager_def HasContact_def HasVerifiedContact_def)

lemma sample_card: "\<exists>crd. SelfContactCard sample_sign n pinned_manager = Inr crd"
  by (simp add: SelfContactCard_def SignContactCard_def VerifyIdentityID_def pinned_manager_def sample_identity BuildIdentityID_def sample_id_def sample_priv_def sample_sign_def Let_def)

lemma sample_build: "msg_ContentType m \<noteq> ''e2ee'' \<Longrightarrow> \<exists>w. BuildStoredMessageWire (sample_env x) m (sample_daemon st) = (Inr w, sample_daemon st)"
  using sample_card [of "dm_self (sample_daemon st)"]
  by (auto simp: BuildStoredMessageWire_def BuildWireForOutboundMessage_def io_fine_def NewInMemorySessionStore_def sample_daemon_def)

lemma sample_allocate:
  "\<exists>m st. AllocateOutboundMessage (sample_env x) k c t (sample_daemon NewMessageStore) = (Inr m, with_messages st (sample_daemon NewMessageStore))"
  by (simp add: AllocateOutboundMessage_def numeral_3_eq_3 GeneratePrefixedID_def SaveMessage_def persistSnapshotLocked_def NewMessageStore_def Let_def) blast

lemma network_category: "ErrorCategory (WrapCategorizedError ''network'' (ErrText x)) = ''network''"
  by (simp add: ErrorCategory_def WrapCategorizedError_def) code_simp

lemma sample_queue: "\<exists>mid d'. publishQueuedMessage (sample_env x) m k w (daemon_notify n (with_messages st (sample_daemon st'))) = (Inr mid, d')"
  by (simp add: publishQueuedMessage_def networkContext_def network_category AddOrUpdatePending_def persistSnapshotLocked_def Let_def)

lemma sample_send:
  "\<exists>mid d'. SendMessage (sample_env zero_wire) (sample_id 1) ''hi'' (sample_daemon NewMessageStore) = (Inr mid, d')"
proof -
  let ?draft = "(NewOutboundMessage ''draft'' (sample_id 1) ''hi'' 103)\<lparr>msg_ThreadID := []\<rparr>"
  have "msg_ContentType ?draft \<noteq> ''e2ee''" by (simp add: NewOutboundMessage_def)
  then obtain w where "BuildStoredMessageWire (sample_env zero_wire) ?draft (sample_daemon NewMessageStore) = (Inr w, sample_daemon NewMessageStore)"
    using sample_build by blast
  then show ?thesis
    using sample_allocate [of zero_wire "sample_id 1" "''hi''" "[]"] sample_queue [of zero_wire]
    by (auto simp: SendMessage_def sendMessageWithThread_def ValidateSendMessageInput_def sample_peer_ids sample_words2 pinned_contact Let_def)
qed


section \<open>Sending\<close>

theorem accepted_message_sent_or_queued_witness:
  "\<exists>mid m d'. SendMessage (sample_env zero_wire) (sample_id 1) ''hi'' (sample_daemon NewMessageStore) = (Inr mid, d') \<and>
     lookup (st_messages (dm_messages d')) mid = Some m \<and> msg_Content m = bytes_of_string ''hi''"
proof -
  obtain mid d' where s: "SendMessage (sample_env zero_wire) (sample_id 1) ''hi'' (sample_daemon NewMessageStore) = (Inr mid, d')"
    using sample_send by blast
  from accepted_message_sent_or_queued [OF this] s show ?thesis by (auto simp: sample_words2)
qed

definition sample_pending :: PendingMessage where
  "sample_pending = \<lparr>pm_Message = sample_message\<lparr>msg_Status := ''pending''\<rparr>, pm_RetryCount = 1, pm_NextRetry = 0, pm_LastError = ''failed''\<rparr>"

definition pending_store :: MessageStore where
  "pending_store = \<lparr>st_messages = [(''m1'', sample_message\<lparr>msg_Status := ''pending''\<rparr>)], st_pending = [(''m1'', sample_pending)], st_path = [], st_persist = True\<rparr>"


theorem hardened_wire_fills_bucket_witness:
  "\<exists>n. harden (\<lambda>w. replicate (1 + length (wp_Padding w)) 1) True (NewPlainWire [65]) = Inr (padded (NewPlainWire [65]) n) \<and> n = 255"
proof -
  have crit: "\<not> isLatencyCritical (NewPlainWire [65])" by code_simp
  have t: "targetSize (\<lambda>w. replicate (1 + length (wp_Padding w)) (1 :: 8 word)) (padded (NewPlainWire [65]) 0) = 256"
    by (simp add: targetSize_def sizeBuckets_def padded_def)
  show ?thesis
    using hardened_wire_fills_bucket [of "\<lambda>w. replicate (1 + length (wp_Padding w)) 1" "NewPlainWire [65]" 0, OF _ crit] t
    by (auto simp: padded_def Let_def)
qed


definition failing_env :: call_env where
  "failing_env = (sample_env zero_wire)\<lparr>ce_write := \<lambda>n _ _. if n = 5 then Some (ErrText ''disk'') else None\<rparr>"

definition disk_store :: MessageStore where
  "disk_store = NewMessageStore\<lparr>st_path := ''store'', st_persist := True\<rparr>"

lemma failing_send:
  "\<exists>e d'. SendMessage failing_env (sample_id 1) ''hi'' (sample_daemon disk_store) = (Inl e, d') \<and> dm_notified d' \<noteq> []"
proof -
  let ?draft = "(NewOutboundMessage ''draft'' (sample_id 1) ''hi'' 103)\<lparr>msg_ThreadID := []\<rparr>"
  have "msg_ContentType ?draft \<noteq> ''e2ee''" by (simp add: NewOutboundMessage_def)
  then obtain w where w: "BuildStoredMessageWire (sample_env zero_wire) ?draft (sample_daemon disk_store) = (Inr w, sample_daemon disk_store)"
    using sample_build by blast
  have f: "ce_crypto failing_env = ce_crypto (sample_env zero_wire)" "ce_sign failing_env = ce_sign (sample_env zero_wire)"
    "ce_encrypt failing_env = ce_encrypt (sample_env zero_wire)" "ce_sessionIO failing_env = ce_sessionIO (sample_env zero_wire)"
    by (simp_all add: failing_env_def)
  have "BuildStoredMessageWire failing_env m d = BuildStoredMessageWire (sample_env zero_wire) m d" for m d
    unfolding BuildStoredMessageWire_def BuildWireForOutboundMessage_def f ..
  with w have "BuildStoredMessageWire failing_env ?draft (sample_daemon disk_store) = (Inr w, sample_daemon disk_store)" by simp
  moreover obtain m st where "AllocateOutboundMessage failing_env (sample_id 1) ''hi'' [] (sample_daemon disk_store) = (Inr m, with_messages st (sample_daemon disk_store))"
    "st_path st = ''store''" "st_persist st"
    by (simp add: AllocateOutboundMessage_def numeral_3_eq_3 GeneratePrefixedID_def SaveMessage_def persistSnapshotLocked_def disk_store_def failing_env_def NewMessageStore_def Let_def)
  moreover have "\<exists>e d'. publishQueuedMessage failing_env m (sample_id 1) w (daemon_notify n (with_messages st (sample_daemon disk_store))) = (Inl e, d') \<and> dm_notified d' \<noteq> []"
    if "st_path st = ''store''" "st_persist st" for m st n
    using that by (simp add: publishQueuedMessage_def networkContext_def network_category AddOrUpdatePending_def persistSnapshotLocked_def failing_env_def Let_def)
  moreover have "ce_now failing_env 3 = 103" by (simp add: failing_env_def)
  ultimately show ?thesis
    by (simp add: SendMessage_def sendMessageWithThread_def ValidateSendMessageInput_def sample_peer_ids sample_words2 pinned_contact Let_def)
qed



section \<open>Fan-out\<close>

definition sample_member :: "string \<Rightarrow> GroupMemberRole \<Rightarrow> GroupMember" where
  "sample_member k r = \<lparr>m_GroupID = ''g1'', m_MemberID = k, m_Role = r, m_Status = StatusActive, m_InvitedAt = 1, m_ActivatedAt = 1, m_UpdatedAt = 1\<rparr>"

definition sample_group :: GroupState where
  "sample_group = \<lparr>s_Group = \<lparr>g_ID = ''g1'', g_Title = ''Team'', g_Description = [], g_Avatar = [], g_CreatedBy = sample_id 2, g_CreatedAt = 1, g_UpdatedAt = 1\<rparr>,
     s_Version = 2, s_AppliedEventIDs = [], s_Members = [(sample_id 2, sample_member (sample_id 2) RoleOwner), (sample_id 1, sample_member (sample_id 1) RoleUser)],
     s_LastKeyVersion = 1\<rparr>"

definition group_daemon :: Daemon where
  "group_daemon = (sample_daemon NewMessageStore)\<lparr>dm_world := (sample_world NewMessageStore)\<lparr>in_States := [(''g1'', sample_group)]\<rparr>,
     dm_sessions := snd (InitSession sample_lib io_fine 0 (sample_id 2) (sample_id 1) (replicate 32 7) NewInMemorySessionStore)\<rparr>"

abbreviation sample_fanout :: "string \<Rightarrow> Daemon \<Rightarrow> (go_error + GroupMessageFanoutResult) \<times> unit AbuseProtection option \<times> Daemon" where
  "sample_fanout c d \<equiv> fanout_SendGroupMessageFanout open_lib (\<lambda>_ xs. xs) (sample_env zero_wire) (\<lambda>_. sample_env zero_wire) None ''g1'' ''e1'' c [] d"

lemma group_daemon_simps [simp]:
  "dm_manager group_daemon = pinned_manager" "dm_messages group_daemon = NewMessageStore" "in_States (dm_world group_daemon) = [(''g1'', sample_group)]"
  "dm_privacy group_daemon = NewPrivacyService" "dm_networking group_daemon = False"
  by (simp_all add: group_daemon_def sample_daemon_def sample_world_def)

lemma sample_device: "deviceIDFromPub sample_lib (replicate 32 2) = ''dev1_0202020202020202''" "TrimSpace ''dev1_0202020202020202'' = ''dev1_0202020202020202''"
  by code_simp+

lemma sample_deviceID: "dm_manager d = pinned_manager \<Longrightarrow> activeDeviceID (sample_env w) d = Inr ''dev1_0202020202020202''"
  using sample_device
  by (simp add: activeDeviceID_def ActiveDeviceAuth_def pinned_manager_def sample_manager_def install_identity_def initPrimaryDevice_def new_device_def Let_def
      sample_priv_def sample_sign_def)

definition sample_context :: "string \<Rightarrow> fanoutContext" where
  "sample_context c = \<lparr>fc_groupID = ''g1'', fc_eventID = ''e1'', fc_content = c, fc_threadID = [], fc_actorID = sample_id 2,
     fc_deviceID = ''dev1_0202020202020202'', fc_now = 100, fc_state = sample_group, fc_groupKeyVersion = 1\<rparr>"

lemma sample_prepare:
  assumes "dm_manager d = pinned_manager" "in_States (dm_world d) = [(''g1'', sample_group)]"
  shows "prepareFanoutContext open_lib None (sample_env w) ''g1'' ''e1'' ''hi'' [] d = (Inr (sample_context ''hi''), None)"
proof -
  have "NormalizeGroupID ''g1'' = Inr ''g1''" "TrimSpace ''e1'' = ''e1''" "\<not> isChannelGroupTitle ''Team''" "sample_id 2 \<noteq> []" by code_simp+
  moreover have "validateActorCanFanout sample_group (sample_id 2) = None"
    using \<open>\<not> isChannelGroupTitle ''Team''\<close> by (simp add: validateActorCanFanout_def sample_group_def sample_member_def)
  moreover have "dm_self d = sample_id 2" using assms(1) by (simp add: pinned_manager_def sample_identity)
  moreover have "s_LastKeyVersion sample_group = 1" by (simp add: sample_group_def)
  ultimately show ?thesis
    using assms sample_deviceID [OF assms(1), of w] sample_peer_ids(2)
    by (simp add: prepareFanoutContext_def resolveEventID_def AllowSend_def sample_words2 sample_context_def Let_def)
qed

lemma no_blocked: "\<not> IsBlockedSender NewPrivacyService k"
  by (simp add: IsBlockedSender_def NewPrivacyService_def Contains_keys)

lemma sample_recipients: "collectRecipients (\<lambda>_ xs. xs) (IsBlockedSender NewPrivacyService) sample_group (sample_id 2) 100 = [sample_id 1]"
  using sample_peer_ids(4) by (simp add: collectRecipients_def sample_group_def sample_member_def no_blocked)

lemma sample_fanout_result:
  assumes "dm_manager d = pinned_manager" "in_States (dm_world d) = [(''g1'', sample_group)]" "dm_privacy d = NewPrivacyService"
  shows "\<exists>res d'. sample_fanout ''hi'' d = (Inr res, None, d')"
  using sample_prepare [OF assms(1,2), of zero_wire]
  by (simp add: fanout_SendGroupMessageFanout_def Let_def split: prod.split)

theorem fanout_covers_members_witness:
  "\<exists>res d'. sample_fanout ''hi'' group_daemon = (Inr res, None, d') \<and> mset (map rs_RecipientID (fr_Recipients res)) = {#sample_id 1#}"
proof -
  obtain res d' where f: "sample_fanout ''hi'' group_daemon = (Inr res, None, d')" using sample_fanout_result [of group_daemon] by auto
  have "expected_recipients group_daemon sample_group = [sample_id 1]"
    using sample_peer_ids(2,4) by (simp add: expected_recipients_def sample_group_def sample_member_def no_blocked pinned_manager_def sample_identity)
  then show ?thesis using fanout_covers_members [OF f] f by (auto split: if_splits)
qed


lemma sample_mids:
  "message_id_for (sample_env w) ''e1'' (sample_id 1) = ''gmsg_'' @ EncodeToString (replicate 12 1)"
  "message_id_for (sample_env w) ''e1'' (sample_id 2) = ''gmsg_'' @ EncodeToString (replicate 12 2)"
  "EncodeToString (replicate 12 1) \<noteq> EncodeToString (replicate 12 2)"
proof -
  have "EncodeToString (take 12 (rev (bytes_of_string (TrimSpace ''e1'' @ ''|'' @ TrimSpace (sample_id 1))))) = EncodeToString (replicate 12 1)"
    "EncodeToString (take 12 (rev (bytes_of_string (TrimSpace ''e1'' @ ''|'' @ TrimSpace (sample_id 2))))) = EncodeToString (replicate 12 2)"
    by code_simp+
  then show "message_id_for (sample_env w) ''e1'' (sample_id 1) = ''gmsg_'' @ EncodeToString (replicate 12 1)"
    "message_id_for (sample_env w) ''e1'' (sample_id 2) = ''gmsg_'' @ EncodeToString (replicate 12 2)"
    by (simp_all add: message_id_for_def DeriveRecipientMessageID_def sample_lib_def)
qed code_simp

lemma sample_group_wire:
  assumes "msg_ContactID m = sample_id 1" "msg_ContentType m \<noteq> ''e2ee''"
  shows "\<exists>wire store. BuildWireForOutboundMessage (sample_env w) m (dm_sessions group_daemon) = (Inr wire, store)"
proof -
  have "sample_id 2 \<noteq> sample_id 1" "sample_id 2 \<noteq> []" "sample_id 1 \<noteq> []" using sample_peer_ids by code_simp+
  then obtain ck sid where e: "sid \<noteq> []" "sender sample_lib ck 0 sid (sample_id 1) (dm_sessions group_daemon)"
    using InitSession_ends [of "sample_id 2" "sample_id 1" "replicate 32 7" sample_lib 0 NewInMemorySessionStore 0 NewInMemorySessionStore] by (auto simp: group_daemon_def)
  have "has_nonce (sample_encrypt 1)" by (simp add: has_nonce_def sample_encrypt_def)
  from encrypt_genuine [OF sample_lib_ok e(2) this e(1), of "\<lambda>_. session_message_id (ei_now (sample_encrypt 1)) 0" "msg_Content m"]
  obtain env store where "Encrypt sample_lib io_fine (sample_encrypt 1) (sample_id 1) (msg_Content m) (dm_sessions group_daemon) = (Inr env, store)" by auto
  moreover obtain st where "Get io_fine (sample_id 1) (dm_sessions group_daemon) = Inr (Some st)"
    using e(2) Get_fine [of "sample_id 1" "dm_sessions group_daemon"] by (auto simp: sender_def)
  ultimately show ?thesis using assms by (simp add: BuildWireForOutboundMessage_def e2ee_wire_def)
qed

lemma sample_first_fanout:
  "\<exists>res d'. sample_fanout ''hi'' group_daemon = (Inr res, None, d') \<and> fr_Failed res = 0 \<and> dm_manager d' = pinned_manager \<and>
     in_States (dm_world d') = [(''g1'', sample_group)] \<and> dm_privacy d' = NewPrivacyService"
proof -
  define ctx where "ctx = sample_context ''hi''"
  have ctx: "fc_eventID ctx = ''e1''" "fc_actorID ctx = sample_id 2" "fc_state ctx = sample_group" "fc_now ctx = 100" by (simp_all add: ctx_def sample_context_def)
  let ?mid = "''gmsg_'' @ EncodeToString (replicate 12 1)"
  obtain n st where p: "persistSenderMessage (sample_env zero_wire) ctx group_daemon = daemon_notify n (with_messages st group_daemon)"
    "lookup (st_messages st) ?mid = None"
    using sample_mids(3) by (auto simp: persistSenderMessage_def ctx sample_mids GetMessage_def SaveMessage_def persistSnapshotLocked_def NewMessageStore_def sender_message_def NormalizeMessageConversation_def Let_def)
  obtain store where sv: "SaveMessage (ce_write (sample_env zero_wire) 0) (transport_message ?mid (sample_id 1) ctx) st = (None, store)"
    using SaveMessage_fresh [of st "transport_message ?mid (sample_id 1) ctx" "ce_write (sample_env zero_wire) 0"] p(2)
    by (auto simp: transport_message_def sender_message_def)
  obtain wire sess where w: "BuildWireForOutboundMessage (sample_env zero_wire) (transport_message ?mid (sample_id 1) ctx) (dm_sessions group_daemon) = (Inr wire, sess)"
    using sample_group_wire [of "transport_message ?mid (sample_id 1) ctx" zero_wire] by (auto simp: transport_message_def)
  show ?thesis
    using sample_prepare [of group_daemon zero_wire] p sv w sample_recipients
    by (simp add: fanout_SendGroupMessageFanout_def ctx_def [symmetric] ctx processRecipient_def sample_mids GetMessage_def prepareAndPublishGroupMessage_def
        publishQueuedMessage_def networkContext_def network_category AddOrUpdatePending_def persistSnapshotLocked_def add_status_def
        daemon_recordError_def daemon_notify_def with_messages_def in_recordErr_def Let_def split: option.split)
qed


theorem fanout_sends_once_witness:
  "\<exists>res d1 res' d2 pms. sample_fanout ''hi'' group_daemon = (Inr res, None, d1) \<and> sample_fanout ''hi'' d1 = (Inr res', None, d2) \<and>
     dm_published d2 = dm_published d1 @ pms \<and> (\<forall>pm \<in> set pms. wm_Recipient pm \<notin> rs_RecipientID ` set (fr_Recipients res))"
proof -
  obtain res d1 where f: "sample_fanout ''hi'' group_daemon = (Inr res, None, d1)" "fr_Failed res = 0" "dm_manager d1 = pinned_manager"
    "in_States (dm_world d1) = [(''g1'', sample_group)]" "dm_privacy d1 = NewPrivacyService"
    using sample_first_fanout by blast
  obtain res' d2 where g: "sample_fanout ''hi'' d1 = (Inr res', None, d2)" using sample_fanout_result [OF f(3-5)] by blast
  have "\<not> blank ''e1''" by code_simp
  from fanout_sends_once [OF f(1,2) this _ _ keeps_ids_refl [OF refl] g] f(1) g show ?thesis by auto
qed

section \<open>Inbound\<close>

definition sample_inbound :: "string \<Rightarrow> bytes \<Rightarrow> InboundPrivateMessage" where
  "sample_inbound k payload = \<lparr>im_ID = ''in1'', im_SenderID = k, im_Recipient = sample_id 2, im_Payload = payload\<rparr>"

definition sample_device_of :: "bytes \<Rightarrow> Device" where
  "sample_device_of pub = \<lparr>dv_ID = ''dev1_x'', dv_Name = [], dv_PublicKey = pub,
     dv_CertSig = sg_sign sample_sign (sample_priv 1) (deviceCertBytes (sample_id 1) ''dev1_x'' pub), dv_CreatedAt = 0, dv_IsRevoked = False, dv_RevokedAt = 0\<rparr>"

definition signed_wire :: "bytes \<Rightarrow> WirePayload" where
  "signed_wire pub = (NewPlainWire [65])\<lparr>wp_Device := Some (sample_device_of pub), wp_DeviceSig := replicate 64 1\<rparr>"

definition read_receipt :: WirePayload where
  "read_receipt = (NewReceiptWire ''m1'' ''read'' 5)\<lparr>wp_Device := Some (sample_device_of (replicate 32 1)), wp_DeviceSig := replicate 64 1\<rparr>"

lemma sample_valid: "ValidateWirePayload (signed_wire pub) = None" "ValidateWirePayload read_receipt = None" "ValidateWirePayload (NewPlainWire [65]) = None"
  by (simp_all add: ValidateWirePayload_None signed_wire_def read_receipt_def NewPlainWire_def NewReceiptWire_def zero_wire_def has_group_metadata_def sample_words2)

lemma sample_auth:
  assumes "wp_Device w = Some (sample_device_of (replicate 32 1))" "wp_DeviceSig w = replicate 64 1" "ValidateWirePayload w = None"
  shows "ValidateInboundDeviceAuth (sample_env x) (sample_inbound (sample_id 1) p) w pinned_manager = Verdict None"
  using assms
  by (simp add: ValidateInboundDeviceAuth_def BuildWireAuthPayload_def VerifyInboundDevice_def sample_inbound_def sample_device_of_def pinned_manager_def
      is_revoked_def sample_sign_def sample_priv_def)

lemma pinned_manager_ok: "manager_ok sample_sign pinned_manager"
  using sample_manager_ok [of 2] unfolding manager_ok_def pinned_manager_def by (simp (no_asm)) blast

lemma sample_handled: "HandleIncomingPrivateMessage (sample_env (signed_wire (replicate 32 1))) (sample_inbound (sample_id 1) [1]) (sample_daemon NewMessageStore) =
    Handled (dispatch_wire (sample_env (signed_wire (replicate 32 1))) (sample_inbound (sample_id 1) [1]) (signed_wire (replicate 32 1)) (sample_daemon NewMessageStore))"
  using verified_wire_dispatched [of "sample_inbound (sample_id 1) [1]" "sample_daemon NewMessageStore" "sample_env (signed_wire (replicate 32 1))" "signed_wire (replicate 32 1)"]
    pinned_contact no_blocked sample_valid sample_auth [of "signed_wire (replicate 32 1)" "signed_wire (replicate 32 1)" "[1]"]
  by (simp add: sample_inbound_def signed_wire_def NewPlainWire_def zero_wire_def)

theorem network_cannot_change_trust_witness:
  "\<exists>d'. run_incoming [(sample_env (signed_wire (replicate 32 1)), sample_inbound (sample_id 1) [1])] (sample_daemon NewMessageStore) = Handled d' \<and>
     manager_ok sample_sign (dm_manager d') \<and> ContactPublicKey (sample_id 1) (dm_manager d') = Some (replicate 32 1)"
  using network_cannot_change_trust [OF sample_sign_ok, of "sample_daemon NewMessageStore" "[(sample_env (signed_wire (replicate 32 1)), sample_inbound (sample_id 1) [1])]"]
    sample_handled pinned_manager_ok pinned_key by simp



theorem raw_payload_needs_no_signature_witness:
  "\<exists>d' m. HandleIncomingPrivateMessage (sample_env zero_wire) (sample_inbound (sample_id 1) []) (sample_daemon NewMessageStore) = Handled d' \<and>
     lookup (st_messages (dm_messages d')) ''in1'' = Some m \<and> msg_ContactID m = sample_id 1"
  using raw_payload_needs_no_signature [of "sample_inbound (sample_id 1) []" "sample_daemon NewMessageStore" "sample_env zero_wire"] pinned_contact no_blocked sample_peer_ids(1)
  by (auto simp: sample_inbound_def NewMessageStore_def BuildInboundStoredMessage_def)

theorem receipt_of_any_contact_witness:
  "\<exists>d' m. HandleIncomingPrivateMessage (sample_env read_receipt) (sample_inbound (sample_id 1) [1]) (sample_daemon sample_store) = Handled d' \<and>
     lookup (st_messages (dm_messages d')) ''m1'' = Some m \<and> msg_Status m = ''read'' \<and> msg_ContactID m = ''aim1bob00001''"
proof -
  have r: "wp_Receipt read_receipt = Some \<lparr>rc_MessageID = ''m1'', rc_Status = ''read'', rc_Timestamp = 5\<rparr>" "wp_Kind read_receipt = ''receipt''"
    "wp_Card read_receipt = None" "wp_ConversationType read_receipt = []"
    by (simp_all add: read_receipt_def NewReceiptWire_def zero_wire_def)
  have "sample_id 1 \<noteq> ''aim1bob00001''" by code_simp
  then show ?thesis
    using receipt_of_any_contact [of "sample_inbound (sample_id 1) [1]" "sample_daemon sample_store" "sample_env read_receipt" read_receipt _ sample_message,
        OF _ _ _ sample_valid(2) r(3,2,1)] r(4) pinned_contact no_blocked sample_auth [of read_receipt read_receipt "[1]"] sample_valid(2)
    by (auto simp: sample_inbound_def sample_store_def sample_message_def read_receipt_def)
qed

theorem contact_can_crash_daemon_witness:
  "run_incoming [(sample_env (signed_wire [1, 2, 3]), sample_inbound (sample_id 1) [1])] (sample_daemon NewMessageStore) = Crashed"
  by (rule contact_can_crash_daemon [OF sample_sign_ok sample_key(1) [of 1], where wire = "signed_wire [1, 2, 3]" and dev = "''dev1_x''" and pub = "[1, 2, 3]" and n = "[]" and t = 0])
    (simp_all add: sample_inbound_def pinned_key sample_key no_blocked sample_valid, simp_all add: signed_wire_def NewPlainWire_def zero_wire_def sample_device_of_def pinned_manager_def is_revoked_def)


lemma sample_alice: "TrimSpace alice = alice" "prefix ''aim1'' alice" "12 \<le> length alice" "alice \<noteq> []" "alice \<noteq> sample_id 1" "alice \<noteq> sample_id 2"
  by code_simp+

lemma default_mode: "CurrentMode NewPrivacyService = Everyone"
  by (simp add: CurrentMode_def NewPrivacyService_def DefaultPrivacySettings_def zero_settings_def)

lemma second_message_refused_witness:
  "\<exists>d1 d2. run_incoming [(sample_env (NewPlainWire [65]), sample_inbound alice [1])] (sample_daemon NewMessageStore) = Handled d1 \<and>
     run_incoming [(sample_env (NewPlainWire [65]), sample_inbound alice [1]), (sample_env (NewPlainWire [66]), (sample_inbound alice [1])\<lparr>im_ID := ''in2''\<rparr>)]
       (sample_daemon NewMessageStore) = Handled d2 \<and> lookup (st_messages (dm_messages d1)) ''in1'' \<noteq> None \<and> dm_messages d2 = dm_messages d1"
proof -
  have wire: "stranger_wire (NewPlainWire x)" for x
    by (simp add: stranger_wire_def ValidateWirePayload_None NewPlainWire_def zero_wire_def has_group_metadata_def sample_words2)
  have "\<not> HasContact alice pinned_manager" using sample_alice(5) by (simp add: HasContact_def pinned_manager_def)
  then show ?thesis
    using second_message_refused [of alice "sample_daemon NewMessageStore" "sample_inbound alice [1]" "sample_env (NewPlainWire [65])" "NewPlainWire [65]"
        "(sample_inbound alice [1])\<lparr>im_ID := ''in2''\<rparr>" "sample_env (NewPlainWire [66])" "NewPlainWire [66]"] sample_alice default_mode no_blocked wire
    by (auto simp: sample_inbound_def NewMessageStore_def)
qed

definition revoke_wire :: WirePayload where
  "revoke_wire = zero_wire\<lparr>wp_Kind := ''device_revoke'', wp_Revocation := Some \<lparr>rv_IdentityID = sample_id 1, rv_DeviceID = ''dev1_x'', rv_Timestamp = 5, rv_Signature = sample_priv 1\<rparr>\<rparr>"

lemma sample_revoked:
  "\<exists>d'. run_incoming [(sample_env revoke_wire, sample_inbound (sample_id 1) [1])] (sample_daemon NewMessageStore) = Handled d' \<and>
     is_revoked (sample_id 1) ''dev1_x'' (dm_manager d')"
proof -
  have "ValidateWirePayload revoke_wire = None"
    by (simp add: ValidateWirePayload_None revoke_wire_def zero_wire_def has_group_metadata_def sample_words2)
  then show ?thesis
    using pinned_contact no_blocked unblocked_contact [of "sample_daemon NewMessageStore" "sample_id 1"] no_bypass [of "sample_id 1" "sample_daemon NewMessageStore"]
    by (simp add: HandleIncomingPrivateMessage_def decode_valid sample_inbound_def processInboundWire_def trust_sender_def ValidateInboundContactTrust_def revoke_wire_def
        zero_wire_def ApplyDeviceRevocation_def pinned_manager_def sample_sign_def sample_priv_def is_revoked_def with_manager_def Let_def)
qed

theorem learnt_trust_lost_on_restart_witness:
  "\<exists>d' s. run_incoming [(sample_env revoke_wire, sample_inbound (sample_id 1) [1])] (sample_daemon NewMessageStore) = Handled d' \<and>
     is_revoked (sample_id 1) ''dev1_x'' (dm_manager d') \<and>
     ids_Bootstrap sample_lib sample_sign 9 None None ((dm_identity d')\<lparr>is_manager := blank_manager\<rparr>) = (None, s) \<and>
     \<not> is_revoked (sample_id 1) ''dev1_x'' (is_manager s)"
proof -
  obtain d' where d: "run_incoming [(sample_env revoke_wire, sample_inbound (sample_id 1) [1])] (sample_daemon NewMessageStore) = Handled d'"
    "is_revoked (sample_id 1) ''dev1_x'' (dm_manager d')" using sample_revoked by blast
  have "is_file (dm_identity (sample_daemon NewMessageStore)) = Some (identity_snapshot pinned_manager)" "is_configured (dm_identity (sample_daemon NewMessageStore))"
    by (simp_all add: sample_daemon_def)
  from learnt_trust_lost_on_restart [OF sample_sign_ok pinned_manager_ok this d(1), of sample_lib 9 blank_manager]
  obtain s where "ids_Bootstrap sample_lib sample_sign 9 None None ((dm_identity d')\<lparr>is_manager := blank_manager\<rparr>) = (None, s)"
    "is_revoked (sample_id 1) ''dev1_x'' (is_manager s) = is_revoked (sample_id 1) ''dev1_x'' pinned_manager" by auto
  moreover have "\<not> is_revoked (sample_id 1) ''dev1_x'' pinned_manager" by (simp add: is_revoked_def pinned_manager_def)
  ultimately show ?thesis using d by blast
qed

definition group_pending :: PendingMessage where
  "group_pending = \<lparr>pm_Message = transport_message ''gmsg_1'' (sample_id 1) (sample_context ''hi''), pm_RetryCount = 1, pm_NextRetry = 0, pm_LastError = []\<rparr>"

lemma group_retry: "\<exists>pm. dm_published (process_pending handleRetryPublishError (sample_env zero_wire) group_pending (sample_daemon NewMessageStore)) = [pm]"
proof -
  have "msg_ContentType (pm_Message group_pending) \<noteq> ''e2ee''" by (simp add: group_pending_def transport_message_def)
  then obtain w where w: "BuildStoredMessageWire (sample_env zero_wire) (pm_Message group_pending) (sample_daemon NewMessageStore) = (Inr w, sample_daemon NewMessageStore)"
    using sample_build by blast
  have wc: "wp_ConversationType w = []" "\<not> has_group_metadata w"
    using stored_wire_direct [OF w] w
    by (auto simp: BuildStoredMessageWire_def BuildWireForOutboundMessage_def e2ee_wire_def NewPlainWire_def zero_wire_def has_group_metadata_def sample_words2 Let_def
        split: sum.splits prod.splits option.splits if_splits)
  then have "ValidateWirePayload w = None" by (simp add: ValidateWirePayload_None sample_words2)
  moreover have "ActiveDeviceAuth sample_sign x pinned_manager \<noteq> Inl e" for x e
    by (simp add: ActiveDeviceAuth_def pinned_manager_def sample_manager_def install_identity_def initPrimaryDevice_def new_device_def Let_def sample_priv_def)
  then obtain dev sig where "ActiveDeviceAuth sample_sign [7] pinned_manager = Inr (dev, sig)" by (metis sum.exhaust prod.collapse)
  ultimately show ?thesis
    using w by (simp add: process_pending_def publishSignedWireWithContext_def harden_def ComposeSignedPrivateMessage_def BuildWireAuthPayload_def
        publishWithTimeout_def markSent_frame(1))
qed


section \<open>Inbox\<close>

theorem blocked_sender_is_cut_off_witness:
  "\<exists>r d' d''. BlockSender (sample_env zero_wire) alice (sample_daemon NewMessageStore) = (Inr r, d') \<and>
     run_incoming [(sample_env (NewPlainWire [65]), sample_inbound alice [1])] d' = Handled d'' \<and> dm_messages d'' = dm_messages d'"
proof -
  have "AddToBlocklist (ce_blockWrite (sample_env zero_wire)) alice NewPrivacyService = (Inr [alice], NewPrivacyService\<lparr>pv_blocklist := [(alice, ())]\<rparr>)"
    by (simp add: AddToBlocklist_def updateBlocklist_def NewPrivacyService_def NewBlocklist_def List_def Add_def)
  then obtain r d' where b: "BlockSender (sample_env zero_wire) alice (sample_daemon NewMessageStore) = (Inr r, d')"
    by (simp add: BlockSender_def removeRequestThreadAndNotify_def removeMessageRequest_def sample_daemon_def Let_def)
  have "privacy_ok (dm_privacy (sample_daemon NewMessageStore))" by (simp add: privacy_ok_new)
  from blocked_sender_is_cut_off [OF this b, of "[(sample_env (NewPlainWire [65]), sample_inbound alice [1])]"] b show ?thesis
    by (auto simp: sample_inbound_def)
qed

definition request_message :: Message where
  "request_message = sample_message\<lparr>msg_ContactID := alice, msg_ConversationID := alice, msg_Direction := ''in''\<rparr>"

definition request_daemon :: "MessageStore \<Rightarrow> Daemon" where
  "request_daemon st = (sample_daemon st)\<lparr>dm_inbox := [(alice, [request_message])]\<rparr>"

lemma request_daemon_simps [simp]:
  "dm_manager (request_daemon st) = pinned_manager" "dm_messages (request_daemon st) = st" "dm_inboxConfigured (request_daemon st)"
  "thread_of (request_daemon st) alice = [request_message]"
  by (simp_all add: request_daemon_def thread_of_def)

theorem accept_failure_loses_request_witness:
  "\<exists>d'. AcceptMessageRequest (failing_env\<lparr>ce_write := \<lambda>_ _ _. Some (ErrText ''disk'')\<rparr>) alice (request_daemon disk_store) = (Inl (ErrText ''disk''), d') \<and>
     thread_of d' alice = [] \<and> dm_messages d' = disk_store"
  using accept_failure_loses_request [of "request_daemon disk_store" alice request_message "[]" "failing_env\<lparr>ce_write := \<lambda>_ _ _. Some (ErrText ''disk'')\<rparr>" "ErrText ''disk''"] sample_alice
  by (auto simp: failing_env_def disk_store_def NewMessageStore_def)


end
