(* ===== verification/Attachment_Store.thy ===== *)
theory Attachment_Store
  imports Secure_Store
begin

text \<open>
  The store of attachments, \<open>internal/storage/attachment_store.go\<close>: metadata in an index file, one data file per
  attachment, quotas per class with eviction of the least recently used attachments, pinning and garbage collection.
  \<^item> The directory is \<open>as_files\<close>, by attachment id (the file name is the id with a suffix; ids are taken to name different files), and
    \<open>as_indexFile\<close>. A write that fails may leave anything in its file: the outcome says what.
  \<^item> \<open>attachment_env\<close> is what one call takes from outside: the libraries of \<open>Secure_Store\<close>, JSON, clock, random id and the outcomes
    of the file operations (\<open>ae_remove\<close> and \<open>ae_read\<close>: errors other than a missing file).
  \<^item> Sizes are \<open>int64\<close> and wrap; \<open>wrap64\<close> says where.
\<close>

declare map_of_eq_Some_iff [simp del]

definition wrap64 :: "int \<Rightarrow> int" where
  "wrap64 x = (x + 2 ^ 63) mod 2 ^ 64 - 2 ^ 63"

text \<open>Division of Go truncates towards zero.\<close>

definition quot64 :: "int \<Rightarrow> int \<Rightarrow> int" where
  "quot64 a b = sgn a * sgn b * (\<bar>a\<bar> div \<bar>b\<bar>)"

definition percent_of :: "int \<Rightarrow> int \<Rightarrow> int" where
  "percent_of quota percent = quot64 (wrap64 (quota * percent)) 100"

abbreviation ErrAttachmentNotFound :: go_error where "ErrAttachmentNotFound \<equiv> ErrVar ''storage.ErrAttachmentNotFound''"
abbreviation ErrAttachmentHardCapReached :: go_error where "ErrAttachmentHardCapReached \<equiv> ErrVar ''storage.ErrAttachmentHardCapReached''"

record AttachmentMeta =
  am_ID :: string
  am_Name :: string
  am_MimeType :: string
  am_Class :: string
  am_LastAccessAt :: gotime
  am_PinState :: string
  am_Size :: int
  am_CreatedAt :: gotime

type_synonym attachment_items = "(string, AttachmentMeta) gomap"

record attachmentClassLimits =
  cl_ImageQuotaBytes :: int
  cl_ImageMaxItemBytes :: int
  cl_FileQuotaBytes :: int
  cl_FileMaxItemBytes :: int

record attachmentHardCapPolicy =
  hc_HighWatermarkPercent :: int
  hc_FullCapPercent :: int
  hc_AggressiveTargetPercent :: int

record attachmentHardCapHits =
  hh_ImageFullCapHits :: int
  hh_FileFullCapHits :: int

record AttachmentGCReport =
  gc_DryRun :: bool
  gc_DeletedCount :: nat
  gc_DeletedByClass :: "(string, nat) gomap"
  gc_DeletedByCause :: "(string, nat) gomap"

record AttachmentStore =
  as_dir :: string
  as_secret :: string
  as_items :: attachment_items
  as_blobs :: "(string, bytes) gomap"
  as_persist :: bool
  as_limits :: attachmentClassLimits
  as_hardCap :: attachmentHardCapPolicy
  as_hits :: attachmentHardCapHits
  as_files :: "(string, bytes) gomap"
  as_indexFile :: "bytes option"

record attachment_env =
  ae_crypto :: crypto_lib
  ae_vault :: vault_lib
  ae_random :: "nat \<Rightarrow> vault_random"
  ae_id :: "go_error + bytes"
  ae_now :: gotime
  ae_marshal :: "int \<times> attachment_items \<Rightarrow> bytes"
  ae_unmarshal :: "bytes \<Rightarrow> go_error + int \<times> attachment_items"
  ae_mkdir :: "go_error option"
  ae_write :: "string \<Rightarrow> (go_error \<times> bytes option) option"
  ae_writeIndex :: "(go_error \<times> bytes option) option"
  ae_remove :: "string \<Rightarrow> go_error option"
  ae_read :: "string \<Rightarrow> go_error option"
  ae_readIndex :: "go_error option"
  ae_removeAll :: "(go_error \<times> (string \<Rightarrow> bool) \<times> bool) option"

section \<open>Classes, limits and usage\<close>

definition ClassifyAttachmentMime :: "string \<Rightarrow> string" where
  "ClassifyAttachmentMime mimeType = (if prefix ''image/'' (ToLower (TrimSpace mimeType)) then ''image'' else ''file'')"

definition mbToBytes :: "int \<Rightarrow> int" where
  "mbToBytes mb = (if mb \<le> 0 then 0 else wrap64 (mb * 1024 * 1024))"

definition newAttachmentID :: "go_error + bytes \<Rightarrow> go_error + string" where
  "newAttachmentID random = bindE random (\<lambda>buf. Inr (''att1_'' @ EncodeToString buf))"

text \<open>The class as \<open>usageByClassLocked\<close> and \<open>PurgeOlderThanByClass\<close> see it.\<close>

definition meta_class :: "AttachmentMeta \<Rightarrow> string" where
  "meta_class meta =
     (let c = ToLower (TrimSpace (am_Class meta)) in if c = [] then ClassifyAttachmentMime (am_MimeType meta) else c)"

definition normalizedClass :: "AttachmentMeta \<Rightarrow> string" where
  "normalizedClass meta = (if meta_class meta = ''image'' then ''image'' else ''file'')"

definition pinned :: "AttachmentMeta \<Rightarrow> bool" where
  "pinned meta \<longleftrightarrow> TrimSpace (am_PinState meta) = ''pinned''"

definition classLimitsLocked :: "string \<Rightarrow> AttachmentStore \<Rightarrow> int \<times> int" where
  "classLimitsLocked cls s =
     (if ToLower (TrimSpace cls) = ''image'' then (cl_ImageMaxItemBytes (as_limits s), cl_ImageQuotaBytes (as_limits s))
      else (cl_FileMaxItemBytes (as_limits s), cl_FileQuotaBytes (as_limits s)))"

definition sum_sizes :: "AttachmentMeta list \<Rightarrow> int" where
  "sum_sizes metas = fold (\<lambda>meta acc. wrap64 (acc + am_Size meta)) metas 0"

definition usageByClassLocked :: "string \<Rightarrow> AttachmentStore \<Rightarrow> int" where
  "usageByClassLocked cls s = sum_sizes (filter (\<lambda>meta. meta_class meta = ToLower (TrimSpace cls)) (map snd (as_items s)))"

definition usageByClassExcludingLocked :: "string \<Rightarrow> (string, string) gomap \<Rightarrow> AttachmentStore \<Rightarrow> int" where
  "usageByClassExcludingLocked cls excluded s =
     sum_sizes (map snd (filter (\<lambda>(i, meta). lookup excluded i = None \<and> normalizedClass meta = ToLower (TrimSpace cls)) (as_items s)))"

definition last_used :: "AttachmentMeta \<Rightarrow> gotime" where
  "last_used meta = (if am_LastAccessAt meta = 0 then am_CreatedAt meta else am_LastAccessAt meta)"

definition lruCandidatesLocked :: "string \<Rightarrow> (string, string) gomap \<Rightarrow> AttachmentStore \<Rightarrow> string list" where
  "lruCandidatesLocked cls excluded s =
     map fst (sort_key (\<lambda>(_, meta). last_used meta) (sort_key fst
       (filter (\<lambda>(i, meta). lookup excluded i = None \<and> \<not> pinned meta \<and> normalizedClass meta = ToLower (TrimSpace cls)) (as_items s))))"

section \<open>Files\<close>

definition persistItemsLocked :: "attachment_env \<Rightarrow> attachment_items \<Rightarrow> AttachmentStore \<Rightarrow> go_error option \<times> AttachmentStore" where
  "persistItemsLocked env items s =
     (if as_dir s = [] \<or> \<not> as_persist s then (None, s)
      else
        let data = ae_marshal env (2, items)
        in case (if as_secret s = [] then Inr data else vault_Encrypt (ae_crypto env) (ae_vault env) (ae_random env 0) (as_secret s) data) of
             Inl err \<Rightarrow> (Some err, s)
           | Inr data \<Rightarrow>
               (case ae_writeIndex env of
                  Some (err, left) \<Rightarrow> (Some err, s\<lparr>as_indexFile := case left of None \<Rightarrow> as_indexFile s | Some b \<Rightarrow> Some b\<rparr>)
                | None \<Rightarrow> (None, s\<lparr>as_indexFile := Some data\<rparr>)))"

text \<open>The end of most operations: write the next index, and install it when that succeeded.\<close>

definition replace_items :: "attachment_env \<Rightarrow> attachment_items \<Rightarrow> AttachmentStore \<Rightarrow> go_error option \<times> AttachmentStore" where
  "replace_items env nextItems s =
     (case persistItemsLocked env nextItems s of
        (Some err, s) \<Rightarrow> (Some err, s)
      | (None, s) \<Rightarrow> (None, s\<lparr>as_items := nextItems\<rparr>))"

fun delete_loop :: "attachment_env \<Rightarrow> string list \<Rightarrow> attachment_items \<Rightarrow> AttachmentStore \<Rightarrow> (go_error + attachment_items) \<times> AttachmentStore" where
  "delete_loop env [] nextItems s = (Inr nextItems, s)"
| "delete_loop env (i # ids) nextItems s =
     (let nextItems = del i nextItems;
          s = s\<lparr>as_blobs := del i (as_blobs s)\<rparr>
      in if as_persist s \<and> \<not> blank (as_dir s)
         then (case ae_remove env i of
                 Some err \<Rightarrow> (Inl err, s)
               | None \<Rightarrow> delete_loop env ids nextItems (s\<lparr>as_files := del i (as_files s)\<rparr>))
         else delete_loop env ids nextItems s)"

definition deleteIDsLocked :: "attachment_env \<Rightarrow> string list \<Rightarrow> AttachmentStore \<Rightarrow> go_error option \<times> AttachmentStore" where
  "deleteIDsLocked env ids s =
     (if ids = [] then (None, s)
      else case delete_loop env ids (as_items s) s of
             (Inl err, s) \<Rightarrow> (Some err, s)
           | (Inr nextItems, s) \<Rightarrow> replace_items env nextItems s)"

definition touchLastAccess :: "attachment_env \<Rightarrow> string \<Rightarrow> gotime \<Rightarrow> AttachmentStore \<Rightarrow> go_error option \<times> AttachmentStore" where
  "touchLastAccess env i accessedAt s =
     (case lookup (as_items s) i of
        None \<Rightarrow> (Some ErrAttachmentNotFound, s)
      | Some meta \<Rightarrow>
          if \<not> am_LastAccessAt meta < accessedAt then (None, s)
          else replace_items env (put i (meta\<lparr>am_LastAccessAt := accessedAt\<rparr>) (as_items s)) s)"

section \<open>Quotas\<close>

text \<open>Both eviction loops: take candidates until the usage is down to the target.\<close>

fun take_until :: "attachment_items \<Rightarrow> int \<Rightarrow> string list \<Rightarrow> int \<Rightarrow> string list" where
  "take_until items target [] usage = []"
| "take_until items target (i # ids) usage =
     (case lookup items i of
        None \<Rightarrow> take_until items target ids usage
      | Some meta \<Rightarrow>
          let usage = wrap64 (usage - am_Size meta)
          in i # (if usage \<le> target then [] else take_until items target ids usage))"

definition count_hit :: "string \<Rightarrow> AttachmentStore \<Rightarrow> AttachmentStore" where
  "count_hit cls s =
     (if ToLower (TrimSpace cls) = ''image''
      then s\<lparr>as_hits := (as_hits s)\<lparr>hh_ImageFullCapHits := hh_ImageFullCapHits (as_hits s) + 1\<rparr>\<rparr>
      else s\<lparr>as_hits := (as_hits s)\<lparr>hh_FileFullCapHits := hh_FileFullCapHits (as_hits s) + 1\<rparr>\<rparr>)"

definition full_cap :: "int \<Rightarrow> AttachmentStore \<Rightarrow> int" where
  "full_cap quota s = (let cap = percent_of quota (hc_FullCapPercent (as_hardCap s)) in if cap \<le> 0 then quota else cap)"

definition make_room :: "attachment_env \<Rightarrow> string \<Rightarrow> int \<Rightarrow> int \<Rightarrow> AttachmentStore \<Rightarrow> go_error option \<times> AttachmentStore" where
  "make_room env cls quota sz s =
     (let target = max (wrap64 (quota - sz)) 0;
          usage = usageByClassLocked cls s
      in case (if usage > target then deleteIDsLocked env (take_until (as_items s) target (lruCandidatesLocked cls [] s) usage) s else (None, s)) of
           (Some err, s) \<Rightarrow> (Some err, s)
         | (None, s) \<Rightarrow>
             if wrap64 (usageByClassLocked cls s + sz) > quota then (Some (ErrText ''attachment class quota exceeded''), s) else (None, s))"

definition enforceClassLimitsLocked :: "attachment_env \<Rightarrow> string \<Rightarrow> int \<Rightarrow> AttachmentStore \<Rightarrow> go_error option \<times> AttachmentStore" where
  "enforceClassLimitsLocked env cls sz s =
     (case classLimitsLocked cls s of
        (maxItemBytes, quotaBytes) \<Rightarrow>
          if maxItemBytes > 0 \<and> sz > maxItemBytes then (Some (ErrText ''attachment exceeds class max item size''), s)
          else if quotaBytes > 0 \<and> usageByClassLocked cls s \<ge> full_cap quotaBytes s then (Some ErrAttachmentHardCapReached, count_hit cls s)
          else if quotaBytes > 0 \<and> wrap64 (usageByClassLocked cls s + sz) > quotaBytes then make_room env cls quotaBytes sz s
          else (None, s))"

section \<open>Operations\<close>

definition write_data :: "attachment_env \<Rightarrow> string \<Rightarrow> bytes \<Rightarrow> AttachmentStore \<Rightarrow> go_error option \<times> AttachmentStore" where
  "write_data env i blob s =
     (case ae_write env i of
        Some (err, left) \<Rightarrow> (Some err, s\<lparr>as_files := case left of None \<Rightarrow> as_files s | Some b \<Rightarrow> put i b (as_files s)\<rparr>)
      | None \<Rightarrow> (None, s\<lparr>as_files := put i blob (as_files s)\<rparr>))"

text \<open>
  The common end of \<open>Put\<close> and \<open>PutExisting\<close>: the data file, encrypted when there is a secret, and then the index. Only \<open>Put\<close> tries to
  remove the file again when the index fails (\<open>undo\<close>).
\<close>

definition write_attachment :: "bool \<Rightarrow> attachment_env \<Rightarrow> AttachmentMeta \<Rightarrow> bytes \<Rightarrow> AttachmentStore \<Rightarrow> go_error option \<times> AttachmentStore" where
  "write_attachment undo env meta blob s =
     (case write_data env (am_ID meta) blob s of
        (Some err, s) \<Rightarrow> (Some err, s)
      | (None, s) \<Rightarrow>
          (case replace_items env (put (am_ID meta) meta (as_items s)) s of
             (Some err, s) \<Rightarrow> (Some err, if undo \<and> ae_remove env (am_ID meta) = None then s\<lparr>as_files := del (am_ID meta) (as_files s)\<rparr> else s)
           | (None, s) \<Rightarrow> (None, s)))"

definition store_attachment :: "bool \<Rightarrow> attachment_env \<Rightarrow> AttachmentMeta \<Rightarrow> bytes \<Rightarrow> AttachmentStore \<Rightarrow> go_error option \<times> AttachmentStore" where
  "store_attachment undo env meta data s =
     (if as_dir s = [] then (None, s\<lparr>as_items := put (am_ID meta) meta (as_items s)\<rparr>)
      else if \<not> as_persist s
      then (None, s\<lparr>as_items := put (am_ID meta) meta (as_items s), as_blobs := put (am_ID meta) data (as_blobs s)\<rparr>)
      else case ae_mkdir env of
             Some err \<Rightarrow> (Some err, s)
           | None \<Rightarrow>
               (case (if as_secret s = [] then Inr data else vault_Encrypt (ae_crypto env) (ae_vault env) (ae_random env 1) (as_secret s) data) of
                  Inl err \<Rightarrow> (Some err, s)
                | Inr blob \<Rightarrow> write_attachment undo env meta blob s))"

definition new_meta :: "gotime \<Rightarrow> string \<Rightarrow> string \<Rightarrow> string \<Rightarrow> bytes \<Rightarrow> AttachmentMeta" where
  "new_meta now i name mimeType data =
     (let mimeType = (if mimeType = [] then ''application/octet-stream'' else mimeType)
      in \<lparr>am_ID = i, am_Name = name, am_MimeType = mimeType, am_Class = ClassifyAttachmentMime mimeType, am_LastAccessAt = now,
          am_PinState = ''unpinned'', am_Size = int (length data), am_CreatedAt = now\<rparr>)"

definition attachment_Put :: "attachment_env \<Rightarrow> string \<Rightarrow> string \<Rightarrow> bytes \<Rightarrow> AttachmentStore \<Rightarrow> (go_error + AttachmentMeta) \<times> AttachmentStore" where
  "attachment_Put env name mimeType data s =
     (if data = [] then (Inl (ErrText ''attachment data is empty''), s)
      else orFail (newAttachmentID (ae_id env)) s (\<lambda>i.
        let meta = new_meta (ae_now env) i name mimeType data
        in case enforceClassLimitsLocked env (am_Class meta) (am_Size meta) s of
             (Some err, s) \<Rightarrow> (Inl err, s)
           | (None, s) \<Rightarrow>
               (case store_attachment True env meta data s of
                  (Some err, s) \<Rightarrow> (Inl err, s)
                | (None, s) \<Rightarrow> (Inr meta, s))))"

definition with_defaults_meta :: "gotime \<Rightarrow> bytes \<Rightarrow> AttachmentMeta \<Rightarrow> AttachmentMeta" where
  "with_defaults_meta now data meta =
     (let mimeType = (if blank (am_MimeType meta) then ''application/octet-stream'' else am_MimeType meta);
          created = (if am_CreatedAt meta = 0 then now else am_CreatedAt meta)
      in meta\<lparr>am_MimeType := mimeType, am_Class := if blank (am_Class meta) then ClassifyAttachmentMime mimeType else am_Class meta,
           am_Size := if am_Size meta \<le> 0 then int (length data) else am_Size meta, am_CreatedAt := created,
           am_LastAccessAt := if am_LastAccessAt meta = 0 then created else am_LastAccessAt meta,
           am_PinState := if blank (am_PinState meta) then ''unpinned'' else am_PinState meta\<rparr>)"

definition PutExisting :: "attachment_env \<Rightarrow> AttachmentMeta \<Rightarrow> bytes \<Rightarrow> AttachmentStore \<Rightarrow> go_error option \<times> AttachmentStore" where
  "PutExisting env meta data s =
     (if blank (am_ID meta) then (Some (ErrText ''attachment id is required''), s)
      else if data = [] then (Some (ErrText ''attachment data is empty''), s)
      else
        let meta = with_defaults_meta (ae_now env) data meta
        in case enforceClassLimitsLocked env (am_Class meta) (am_Size meta) s of
             (Some err, s) \<Rightarrow> (Some err, s)
           | (None, s) \<Rightarrow> store_attachment False env meta data s)"

definition attachment_Get :: "attachment_env \<Rightarrow> string \<Rightarrow> AttachmentStore \<Rightarrow> (go_error + AttachmentMeta \<times> bytes) \<times> AttachmentStore" where
  "attachment_Get env i s =
     (case lookup (as_items s) i of
        None \<Rightarrow> (Inl ErrAttachmentNotFound, s)
      | Some meta \<Rightarrow>
          (case lookup (as_blobs s) i of
             Some blob \<Rightarrow> (Inr (meta, blob), snd (touchLastAccess env i (ae_now env) s))
           | None \<Rightarrow>
               if as_dir s = [] then (Inl ErrAttachmentNotFound, s)
               else case ae_read env i of
                      Some err \<Rightarrow> (Inl err, s)
                    | None \<Rightarrow>
                        (case lookup (as_files s) i of
                           None \<Rightarrow> (Inl ErrAttachmentNotFound, s)
                         | Some data \<Rightarrow>
                             if as_secret s = [] then (Inr (meta, data), snd (touchLastAccess env i (ae_now env) s))
                             else (case vault_Decrypt (ae_crypto env) (ae_vault env) (as_secret s) data of
                                     Inr plain \<Rightarrow> (Inr (meta, plain), snd (touchLastAccess env i (ae_now env) s))
                                   | Inl err \<Rightarrow>
                                       if err = ErrLegacyData then (Inr (meta, data), snd (touchLastAccess env i (ae_now env) s))
                                       else (Inl err, s)))))"

definition SetPinState :: "attachment_env \<Rightarrow> string \<Rightarrow> string \<Rightarrow> AttachmentStore \<Rightarrow> go_error option \<times> AttachmentStore" where
  "SetPinState env i pinState s =
     (let i = TrimSpace i; pinState = ToLower (TrimSpace pinState) in
      if i = [] then (Some (ErrText ''attachment id is required''), s)
      else if pinState \<notin> {''pinned'', ''unpinned''} then (Some (ErrText ''invalid pin state''), s)
      else case lookup (as_items s) i of
             None \<Rightarrow> (Some ErrAttachmentNotFound, s)
           | Some meta \<Rightarrow>
               if am_PinState meta = pinState then (None, s)
               else replace_items env (put i (meta\<lparr>am_PinState := pinState, am_LastAccessAt := ae_now env\<rparr>) (as_items s)) s)"

definition attachment_Wipe :: "attachment_env \<Rightarrow> AttachmentStore \<Rightarrow> go_error option \<times> AttachmentStore" where
  "attachment_Wipe env s =
     (let s = s\<lparr>as_items := [], as_blobs := []\<rparr> in
      if blank (as_dir s) then (None, s)
      else case ae_removeAll env of
             None \<Rightarrow> (None, s\<lparr>as_files := [], as_indexFile := None\<rparr>)
           | Some (err, kept, indexKept) \<Rightarrow>
               (Some err, s\<lparr>as_files := filter (\<lambda>(i, _). kept i) (as_files s), as_indexFile := if indexKept then as_indexFile s else None\<rparr>))"

definition attachment_SetPersistenceEnabled :: "bool \<Rightarrow> AttachmentStore \<Rightarrow> AttachmentStore" where
  "attachment_SetPersistenceEnabled enabled s = s\<lparr>as_persist := enabled\<rparr>"

definition purge :: "attachment_env \<Rightarrow> string list \<Rightarrow> AttachmentStore \<Rightarrow> (go_error + nat) \<times> AttachmentStore" where
  "purge env deletedIDs s =
     (case deleteIDsLocked env deletedIDs s of
        (Some err, s) \<Rightarrow> (Inl err, s)
      | (None, s) \<Rightarrow> (Inr (length deletedIDs), s))"

definition attachment_PurgeOlderThan :: "attachment_env \<Rightarrow> gotime \<Rightarrow> AttachmentStore \<Rightarrow> (go_error + nat) \<times> AttachmentStore" where
  "attachment_PurgeOlderThan env cutoff s =
     purge env (map fst (filter (\<lambda>(_, meta). \<not> cutoff < am_CreatedAt meta) (as_items s))) s"

definition PurgeOlderThanByClass :: "attachment_env \<Rightarrow> string \<Rightarrow> gotime \<Rightarrow> AttachmentStore \<Rightarrow> (go_error + nat) \<times> AttachmentStore" where
  "PurgeOlderThanByClass env cls cutoff s =
     (let cls = ToLower (TrimSpace cls) in
      if cls = [] then (Inl (ErrText ''attachment class is required''), s)
      else purge env (map fst (filter (\<lambda>(_, meta). meta_class meta = cls \<and> \<not> cutoff < am_CreatedAt meta) (as_items s))) s)"

definition SetClassPolicies :: "int \<Rightarrow> int \<Rightarrow> int \<Rightarrow> int \<Rightarrow> AttachmentStore \<Rightarrow> AttachmentStore" where
  "SetClassPolicies imageQuotaMB imageMaxItemSizeMB fileQuotaMB fileMaxItemSizeMB s =
     s\<lparr>as_limits := \<lparr>cl_ImageQuotaBytes = mbToBytes imageQuotaMB, cl_ImageMaxItemBytes = mbToBytes imageMaxItemSizeMB,
        cl_FileQuotaBytes = mbToBytes fileQuotaMB, cl_FileMaxItemBytes = mbToBytes fileMaxItemSizeMB\<rparr>\<rparr>"

definition SetHardCapPolicy :: "int \<Rightarrow> int \<Rightarrow> int \<Rightarrow> AttachmentStore \<Rightarrow> AttachmentStore" where
  "SetHardCapPolicy high full aggressive s =
     (let high = (if high < 1 then 1 else high);
          high = (if high > 100 then 100 else high);
          full = (if full < high then high else full);
          full = (if full > 100 then 100 else full);
          aggressive = (if aggressive < 1 then 1 else aggressive);
          aggressive = (if aggressive > high then high else aggressive)
      in s\<lparr>as_hardCap := \<lparr>hc_HighWatermarkPercent = high, hc_FullCapPercent = full, hc_AggressiveTargetPercent = aggressive\<rparr>\<rparr>)"

definition usage_percent :: "string \<Rightarrow> AttachmentStore \<Rightarrow> int option" where
  "usage_percent cls s =
     (let quota = snd (classLimitsLocked cls s)
      in if quota > 0 then Some (quot64 (wrap64 (usageByClassLocked cls s * 100)) quota) else None)"

definition HardCapStats :: "AttachmentStore \<Rightarrow> (string, int) gomap" where
  "HardCapStats s =
     [(''image_high_watermark_percent'', hc_HighWatermarkPercent (as_hardCap s)), (''image_full_cap_percent'', hc_FullCapPercent (as_hardCap s)),
      (''file_high_watermark_percent'', hc_HighWatermarkPercent (as_hardCap s)), (''file_full_cap_percent'', hc_FullCapPercent (as_hardCap s)),
      (''image_full_cap_hits'', hh_ImageFullCapHits (as_hits s)), (''file_full_cap_hits'', hh_FileFullCapHits (as_hits s))]
     @ (case usage_percent ''image'' s of None \<Rightarrow> [] | Some p \<Rightarrow> [(''image_usage_percent'', p)])
     @ (case usage_percent ''file'' s of None \<Rightarrow> [] | Some p \<Rightarrow> [(''file_usage_percent'', p)])"

definition UsageByClass :: "AttachmentStore \<Rightarrow> (string, int) gomap" where
  "UsageByClass s = [(''image'', usageByClassLocked ''image'' s), (''file'', usageByClassLocked ''file'' s)]"

definition ListMetas :: "AttachmentStore \<Rightarrow> AttachmentMeta list" where
  "ListMetas s = map snd (as_items s)"

section \<open>Garbage collection\<close>

definition expired :: "gotime \<Rightarrow> int \<Rightarrow> int \<Rightarrow> AttachmentMeta \<Rightarrow> bool" where
  "expired now imageTTLSeconds fileTTLSeconds meta \<longleftrightarrow>
     (let ttl = (if normalizedClass meta = ''image'' then imageTTLSeconds else fileTTLSeconds)
      in \<not> pinned meta \<and> 0 < ttl \<and> \<not> now + wrap64 (- ttl * 1000000000) < am_CreatedAt meta)"

definition tryMarkDelete :: "string \<Rightarrow> string \<Rightarrow> (string, string) gomap \<Rightarrow> (string, string) gomap" where
  "tryMarkDelete cause i marked = (if lookup marked i = None then put i cause marked else marked)"

definition mark_expired :: "gotime \<Rightarrow> int \<Rightarrow> int \<Rightarrow> AttachmentStore \<Rightarrow> (string, string) gomap" where
  "mark_expired now imageTTLSeconds fileTTLSeconds s =
     fold (tryMarkDelete ''expired'') (map fst (filter (\<lambda>(_, meta). expired now imageTTLSeconds fileTTLSeconds meta) (as_items s))) []"

definition gc_target :: "int \<Rightarrow> int \<Rightarrow> AttachmentStore \<Rightarrow> int" where
  "gc_target quota usage s =
     (let high = percent_of quota (hc_HighWatermarkPercent (as_hardCap s));
          aggressive = percent_of quota (hc_AggressiveTargetPercent (as_hardCap s))
      in if usage \<ge> (if high \<le> 0 then quota else high) \<and> 0 < aggressive \<and> aggressive < quota then aggressive else quota)"

definition mark_lru :: "AttachmentStore \<Rightarrow> string \<Rightarrow> (string, string) gomap \<Rightarrow> (string, string) gomap" where
  "mark_lru s cls marked =
     (let quota = snd (classLimitsLocked cls s);
          usage = usageByClassExcludingLocked cls marked s;
          target = gc_target quota usage s
      in if quota \<le> 0 \<or> usage \<le> target then marked
         else fold (tryMarkDelete ''lru'') (take_until (as_items s) target (lruCandidatesLocked cls marked s) usage) marked)"

definition gc_marked :: "gotime \<Rightarrow> int \<Rightarrow> int \<Rightarrow> AttachmentStore \<Rightarrow> (string, string) gomap" where
  "gc_marked now imageTTLSeconds fileTTLSeconds s =
     fold (mark_lru s) [''image'', ''file''] (mark_expired now imageTTLSeconds fileTTLSeconds s)"

definition count_up :: "string \<Rightarrow> (string, nat) gomap \<Rightarrow> (string, nat) gomap" where
  "count_up k m = put k (Suc (case lookup m k of None \<Rightarrow> 0 | Some n \<Rightarrow> n)) m"

definition report_deleted :: "AttachmentStore \<Rightarrow> string \<times> string \<Rightarrow> AttachmentGCReport \<Rightarrow> AttachmentGCReport" where
  "report_deleted s = (\<lambda>(i, cause) report.
     case lookup (as_items s) i of
       None \<Rightarrow> report
     | Some meta \<Rightarrow>
         report\<lparr>gc_DeletedByClass := count_up (normalizedClass meta) (gc_DeletedByClass report),
           gc_DeletedByCause := count_up cause (gc_DeletedByCause report), gc_DeletedCount := Suc (gc_DeletedCount report)\<rparr>)"

definition gc_report :: "bool \<Rightarrow> (string, string) gomap \<Rightarrow> AttachmentStore \<Rightarrow> AttachmentGCReport" where
  "gc_report dryRun marked s =
     fold (report_deleted s) marked
       \<lparr>gc_DryRun = dryRun, gc_DeletedCount = 0, gc_DeletedByClass = [(''image'', 0), (''file'', 0)],
        gc_DeletedByCause = [(''expired'', 0), (''lru'', 0)]\<rparr>"

definition runGCLocked :: "attachment_env \<Rightarrow> gotime \<Rightarrow> int \<Rightarrow> int \<Rightarrow> bool \<Rightarrow> AttachmentStore \<Rightarrow> (go_error + AttachmentGCReport) \<times> AttachmentStore" where
  "runGCLocked env now imageTTLSeconds fileTTLSeconds dryRun s =
     (let marked = gc_marked now imageTTLSeconds fileTTLSeconds s; report = gc_report dryRun marked s in
      if gc_DeletedCount report = 0 \<or> dryRun then (Inr report, s)
      else case deleteIDsLocked env (map fst marked) s of
             (Some err, s) \<Rightarrow> (Inl err, s)
           | (None, s) \<Rightarrow> (Inr report, s))"

definition RunGC :: "attachment_env \<Rightarrow> gotime \<Rightarrow> int \<Rightarrow> int \<Rightarrow> bool \<Rightarrow> AttachmentStore \<Rightarrow> (go_error + AttachmentGCReport) \<times> AttachmentStore" where
  "RunGC env now imageTTLSeconds fileTTLSeconds dryRun s =
     runGCLocked env (if now = 0 then ae_now env else now) imageTTLSeconds fileTTLSeconds dryRun s"

section \<open>Opening the store\<close>

definition normalize_meta :: "gotime \<Rightarrow> AttachmentMeta \<Rightarrow> AttachmentMeta" where
  "normalize_meta now meta =
     meta\<lparr>am_Class := if blank (am_Class meta) then ClassifyAttachmentMime (am_MimeType meta) else am_Class meta,
       am_PinState := if blank (am_PinState meta) then ''unpinned'' else am_PinState meta,
       am_LastAccessAt := if am_LastAccessAt meta = 0 then (if am_CreatedAt meta \<noteq> 0 then am_CreatedAt meta else now) else am_LastAccessAt meta\<rparr>"

definition needs_normalizing :: "AttachmentMeta \<Rightarrow> bool" where
  "needs_normalizing meta \<longleftrightarrow> blank (am_Class meta) \<or> blank (am_PinState meta) \<or> am_LastAccessAt meta = 0"

fun migrateLegacyFiles :: "attachment_env \<Rightarrow> string list \<Rightarrow> AttachmentStore \<Rightarrow> go_error option \<times> AttachmentStore" where
  "migrateLegacyFiles env [] s = (None, s)"
| "migrateLegacyFiles env (i # ids) s =
     (case ae_read env i of
        Some err \<Rightarrow> (Some err, s)
      | None \<Rightarrow>
          (case lookup (as_files s) i of
             None \<Rightarrow> migrateLegacyFiles env ids s
           | Some raw \<Rightarrow>
               (case vault_Decrypt (ae_crypto env) (ae_vault env) (as_secret s) raw of
                  Inr _ \<Rightarrow> migrateLegacyFiles env ids s
                | Inl derr \<Rightarrow>
                    if derr \<noteq> ErrLegacyData then (Some derr, s)
                    else (case vault_Encrypt (ae_crypto env) (ae_vault env) (ae_random env (length ids + 2)) (as_secret s) raw of
                            Inl err \<Rightarrow> (Some err, s)
                          | Inr enc \<Rightarrow>
                              (case write_data env i enc s of
                                 (Some err, s) \<Rightarrow> (Some err, s)
                               | (None, s) \<Rightarrow> migrateLegacyFiles env ids s)))))"

definition read_index :: "attachment_env \<Rightarrow> bytes \<Rightarrow> AttachmentStore \<Rightarrow> go_error + bytes \<times> bool" where
  "read_index env data s =
     (if as_secret s = [] then Inr (data, False)
      else case vault_Decrypt (ae_crypto env) (ae_vault env) (as_secret s) data of
             Inr plain \<Rightarrow> Inr (plain, False)
           | Inl derr \<Rightarrow> if derr = ErrLegacyData then Inr (data, True) else Inl derr)"

definition load_items :: "attachment_env \<Rightarrow> bool \<Rightarrow> int \<Rightarrow> attachment_items \<Rightarrow> AttachmentStore \<Rightarrow> go_error option \<times> AttachmentStore" where
  "load_items env indexWasLegacy version items s =
     (let schemaMigrated = version < 2;
          normalized = (\<exists>(_, meta) \<in> set items. needs_normalizing meta);
          s = s\<lparr>as_items := map (\<lambda>(i, meta). (i, normalize_meta (ae_now env) meta)) items\<rparr>
      in if as_secret s \<noteq> []
         then (case migrateLegacyFiles env (map fst items) s of
                 (Some err, s) \<Rightarrow> (Some err, s)
               | (None, s) \<Rightarrow> if indexWasLegacy \<or> normalized \<or> schemaMigrated then persistItemsLocked env (as_items s) s else (None, s))
         else if normalized \<or> schemaMigrated then persistItemsLocked env (as_items s) s
         else (None, s))"

definition attachment_load :: "attachment_env \<Rightarrow> AttachmentStore \<Rightarrow> go_error option \<times> AttachmentStore" where
  "attachment_load env s =
     (case ae_readIndex env of
        Some err \<Rightarrow> (Some err, s)
      | None \<Rightarrow>
          (case as_indexFile s of
             None \<Rightarrow> (None, s)
           | Some data \<Rightarrow>
               if data = [] then (None, s)
               else case read_index env data s of
                      Inl err \<Rightarrow> (Some err, s)
                    | Inr (plain, indexWasLegacy) \<Rightarrow>
                        (case ae_unmarshal env plain of
                           Inl err \<Rightarrow> (Some err, s)
                         | Inr (version, items) \<Rightarrow>
                             if version \<noteq> 0 \<and> version > 2 then (Some ErrUnsupportedStorageSchema, s)
                             else load_items env indexWasLegacy version items s)))"

text \<open>The directory of an earlier run is \<open>files\<close> and \<open>indexFile\<close>. The result carries the directory also when opening fails.\<close>

definition new_store :: "string \<Rightarrow> string \<Rightarrow> (string, bytes) gomap \<Rightarrow> bytes option \<Rightarrow> AttachmentStore" where
  "new_store dir secret files indexFile =
     \<lparr>as_dir = dir, as_secret = TrimSpace secret, as_items = [], as_blobs = [], as_persist = True,
      as_limits = \<lparr>cl_ImageQuotaBytes = 0, cl_ImageMaxItemBytes = 0, cl_FileQuotaBytes = 0, cl_FileMaxItemBytes = 0\<rparr>,
      as_hardCap = \<lparr>hc_HighWatermarkPercent = 90, hc_FullCapPercent = 100, hc_AggressiveTargetPercent = 75\<rparr>,
      as_hits = \<lparr>hh_ImageFullCapHits = 0, hh_FileFullCapHits = 0\<rparr>, as_files = files, as_indexFile = indexFile\<rparr>"

definition NewAttachmentStoreWithSecret :: "attachment_env \<Rightarrow> string \<Rightarrow> string \<Rightarrow> (string, bytes) gomap \<Rightarrow> bytes option \<Rightarrow> go_error option \<times> AttachmentStore" where
  "NewAttachmentStoreWithSecret env dir secret files indexFile =
     (let s = new_store dir secret files indexFile in if dir \<noteq> [] then attachment_load env s else (None, s))"

end
