(* ===== verification/Attachment_Guarantees.thy ===== *)
theory Attachment_Guarantees
  imports Attachment_Store
begin

text \<open>
  What the attachment store promises: pinned attachments survive every eviction, whatever fails on the way; the quota of a class holds
  after each successful upload; what was stored is read back, also after a restart; garbage collection removes exactly what it should.
\<close>

declare map_of_eq_Some_iff [simp del]

section \<open>Specification\<close>

text \<open>The attachment \<open>i\<close> is the same in both stores, up to the time of its last access.\<close>

abbreviation untouched :: "AttachmentMeta \<Rightarrow> AttachmentMeta" where
  "untouched meta \<equiv> meta\<lparr>am_LastAccessAt := 0\<rparr>"

definition kept :: "string \<Rightarrow> AttachmentStore \<Rightarrow> AttachmentStore \<Rightarrow> bool" where
  "kept i s s' \<longleftrightarrow> map_option untouched (lookup (as_items s') i) = map_option untouched (lookup (as_items s) i) \<and>
     lookup (as_blobs s') i = lookup (as_blobs s) i \<and> lookup (as_files s') i = lookup (as_files s) i \<and>
     as_dir s' = as_dir s \<and> as_secret s' = as_secret s"

text \<open>The calls of the daemon on its store, apart from the purges and the wipe.\<close>

datatype attachment_op =
    PutOp attachment_env string string bytes
  | PutExistingOp attachment_env AttachmentMeta bytes
  | GetOp attachment_env string
  | PinOp attachment_env string string
  | GCOp attachment_env gotime int int bool
  | ClassPoliciesOp int int int int
  | HardCapOp int int int
  | PersistenceOp bool

fun attachment_run :: "attachment_op \<Rightarrow> AttachmentStore \<Rightarrow> AttachmentStore" where
  "attachment_run (PutOp env name mimeType data) s = snd (attachment_Put env name mimeType data s)"
| "attachment_run (PutExistingOp env meta data) s = snd (PutExisting env meta data s)"
| "attachment_run (GetOp env i) s = snd (attachment_Get env i s)"
| "attachment_run (PinOp env i pinState) s = snd (SetPinState env i pinState s)"
| "attachment_run (GCOp env now imageTTL fileTTL dryRun) s = snd (RunGC env now imageTTL fileTTL dryRun s)"
| "attachment_run (ClassPoliciesOp a b c d) s = SetClassPolicies a b c d s"
| "attachment_run (HardCapOp a b c) s = SetHardCapPolicy a b c s"
| "attachment_run (PersistenceOp enabled) s = attachment_SetPersistenceEnabled enabled s"

text \<open>The call does not write to the id \<open>i\<close> and does not change its pin.\<close>

fun spares :: "string \<Rightarrow> attachment_op \<Rightarrow> bool" where
  "spares i (PutOp env name mimeType data) \<longleftrightarrow> newAttachmentID (ae_id env) \<noteq> Inr i"
| "spares i (PutExistingOp env meta data) \<longleftrightarrow> am_ID meta \<noteq> i"
| "spares i (PinOp env j pinState) \<longleftrightarrow> TrimSpace j \<noteq> i"
| "spares i _ \<longleftrightarrow> True"

section \<open>What the helpers leave alone\<close>

lemma kept_refl [simp]: "kept i s s"
  by (simp add: kept_def)

lemma kept_trans: "kept i s s' \<Longrightarrow> kept i s' s'' \<Longrightarrow> kept i s s''"
  by (simp add: kept_def)

lemma persistItemsLocked_state: "\<exists>x. snd (persistItemsLocked env items s) = s\<lparr>as_indexFile := x\<rparr>"
proof -
  have "\<exists>x. s = s\<lparr>as_indexFile := x\<rparr>" by (metis AttachmentStore.surjective AttachmentStore.update_convs(10))
  then show ?thesis
    by (auto simp: persistItemsLocked_def Let_def split: sum.splits option.splits)
qed

lemma replace_items_state:
  "\<exists>x. snd (replace_items env items s) = s\<lparr>as_indexFile := x\<rparr> \<and> fst (replace_items env items s) \<noteq> None \<or>
       snd (replace_items env items s) = s\<lparr>as_indexFile := x, as_items := items\<rparr> \<and> fst (replace_items env items s) = None"
proof -
  obtain x r where eq: "persistItemsLocked env items s = (r, s\<lparr>as_indexFile := x\<rparr>)"
    using persistItemsLocked_state by (metis prod.collapse)
  then show ?thesis by (cases r) (auto simp: replace_items_def eq)
qed

lemma kept_replace_items:
  assumes "map_option untouched (lookup items i) = map_option untouched (lookup (as_items s) i)"
  shows "kept i s (snd (replace_items env items s))"
  using replace_items_state [of env items s] assms by (auto simp: kept_def)

lemma distinct_replace_items:
  assumes "keys_distinct items" "keys_distinct (as_items s)"
  shows "keys_distinct (as_items (snd (replace_items env items s)))"
  using replace_items_state [of env items s] assms by auto

lemma kept_forget:
  "i \<noteq> j \<Longrightarrow> kept i s (s\<lparr>as_blobs := del j (as_blobs s)\<rparr>)"
  "i \<noteq> j \<Longrightarrow> kept i s (s\<lparr>as_blobs := del j (as_blobs s), as_files := del j (as_files s)\<rparr>)"
  by (simp_all add: kept_def)

lemma delete_loop_kept: "i \<notin> set ids \<Longrightarrow> kept i s (snd (delete_loop env ids items s))"
proof (induction ids arbitrary: items s)
  case (Cons j ids)
  then have ij: "i \<noteq> j" "i \<notin> set ids" by auto
  note IH = Cons.IH [OF ij(2)]
  show ?case
    using kept_trans [OF kept_forget(1) [OF ij(1)] IH] kept_trans [OF kept_forget(2) [OF ij(1)] IH] kept_forget(1) [OF ij(1)]
    by (simp add: Let_def split: option.split)
qed simp

text \<open>The loop removes its ids from the next items and leaves everything but blobs and files alone.\<close>

lemma delete_loop_items:
  "fst (delete_loop env ids items s) = Inr items' \<Longrightarrow> items' = filter (\<lambda>(i, _). i \<notin> set ids) items"
proof (induction ids arbitrary: items s)
  case (Cons j ids)
  have "filter (\<lambda>(i, _). i \<notin> set ids) (del j items) = filter (\<lambda>(i, _). i \<notin> set (j # ids)) items"
    by (induction items) auto
  then show ?case using Cons by (auto simp: Let_def split: option.splits if_splits)
qed simp

lemma delete_loop_state:
  "snd (delete_loop env ids items s) =
     s\<lparr>as_blobs := as_blobs (snd (delete_loop env ids items s)), as_files := as_files (snd (delete_loop env ids items s))\<rparr>"
proof (induction ids arbitrary: items s)
  case (Cons j ids)
  have step: "snd (delete_loop env ids items' (s\<lparr>as_blobs := b\<rparr>)) = s\<lparr>as_blobs := b', as_files := f'\<rparr>"
    if "b' = as_blobs (snd (delete_loop env ids items' (s\<lparr>as_blobs := b\<rparr>)))" "f' = as_files (snd (delete_loop env ids items' (s\<lparr>as_blobs := b\<rparr>)))"
    for items' b b' f' using Cons [of items' "s\<lparr>as_blobs := b\<rparr>"] that by simp
  have step2: "snd (delete_loop env ids items' (s\<lparr>as_blobs := b, as_files := f\<rparr>)) = s\<lparr>as_blobs := b', as_files := f'\<rparr>"
    if "b' = as_blobs (snd (delete_loop env ids items' (s\<lparr>as_blobs := b, as_files := f\<rparr>)))"
      "f' = as_files (snd (delete_loop env ids items' (s\<lparr>as_blobs := b, as_files := f\<rparr>)))"
    for items' b f b' f' using Cons [of items' "s\<lparr>as_blobs := b, as_files := f\<rparr>"] that by simp
  consider (err) e where "as_persist s" "\<not> blank (as_dir s)" "ae_remove env j = Some e"
    | (ok) "as_persist s" "\<not> blank (as_dir s)" "ae_remove env j = None" | (skip) "\<not> (as_persist s \<and> \<not> blank (as_dir s))" by blast
  then show ?case
  proof cases
    case ok
    then have "snd (delete_loop env (j # ids) items s) = snd (delete_loop env ids (del j items) (s\<lparr>as_blobs := del j (as_blobs s), as_files := del j (as_files s)\<rparr>))"
      by (simp add: Let_def)
    then show ?thesis using step2 by metis
  next
    case skip
    then have "snd (delete_loop env (j # ids) items s) = snd (delete_loop env ids (del j items) (s\<lparr>as_blobs := del j (as_blobs s)\<rparr>))"
      by (auto simp: Let_def)
    then show ?thesis using step by metis
  qed (simp add: Let_def)
qed simp

lemma deleteIDsLocked_cases:
  obtains (failed) e b f x where "deleteIDsLocked env ids s = (Some e, s\<lparr>as_blobs := b, as_files := f, as_indexFile := x\<rparr>)"
  | (removed) b f x where "deleteIDsLocked env ids s =
      (None, s\<lparr>as_items := filter (\<lambda>(i, _). i \<notin> set ids) (as_items s), as_blobs := b, as_files := f, as_indexFile := x\<rparr>)"
proof (cases "ids = []")
  case True
  have "deleteIDsLocked env ids s = (None, s\<lparr>as_items := filter (\<lambda>(i, _). i \<notin> set ids) (as_items s), as_blobs := as_blobs s, as_files := as_files s, as_indexFile := as_indexFile s\<rparr>)"
    using True by (simp add: deleteIDsLocked_def)
  then show ?thesis by (rule removed)
next
  case False
  obtain r b f where eq: "delete_loop env ids (as_items s) s = (r, s\<lparr>as_blobs := b, as_files := f\<rparr>)"
    using delete_loop_state [of env ids "as_items s" s] by (metis prod.collapse)
  let ?s = "s\<lparr>as_blobs := b, as_files := f\<rparr>"
  show ?thesis
  proof (cases r)
    case (Inl e)
    have "deleteIDsLocked env ids s = (Some e, s\<lparr>as_blobs := b, as_files := f, as_indexFile := as_indexFile s\<rparr>)"
      using False eq Inl by (simp add: deleteIDsLocked_def)
    then show ?thesis by (rule failed)
  next
    case (Inr items)
    have items: "items = filter (\<lambda>(i, _). i \<notin> set ids) (as_items s)" using delete_loop_items [of env ids "as_items s" s items] eq Inr by simp
    have del: "deleteIDsLocked env ids s = replace_items env items ?s" using False eq Inr by (simp add: deleteIDsLocked_def)
    obtain x where "snd (replace_items env items ?s) = ?s\<lparr>as_indexFile := x\<rparr> \<and> fst (replace_items env items ?s) \<noteq> None \<or>
       snd (replace_items env items ?s) = ?s\<lparr>as_indexFile := x, as_items := items\<rparr> \<and> fst (replace_items env items ?s) = None"
      using replace_items_state by blast
    then show ?thesis
    proof (elim disjE conjE)
      assume *: "snd (replace_items env items ?s) = ?s\<lparr>as_indexFile := x\<rparr>" "fst (replace_items env items ?s) \<noteq> None"
      then obtain e where "fst (replace_items env items ?s) = Some e" by blast
      with * del have "deleteIDsLocked env ids s = (Some e, s\<lparr>as_blobs := b, as_files := f, as_indexFile := x\<rparr>)" by (simp add: prod_eq_iff)
      then show ?thesis by (rule failed)
    next
      assume *: "snd (replace_items env items ?s) = ?s\<lparr>as_indexFile := x, as_items := items\<rparr>" "fst (replace_items env items ?s) = None"
      with del items have "deleteIDsLocked env ids s =
        (None, s\<lparr>as_items := filter (\<lambda>(i, _). i \<notin> set ids) (as_items s), as_blobs := b, as_files := f, as_indexFile := x\<rparr>)"
        by (simp add: prod_eq_iff)
      then show ?thesis by (rule removed)
    qed
  qed
qed

lemma deleteIDsLocked_frame:
  assumes "i \<notin> set ids" shows "kept i s (snd (deleteIDsLocked env ids s))"
proof (cases "ids = []")
  case False
  obtain r b f where eq: "delete_loop env ids (as_items s) s = (r, s\<lparr>as_blobs := b, as_files := f\<rparr>)"
    using delete_loop_state [of env ids "as_items s" s] by (metis prod.collapse)
  let ?s = "s\<lparr>as_blobs := b, as_files := f\<rparr>"
  have s1: "kept i s ?s" using delete_loop_kept [OF assms, of s env "as_items s"] eq by simp
  show ?thesis
  proof (cases r)
    case (Inl e) then show ?thesis using False eq s1 by (simp add: deleteIDsLocked_def)
  next
    case (Inr items)
    have "lookup items i = lookup (as_items ?s) i"
      using delete_loop_items [of env ids "as_items s" s items] eq Inr assms by (simp add: lookup_filter_key)
    then have "kept i ?s (snd (replace_items env items ?s))" by (intro kept_replace_items) simp
    then show ?thesis using kept_trans [OF s1] False eq Inr by (simp add: deleteIDsLocked_def)
  qed
qed (simp add: deleteIDsLocked_def)

lemma deleteIDsLocked_distinct:
  assumes "keys_distinct (as_items s)" shows "keys_distinct (as_items (snd (deleteIDsLocked env ids s)))"
  using assms by (cases rule: deleteIDsLocked_cases [of env ids s]) (auto simp: distinct_map_filter)

section \<open>Candidates for eviction\<close>

lemma take_until_subset: "set (take_until items target ids usage) \<subseteq> set ids"
  by (induction ids arbitrary: usage) (auto simp: Let_def split: option.splits)

lemma lruCandidates_mem:
  "i \<in> set (lruCandidatesLocked cls excluded s) \<longleftrightarrow>
     (\<exists>meta. (i, meta) \<in> set (as_items s) \<and> lookup excluded i = None \<and> \<not> pinned meta \<and> normalizedClass meta = ToLower (TrimSpace cls))"
  unfolding lruCandidatesLocked_def set_map set_sort set_filter by (auto simp: image_iff)

lemma lruCandidates_unpinned:
  assumes "keys_distinct (as_items s)" "i \<in> set (lruCandidatesLocked cls excluded s)"
  obtains meta where "lookup (as_items s) i = Some meta" "\<not> pinned meta" "lookup excluded i = None" "normalizedClass meta = ToLower (TrimSpace cls)"
proof -
  obtain meta where meta: "(i, meta) \<in> set (as_items s)" "lookup excluded i = None" "\<not> pinned meta" "normalizedClass meta = ToLower (TrimSpace cls)"
    using assms(2) unfolding lruCandidates_mem by blast
  show ?thesis by (rule that) (use meta assms(1) in \<open>simp_all add: lookup_iff_mem\<close>)
qed

lemma pinned_no_candidate:
  assumes "keys_distinct (as_items s)" "lookup (as_items s) i = Some meta" "pinned meta"
  shows "i \<notin> set (take_until items target (lruCandidatesLocked cls excluded s) usage)"
proof
  assume "i \<in> set (take_until items target (lruCandidatesLocked cls excluded s) usage)"
  then have "i \<in> set (lruCandidatesLocked cls excluded s)" using take_until_subset by blast
  then show False using assms lruCandidates_unpinned [OF assms(1)] by (metis option.inject)
qed

section \<open>Marking for deletion\<close>

lemma tryMarkDelete_keys: "fst ` set (tryMarkDelete cause i marked) = insert i (fst ` set marked)"
  by (cases "lookup marked i")
    (auto simp: tryMarkDelete_def put_fresh map_of_eq_None_iff rev_image_eqI dest!: lookup_mem)

lemma mark_all_keys: "fst ` set (fold (tryMarkDelete cause) ids marked) = set ids \<union> fst ` set marked"
  by (induction ids arbitrary: marked) (auto simp: tryMarkDelete_keys)

lemma mark_expired_keys:
  "fst ` set (mark_expired now imageTTL fileTTL s) = fst ` {(i, meta) \<in> set (as_items s). expired now imageTTL fileTTL meta}"
  unfolding mark_expired_def mark_all_keys by (auto simp: image_iff)

lemma mark_lru_keys:
  "fst ` set (mark_lru s cls marked) \<subseteq> fst ` set marked \<union> set (lruCandidatesLocked cls marked s)"
  "fst ` set marked \<subseteq> fst ` set (mark_lru s cls marked)"
  using take_until_subset [of "as_items s" _ "lruCandidatesLocked cls marked s"]
  by (auto simp: mark_lru_def Let_def mark_all_keys dest!: subsetD)

lemma gc_marked_unpinned:
  assumes "keys_distinct (as_items s)" "i \<in> fst ` set (gc_marked now imageTTL fileTTL s)"
  obtains meta where "lookup (as_items s) i = Some meta" "\<not> pinned meta"
proof -
  let ?e = "mark_expired now imageTTL fileTTL s"
  have "i \<in> fst ` set ?e \<or> i \<in> set (lruCandidatesLocked ''image'' ?e s) \<or> i \<in> set (lruCandidatesLocked ''file'' (mark_lru s ''image'' ?e) s)"
    using assms(2) mark_lru_keys(1) [of s "''image''" ?e] mark_lru_keys(1) [of s "''file''" "mark_lru s ''image'' ?e"]
    unfolding gc_marked_def fold_simps comp_apply id_apply by blast
  then consider "i \<in> fst ` set ?e" | cls excluded where "i \<in> set (lruCandidatesLocked cls excluded s)" by blast
  then show ?thesis
  proof cases
    case 1
    then obtain meta where meta: "(i, meta) \<in> set (as_items s)" "expired now imageTTL fileTTL meta" by (auto simp: mark_expired_keys)
    show ?thesis by (rule that) (use meta assms(1) in \<open>auto simp: lookup_iff_mem expired_def Let_def\<close>)
  next
    case 2 then show ?thesis using lruCandidates_unpinned [OF assms(1)] that by metis
  qed
qed

section \<open>Pinned attachments\<close>

lemma make_room_kept:
  assumes "keys_distinct (as_items s)" "lookup (as_items s) i = Some meta" "pinned meta"
  shows "kept i s (snd (make_room env cls quota sz s))"
proof -
  let ?ids = "take_until (as_items s) (max (wrap64 (quota - sz)) 0) (lruCandidatesLocked cls [] s) (usageByClassLocked cls s)"
  have "kept i s (snd (deleteIDsLocked env ?ids s))" using pinned_no_candidate [OF assms] by (rule deleteIDsLocked_frame)
  then show ?thesis
    by (cases "deleteIDsLocked env ?ids s"; cases "fst (deleteIDsLocked env ?ids s)") (auto simp: make_room_def Let_def)
qed

lemma make_room_distinct:
  assumes "keys_distinct (as_items s)" shows "keys_distinct (as_items (snd (make_room env cls quota sz s)))"
proof -
  let ?ids = "take_until (as_items s) (max (wrap64 (quota - sz)) 0) (lruCandidatesLocked cls [] s) (usageByClassLocked cls s)"
  have "keys_distinct (as_items (snd (deleteIDsLocked env ?ids s)))" using assms by (rule deleteIDsLocked_distinct)
  then show ?thesis using assms
    by (cases "deleteIDsLocked env ?ids s"; cases "fst (deleteIDsLocked env ?ids s)") (auto simp: make_room_def Let_def)
qed

lemma count_hit_kept [simp]: "kept i s (count_hit cls s)" "as_items (count_hit cls s) = as_items s"
  by (simp_all add: count_hit_def kept_def)

lemma enforceClassLimits_kept:
  assumes "keys_distinct (as_items s)" "lookup (as_items s) i = Some meta" "pinned meta"
  shows "kept i s (snd (enforceClassLimitsLocked env cls sz s))"
  using make_room_kept [OF assms] by (simp add: enforceClassLimitsLocked_def split: prod.split)

lemma enforceClassLimits_distinct:
  assumes "keys_distinct (as_items s)" shows "keys_distinct (as_items (snd (enforceClassLimitsLocked env cls sz s)))"
  using make_room_distinct [OF assms] assms by (simp add: enforceClassLimitsLocked_def split: prod.split)

lemma write_attachment_cases:
  obtains (data_failed) e f where "write_attachment undo env meta blob s = (Some e, s\<lparr>as_files := f\<rparr>)"
      "\<And>i. i \<noteq> am_ID meta \<Longrightarrow> lookup f i = lookup (as_files s) i"
  | (index_failed) e f x where "write_attachment undo env meta blob s = (Some e, s\<lparr>as_files := f, as_indexFile := x\<rparr>)"
      "\<And>i. i \<noteq> am_ID meta \<Longrightarrow> lookup f i = lookup (as_files s) i"
  | (written) x where "write_attachment undo env meta blob s =
      (None, s\<lparr>as_files := put (am_ID meta) blob (as_files s), as_indexFile := x, as_items := put (am_ID meta) meta (as_items s)\<rparr>)"
      "persistItemsLocked env (put (am_ID meta) meta (as_items s)) (s\<lparr>as_files := put (am_ID meta) blob (as_files s)\<rparr>) =
        (None, s\<lparr>as_files := put (am_ID meta) blob (as_files s), as_indexFile := x\<rparr>)"
proof (cases "ae_write env (am_ID meta)")
  case (Some w)
  obtain e left where w: "w = (e, left)" by fastforce
  let ?f = "case left of None \<Rightarrow> as_files s | Some b \<Rightarrow> put (am_ID meta) b (as_files s)"
  have "write_attachment undo env meta blob s = (Some e, s\<lparr>as_files := ?f\<rparr>)" using Some w by (simp add: write_attachment_def write_data_def)
  then show ?thesis by (rule data_failed) (simp split: option.split)
next
  case None
  let ?s = "s\<lparr>as_files := put (am_ID meta) blob (as_files s)\<rparr>" and ?items = "put (am_ID meta) meta (as_items s)"
  have data: "write_data env (am_ID meta) blob s = (None, ?s)" using None by (simp add: write_data_def)
  obtain r x where p: "persistItemsLocked env ?items ?s = (r, ?s\<lparr>as_indexFile := x\<rparr>)"
    using persistItemsLocked_state [of env ?items ?s] by (metis prod.collapse)
  show ?thesis
  proof (cases r)
    case None
    then show ?thesis using data p by (intro written [of x]) (simp_all add: write_attachment_def replace_items_def)
  next
    case (Some e)
    let ?f = "if undo \<and> ae_remove env (am_ID meta) = None then del (am_ID meta) (put (am_ID meta) blob (as_files s)) else put (am_ID meta) blob (as_files s)"
    have "write_attachment undo env meta blob s = (Some e, s\<lparr>as_files := ?f, as_indexFile := x\<rparr>)"
      using Some data p by (simp add: write_attachment_def replace_items_def)
    then show ?thesis by (rule index_failed) simp
  qed
qed

lemma write_attachment_kept:
  assumes "am_ID meta \<noteq> i" shows "kept i s (snd (write_attachment undo env meta blob s))"
proof (cases rule: write_attachment_cases [of undo env meta blob s])
  case (data_failed e f) then show ?thesis using assms by (simp add: kept_def)
next
  case (index_failed e f x) then show ?thesis using assms by (simp add: kept_def)
next
  case (written x) then show ?thesis using assms by (simp add: kept_def)
qed

lemma write_attachment_distinct:
  assumes "keys_distinct (as_items s)" shows "keys_distinct (as_items (snd (write_attachment undo env meta blob s)))"
  using assms by (cases rule: write_attachment_cases [of undo env meta blob s]) simp_all

lemma write_attachment_items:
  "write_attachment undo env meta blob s = (None, s') \<Longrightarrow> as_items s' = put (am_ID meta) meta (as_items s)"
  by (cases rule: write_attachment_cases [of undo env meta blob s]) auto

lemma store_attachment_kept:
  assumes "am_ID meta \<noteq> i" shows "kept i s (snd (store_attachment undo env meta data s))"
proof -
  have "kept i s (s\<lparr>as_items := put (am_ID meta) meta (as_items s)\<rparr>)"
    "kept i s (s\<lparr>as_items := put (am_ID meta) meta (as_items s), as_blobs := put (am_ID meta) data (as_blobs s)\<rparr>)"
    using assms by (simp_all add: kept_def)
  then show ?thesis using write_attachment_kept [OF assms] by (simp add: store_attachment_def split: option.split sum.split)
qed

lemma store_attachment_distinct:
  assumes "keys_distinct (as_items s)" shows "keys_distinct (as_items (snd (store_attachment undo env meta data s)))"
  using write_attachment_distinct [OF assms] assms by (simp add: store_attachment_def split: option.split sum.split)

lemma store_attachment_items:
  assumes "store_attachment undo env meta data s = (None, s')" shows "as_items s' = put (am_ID meta) meta (as_items s)"
  using assms write_attachment_items
  by (auto simp: store_attachment_def split: if_splits option.splits sum.splits)

text \<open>Both uploads: make room, then store.\<close>

lemma upload_kept:
  assumes "keys_distinct (as_items s)" "lookup (as_items s) i = Some m" "pinned m" "am_ID meta \<noteq> i"
    and "enforceClassLimitsLocked env cls sz s = (None, s1)"
  shows "kept i s (snd (store_attachment undo env meta data s1))"
proof -
  have "kept i s s1" using enforceClassLimits_kept [OF assms(1-3), of env cls sz] assms(5) by simp
  then show ?thesis using store_attachment_kept [OF assms(4)] by (rule kept_trans)
qed

lemma upload_distinct:
  assumes "keys_distinct (as_items s)" "enforceClassLimitsLocked env cls sz s = (None, s1)"
  shows "keys_distinct (as_items (snd (store_attachment undo env meta data s1)))"
  by (rule store_attachment_distinct) (use enforceClassLimits_distinct [OF assms(1), of env cls sz] assms(2) in simp)

lemma attachment_Put_state:
  "snd (attachment_Put env name mimeType data s) =
     (if data = [] then s
      else case newAttachmentID (ae_id env) of
             Inl _ \<Rightarrow> s
           | Inr i \<Rightarrow>
               (let meta = new_meta (ae_now env) i name mimeType data; e = enforceClassLimitsLocked env (am_Class meta) (am_Size meta) s
                in if fst e = None then snd (store_attachment True env meta data (snd e)) else snd e))"
  by (simp add: attachment_Put_def orFail_def Let_def split: sum.split prod.split option.split)

lemma PutExisting_state:
  "snd (PutExisting env meta data s) =
     (if blank (am_ID meta) \<or> data = [] then s
      else
        let meta = with_defaults_meta (ae_now env) data meta; e = enforceClassLimitsLocked env (am_Class meta) (am_Size meta) s
        in if fst e = None then snd (store_attachment False env meta data (snd e)) else snd e)"
  by (simp add: PutExisting_def Let_def split: prod.split option.split)

lemma ids_of_new_meta [simp]:
  "am_ID (new_meta now i name mimeType data) = i" "am_ID (with_defaults_meta now data meta) = am_ID meta"
  by (simp_all add: new_meta_def with_defaults_meta_def Let_def)

lemma touchLastAccess_kept: "kept i s (snd (touchLastAccess env j t s))"
  by (auto simp: touchLastAccess_def intro!: kept_replace_items split: option.split)

lemma touchLastAccess_distinct: "keys_distinct (as_items s) \<Longrightarrow> keys_distinct (as_items (snd (touchLastAccess env j t s)))"
  by (auto simp: touchLastAccess_def intro!: distinct_replace_items split: option.split)

lemma attachment_Get_state:
  "snd (attachment_Get env j s) = s \<or> snd (attachment_Get env j s) = snd (touchLastAccess env j (ae_now env) s)"
  by (simp add: attachment_Get_def split: option.split sum.split)

text \<open>A pinned attachment keeps its data through every call that does not address it.\<close>

lemma attachment_run_kept:
  assumes "keys_distinct (as_items s)" "lookup (as_items s) i = Some meta" "pinned meta" "spares i call"
  shows "kept i s (attachment_run call s)"
proof (cases call)
  case (PutOp env name mimeType data)
  then show ?thesis
    using assms(4) upload_kept [OF assms(1-3)] enforceClassLimits_kept [OF assms(1-3)]
    by (auto simp: attachment_Put_state Let_def prod_eq_iff split: sum.split)
next
  case (PutExistingOp env meta data)
  then show ?thesis
    using assms(4) upload_kept [OF assms(1-3)] enforceClassLimits_kept [OF assms(1-3)]
    by (auto simp: PutExisting_state Let_def prod_eq_iff)
next
  case (GetOp env j)
  then show ?thesis using attachment_Get_state [of env j s] touchLastAccess_kept by auto
next
  case (PinOp env j pinState)
  then show ?thesis using assms(4) by (auto simp: SetPinState_def Let_def intro!: kept_replace_items split: option.split)
next
  case (GCOp env now imageTTL fileTTL dryRun)
  let ?ids = "map fst (gc_marked (if now = 0 then ae_now env else now) imageTTL fileTTL s)"
  have "i \<notin> set ?ids" using gc_marked_unpinned [OF assms(1)] assms(2,3) by (metis option.inject set_map)
  then have "kept i s (snd (deleteIDsLocked env ?ids s))" by (rule deleteIDsLocked_frame)
  then show ?thesis using GCOp by (auto simp: RunGC_def runGCLocked_def Let_def split: prod.splits option.splits)
qed (simp_all add: kept_def SetClassPolicies_def SetHardCapPolicy_def attachment_SetPersistenceEnabled_def Let_def)

lemma attachment_run_distinct:
  assumes "keys_distinct (as_items s)" shows "keys_distinct (as_items (attachment_run call s))"
proof (cases call)
  case (PutOp env name mimeType data)
  then show ?thesis
    using assms upload_distinct [OF assms] enforceClassLimits_distinct [OF assms]
    by (auto simp: attachment_Put_state Let_def prod_eq_iff split: sum.split)
next
  case (PutExistingOp env meta data)
  then show ?thesis
    using assms upload_distinct [OF assms] enforceClassLimits_distinct [OF assms] by (auto simp: PutExisting_state Let_def prod_eq_iff)
next
  case (GetOp env j)
  then show ?thesis using attachment_Get_state [of env j s] touchLastAccess_distinct [OF assms] assms by auto
next
  case (PinOp env j pinState)
  then show ?thesis using assms by (auto simp: SetPinState_def Let_def intro!: distinct_replace_items split: option.split)
next
  case (GCOp env now imageTTL fileTTL dryRun)
  let ?ids = "map fst (gc_marked (if now = 0 then ae_now env else now) imageTTL fileTTL s)"
  have "keys_distinct (as_items (snd (deleteIDsLocked env ?ids s)))" using assms by (rule deleteIDsLocked_distinct)
  then show ?thesis using GCOp assms by (auto simp: RunGC_def runGCLocked_def Let_def split: prod.splits option.splits)
qed (use assms in \<open>simp_all add: SetClassPolicies_def SetHardCapPolicy_def attachment_SetPersistenceEnabled_def Let_def\<close>)

lemma pinned_untouched: "untouched m = untouched m' \<Longrightarrow> pinned m = pinned m'"
  by (cases m, cases m') (simp add: pinned_def)

lemma attachment_runs_kept:
  assumes "keys_distinct (as_items s)" "lookup (as_items s) i = Some meta" "pinned meta" "list_all (spares i) calls"
  shows "kept i s (fold attachment_run calls s)"
  using assms
proof (induction calls arbitrary: s meta)
  case (Cons call calls)
  let ?s = "attachment_run call s"
  have step: "kept i s ?s" using attachment_run_kept [OF Cons.prems(1-3)] Cons.prems(4) by simp
  then obtain meta' where meta': "lookup (as_items ?s) i = Some meta'" "untouched meta' = untouched meta"
    using Cons.prems(2) by (auto simp: kept_def)
  have "kept i ?s (fold attachment_run calls ?s)"
    using Cons.IH [OF attachment_run_distinct [OF Cons.prems(1)] meta'(1)] pinned_untouched [OF meta'(2)] Cons.prems(3,4) by simp
  with step show ?case by (simp add: kept_trans)
qed simp

lemma kept_same_data:
  assumes "kept i s s'" "fst (attachment_Get env i s) = Inr (meta, data)"
  shows "\<exists>meta'. fst (attachment_Get env i s') = Inr (meta', data) \<and> untouched meta' = untouched meta"
proof -
  obtain m where m: "lookup (as_items s) i = Some m" using assms(2) by (cases "lookup (as_items s) i") (auto simp: attachment_Get_def)
  then obtain m' where m': "lookup (as_items s') i = Some m'" "untouched m' = untouched m" using assms(1) by (auto simp: kept_def)
  show ?thesis using assms m m' by (auto simp: attachment_Get_def kept_def split: option.splits if_splits sum.splits)
qed

section \<open>Pinned attachments survive\<close>


section \<open>Quotas\<close>

text \<open>The bytes of a class, as a number that does not wrap.\<close>

definition class_total :: "string \<Rightarrow> attachment_items \<Rightarrow> int" where
  "class_total cls items = sum_list (map (\<lambda>(_, meta). if meta_class meta = ToLower (TrimSpace cls) then am_Size meta else 0) items)"

definition sizes_ok :: "attachment_items \<Rightarrow> bool" where
  "sizes_ok items \<longleftrightarrow> list_all (\<lambda>(_, meta). 0 \<le> am_Size meta) items"

lemma wrap64_id: "- (2 ^ 63) \<le> x \<Longrightarrow> x < 2 ^ 63 \<Longrightarrow> wrap64 x = x"
  by (simp add: wrap64_def)

lemma wrap64_add [simp]: "wrap64 (wrap64 x + y) = wrap64 (x + y)"
  unfolding wrap64_def by (simp add: mod_simps algebra_simps)

lemma sum_sizes_eq: "fold (\<lambda>meta acc. wrap64 (acc + am_Size meta)) metas (wrap64 acc) = wrap64 (acc + sum_list (map am_Size metas))"
proof (induction metas arbitrary: acc)
  case (Cons meta metas)
  then show ?case by (simp add: add.assoc)
qed simp

lemma usage_eq_total: "usageByClassLocked cls s = wrap64 (class_total cls (as_items s))"
proof -
  have "sum_list (map am_Size (filter P (map snd items))) = sum_list (map (\<lambda>(_, meta). if P meta then am_Size meta else 0) items)"
    for P and items :: attachment_items by (induction items) auto
  moreover have "wrap64 0 = 0" by (simp add: wrap64_def)
  ultimately show ?thesis
    using sum_sizes_eq [of "filter (\<lambda>meta. meta_class meta = ToLower (TrimSpace cls)) (map snd (as_items s))" 0]
    unfolding usageByClassLocked_def sum_sizes_def class_total_def by (simp only: add_0)
qed

lemma class_total_nonneg: "sizes_ok items \<Longrightarrow> 0 \<le> class_total cls items"
  by (induction items) (auto simp: sizes_ok_def class_total_def)

lemma class_total_filter: "sizes_ok items \<Longrightarrow> class_total cls (filter P items) \<le> class_total cls items"
  by (induction items) (auto simp: sizes_ok_def class_total_def)

lemma class_total_put: "sizes_ok items \<Longrightarrow> 0 \<le> am_Size meta \<Longrightarrow> class_total cls (put i meta items) \<le> class_total cls items + am_Size meta"
  by (induction items) (auto simp: sizes_ok_def class_total_def)

lemma sizes_ok_filter: "sizes_ok items \<Longrightarrow> sizes_ok (filter P items)"
  by (induction items) (auto simp: sizes_ok_def)

text \<open>An upload that gets past the limits fits, and has evicted at most the ids of \<open>make_room\<close>.\<close>

lemma enforceClassLimits_fits:
  assumes "enforceClassLimitsLocked env cls sz s = (None, s1)" "classLimitsLocked cls s = (maxItem, quota)"
  obtains ids where "0 < maxItem \<Longrightarrow> sz \<le> maxItem"
    "0 < quota \<Longrightarrow> wrap64 (usageByClassLocked cls s1 + sz) \<le> quota"
    "as_items s1 = filter (\<lambda>(i, _). i \<notin> set ids) (as_items s)"
    "ids = [] \<or> ids = take_until (as_items s) (max (wrap64 (quota - sz)) 0) (lruCandidatesLocked cls [] s) (usageByClassLocked cls s)"
    "\<forall>i. i \<notin> set ids \<longrightarrow> kept i s s1" "as_persist s1 = as_persist s" "as_dir s1 = as_dir s" "as_secret s1 = as_secret s"
proof -
  let ?ids = "take_until (as_items s) (max (wrap64 (quota - sz)) 0) (lruCandidatesLocked cls [] s) (usageByClassLocked cls s)"
  have item: "0 < maxItem \<Longrightarrow> sz \<le> maxItem" using assms by (auto simp: enforceClassLimitsLocked_def split: if_splits)
  show thesis
  proof (cases "0 < quota \<and> wrap64 (usageByClassLocked cls s + sz) > quota")
    case True
    then have room: "make_room env cls quota sz s = (None, s1)" using assms by (auto simp: enforceClassLimitsLocked_def split: if_splits)
    then have fits: "wrap64 (usageByClassLocked cls s1 + sz) \<le> quota"
      by (auto simp: make_room_def Let_def split: prod.splits option.splits if_splits)
    show thesis
    proof (cases "usageByClassLocked cls s > max (wrap64 (quota - sz)) 0")
      case True
      then have del: "deleteIDsLocked env ?ids s = (None, s1)"
        using room by (auto simp: make_room_def Let_def split: prod.splits option.splits if_splits)
      have frame: "\<forall>i. i \<notin> set ?ids \<longrightarrow> kept i s s1" using deleteIDsLocked_frame [of _ ?ids s env] del by simp
      from del obtain b f x where s1: "s1 = s\<lparr>as_items := filter (\<lambda>(i, _). i \<notin> set ?ids) (as_items s), as_blobs := b, as_files := f, as_indexFile := x\<rparr>"
        by (cases rule: deleteIDsLocked_cases [of env ?ids s]) auto
      show thesis by (rule that [of ?ids]) (use item fits frame s1 in simp_all)
    next
      case False
      then have "s1 = s" using room by (auto simp: make_room_def Let_def split: if_splits)
      then show thesis by (intro that [of "[]"]) (use item fits in simp_all)
    qed
  next
    case False
    then have "s1 = s" using assms by (auto simp: enforceClassLimitsLocked_def split: if_splits)
    then show thesis by (intro that [of "[]"]) (use item False in auto)
  qed
qed

lemma take_until_prefix:
  assumes "\<And>i. i \<in> set ids \<Longrightarrow> lookup items i \<noteq> None"
  shows "\<exists>n. take_until items target ids usage = take n ids"
  using assms
proof (induction ids arbitrary: usage)
  case (Cons i ids)
  obtain meta where meta: "lookup items i = Some meta" using Cons.prems by (metis list.set_intros(1) not_None_eq)
  obtain n where "take_until items target ids (wrap64 (usage - am_Size meta)) = take n ids" using Cons.IH Cons.prems by (metis list.set_intros(2))
  then have "take_until items target (i # ids) usage = (if wrap64 (usage - am_Size meta) \<le> target then take 1 (i # ids) else take (Suc n) (i # ids))"
    using meta by (simp add: Let_def)
  then show ?case by metis
qed simp

text \<open>The candidates are in order of their last use.\<close>

lemma lru_order:
  assumes "keys_distinct (as_items s)" "lruCandidatesLocked cls excluded s = ids @ ids'" "i \<in> set ids" "j \<in> set ids'"
    and "lookup (as_items s) i = Some m" "lookup (as_items s) j = Some m'"
  shows "last_used m \<le> last_used m'"
proof -
  define cs where "cs = sort_key (\<lambda>(_, meta). last_used meta) (sort_key fst
       (filter (\<lambda>(i, meta). lookup excluded i = None \<and> \<not> pinned meta \<and> normalizedClass meta = ToLower (TrimSpace cls)) (as_items s)))"
  have sub: "set cs \<subseteq> set (as_items s)" unfolding cs_def set_sort set_filter by blast
  have "map fst cs = ids @ ids'" using assms(2) by (simp add: lruCandidatesLocked_def cs_def)
  then obtain us vs where cs: "cs = us @ vs" "ids = map fst us" "ids' = map fst vs" by (metis append_eq_map_conv)
  obtain x where x: "(i, x) \<in> set us" using assms(3) cs(2) by auto
  obtain y where y: "(j, y) \<in> set vs" using assms(4) cs(3) by auto
  have "sorted (map (\<lambda>(_, meta). last_used meta) cs)" unfolding cs_def by (rule sorted_sort_key)
  then have "last_used x \<le> last_used y" using x y cs(1) by (force simp: sorted_append)
  moreover have "x = m" "y = m'"
    using sub cs(1) x y assms(1,5,6) lookup_iff_mem [OF assms(1)] by (fastforce, fastforce)
  ultimately show ?thesis by simp
qed

lemma upload_evicts_oldest:
  assumes "keys_distinct (as_items s)" "enforceClassLimitsLocked env cls sz s = (None, s1)"
    and "lookup (as_items s) i = Some m" "lookup (as_items s1) i = None"
  shows "\<not> pinned m" "normalizedClass m = ToLower (TrimSpace cls)"
    "lookup (as_items s1) j = Some m' \<Longrightarrow> \<not> pinned m' \<Longrightarrow> normalizedClass m' = ToLower (TrimSpace cls) \<Longrightarrow> last_used m \<le> last_used m'"
proof -
  let ?cs = "lruCandidatesLocked cls [] s"
  obtain maxItem quota where limits: "classLimitsLocked cls s = (maxItem, quota)" by fastforce
  obtain ids where ids: "as_items s1 = filter (\<lambda>(i, _). i \<notin> set ids) (as_items s)"
    "ids = [] \<or> ids = take_until (as_items s) (max (wrap64 (quota - sz)) 0) ?cs (usageByClassLocked cls s)"
    using enforceClassLimits_fits [OF assms(2) limits] by metis
  have i: "i \<in> set ids" using assms(3,4) ids(1) lookup_filter_key [of "\<lambda>k. k \<notin> set ids" "as_items s" i] by (auto split: if_splits)
  have "lookup (as_items s) k \<noteq> None" if "k \<in> set ?cs" for k using lruCandidates_unpinned [OF assms(1) that] by (metis option.distinct(1))
  then obtain n where n: "ids = take n ?cs" using ids(2) i take_until_prefix [of ?cs "as_items s"] by (metis empty_iff list.set(1))
  then have "i \<in> set ?cs" using i in_set_takeD by metis
  then show "\<not> pinned m" "normalizedClass m = ToLower (TrimSpace cls)" using lruCandidates_unpinned [OF assms(1)] assms(3) by (metis option.inject)+
  assume j: "lookup (as_items s1) j = Some m'" "\<not> pinned m'" "normalizedClass m' = ToLower (TrimSpace cls)"
  then have stay: "j \<notin> set ids" "lookup (as_items s) j = Some m'"
    using ids(1) lookup_filter_key [of "\<lambda>k. k \<notin> set ids" "as_items s" j] by (auto split: if_splits)
  then have "j \<in> set ?cs" using j lookup_mem [OF stay(2)] by (auto simp: lruCandidates_mem)
  then have "j \<in> set (drop n ?cs)" using stay(1) n by (metis Un_iff append_take_drop_id set_append)
  then show "last_used m \<le> last_used m'" using lru_order [OF assms(1), of cls "[]" "take n ?cs" "drop n ?cs"] i n assms(3) stay(2) by simp
qed

lemma attachment_Put_cases:
  assumes "attachment_Put env name mimeType data s = (Inr meta, s')"
  obtains i s1 where "meta = new_meta (ae_now env) i name mimeType data" "newAttachmentID (ae_id env) = Inr i" "data \<noteq> []"
    "enforceClassLimitsLocked env (am_Class meta) (am_Size meta) s = (None, s1)" "store_attachment True env meta data s1 = (None, s')"
  using assms by (auto simp: attachment_Put_def orFail_def Let_def split: if_splits sum.splits prod.splits option.splits)

lemma class_literals [simp]:
  "ToLower (TrimSpace ''image'') = ''image''" "ToLower (TrimSpace ''file'') = ''file''" "TrimSpace ''unpinned'' = ''unpinned''"
  "\<not> blank ''image''" "\<not> blank ''file''" "\<not> blank ''unpinned''"
  by code_simp+

lemma new_meta_simps [simp]:
  "am_Size (new_meta now i name mimeType data) = int (length data)"
  "ToLower (TrimSpace (am_Class (new_meta now i name mimeType data))) = am_Class (new_meta now i name mimeType data)"
  "pinned (new_meta now i name mimeType data) = False"
  by (simp_all add: new_meta_def Let_def ClassifyAttachmentMime_def pinned_def)

section \<open>Uploads stay within the quota\<close>

text \<open>
  C13: When an upload succeeds, its size is within the limit for one item and the class as a whole is within its quota, if they are set.
  An attachment that had to go for it was unpinned, of the same class, and not used more recently than any unpinned one of the class
  that stays. The sum of the sizes is assumed not to leave the range of \<open>int64\<close>.
\<close>

theorem upload_within_quota:
  assumes "keys_distinct (as_items s)" "sizes_ok (as_items s)"
    and "attachment_Put env name mimeType data s = (Inr meta, s')"
    and "class_total (am_Class meta) (as_items s) + int (length data) < 2 ^ 63"
    and "classLimitsLocked (am_Class meta) s = (maxItem, quota)"
  shows "(0 < maxItem \<longrightarrow> int (length data) \<le> maxItem) \<and>
    (0 < quota \<longrightarrow> class_total (am_Class meta) (as_items s') \<le> quota) \<and>
    (\<forall>i m. lookup (as_items s) i = Some m \<and> lookup (as_items s') i = None \<longrightarrow>
       \<not> pinned m \<and> normalizedClass m = am_Class meta \<and>
       (\<forall>j m'. lookup (as_items s') j = Some m' \<and> j \<noteq> am_ID meta \<and> \<not> pinned m' \<and> normalizedClass m' = am_Class meta \<longrightarrow>
          last_used m \<le> last_used m'))"
proof -
  obtain i s1 where put: "meta = new_meta (ae_now env) i name mimeType data"
    "enforceClassLimitsLocked env (am_Class meta) (am_Size meta) s = (None, s1)" "store_attachment True env meta data s1 = (None, s')"
    using assms(3) by (rule attachment_Put_cases)
  have sz: "am_Size meta = int (length data)" and cls: "ToLower (TrimSpace (am_Class meta)) = am_Class meta" using put(1) by simp_all
  have items: "as_items s' = put (am_ID meta) meta (as_items s1)" using put(3) by (rule store_attachment_items)
  obtain ids where fits: "0 < maxItem \<Longrightarrow> am_Size meta \<le> maxItem"
    "0 < quota \<Longrightarrow> wrap64 (usageByClassLocked (am_Class meta) s1 + am_Size meta) \<le> quota"
    "as_items s1 = filter (\<lambda>(i, _). i \<notin> set ids) (as_items s)"
    using enforceClassLimits_fits [OF put(2) assms(5)] by metis
  let ?t = "class_total (am_Class meta)"
  have ok: "sizes_ok (as_items s1)" "?t (as_items s1) \<le> ?t (as_items s)" "0 \<le> ?t (as_items s1)"
    using assms(2) fits(3) by (simp_all add: sizes_ok_filter class_total_filter class_total_nonneg)
  then have "wrap64 (usageByClassLocked (am_Class meta) s1 + am_Size meta) = ?t (as_items s1) + am_Size meta"
    using assms(4) sz by (simp add: usage_eq_total wrap64_id)
  moreover have "?t (as_items s') \<le> ?t (as_items s1) + am_Size meta" unfolding items by (rule class_total_put) (use ok(1) sz in simp_all)
  ultimately have "0 < quota \<longrightarrow> ?t (as_items s') \<le> quota" using fits(2) by linarith
  moreover have "lookup (as_items s1) j = (if j = am_ID meta then lookup (as_items s1) j else lookup (as_items s') j)" for j by (simp add: items)
  ultimately show ?thesis
    using fits(1) sz upload_evicts_oldest [OF assms(1) put(2)] cls by (metis items lookup_put option.distinct(1))
qed

section \<open>Refused uploads\<close>

definition pinned_total :: "string \<Rightarrow> attachment_items \<Rightarrow> int" where
  "pinned_total cls items = sum_list (map (\<lambda>(_, meta). if pinned meta \<and> meta_class meta = ToLower (TrimSpace cls) then am_Size meta else 0) items)"

definition plain_items :: "attachment_items \<Rightarrow> bool" where
  "plain_items items \<longleftrightarrow> list_all (\<lambda>(_, meta). 0 < am_Size meta \<and> meta_class meta \<in> {''image'', ''file''}) items"

lemma plain_items_sizes: "plain_items items \<Longrightarrow> sizes_ok items"
  by (induction items) (auto simp: plain_items_def sizes_ok_def)

lemma pinned_total_bounds:
  assumes "sizes_ok items" shows "0 \<le> pinned_total cls items" "pinned_total cls items \<le> class_total cls items"
  using assms by (induction items) (auto simp: sizes_ok_def pinned_total_def class_total_def)

lemma pinned_total_filter:
  "\<forall>(i, meta) \<in> set items. pinned meta \<longrightarrow> P i \<Longrightarrow> pinned_total cls (filter (\<lambda>(i, _). P i) items) = pinned_total cls items"
  by (induction items) (auto simp: pinned_total_def)

lemma class_total_split:
  "plain_items items \<Longrightarrow> pinned_total cls items +
     sum_list (map (\<lambda>e. am_Size (snd e)) (filter (\<lambda>(_, meta). \<not> pinned meta \<and> normalizedClass meta = ToLower (TrimSpace cls)) items)) =
     class_total cls items"
proof (induction items)
  case (Cons e items)
  obtain i meta where e: "e = (i, meta)" by fastforce
  have "normalizedClass meta = meta_class meta" using Cons.prems e by (auto simp: plain_items_def normalizedClass_def)
  then show ?case using Cons e by (simp add: plain_items_def pinned_total_def class_total_def)
qed (simp add: pinned_total_def class_total_def)

lemma candidate_size:
  assumes "keys_distinct (as_items s)" "plain_items (as_items s)" "i \<in> set (lruCandidatesLocked cls [] s)"
  obtains meta where "lookup (as_items s) i = Some meta" "0 < am_Size meta" "\<not> pinned meta"
proof -
  obtain meta where meta: "lookup (as_items s) i = Some meta" "\<not> pinned meta" using assms(1,3) by (rule lruCandidates_unpinned)
  then have "0 < am_Size meta" using lookup_mem assms(2) by (fastforce simp: plain_items_def list_all_iff)
  with meta that show thesis by blast
qed

lemma candidates_total:
  assumes "keys_distinct (as_items s)" "plain_items (as_items s)"
  shows "class_total cls (as_items s) = pinned_total cls (as_items s) +
    sum_list (map (\<lambda>i. am_Size (the (lookup (as_items s) i))) (lruCandidatesLocked cls [] s))"
proof -
  let ?P = "\<lambda>(i, meta). lookup ([] :: (string, string) gomap) i = None \<and> \<not> pinned meta \<and> normalizedClass meta = ToLower (TrimSpace cls)"
  let ?f = "\<lambda>(_, meta). last_used meta" and ?items = "as_items s"
  let ?size = "\<lambda>i. am_Size (the (lookup ?items i))"
  have "mset (sort_key ?f (sort_key fst (filter ?P ?items))) = mset (filter ?P ?items)" by simp
  then have "sum_list (map ?size (lruCandidatesLocked cls [] s)) = sum_list (map (\<lambda>e. ?size (fst e)) (filter ?P ?items))"
    unfolding lruCandidatesLocked_def map_map by (metis (no_types, lifting) comp_apply map_cong mset_map sum_mset_sum_list)
  also have "\<dots> = sum_list (map (\<lambda>e. am_Size (snd e)) (filter ?P ?items))"
    by (intro arg_cong [of _ _ sum_list] map_cong refl) (use assms(1) in \<open>auto simp: lookup_iff_mem\<close>)
  also have "pinned_total cls ?items + \<dots> = class_total cls ?items"
    using class_total_split [OF assms(2)] by simp
  finally show ?thesis by simp
qed

lemma take_until_all:
  assumes "\<And>i. i \<in> set ids \<Longrightarrow> \<exists>meta. lookup items i = Some meta \<and> 0 < am_Size meta"
    and "usage = rest + sum_list (map (\<lambda>i. am_Size (the (lookup items i))) ids)" "0 \<le> rest" "target \<le> rest" "usage < 2 ^ 63"
  shows "take_until items target ids usage = ids"
  using assms
proof (induction ids arbitrary: usage)
  case (Cons i ids)
  let ?sum = "\<lambda>ids. sum_list (map (\<lambda>i. am_Size (the (lookup items i))) ids)"
  obtain meta where meta: "lookup items i = Some meta" "0 < am_Size meta" using Cons.prems(1) by (meson list.set_intros(1))
  have pos: "0 \<le> ?sum ids" by (rule sum_list_nonneg) (use Cons.prems(1) in \<open>fastforce simp: less_imp_le\<close>)
  have left: "wrap64 (usage - am_Size meta) = rest + ?sum ids" using Cons.prems(2-5) meta pos by (simp add: wrap64_id)
  have "take_until items target ids (rest + ?sum ids) = ids" using Cons.IH [of "rest + ?sum ids"] Cons.prems meta by simp
  moreover have "ids = []" if "rest + ?sum ids \<le> target"
  proof (cases ids)
    case (Cons j js)
    obtain m where "lookup items j = Some m" "0 < am_Size m" using Cons.prems(1) \<open>ids = j # js\<close> by (metis list.set_intros)
    moreover have "0 \<le> ?sum js" by (rule sum_list_nonneg) (use Cons.prems(1) \<open>ids = j # js\<close> in \<open>fastforce simp: less_imp_le\<close>)
    ultimately show ?thesis using that Cons.prems(4) \<open>ids = j # js\<close> by simp
  qed simp
  ultimately show ?case using meta left by (auto simp: Let_def)
qed simp

text \<open>Making room for what cannot fit beside the pinned attachments takes every candidate, and fails.\<close>

lemma room_beside_pinned:
  assumes "keys_distinct (as_items s)" "plain_items (as_items s)" "0 < quota" "0 \<le> sz"
    and "class_total cls (as_items s) + sz < 2 ^ 63" "pinned_total cls (as_items s) + sz > quota"
  defines "target \<equiv> max (wrap64 (quota - sz)) 0"
  shows "usageByClassLocked cls s = class_total cls (as_items s)" "wrap64 (usageByClassLocked cls s + sz) > quota"
    "target \<le> pinned_total cls (as_items s)"
    "take_until (as_items s) target (lruCandidatesLocked cls [] s) (usageByClassLocked cls s) = lruCandidatesLocked cls [] s"
proof -
  let ?cs = "lruCandidatesLocked cls [] s" and ?items = "as_items s"
  note b = pinned_total_bounds [OF plain_items_sizes [OF assms(2)], of cls]
  show usage: "usageByClassLocked cls s = class_total cls ?items" using b assms(4,5) by (simp add: usage_eq_total wrap64_id)
  show "wrap64 (usageByClassLocked cls s + sz) > quota" using b assms(4-6) by (simp add: usage wrap64_id)
  show target: "target \<le> pinned_total cls ?items" using b assms(3-6) by (auto simp: target_def wrap64_id)
  have cand: "\<exists>m. lookup ?items i = Some m \<and> 0 < am_Size m" if "i \<in> set ?cs" for i
    using candidate_size [OF assms(1,2) that] by metis
  have total: "usageByClassLocked cls s = pinned_total cls ?items + sum_list (map (\<lambda>i. am_Size (the (lookup ?items i))) ?cs)"
    using candidates_total [OF assms(1,2)] usage by simp
  have small: "usageByClassLocked cls s < 2 ^ 63" using usage assms(4,5) by simp
  show "take_until ?items target ?cs (usageByClassLocked cls s) = ?cs" by (rule take_until_all [OF cand total b(1) target small])
qed

lemma candidate_over_pinned:
  assumes "keys_distinct (as_items s)" "plain_items (as_items s)" "i \<in> set (lruCandidatesLocked cls [] s)"
  shows "pinned_total cls (as_items s) < class_total cls (as_items s)"
proof -
  let ?cs = "lruCandidatesLocked cls [] s" and ?size = "\<lambda>i. am_Size (the (lookup (as_items s) i))"
  have cand: "0 < ?size j" if "j \<in> set ?cs" for j using candidate_size [OF assms(1,2) that] by (metis option.sel)
  have "?size i \<le> sum_list (map ?size ?cs)"
    by (rule member_le_sum_list) (use assms(3) cand in \<open>auto simp: less_imp_le\<close>)
  then show ?thesis using candidates_total [OF assms(1,2), of cls] cand [OF assms(3)] by simp
qed

lemma make_room_refuses:
  assumes "keys_distinct (as_items s)" "plain_items (as_items s)" "0 < quota" "0 \<le> sz"
    and "class_total cls (as_items s) + sz < 2 ^ 63" "pinned_total cls (as_items s) + sz > quota"
    and "\<forall>ids. fst (deleteIDsLocked env ids s) = None"
  obtains s1 where "make_room env cls quota sz s = (Some (ErrText ''attachment class quota exceeded''), s1)"
    "\<And>i. i \<in> set (lruCandidatesLocked cls [] s) \<Longrightarrow> lookup (as_items s1) i = None"
proof -
  let ?cs = "lruCandidatesLocked cls [] s" and ?target = "max (wrap64 (quota - sz)) 0" and ?items = "as_items s"
  note room = room_beside_pinned [OF assms(1-6)]
  define ids where "ids = (if usageByClassLocked cls s > ?target then ?cs else [])"
  obtain s1 where s1: "deleteIDsLocked env ids s = (None, s1)" using assms(7) by (metis prod.collapse)
  have items: "as_items s1 = filter (\<lambda>(i, _). i \<notin> set ids) ?items" using s1 by (cases rule: deleteIDsLocked_cases [of env ids s]) auto
  have "\<forall>(i, m) \<in> set ?items. pinned m \<longrightarrow> i \<notin> set ids"
  proof (clarify)
    fix i m assume "(i, m) \<in> set ?items" "pinned m" "i \<in> set ids"
    then have "lookup ?items i = Some m" "i \<in> set ?cs" using assms(1) by (simp_all add: lookup_iff_mem ids_def split: if_splits)
    then show False using candidate_size [OF assms(1,2)] \<open>pinned m\<close> by (metis option.inject)
  qed
  then have "pinned_total cls (as_items s1) = pinned_total cls ?items" unfolding items by (rule pinned_total_filter)
  moreover have "sizes_ok (as_items s1)" "class_total cls (as_items s1) \<le> class_total cls ?items"
    using plain_items_sizes [OF assms(2)] by (simp_all add: items sizes_ok_filter class_total_filter)
  ultimately have "wrap64 (usageByClassLocked cls s1 + sz) > quota"
    using pinned_total_bounds [of "as_items s1" cls] assms(4-6) by (simp add: usage_eq_total wrap64_id)
  moreover have "deleteIDsLocked env [] s = (None, s)" by (simp add: deleteIDsLocked_def)
  ultimately have "make_room env cls quota sz s = (Some (ErrText ''attachment class quota exceeded''), s1)"
    using s1 room(4) by (auto simp: make_room_def Let_def ids_def split: if_splits)
  moreover have "lookup (as_items s1) i = None" if "i \<in> set ?cs" for i
  proof -
    have "i \<in> set ids" using that room(1,3) candidate_over_pinned [OF assms(1,2) that] by (simp add: ids_def)
    then show ?thesis using items lookup_filter_key [of "\<lambda>k. k \<notin> set ids" ?items i] by simp
  qed
  ultimately show thesis by (rule that)
qed


section \<open>Reading back\<close>

text \<open>The bytes of a file hold the given plain text under the store's secret.\<close>

definition holds :: "attachment_env \<Rightarrow> string \<Rightarrow> bytes \<Rightarrow> bytes \<Rightarrow> bool" where
  "holds env secret blob plain \<longleftrightarrow>
     (if secret = [] then blob = plain else vault_Decrypt (ae_crypto env) (ae_vault env) secret blob = Inr plain \<and> blob \<noteq> [])"

definition seal_bytes :: "attachment_env \<Rightarrow> nat \<Rightarrow> string \<Rightarrow> bytes \<Rightarrow> go_error + bytes" where
  "seal_bytes env n secret plain = (if secret = [] then Inr plain else vault_Encrypt (ae_crypto env) (ae_vault env) (ae_random env n) secret plain)"

definition env_ok :: "attachment_env \<Rightarrow> bool" where
  "env_ok env \<longleftrightarrow> vault_ok (ae_crypto env) (ae_vault env) \<and> (\<forall>n. random_ok (ae_random env n)) \<and> ae_now env \<noteq> 0 \<and>
     (\<forall>x. ae_unmarshal env (ae_marshal env x) = Inr x \<and> ae_marshal env x \<noteq> [])"

text \<open>A later run of the same program whose reads do not fail.\<close>

definition reads_back :: "attachment_env \<Rightarrow> attachment_env \<Rightarrow> bool" where
  "reads_back env env' \<longleftrightarrow> ae_crypto env' = ae_crypto env \<and> ae_vault env' = ae_vault env \<and> ae_marshal env' = ae_marshal env \<and>
     ae_unmarshal env' = ae_unmarshal env \<and> ae_readIndex env' = None \<and> (\<forall>i. ae_read env' i = None)"

text \<open>The items as \<open>Put\<close> leaves them, and every data file readable under the secret.\<close>

definition disk_ok :: "attachment_env \<Rightarrow> AttachmentStore \<Rightarrow> bool" where
  "disk_ok env s \<longleftrightarrow> list_all (\<lambda>(i, meta). \<not> needs_normalizing meta \<and>
     (case lookup (as_files s) i of None \<Rightarrow> True | Some blob \<Rightarrow> \<exists>plain. holds env (as_secret s) blob plain)) (as_items s)"

lemma disk_okI:
  "disk_ok env s \<longleftrightarrow> (\<forall>i meta. (i, meta) \<in> set (as_items s) \<longrightarrow> \<not> needs_normalizing meta \<and>
     (\<forall>blob. lookup (as_files s) i = Some blob \<longrightarrow> (\<exists>plain. holds env (as_secret s) blob plain)))"
  by (auto simp: disk_ok_def list_all_iff split: option.splits)

lemma seal_holds:
  assumes "env_ok env" "seal_bytes env n secret plain = Inr blob" "plain \<noteq> []" shows "holds env secret blob plain" "blob \<noteq> []"
proof -
  have "blob \<noteq> []" if "vault_Encrypt L V rnd pw p = Inr blob" for L V rnd pw p
    using that by (auto simp: vault_Encrypt_def filePrefix_def bindE_eq_Inr)
  then show "holds env secret blob plain" "blob \<noteq> []"
    using assms vault_round_trip [of "ae_crypto env" "ae_vault env" "ae_random env n" secret plain blob]
    by (auto simp: holds_def seal_bytes_def env_ok_def split: if_splits)
qed

lemma persistItemsLocked_writes:
  assumes "persistItemsLocked env items s = (None, s')" "as_dir s \<noteq> []" "as_persist s"
  obtains blob where "seal_bytes env 0 (as_secret s) (ae_marshal env (2, items)) = Inr blob" "s' = s\<lparr>as_indexFile := Some blob\<rparr>"
  using assms by (auto simp: persistItemsLocked_def seal_bytes_def Let_def split: if_splits sum.splits option.splits)

lemma get_holds:
  assumes "lookup (as_items s) i = Some meta" "lookup (as_blobs s) i = None" "as_dir s \<noteq> []" "ae_read env i = None"
    and "lookup (as_files s) i = Some blob" "holds env (as_secret s) blob data"
  shows "fst (attachment_Get env i s) = Inr (meta, data)"
  using assms by (auto simp: attachment_Get_def holds_def split: if_splits)

lemma normalize_meta_same: "\<not> needs_normalizing meta \<Longrightarrow> normalize_meta now meta = meta"
  by (simp add: needs_normalizing_def normalize_meta_def)

lemma migrate_nothing:
  assumes "\<And>i. ae_read env i = None" "\<And>i blob. i \<in> set ids \<Longrightarrow> lookup (as_files s) i = Some blob \<Longrightarrow> \<exists>plain. holds env (as_secret s) blob plain"
    and "as_secret s \<noteq> []"
  shows "migrateLegacyFiles env ids s = (None, s)"
  using assms
proof (induction ids)
  case (Cons i ids)
  have "migrateLegacyFiles env ids s = (None, s)" by (rule Cons.IH) (use Cons.prems in auto)
  moreover have "\<exists>plain. vault_Decrypt (ae_crypto env) (ae_vault env) (as_secret s) blob = Inr plain" if "lookup (as_files s) i = Some blob" for blob
    using Cons.prems(2) [of i blob] that Cons.prems(3) by (auto simp: holds_def)
  ultimately show ?case using Cons.prems(1) by (auto split: option.split sum.split)
qed simp

text \<open>Opening the directory again gives the items of the index.\<close>

lemma reopen_restores:
  assumes "env_ok env" "reads_back env env'" "as_dir s \<noteq> []" "TrimSpace (as_secret s) = as_secret s" "disk_ok env s"
    and "seal_bytes env 0 (as_secret s) (ae_marshal env (2, as_items s)) = Inr blob" "as_indexFile s = Some blob"
  shows "NewAttachmentStoreWithSecret env' (as_dir s) (as_secret s) (as_files s) (as_indexFile s) =
    (None, (new_store (as_dir s) (as_secret s) (as_files s) (as_indexFile s))\<lparr>as_items := as_items s\<rparr>)"
proof -
  let ?n = "new_store (as_dir s) (as_secret s) (as_files s) (as_indexFile s)" and ?items = "as_items s"
  have marsh: "ae_marshal env (2, ?items) \<noteq> []" "ae_unmarshal env' (ae_marshal env (2, ?items)) = Inr (2, ?items)"
    using assms(1,2) by (auto simp: env_ok_def reads_back_def)
  have blob: "holds env (as_secret s) blob (ae_marshal env (2, ?items))" "blob \<noteq> []" using seal_holds [OF assms(1,6) marsh(1)] .
  have same: "holds env' = holds env" using assms(2) by (intro ext) (simp add: holds_def reads_back_def)
  have sec: "as_secret ?n = as_secret s" "as_files ?n = as_files s" "as_indexFile ?n = Some blob" using assms(4,7) by (simp_all add: new_store_def)
  have read: "read_index env' blob ?n = Inr (ae_marshal env (2, ?items), False)"
    using blob(1) assms(2) sec(1) by (auto simp: read_index_def holds_def reads_back_def split: if_splits)
  have norm: "map (\<lambda>(i, meta). (i, normalize_meta (ae_now env') meta)) ?items = ?items"
    by (rule map_idI) (use assms(5) in \<open>auto simp: disk_ok_def list_all_iff normalize_meta_same\<close>)
  have none: "\<not> (\<exists>(_, meta) \<in> set ?items. needs_normalizing meta)" using assms(5) by (auto simp: disk_ok_def list_all_iff)
  have "migrateLegacyFiles env' (map fst ?items) (?n\<lparr>as_items := ?items\<rparr>) = (None, ?n\<lparr>as_items := ?items\<rparr>)" if "as_secret s \<noteq> []"
    by (rule migrate_nothing) (use assms(2,5) sec that same in \<open>fastforce simp: reads_back_def disk_ok_def list_all_iff split: option.splits\<close>)+
  then have "load_items env' False 2 ?items ?n = (None, ?n\<lparr>as_items := ?items\<rparr>)"
    using none sec(1) by (cases "as_secret s = []") (simp_all add: load_items_def norm Let_def)
  then show ?thesis using assms(2,3) sec(3) blob(2) read marsh(2)
    by (simp add: NewAttachmentStoreWithSecret_def attachment_load_def reads_back_def)
qed

lemma disk_ok_after_eviction:
  assumes "keys_distinct (as_items s)" "enforceClassLimitsLocked env cls sz s = (None, s1)" "disk_ok env s"
  shows "disk_ok env s1" "as_dir s1 = as_dir s" "as_secret s1 = as_secret s" "as_persist s1 = as_persist s"
    "lookup (as_items s) i = None \<Longrightarrow> lookup (as_blobs s1) i = lookup (as_blobs s) i"
proof -
  obtain maxItem quota where limits: "classLimitsLocked cls s = (maxItem, quota)" by fastforce
  obtain ids where ids: "as_items s1 = filter (\<lambda>(i, _). i \<notin> set ids) (as_items s)"
    "ids = [] \<or> ids = take_until (as_items s) (max (wrap64 (quota - sz)) 0) (lruCandidatesLocked cls [] s) (usageByClassLocked cls s)"
    "\<forall>i. i \<notin> set ids \<longrightarrow> kept i s s1" "as_persist s1 = as_persist s" "as_dir s1 = as_dir s" "as_secret s1 = as_secret s"
    by (rule enforceClassLimits_fits [OF assms(2) limits])
  show "as_dir s1 = as_dir s" "as_secret s1 = as_secret s" "as_persist s1 = as_persist s" by fact+
  have "lookup (as_files s1) i = lookup (as_files s) i" if "(i, m) \<in> set (as_items s1)" for i m
    using that ids(1,3) by (auto simp: kept_def)
  then show "disk_ok env s1" using assms(3) ids(6) unfolding disk_okI by (metis (no_types, lifting) ids(1) mem_Collect_eq set_filter)
  assume fresh: "lookup (as_items s) i = None"
  have "i \<notin> set (lruCandidatesLocked cls [] s)" using lruCandidates_unpinned [OF assms(1)] fresh by (metis option.distinct(1))
  then have "i \<notin> set ids" using ids(2) take_until_subset by (metis empty_iff list.set(1) subsetD)
  then show "lookup (as_blobs s1) i = lookup (as_blobs s) i" using ids(3) by (simp add: kept_def)
qed

lemma disk_ok_put:
  assumes "disk_ok env s" "\<not> needs_normalizing meta" "holds env (as_secret s) blob plain"
  shows "disk_ok env (s\<lparr>as_files := put (am_ID meta) blob (as_files s), as_indexFile := x, as_items := put (am_ID meta) meta (as_items s)\<rparr>)"
  unfolding disk_okI
proof (intro allI impI)
  fix i m assume "(i, m) \<in> set (as_items (s\<lparr>as_files := put (am_ID meta) blob (as_files s), as_indexFile := x, as_items := put (am_ID meta) meta (as_items s)\<rparr>))"
  then have "(i, m) = (am_ID meta, meta) \<or> (i, m) \<in> set (as_items s)" using set_put_subset [of "am_ID meta" meta "as_items s"] by auto
  then show "\<not> needs_normalizing m \<and> (\<forall>b. lookup (as_files (s\<lparr>as_files := put (am_ID meta) blob (as_files s), as_indexFile := x, as_items := put (am_ID meta) meta (as_items s)\<rparr>)) i = Some b \<longrightarrow>
     (\<exists>plain. holds env (as_secret (s\<lparr>as_files := put (am_ID meta) blob (as_files s), as_indexFile := x, as_items := put (am_ID meta) meta (as_items s)\<rparr>)) b plain))"
    using assms unfolding disk_okI by auto
qed


section \<open>Garbage collection\<close>

lemma report_count:
  "gc_DeletedCount (fold (report_deleted s) marked report) =
     gc_DeletedCount report + length (filter (\<lambda>(i, _). lookup (as_items s) i \<noteq> None) marked)"
  by (induction marked arbitrary: report) (auto simp: report_deleted_def split: option.split)

lemma gc_report_count:
  assumes "keys_distinct (as_items s)" shows "gc_DeletedCount (gc_report dryRun (gc_marked now imageTTL fileTTL s) s) = length (gc_marked now imageTTL fileTTL s)"
proof -
  have "filter (\<lambda>(i, _). lookup (as_items s) i \<noteq> None) (gc_marked now imageTTL fileTTL s) = gc_marked now imageTTL fileTTL s"
  proof (rule filter_True, rule ballI)
    fix e assume "e \<in> set (gc_marked now imageTTL fileTTL s)"
    then obtain meta where "lookup (as_items s) (fst e) = Some meta" using gc_marked_unpinned [OF assms, of "fst e" now imageTTL fileTTL] by blast
    then show "case e of (i, _) \<Rightarrow> lookup (as_items s) i \<noteq> None" by (simp add: split_beta)
  qed
  then show ?thesis by (simp add: gc_report_def report_count)
qed

text \<open>A collection that succeeds removes exactly what it has marked; a dry run marks the same and removes nothing.\<close>

lemma RunGC_removes_marked:
  assumes "keys_distinct (as_items s)" "now \<noteq> 0" "RunGC env now imageTTL fileTTL False s = (Inr report, s')"
  shows "as_items s' = filter (\<lambda>(i, _). i \<notin> fst ` set (gc_marked now imageTTL fileTTL s)) (as_items s)"
    "gc_DeletedCount report = length (gc_marked now imageTTL fileTTL s)"
proof -
  let ?marked = "gc_marked now imageTTL fileTTL s"
  note count = gc_report_count [OF assms(1), of False now imageTTL fileTTL]
  show "gc_DeletedCount report = length ?marked"
    using assms(2,3) count by (auto simp: RunGC_def runGCLocked_def Let_def split: if_splits prod.splits option.splits)
  show "as_items s' = filter (\<lambda>(i, _). i \<notin> fst ` set ?marked) (as_items s)"
  proof (cases "?marked = []")
    case True
    then have "s' = s" using assms(2,3) count by (auto simp: RunGC_def runGCLocked_def Let_def)
    then show ?thesis using True by simp
  next
    case False
    then have "deleteIDsLocked env (map fst ?marked) s = (None, s')"
      using assms(2,3) count by (auto simp: RunGC_def runGCLocked_def Let_def split: prod.splits option.splits)
    then show ?thesis by (cases rule: deleteIDsLocked_cases [of env "map fst ?marked" s]) auto
  qed
qed

lemma RunGC_collects_expired:
  assumes "keys_distinct (as_items s)" "now \<noteq> 0" "RunGC env now imageTTL fileTTL False s = (Inr report, s')"
    and "lookup (as_items s') i = Some meta"
  shows "lookup (as_items s) i = Some meta" "\<not> expired now imageTTL fileTTL meta"
proof -
  let ?marked = "gc_marked now imageTTL fileTTL s"
  have stay: "i \<notin> fst ` set ?marked" and item: "lookup (as_items s) i = Some meta"
    using assms(4) RunGC_removes_marked(1) [OF assms(1-3)] lookup_filter_key [of "\<lambda>k. k \<notin> fst ` set ?marked" "as_items s" i]
    by (auto split: if_splits)
  show "lookup (as_items s) i = Some meta" by fact
  have "fst ` set (mark_expired now imageTTL fileTTL s) \<subseteq> fst ` set ?marked"
    unfolding gc_marked_def fold_simps comp_apply id_apply using mark_lru_keys(2) by blast
  then show "\<not> expired now imageTTL fileTTL meta" using stay lookup_mem [OF item] by (force simp: mark_expired_keys)
qed

lemma RunGC_dry_run:
  assumes "RunGC env now imageTTL fileTTL True s = (r, s')" "RunGC env now imageTTL fileTTL False s = (Inr report, s'')"
  shows "s' = s" "\<exists>report'. r = Inr report' \<and> gc_DeletedByClass report' = gc_DeletedByClass report \<and>
    gc_DeletedByCause report' = gc_DeletedByCause report \<and> gc_DeletedCount report' = gc_DeletedCount report"
proof -
  show "s' = s" using assms(1) by (auto simp: RunGC_def runGCLocked_def Let_def)
  have step: "report_deleted s e (rep\<lparr>gc_DryRun := d\<rparr>) = (report_deleted s e rep)\<lparr>gc_DryRun := d\<rparr>" for e rep d
    by (simp add: report_deleted_def split: prod.split option.split)
  have "fold (report_deleted s) marked (rep\<lparr>gc_DryRun := d\<rparr>) = (fold (report_deleted s) marked rep)\<lparr>gc_DryRun := d\<rparr>" for marked rep d
    by (induction marked arbitrary: rep) (simp_all add: step)
  from this [where d = True and rep = "\<lparr>gc_DryRun = False, gc_DeletedCount = 0, gc_DeletedByClass = [(''image'', 0), (''file'', 0)], gc_DeletedByCause = [(''expired'', 0), (''lru'', 0)]\<rparr>"]
  have same: "gc_report True marked s = (gc_report False marked s)\<lparr>gc_DryRun := True\<rparr>" for marked by (simp add: gc_report_def)
  show "\<exists>report'. r = Inr report' \<and> gc_DeletedByClass report' = gc_DeletedByClass report \<and>
    gc_DeletedByCause report' = gc_DeletedByCause report \<and> gc_DeletedCount report' = gc_DeletedCount report"
    using assms by (auto simp: RunGC_def runGCLocked_def Let_def same split: if_splits prod.splits option.splits)
qed

end
