(* ===== verification/Attachment_Witnesses.thy ===== *)
theory Attachment_Witnesses
  imports Attachment_Guarantees Session_Guarantees "HOL-Library.Countable"
begin

text \<open>
  Concrete attachment stores that instantiate the guarantees. The encodings of the library parameters count: a value is written as a run
  of ones as long as its number.
\<close>

declare map_of_eq_Some_iff [simp del]

definition meta_tuple :: "AttachmentMeta \<Rightarrow> string \<times> string \<times> string \<times> string \<times> int \<times> string \<times> int \<times> int" where
  "meta_tuple m = (am_ID m, am_Name m, am_MimeType m, am_Class m, am_LastAccessAt m, am_PinState m, am_Size m, am_CreatedAt m)"

definition tuple_meta :: "string \<times> string \<times> string \<times> string \<times> int \<times> string \<times> int \<times> int \<Rightarrow> AttachmentMeta" where
  "tuple_meta = (\<lambda>(i, n, m, c, l, p, s, t). \<lparr>am_ID = i, am_Name = n, am_MimeType = m, am_Class = c, am_LastAccessAt = l, am_PinState = p,
     am_Size = s, am_CreatedAt = t\<rparr>)"

definition ones :: "nat \<Rightarrow> bytes" where
  "ones n = replicate (Suc n) 1"

definition counting_vault :: vault_lib where
  "counting_vault = \<lparr>vl_idkey = (\<lambda>_ _. replicate 32 0),
     vl_marshal = (\<lambda>e. ones (to_nat ((ev_Version e, ev_KDF e, ev_KDFTime e, ev_KDFMemoryKB e), ev_KDFThreads e, ev_Salt e, ev_Nonce e, ev_Ciphertext e))),
     vl_unmarshal = (\<lambda>b. case from_nat (length b - 1) of ((v, k, t, m), th, s, n, c) \<Rightarrow>
       Some \<lparr>ev_Version = v, ev_KDF = k, ev_KDFTime = t, ev_KDFMemoryKB = m, ev_KDFThreads = th, ev_Salt = s, ev_Nonce = n, ev_Ciphertext = c\<rparr>)\<rparr>"

definition attachment_sample :: attachment_env where
  "attachment_sample = \<lparr>ae_crypto = sample_lib, ae_vault = counting_vault,
     ae_random = (\<lambda>_. \<lparr>vr_salt = Inr (replicate 16 0), vr_nonce = Inr (replicate 24 0)\<rparr>), ae_id = Inr [7], ae_now = 50,
     ae_marshal = (\<lambda>(v, items). ones (to_nat (v, map (\<lambda>(i, m). (i, meta_tuple m)) items))),
     ae_unmarshal = (\<lambda>b. case from_nat (length b - 1) of (v, items) \<Rightarrow> Inr (v, map (\<lambda>(i, m). (i, tuple_meta m)) items)),
     ae_mkdir = None, ae_write = (\<lambda>_. None), ae_writeIndex = None, ae_remove = (\<lambda>_. None), ae_read = (\<lambda>_. None),
     ae_readIndex = None, ae_removeAll = None\<rparr>"

definition sample_meta :: "string \<Rightarrow> string \<Rightarrow> int \<Rightarrow> AttachmentMeta" where
  "sample_meta i pin sz = \<lparr>am_ID = i, am_Name = i, am_MimeType = ''text/plain'', am_Class = ''file'', am_LastAccessAt = 10, am_PinState = pin,
     am_Size = sz, am_CreatedAt = 10\<rparr>"

definition mixed_store :: AttachmentStore where
  "mixed_store = (new_store ''d'' [] [] None)\<lparr>as_persist := False,
     as_items := [(''a'', sample_meta ''a'' ''pinned'' 4), (''b'', sample_meta ''b'' ''unpinned'' 3)],
     as_blobs := [(''a'', [1, 2, 3, 4]), (''b'', [5, 6, 7])],
     as_limits := \<lparr>cl_ImageQuotaBytes = 0, cl_ImageMaxItemBytes = 0, cl_FileQuotaBytes = 10, cl_FileMaxItemBytes = 9\<rparr>\<rparr>"

section \<open>The samples\<close>

lemma length_ones [simp]: "length (ones n) = Suc n" "ones n \<noteq> []"
  by (simp_all add: ones_def)

lemma tuple_meta_tuple [simp]: "tuple_meta (meta_tuple m) = m"
  by (simp add: tuple_meta_def meta_tuple_def)

lemma counting_vault_ok: "vault_ok sample_lib counting_vault"
  unfolding vault_ok_def counting_vault_def using sample_lib_ok by simp

lemma attachment_sample_ok: "env_ok attachment_sample" "reads_back attachment_sample attachment_sample"
proof -
  have "map (\<lambda>(i, m). (i, tuple_meta m)) (map (\<lambda>(i, m). (i, meta_tuple m)) items) = items" for items :: attachment_items
    by (induction items) auto
  then show "env_ok attachment_sample" using counting_vault_ok by (auto simp: env_ok_def attachment_sample_def random_ok_def)
  show "reads_back attachment_sample attachment_sample" by (simp add: reads_back_def attachment_sample_def)
qed

lemma sample_classes [simp]:
  "meta_class (sample_meta i pin sz) = ''file''" "normalizedClass (sample_meta i pin sz) = ''file''"
  "pinned (sample_meta i ''pinned'' sz)" "\<not> pinned (sample_meta i ''unpinned'' sz)"
  "am_Size (sample_meta i pin sz) = sz"
  "ClassifyAttachmentMime ''text/plain'' = ''file''"
proof -
  have "TrimSpace ''pinned'' = ''pinned''" by code_simp
  then show "pinned (sample_meta i ''pinned'' sz)" "\<not> pinned (sample_meta i ''unpinned'' sz)" by (simp_all add: pinned_def sample_meta_def)
  show "ClassifyAttachmentMime ''text/plain'' = ''file''" by code_simp
qed (simp_all add: meta_class_def normalizedClass_def sample_meta_def)

lemma deleteIDs_in_memory:
  assumes "\<not> as_persist s" shows "fst (deleteIDsLocked env ids s) = None"
proof -
  obtain b f where eq: "snd (delete_loop env ids (as_items s) s) = s\<lparr>as_blobs := b, as_files := f\<rparr>" using delete_loop_state by metis
  have "\<exists>items'. fst (delete_loop env ids items s) = Inr items'" if "\<not> as_persist s" for items s
    using that by (induction ids arbitrary: items s) (simp_all add: Let_def)
  then obtain items where "delete_loop env ids (as_items s) s = (Inr items, s\<lparr>as_blobs := b, as_files := f\<rparr>)"
    using assms eq by (metis prod.collapse)
  then show ?thesis using assms by (simp add: deleteIDsLocked_def replace_items_def persistItemsLocked_def)
qed

lemma mixed_store_simps [simp]:
  "as_dir mixed_store = ''d''" "as_secret mixed_store = []" "\<not> as_persist mixed_store" "as_files mixed_store = []"
  "as_items mixed_store = [(''a'', sample_meta ''a'' ''pinned'' 4), (''b'', sample_meta ''b'' ''unpinned'' 3)]"
  "as_blobs mixed_store = [(''a'', [1, 2, 3, 4]), (''b'', [5, 6, 7])]"
  "classLimitsLocked ''file'' mixed_store = (9, 10)" "full_cap 10 mixed_store = 10"
proof -
  have "TrimSpace [] = []" by code_simp
  then show "as_secret mixed_store = []" by (simp add: mixed_store_def new_store_def)
  show "full_cap 10 mixed_store = 10" by (simp add: full_cap_def percent_of_def quot64_def wrap64_def mixed_store_def new_store_def)
qed (simp_all add: mixed_store_def new_store_def classLimitsLocked_def)

lemma mixed_store_totals [simp]:
  "class_total ''file'' (as_items mixed_store) = 7" "pinned_total ''file'' (as_items mixed_store) = 4"
  "sizes_ok (as_items mixed_store)" "plain_items (as_items mixed_store)" "usageByClassLocked ''file'' mixed_store = 7"
  by (simp_all add: class_total_def pinned_total_def sizes_ok_def plain_items_def usage_eq_total wrap64_def)

lemma mixed_candidates [simp]: "lruCandidatesLocked ''file'' [] mixed_store = [''b'']"
  by (simp add: lruCandidatesLocked_def)

text \<open>An upload of five bytes evicts the unpinned attachment.\<close>

abbreviation upload :: "bytes \<Rightarrow> AttachmentStore \<Rightarrow> (go_error + AttachmentMeta) \<times> AttachmentStore" where
  "upload data s \<equiv> attachment_Put attachment_sample ''new'' ''text/plain'' data s"

lemma sample_new_id [simp]: "newAttachmentID (ae_id attachment_sample) = Inr ''att1_07''"
  by code_simp

lemma sample_new_meta [simp]:
  "am_Class (new_meta (ae_now attachment_sample) i ''new'' ''text/plain'' data) = ''file''"
  by (simp add: new_meta_def)

lemma upload_evicts: "fst (upload [1, 2, 3, 4, 5] mixed_store) = Inr (new_meta 50 ''att1_07'' ''new'' ''text/plain'' [1, 2, 3, 4, 5])"
proof -
  have now: "ae_now attachment_sample = 50" by (simp add: attachment_sample_def)
  let ?m = "new_meta 50 ''att1_07'' ''new'' ''text/plain'' [1, 2, 3, 4, 5]"
  have del: "deleteIDsLocked attachment_sample [''b''] mixed_store =
    (None, mixed_store\<lparr>as_items := [(''a'', sample_meta ''a'' ''pinned'' 4)], as_blobs := [(''a'', [1, 2, 3, 4])]\<rparr>)"
    by (simp add: deleteIDsLocked_def replace_items_def persistItemsLocked_def Let_def AList.delete_eq)
  have "make_room attachment_sample ''file'' 10 5 mixed_store =
    (None, mixed_store\<lparr>as_items := [(''a'', sample_meta ''a'' ''pinned'' 4)], as_blobs := [(''a'', [1, 2, 3, 4])]\<rparr>)"
    using del by (simp add: make_room_def wrap64_def usage_eq_total class_total_def)
  then have "enforceClassLimitsLocked attachment_sample (am_Class ?m) (am_Size ?m) mixed_store =
    (None, mixed_store\<lparr>as_items := [(''a'', sample_meta ''a'' ''pinned'' 4)], as_blobs := [(''a'', [1, 2, 3, 4])]\<rparr>)"
    using sample_new_meta by (simp add: enforceClassLimitsLocked_def wrap64_def now)
  then show ?thesis by (simp add: attachment_Put_def orFail_def store_attachment_def now Let_def)
qed

section \<open>Witnesses\<close>


theorem upload_within_quota_witness:
  "class_total ''file'' (as_items (snd (upload [1, 2, 3, 4, 5] mixed_store))) \<le> 10"
proof -
  let ?m = "new_meta 50 ''att1_07'' ''new'' ''text/plain'' [1, 2, 3, 4, 5]"
  have now: "ae_now attachment_sample = 50" by (simp add: attachment_sample_def)
  have cls: "am_Class ?m = ''file''" using sample_new_meta by (simp add: now)
  have "upload [1, 2, 3, 4, 5] mixed_store = (Inr ?m, snd (upload [1, 2, 3, 4, 5] mixed_store))" using upload_evicts by (metis prod.collapse)
  from upload_within_quota [OF _ _ this, of 9 10] show ?thesis using mixed_store_totals(1,3) by (simp add: cls)
qed


text \<open>An encrypted store on an empty directory.\<close>

lemma fresh_store_simps [simp]:
  "as_items (new_store dir secret [] None) = []" "as_blobs (new_store dir secret [] None) = []" "as_dir (new_store dir secret [] None) = dir"
  "as_persist (new_store dir secret [] None)"
  by (simp_all add: new_store_def)

lemma fresh_upload: "fst (upload [1, 2, 3] (new_store ''d'' ''key'' [] None)) = Inr (new_meta 50 ''att1_07'' ''new'' ''text/plain'' [1, 2, 3])"
proof -
  have now: "ae_now attachment_sample = 50" by (simp add: attachment_sample_def)
  have enc: "\<exists>blob. vault_Encrypt (ae_crypto attachment_sample) (ae_vault attachment_sample) (ae_random attachment_sample n) pw p = Inr blob" for n pw p
  proof -
    have "\<exists>env. EncryptEnvelope sample_lib counting_vault \<lparr>vr_salt = Inr (replicate 16 0), vr_nonce = Inr (replicate 24 0)\<rparr> pw p = Inr env"
      by (rule envelope_made [OF counting_vault_ok]) simp_all
    then show ?thesis by (auto simp: vault_Encrypt_def attachment_sample_def bindE_def)
  qed
  have lim: "enforceClassLimitsLocked attachment_sample cls sz (new_store ''d'' ''key'' [] None) = (None, new_store ''d'' ''key'' [] None)" for cls sz
    by (simp add: enforceClassLimitsLocked_def classLimitsLocked_def new_store_def)
  have ok: "ae_mkdir attachment_sample = None" "ae_write attachment_sample i = None" "ae_writeIndex attachment_sample = None" for i
    by (simp_all add: attachment_sample_def)
  have "fst (store_attachment True attachment_sample meta data (new_store ''d'' ''key'' [] None)) = None" for meta data
    using enc [of 0] enc [of 1] ok
    by (auto simp: store_attachment_def write_attachment_def write_data_def replace_items_def persistItemsLocked_def Let_def split: sum.split) (metis sum.distinct(1))+
  then show ?thesis by (simp add: attachment_Put_def orFail_def now lim Let_def split: prod.split option.split) (metis fst_conv option.distinct(1))
qed


end
