(* ===== verification/Spec2Isabelle.thy ===== *)
theory Spec2Isabelle
  imports Group_Guarantees Group_Keys Group_Convergence Group_Replay Privacy_Service Message_Store Messaging_Wire Session_Guarantees Identity_Guarantees Daemon_Witnesses Attachment_Witnesses
begin

text \<open>Header.\<close>

end
